(* ===== verification/Prelude.thy ===== *)
theory Prelude
  imports Main "HOL-Library.Word"
begin

text \<open>
  Shared vocabulary of the development: the C character classes, the byte-string operations that
  are plain list operations on the representation of gwlib's \<open>Octstr\<close> (a HOL string: a list of
  bytes), decimal output (\<open>sprintf "%ld"\<close>) and input (\<open>atol\<close>), and the generic lemmas and hint
  collections that the component theories use.

  \<open>Octstr *\<close> is \<open>string\<close>, or \<open>string option\<close> where the code tests for \<open>NULL\<close>; \<open>List *\<close> is a HOL
  list; the bytes of a C string and of an \<open>Octstr\<close> are the same list.
\<close>

named_theorems ctype_defs \<open>definitions of the C character classes\<close>
named_theorems octstr_defs \<open>definitions of the list operations on byte strings\<close>

type_synonym octstr = string

section \<open>Lists\<close>

lemma find_append:
  "List.find P (xs @ ys) = (case List.find P xs of None \<Rightarrow> List.find P ys | Some x \<Rightarrow> Some x)"
  by (induction xs) auto

lemma find_Some_in: "List.find P xs = Some x \<Longrightarrow> x \<in> set xs \<and> P x"
  by (induction xs) (auto split: if_splits)

section \<open>Characters\<close>

definition isspace :: "char \<Rightarrow> bool" where
  [ctype_defs]: "isspace c = (let n = (of_char c :: nat) in n = 32 \<or> (9 \<le> n \<and> n \<le> 13))"

definition isdigit :: "char \<Rightarrow> bool" where
  [ctype_defs]: "isdigit c = (let n = (of_char c :: nat) in 48 \<le> n \<and> n \<le> 57)"

definition isprint :: "char \<Rightarrow> bool" where
  [ctype_defs]: "isprint c = (let n = (of_char c :: nat) in 32 \<le> n \<and> n \<le> 126)"

definition tolower :: "char \<Rightarrow> char" where
  [ctype_defs]: "tolower c =
     (let n = (of_char c :: nat) in if 65 \<le> n \<and> n \<le> 90 then char_of (n + 32) else c)"

text \<open>Two strings are the same for \<open>strcasecmp\<close> when their lower-case forms are equal.\<close>

definition ci :: "string \<Rightarrow> string" where
  "ci s = map tolower s"

lemma ci_Nil [simp]: "ci [] = []"
  and ci_Cons: "ci (c # s) = tolower c # ci s"
  and ci_append [simp]: "ci (s @ t) = ci s @ ci t"
  and length_ci [simp]: "length (ci s) = length s"
  by (simp_all add: ci_def)

lemma ci_take: "ci (take n s) = take n (ci s)"
  and ci_drop: "ci (drop n s) = drop n (ci s)"
  by (simp_all add: ci_def take_map drop_map)


text \<open>Evaluation of \<open>tolower\<close> on a literal byte.\<close>

lemma tolower_id [simp]: "of_char c < (65 :: nat) \<or> 90 < (of_char c :: nat) \<Longrightarrow> tolower c = c"
  by (auto simp: tolower_def Let_def)

lemma tolower_upper [simp]:
  "tolower CHR ''A'' = CHR ''a''"
  "tolower CHR ''B'' = CHR ''b''"
  "tolower CHR ''C'' = CHR ''c''"
  "tolower CHR ''D'' = CHR ''d''"
  "tolower CHR ''E'' = CHR ''e''"
  "tolower CHR ''F'' = CHR ''f''"
  "tolower CHR ''G'' = CHR ''g''"
  "tolower CHR ''H'' = CHR ''h''"
  "tolower CHR ''I'' = CHR ''i''"
  "tolower CHR ''J'' = CHR ''j''"
  "tolower CHR ''K'' = CHR ''k''"
  "tolower CHR ''L'' = CHR ''l''"
  "tolower CHR ''M'' = CHR ''m''"
  "tolower CHR ''N'' = CHR ''n''"
  "tolower CHR ''O'' = CHR ''o''"
  "tolower CHR ''P'' = CHR ''p''"
  "tolower CHR ''Q'' = CHR ''q''"
  "tolower CHR ''R'' = CHR ''r''"
  "tolower CHR ''S'' = CHR ''s''"
  "tolower CHR ''T'' = CHR ''t''"
  "tolower CHR ''U'' = CHR ''u''"
  "tolower CHR ''V'' = CHR ''v''"
  "tolower CHR ''W'' = CHR ''w''"
  "tolower CHR ''X'' = CHR ''x''"
  "tolower CHR ''Y'' = CHR ''y''"
  "tolower CHR ''Z'' = CHR ''z''"
  by code_simp+

text \<open>A byte that is no letter is only reached from itself.\<close>

lemma tolower_nonletter:
  assumes "(of_char d :: nat) < 65 \<or> 122 < (of_char d :: nat)"
  shows "tolower c = d \<longleftrightarrow> c = d"
proof -
  have "(of_char (char_of (of_char c + 32 :: nat) :: char) :: nat) = of_char c + 32"
    if "(of_char c :: nat) \<le> 90" using that by simp
  with assms show ?thesis by (auto simp: tolower_def Let_def)
qed

lemma nonletter_in_ci:
  assumes "(of_char d :: nat) < 65 \<or> 122 < (of_char d :: nat)"
  shows "d \<in> set (ci s) \<longleftrightarrow> d \<in> set s"
proof (induction s)
  case (Cons c s)
  have "d = tolower c \<longleftrightarrow> d = c" using tolower_nonletter [OF assms, of c] by metis
  with Cons show ?case by (simp add: ci_Cons)
qed simp

section \<open>Byte strings\<close>

definition octstr_get_char :: "octstr \<Rightarrow> int \<Rightarrow> char option" where
  [octstr_defs]: "octstr_get_char s i =
     (if 0 \<le> i \<and> i < int (length s) then Some (s ! nat i) else None)"

definition octstr_copy :: "octstr \<Rightarrow> nat \<Rightarrow> nat \<Rightarrow> octstr" where
  [octstr_defs]: "octstr_copy s pos len = take len (drop pos s)"

definition octstr_delete :: "octstr \<Rightarrow> nat \<Rightarrow> nat \<Rightarrow> octstr" where
  [octstr_defs]: "octstr_delete s pos len = take pos s @ drop (pos + len) s"

text \<open>The index of the first \<open>c\<close> at or after \<open>pos\<close>, or \<open>-1\<close>.\<close>

definition octstr_search_char :: "octstr \<Rightarrow> char \<Rightarrow> nat \<Rightarrow> int" where
  "octstr_search_char s c pos =
     (let k = pos + length (takeWhile (\<lambda>x. x \<noteq> c) (drop pos s))
      in if k < length s then int k else -1)"

text \<open>\<open>strncpy\<close> into a buffer of \<open>n\<close> bytes keeps at most \<open>n\<close> bytes.\<close>

definition strncpy :: "nat \<Rightarrow> string \<Rightarrow> string" where
  [octstr_defs]: "strncpy n s = take n s"

text \<open>\<open>strrchr\<close>: the text before the last \<open>c\<close> and the text after it.\<close>

definition strrchr_split :: "string \<Rightarrow> char \<Rightarrow> (string \<times> string) option" where
  "strrchr_split s c =
     (if c \<in> set s
      then Some (rev (tl (dropWhile (\<lambda>x. x \<noteq> c) (rev s))), rev (takeWhile (\<lambda>x. x \<noteq> c) (rev s)))
      else None)"

definition replace_char :: "char \<Rightarrow> char \<Rightarrow> string \<Rightarrow> string" where
  "replace_char a b s = map (\<lambda>c. if c = a then b else c) s"

lemma takeWhile_hit [simp]: "c \<notin> set s \<Longrightarrow> takeWhile (\<lambda>x. x \<noteq> c) (s @ c # t) = s"
  and dropWhile_hit [simp]: "c \<notin> set s \<Longrightarrow> dropWhile (\<lambda>x. x \<noteq> c) (s @ c # t) = c # t"
  by (induction s) auto

lemma takeWhile_miss [simp]: "c \<notin> set s \<Longrightarrow> takeWhile (\<lambda>x. x \<noteq> c) s = s"
  by (induction s) auto

lemma octstr_search_char_none: "c \<notin> set s \<Longrightarrow> octstr_search_char s c pos = -1"
proof -
  assume "c \<notin> set s"
  then have "c \<notin> set (drop pos s)" by (meson in_set_dropD)
  then show ?thesis by (simp add: octstr_search_char_def Let_def)
qed

lemma octstr_search_char_split:
  "c \<notin> set s \<Longrightarrow> octstr_search_char (s @ c # t) c 0 = int (length s)"
  by (simp add: octstr_search_char_def Let_def)

lemma octstr_search_char_ge0_iff: "0 \<le> octstr_search_char s c 0 \<longleftrightarrow> c \<in> set s"
  by (metis octstr_search_char_none octstr_search_char_split of_nat_0_le_iff
      neg_0_le_iff_le not_one_le_zero split_list_first)

lemma octstr_search_char_gt0_iff:
  "0 < octstr_search_char s c 0 \<longleftrightarrow> c \<in> set s \<and> hd s \<noteq> c"
proof (cases "c \<in> set s")
  case True
  then obtain x y where xy: "s = x @ c # y" "c \<notin> set x" by (metis split_list_first)
  then have "octstr_search_char s c 0 = int (length x)" by (simp add: octstr_search_char_split)
  with xy show ?thesis by (cases x) auto
qed (simp add: octstr_search_char_none)

lemma strrchr_split_append:
  assumes "c \<notin> set t"
  shows "strrchr_split (s @ c # t) c = Some (s, t)"
proof -
  from assms have "c \<notin> set (rev t)" by simp
  then show ?thesis by (simp add: strrchr_split_def)
qed

lemma strrchr_split_None: "c \<notin> set s \<Longrightarrow> strrchr_split s c = None"
  by (simp add: strrchr_split_def)

lemma strrchr_split_Some:
  assumes "strrchr_split s c = Some (a, b)"
  shows "s = a @ c # b \<and> c \<notin> set b"
proof -
  from assms have "c \<in> set s" by (auto simp: strrchr_split_def split: if_splits)
  then obtain x y where xy: "s = x @ c # y" "c \<notin> set y"
    by (metis split_list_last)
  with assms show ?thesis by (simp add: strrchr_split_append)
qed

lemma replace_char_id: "a \<notin> set s \<Longrightarrow> replace_char a b s = s"
  by (induction s) (auto simp: replace_char_def)

lemma replace_char_append [simp]:
  "replace_char a b (s @ t) = replace_char a b s @ replace_char a b t"
  by (simp add: replace_char_def)

lemma replace_char_inverse: "b \<notin> set s \<Longrightarrow> replace_char b a (replace_char a b s) = s"
  by (induction s) (auto simp: replace_char_def)

lemma set_replace_char: "a \<noteq> b \<Longrightarrow> a \<notin> set (replace_char a b s)"
  by (auto simp: replace_char_def)

section \<open>Decimal numbers\<close>

definition digit_char :: "nat \<Rightarrow> char" where
  "digit_char d = char_of (48 + d)"

fun show_nat :: "nat \<Rightarrow> string" where
  "show_nat n = (if n < 10 then [digit_char n] else show_nat (n div 10) @ [digit_char (n mod 10)])"

declare show_nat.simps [simp del]

text \<open>\<open>sprintf "%ld"\<close>.\<close>

definition show_int :: "int \<Rightarrow> string" where
  "show_int i = (if i < 0 then CHR ''-'' # show_nat (nat (- i)) else show_nat (nat i))"

definition digit_val :: "char \<Rightarrow> nat" where
  "digit_val c = of_char c - 48"

fun read_nat :: "nat \<Rightarrow> string \<Rightarrow> nat" where
  "read_nat acc [] = acc"
| "read_nat acc (c # s) = (if isdigit c then read_nat (10 * acc + digit_val c) s else acc)"

text \<open>\<open>atol\<close>: leading blanks, an optional sign, then digits up to the first other byte.\<close>

definition atol :: "string \<Rightarrow> int" where
  "atol s =
     (case dropWhile isspace s of
        [] \<Rightarrow> 0
      | c # t \<Rightarrow> if c = CHR ''-'' then - int (read_nat 0 t)
                else if c = CHR ''+'' then int (read_nat 0 t)
                else int (read_nat 0 (c # t)))"

lemma of_char_digit_char: "d < 10 \<Longrightarrow> (of_char (digit_char d) :: nat) = 48 + d"
  by (simp add: digit_char_def)

lemma isdigit_digit_char [simp]: "d < 10 \<Longrightarrow> isdigit (digit_char d)"
  by (simp add: isdigit_def of_char_digit_char)

lemma digit_val_digit_char [simp]: "d < 10 \<Longrightarrow> digit_val (digit_char d) = d"
  by (simp add: digit_val_def of_char_digit_char)

lemma show_nat_not_Nil [simp]: "show_nat n \<noteq> []"
  by (subst show_nat.simps) simp

lemma show_nat_digits: "c \<in> set (show_nat n) \<Longrightarrow> isdigit c"
proof (induction n rule: show_nat.induct)
  case (1 n)
  then show ?case
    by (simp add: show_nat.simps [of n] split: if_splits) auto
qed

lemma isdigit_not_isspace: "isdigit c \<Longrightarrow> \<not> isspace c"
  by (simp add: isdigit_def isspace_def Let_def)

lemma read_nat_snoc:
  "(\<And>c. c \<in> set s \<Longrightarrow> isdigit c) \<Longrightarrow> read_nat acc (s @ t) = read_nat (read_nat acc s) t"
  by (induction s arbitrary: acc) auto

lemma read_nat_show_nat: "read_nat 0 (show_nat n) = n"
proof (induction n rule: show_nat.induct)
  case (1 n)
  show ?case
  proof (cases "n < 10")
    case True
    then show ?thesis by (subst show_nat.simps) simp
  next
    case False
    with 1 have "read_nat 0 (show_nat (n div 10) @ [digit_char (n mod 10)]) = n"
      by (subst read_nat_snoc) (auto dest: show_nat_digits)
    with False show ?thesis by (subst show_nat.simps) simp
  qed
qed

lemma read_nat_show_nat_append:
  "(case t of [] \<Rightarrow> True | c # _ \<Rightarrow> \<not> isdigit c) \<Longrightarrow> read_nat 0 (show_nat n @ t) = n"
  using read_nat_snoc [of "show_nat n" 0 t, OF show_nat_digits]
  by (cases t) (simp_all add: read_nat_show_nat)

lemma show_nat_hd: obtains c t where "show_nat n = c # t" "isdigit c"
proof -
  obtain c t where "show_nat n = c # t" by (metis neq_Nil_conv show_nat_not_Nil)
  moreover then have "isdigit c" using show_nat_digits [of c n] by simp
  ultimately show thesis by (rule that)
qed

lemma isdigit_neq: "isdigit c \<Longrightarrow> c \<noteq> CHR ''-'' \<and> c \<noteq> CHR ''+'' \<and> c \<noteq> CHR 0x0A \<and> c \<noteq> CHR 0x0D"
  by (auto simp: isdigit_def)

lemma atol_show_int [simp]: "atol (show_int i) = i"
proof (cases "i < 0")
  case True
  then show ?thesis
    by (simp add: atol_def show_int_def isspace_def read_nat_show_nat)
next
  case False
  obtain c t where ct: "show_nat (nat i) = c # t" "isdigit c" by (rule show_nat_hd)
  with False show ?thesis
    using isdigit_neq [of c] read_nat_show_nat [of "nat i"]
    by (simp add: atol_def show_int_def isdigit_not_isspace)
qed

lemma show_int_chars: "c \<in> set (show_int i) \<Longrightarrow> isdigit c \<or> c = CHR ''-''"
  by (auto simp: show_int_def dest: show_nat_digits split: if_splits)

lemma show_int_not_Nil [simp]: "show_int i \<noteq> []"
  by (simp add: show_int_def)

lemma show_nat_inject: "show_nat m = show_nat n \<Longrightarrow> m = n"
  by (metis read_nat_show_nat)

lemma show_int_inject: "show_int m = show_int n \<Longrightarrow> m = n"
  by (metis atol_show_int)


text \<open>How many digits a number takes.\<close>

lemma length_show_nat_le: "0 < k \<Longrightarrow> length (show_nat n) \<le> k \<longleftrightarrow> n < 10 ^ k"
proof (induction n arbitrary: k rule: show_nat.induct)
  case (1 n)
  show ?case
  proof (cases "n < 10")
    case True
    moreover have "(10 :: nat) \<le> 10 ^ k" using 1(2) by (cases k) simp_all
    ultimately show ?thesis using 1(2) by (subst show_nat.simps) simp
  next
    case False
    then obtain j where k: "k = Suc j" using 1(2) by (cases k) simp_all
    have "length (show_nat n) = Suc (length (show_nat (n div 10)))"
      using False by (subst show_nat.simps) simp
    moreover have "length (show_nat (n div 10)) \<le> j \<longleftrightarrow> n div 10 < 10 ^ j"
    proof (cases "j = 0")
      case True
      have "0 < length (show_nat (n div 10))" by simp
      with True False show ?thesis by simp
    qed (use 1(1) [OF False] in simp)
    ultimately show ?thesis by (simp add: k div_less_iff_less_mult mult.commute)
  qed
qed

end
