(* ===== verification/Gwlib.thy ===== *)
theory Gwlib
  imports Prelude
begin

text \<open>
  The interface to Kannel's gwlib and wap libraries, whose source is not in the repository. The
  functions of it that are more than list operations on a byte string are the fields of the record
  \<open>gwlib\<close>, an argument of every definition that calls them; the locale \<open>gwlib_api\<close> states the
  documented behaviour that the development relies on. \<open>gwlib_ref\<close> is a complete instance of the
  interface, on which witnesses evaluate.

  A header list (\<open>List *\<close> of HTTP headers) is a list of name and value pairs; \<open>http_header_add\<close>
  appends a pair and \<open>http_header_get\<close> reads the \<open>i\<close>-th.
\<close>

type_synonym headers = "(octstr \<times> octstr) list"

text \<open>\<open>MIMEEntity\<close>: headers, the parts of a multipart entity, and the body of a plain one. Entities
  are copied by every accessor, so a tree of values is all that is shared.\<close>

datatype mime = Mime (mime_headers: headers) (mime_parts: "mime list") (mime_body: "octstr option")

text \<open>\<open>HTTPURLParse\<close>.\<close>

record http_url =
  u_scheme :: octstr
  u_user :: "octstr option"
  u_pass :: "octstr option"
  u_host :: octstr
  u_port :: int
  u_path :: "octstr option"
  u_query :: "octstr option"
  u_fragment :: "octstr option"

record gwlib =
  gw_case_compare :: "octstr \<Rightarrow> octstr \<Rightarrow> int"            \<comment> \<open>\<open>octstr_case_compare\<close>, \<open>octstr_str_case_compare\<close>\<close>
  gw_compare :: "octstr \<Rightarrow> octstr \<Rightarrow> int"                 \<comment> \<open>\<open>octstr_compare\<close>, \<open>octstr_str_compare\<close>\<close>
  gw_search :: "octstr \<Rightarrow> octstr \<Rightarrow> nat \<Rightarrow> int"           \<comment> \<open>\<open>octstr_search\<close>\<close>
  gw_case_search :: "octstr \<Rightarrow> octstr \<Rightarrow> nat \<Rightarrow> int"      \<comment> \<open>\<open>octstr_case_search\<close>\<close>
  gw_strip_blanks :: "octstr \<Rightarrow> octstr"                  \<comment> \<open>\<open>octstr_strip_blanks\<close>\<close>
  gw_normalize_number :: "octstr \<Rightarrow> octstr \<Rightarrow> octstr"     \<comment> \<open>\<open>normalize_number\<close>\<close>
  gw_get_lines :: "octstr \<Rightarrow> octstr list"                \<comment> \<open>\<open>parse_get_line\<close> until it fails\<close>
  gw_split :: "octstr \<Rightarrow> octstr \<Rightarrow> octstr list"           \<comment> \<open>\<open>octstr_split\<close>\<close>
  gw_split_words :: "octstr \<Rightarrow> octstr list"              \<comment> \<open>\<open>octstr_split_words\<close>\<close>
  gw_parse_long :: "octstr \<Rightarrow> nat \<Rightarrow> nat \<Rightarrow> int \<times> int"    \<comment> \<open>\<open>octstr_parse_long\<close>: end position or -1, value\<close>
  gw_quoted_string_len :: "octstr \<Rightarrow> nat \<Rightarrow> nat"         \<comment> \<open>\<open>http_header_quoted_string_len\<close> at a quote: at least 1\<close>
  gw_header_value :: "headers \<Rightarrow> octstr \<Rightarrow> octstr option" \<comment> \<open>\<open>http_header_value\<close>, \<open>http_header_find_first\<close>\<close>
  gw_header_remove_all :: "headers \<Rightarrow> octstr \<Rightarrow> headers" \<comment> \<open>\<open>http_header_remove_all\<close>\<close>
  gw_header_find_all :: "headers \<Rightarrow> octstr \<Rightarrow> headers"   \<comment> \<open>\<open>http_header_find_all\<close>\<close>
  gw_header_combine :: "headers \<Rightarrow> headers \<Rightarrow> headers"   \<comment> \<open>\<open>http_header_combine\<close>\<close>
  gw_split_value :: "octstr \<Rightarrow> octstr list"              \<comment> \<open>\<open>http_header_split_value\<close>\<close>
  gw_parse_url :: "octstr \<Rightarrow> http_url option"           \<comment> \<open>\<open>parse_url\<close>\<close>
  gw_base64_encode :: "octstr \<Rightarrow> octstr"                 \<comment> \<open>\<open>octstr_binary_to_base64\<close>\<close>
  gw_base64_decode :: "octstr \<Rightarrow> octstr"                 \<comment> \<open>\<open>octstr_base64_to_binary\<close>\<close>
  gw_isnum :: "octstr \<Rightarrow> bool"                           \<comment> \<open>\<open>octstr_isnum\<close>\<close>
  gw_uintvar :: "nat \<Rightarrow> octstr"                          \<comment> \<open>bytes added by \<open>octstr_append_uintvar\<close>\<close>
  gw_get_uintvar :: "octstr \<Rightarrow> int \<times> octstr"             \<comment> \<open>\<open>parse_get_uintvar\<close>: -1 on error, unread bytes\<close>
  gw_headers_pack :: "headers \<Rightarrow> octstr"                 \<comment> \<open>\<open>wsp_headers_pack\<close>\<close>
  gw_headers_unpack :: "octstr \<Rightarrow> headers"               \<comment> \<open>\<open>wsp_headers_unpack\<close>\<close>
  gw_pack_short_integer :: "nat \<Rightarrow> octstr"               \<comment> \<open>bytes added by \<open>wsp_pack_short_integer\<close>\<close>
  gw_pack_text :: "octstr \<Rightarrow> octstr"                     \<comment> \<open>\<open>wsp_pack_text\<close>\<close>
  gw_pack_value :: "octstr \<Rightarrow> octstr"                    \<comment> \<open>\<open>wsp_pack_value\<close>\<close>
  gw_pack_integer_value :: "int \<Rightarrow> octstr"               \<comment> \<open>\<open>wsp_pack_integer_value\<close>\<close>
  gw_pack_long_integer :: "int \<Rightarrow> octstr"                \<comment> \<open>\<open>wsp_pack_long_integer\<close>\<close>
  gw_pack_integer_string :: "octstr \<Rightarrow> octstr"           \<comment> \<open>\<open>wsp_pack_integer_string\<close>\<close>
  gw_pack_date :: "octstr \<Rightarrow> octstr"                     \<comment> \<open>\<open>wsp_pack_date\<close>\<close>
  gw_pack_version_value :: "octstr option \<Rightarrow> octstr"     \<comment> \<open>\<open>wsp_pack_version_value\<close>\<close>
  gw_pack_content_type :: "octstr \<Rightarrow> octstr"             \<comment> \<open>\<open>wsp_pack_content_type\<close>\<close>
  gw_pack_application_header :: "octstr \<Rightarrow> octstr \<Rightarrow> octstr" \<comment> \<open>\<open>wsp_pack_application_header\<close>\<close>
  gw_string_to_content_type :: "octstr \<Rightarrow> int"           \<comment> \<open>\<open>wsp_string_to_content_type\<close>\<close>
  gw_header_pack :: "headers \<Rightarrow> headers"                  \<comment> \<open>\<open>http_header_pack\<close>\<close>
  gw_header_parameter :: "octstr \<Rightarrow> octstr \<Rightarrow> octstr option" \<comment> \<open>\<open>http_get_header_parameter\<close>\<close>
  gw_mime_to_octstr :: "mime \<Rightarrow> octstr"                  \<comment> \<open>\<open>mime_entity_to_octstr\<close>\<close>
  gw_mime_from_octstr :: "octstr \<Rightarrow> mime option"         \<comment> \<open>\<open>mime_octstr_to_entity\<close>\<close>
  gw_http_to_mime :: "headers \<Rightarrow> octstr \<Rightarrow> mime"          \<comment> \<open>\<open>mime_http_to_entity\<close>\<close>
  gw_date_format_http :: "int \<Rightarrow> octstr"                 \<comment> \<open>\<open>date_format_http\<close>\<close>
  gw_date_parse_http :: "octstr \<Rightarrow> int"                  \<comment> \<open>\<open>date_parse_http\<close>\<close>
  gw_url_encode :: "octstr \<Rightarrow> octstr"                    \<comment> \<open>\<open>octstr_url_encode\<close>, format \<open>%E\<close>\<close>
  gw_strip_crlfs :: "octstr \<Rightarrow> octstr"                   \<comment> \<open>\<open>octstr_strip_crlfs\<close>\<close>
  gw_local_time :: "int \<Rightarrow> octstr"                       \<comment> \<open>\<open>gw_strftime\<close> of \<open>%Y-%m-%d %H:%M:%S\<close>\<close>
  gw_prefix_match :: "octstr option \<Rightarrow> octstr \<Rightarrow> bool"   \<comment> \<open>\<open>does_prefix_match\<close>\<close>

section \<open>What the documentation of the library promises\<close>

text \<open>First position at or after \<open>k\<close> where \<open>p\<close> occurs in \<open>s\<close>, or \<open>-1\<close>.\<close>

definition sub_pos :: "octstr \<Rightarrow> octstr \<Rightarrow> nat \<Rightarrow> int" where
  "sub_pos s p k =
     (case List.find (\<lambda>i. take (length p) (drop i s) = p) [k ..< Suc (length s) - length p] of
        None \<Rightarrow> -1 | Some i \<Rightarrow> int i)"

definition strip_ws :: "octstr \<Rightarrow> octstr" where
  "strip_ws s = rev (dropWhile isspace (rev (dropWhile isspace s)))"

text \<open>The lines of a text, each ended by a newline; a carriage return before it is not part of
  the line, and an unended last line is not returned.\<close>

fun lines_of :: "octstr \<Rightarrow> octstr \<Rightarrow> octstr list" where
  "lines_of acc [] = []"
| "lines_of acc (c # s) =
     (if c = CHR 0x0A
      then (if acc \<noteq> [] \<and> last acc = CHR 0x0D then butlast acc else acc) # lines_of [] s
      else lines_of (acc @ [c]) s)"

definition header_named :: "octstr \<Rightarrow> octstr \<times> octstr \<Rightarrow> bool" where
  "header_named n h = (ci (fst h) = ci n)"

definition header_value :: "headers \<Rightarrow> octstr \<Rightarrow> octstr option" where
  "header_value hs n = map_option snd (List.find (header_named n) hs)"

definition header_remove_all :: "headers \<Rightarrow> octstr \<Rightarrow> headers" where
  "header_remove_all hs n = filter (\<lambda>h. \<not> header_named n h) hs"

definition header_combine :: "headers \<Rightarrow> headers \<Rightarrow> headers" where
  "header_combine old new = filter (\<lambda>h. \<not> (\<exists>h' \<in> set new. header_named (fst h') h)) old @ new"

text \<open>Split at every occurrence of a one-byte separator; adjacent separators give an empty piece.\<close>

fun split_at :: "char \<Rightarrow> octstr \<Rightarrow> octstr \<Rightarrow> octstr list" where
  "split_at c acc [] = [acc]"
| "split_at c acc (x # s) = (if x = c then acc # split_at c [] s else split_at c (acc @ [x]) s)"

locale gwlib_api =
  fixes G :: gwlib
  assumes case_compare: "gw_case_compare G a b = 0 \<longleftrightarrow> ci a = ci b"
    and compare: "gw_compare G a b = 0 \<longleftrightarrow> a = b"
    and search: "gw_search G s p k = sub_pos s p k"
    and case_search: "gw_case_search G s p k = sub_pos (ci s) (ci p) k"
    and strip_blanks: "gw_strip_blanks G s = strip_ws s"
    and get_lines: "gw_get_lines G s = lines_of [] s"
    and split: "s \<noteq> [] \<Longrightarrow> last s \<noteq> c \<Longrightarrow> gw_split G s [c] = split_at c [] s"
    and header_value: "gw_header_value G hs n = header_value hs n"
    and header_remove_all: "gw_header_remove_all G hs n = header_remove_all hs n"
    and header_find_all: "gw_header_find_all G hs n = filter (header_named n) hs"
    and header_combine: "gw_header_combine G hs hs' = header_combine hs hs'"
    and quoted_string_len:
      "CHR 0x22 \<notin> set v \<Longrightarrow> CHR 0x5C \<notin> set v \<Longrightarrow>
       gw_quoted_string_len G (a @ CHR 0x22 # v @ CHR 0x22 # b) (length a) = length v + 2"
    and get_uintvar: "k < 2 ^ 32 \<Longrightarrow> gw_get_uintvar G (gw_uintvar G k @ r) = (int k, r)"
    and uintvar_nonempty: "gw_uintvar G k \<noteq> []"
    and pack_short_integer: "k < 128 \<Longrightarrow> gw_pack_short_integer G k = [char_of (128 + k)]"
    and base64: "gw_base64_decode G (gw_base64_encode G s) = s"
    and url_encode: "CHR ''/'' \<notin> set (gw_url_encode G s)"
    and parse_long: "gw_parse_long G (a @ show_nat k) (length a) 10 = (int (length (a @ show_nat k)), int k)"
begin

lemmas gwlib_simps = case_compare compare search case_search strip_blanks get_lines split
  header_value header_remove_all header_find_all header_combine

text \<open>The bytes of a text whose lines are \<open>ls\<close> are read back as \<open>ls\<close>.\<close>

lemma get_lines_concat:
  assumes "\<forall>l \<in> set ls. CHR 0x0A \<notin> set l \<and> CHR 0x0D \<notin> set l"
  shows "gw_get_lines G (concat (map (\<lambda>l. l @ [CHR 0x0A]) ls)) = ls"
proof -
  have one: "lines_of acc (l @ CHR 0x0A # t) = (acc @ l) # lines_of [] t"
    if "CHR 0x0A \<notin> set l" "CHR 0x0D \<notin> set acc" "CHR 0x0D \<notin> set l" for acc l t
    using that by (induction l arbitrary: acc) (auto dest: last_in_set)
  show ?thesis
    unfolding get_lines using assms by (induction ls) (auto simp: one)
qed

lemma header_value_after_remove: "gw_header_value G (gw_header_remove_all G hs n) n = None"
  by (auto simp: gwlib_simps header_value_def header_remove_all_def find_None_iff)

lemma header_value_append_new:
  "gw_header_value G hs n = None \<Longrightarrow> ci m = ci n \<Longrightarrow> gw_header_value G (hs @ [(m, v)]) n = Some v"
  by (induction hs) (auto simp: gwlib_simps header_value_def header_named_def split: if_splits)

lemma header_value_remove_other:
  "ci n \<noteq> ci m \<Longrightarrow> gw_header_value G (gw_header_remove_all G hs m) n = gw_header_value G hs n"
  by (induction hs) (auto simp: gwlib_simps header_value_def header_remove_all_def header_named_def)

lemma header_value_append_other:
  "ci n \<noteq> ci m \<Longrightarrow> gw_header_value G (hs @ [(m, v)]) n = gw_header_value G hs n"
  by (induction hs) (auto simp: gwlib_simps header_value_def header_named_def)

end

section \<open>A reference instance\<close>

text \<open>The WSP \<open>uintvar\<close>: groups of seven bits, the most significant first, each but the last with
  the top bit set.\<close>

fun uintvar_high :: "nat \<Rightarrow> octstr" where
  "uintvar_high n = (if n = 0 then [] else uintvar_high (n div 128) @ [char_of (128 + n mod 128)])"

declare uintvar_high.simps [simp del]

definition uintvar :: "nat \<Rightarrow> octstr" where
  "uintvar n = uintvar_high (n div 128) @ [char_of (n mod 128)]"

fun read_uintvar :: "nat \<Rightarrow> octstr \<Rightarrow> int \<times> octstr" where
  "read_uintvar acc [] = (-1, [])"
| "read_uintvar acc (c # s) =
     (let b = (of_char c :: nat) in
      if 128 \<le> b then read_uintvar (acc * 128 + (b - 128)) s else (int (acc * 128 + b), s))"

lemma read_uintvar_high: "read_uintvar 0 (uintvar_high n @ s) = read_uintvar n s"
proof (induction n arbitrary: s rule: uintvar_high.induct)
  case (1 n)
  show ?case
  proof (cases "n = 0")
    case True
    then show ?thesis by (subst uintvar_high.simps) simp
  next
    case False
    have "(of_char (char_of (128 + n mod 128) :: char) :: nat) = 128 + n mod 128" by simp
    with 1 False show ?thesis by (subst uintvar_high.simps) (simp add: Let_def)
  qed
qed

lemma read_uintvar: "read_uintvar 0 (uintvar n @ r) = (int n, r)"
proof -
  have "(of_char (char_of (n mod 128) :: char) :: nat) = n mod 128" by simp
  moreover have small: "\<not> 128 \<le> n mod 128" by (simp add: not_le)
  ultimately show ?thesis by (simp add: uintvar_def read_uintvar_high Let_def small)
qed

lemma uintvar_not_empty: "uintvar n \<noteq> []"
  by (simp add: uintvar_def)

text \<open>A header block of the reference instance: each name and value ended by a NUL byte.\<close>

definition ref_headers_pack :: "headers \<Rightarrow> octstr" where
  "ref_headers_pack hs = concat (map (\<lambda>h. fst h @ [CHR 0x00] @ snd h @ [CHR 0x00]) hs)"

fun pair_up :: "octstr list \<Rightarrow> headers" where
  "pair_up (n # v # r) = (n, v) # pair_up r"
| "pair_up _ = []"

definition ref_headers_unpack :: "octstr \<Rightarrow> headers" where
  "ref_headers_unpack s = pair_up (split_at CHR 0x00 [] s)"

text \<open>\<open>strtol\<close> in base 10, from position \<open>k\<close>; at least one digit is needed.\<close>

definition ref_parse_long :: "octstr \<Rightarrow> nat \<Rightarrow> nat \<Rightarrow> int \<times> int" where
  "ref_parse_long s k base =
     (let t = dropWhile isspace (drop k s); neg = (take 1 t = ''-'');
          u = (if neg \<or> take 1 t = ''+'' then drop 1 t else t); d = takeWhile isdigit u
      in if d = [] then (-1, 0)
         else (int (length s - (length u - length d)), (if neg then -1 else 1) * int (read_nat 0 d)))"

text \<open>Length of the quoted string that starts at \<open>k\<close>, quotes included; a backslash protects the
  next byte, and an unended string goes to the end.\<close>

fun quoted_len :: "octstr \<Rightarrow> nat" where
  "quoted_len [] = 0"
| "quoted_len [c] = 1"
| "quoted_len (c # d # s) =
     (if c = CHR 0x22 then 1 else if c = CHR 0x5C then 2 + quoted_len s else 1 + quoted_len (d # s))"

definition ref_normalize_number :: "octstr \<Rightarrow> octstr \<Rightarrow> octstr" where
  "ref_normalize_number u s =
     (if take 1 s = ''0'' then takeWhile (\<lambda>c. c \<noteq> CHR '','') u @ drop 1 s else s)"

definition gwlib_ref :: gwlib where
  "gwlib_ref = \<lparr>
     gw_case_compare = (\<lambda>a b. if ci a = ci b then 0 else 1),
     gw_compare = (\<lambda>a b. if a = b then 0 else 1),
     gw_search = sub_pos,
     gw_case_search = (\<lambda>s p. sub_pos (ci s) (ci p)),
     gw_strip_blanks = strip_ws,
     gw_normalize_number = ref_normalize_number,
     gw_get_lines = lines_of [],
     gw_split = (\<lambda>s p. case p of [c] \<Rightarrow> split_at c [] s | _ \<Rightarrow> [s]),
     gw_split_words = (\<lambda>s. filter (\<lambda>w. w \<noteq> []) (split_at CHR '' '' [] (map (\<lambda>c. if isspace c then CHR '' '' else c) s))),
     gw_parse_long = ref_parse_long,
     gw_quoted_string_len = (\<lambda>s k. 1 + quoted_len (drop (Suc k) s)),
     gw_header_value = header_value,
     gw_header_remove_all = header_remove_all,
     gw_header_find_all = (\<lambda>hs n. filter (header_named n) hs),
     gw_header_combine = header_combine,
     gw_split_value = split_at CHR '','' [],
     gw_parse_url = (\<lambda>s. Some \<lparr>u_scheme = [], u_user = None, u_pass = None, u_host = [], u_port = 80,
                         u_path = Some s, u_query = None, u_fragment = None\<rparr>),
     gw_base64_encode = id,
     gw_base64_decode = id,
     gw_isnum = (\<lambda>s. s \<noteq> [] \<and> list_all isdigit s),
     gw_uintvar = uintvar,
     gw_get_uintvar = read_uintvar 0,
     gw_headers_pack = ref_headers_pack,
     gw_headers_unpack = ref_headers_unpack,
     gw_pack_short_integer = (\<lambda>n. [char_of (128 + n mod 128)]),
     gw_pack_text = (\<lambda>s. s @ [CHR 0x00]),
     gw_pack_value = (\<lambda>s. uintvar (length s) @ s),
     gw_pack_integer_value = (\<lambda>i. uintvar (nat i)),
     gw_pack_long_integer = (\<lambda>i. uintvar (nat i)),
     gw_pack_integer_string = (\<lambda>s. uintvar (nat (atol s))),
     gw_pack_date = (\<lambda>s. uintvar (nat (atol s))),
     gw_pack_version_value = (\<lambda>v. case v of Some s \<Rightarrow> s @ [CHR 0x00] | None \<Rightarrow> [CHR 0x00]),
     gw_pack_content_type = (\<lambda>s. s @ [CHR 0x00]),
     gw_pack_application_header = (\<lambda>n v. n @ [CHR 0x00] @ v @ [CHR 0x00]),
     gw_string_to_content_type = (\<lambda>s. -1),
     gw_header_pack = id,
     gw_header_parameter = (\<lambda>v p. None),
     gw_mime_to_octstr = (\<lambda>m. ref_headers_pack (mime_headers m) @ (case mime_body m of Some b \<Rightarrow> b | None \<Rightarrow> [])),
     gw_mime_from_octstr = (\<lambda>s. Some (Mime [] [] (Some s))),
     gw_http_to_mime = (\<lambda>h s. Mime h [] (Some s)),
     gw_date_format_http = show_int,
     gw_date_parse_http = atol,
     gw_url_encode = (\<lambda>s. concat (map (\<lambda>c. if c = CHR ''/'' then ''%2F'' else [c]) s)),
     gw_strip_crlfs = (\<lambda>s. rev (dropWhile (\<lambda>c. c = CHR 0x0A \<or> c = CHR 0x0D) (rev s))),
     gw_local_time = show_int,
     gw_prefix_match = (\<lambda>p n. case p of Some p \<Rightarrow> take (length p) n = p | None \<Rightarrow> False) \<rparr>"

lemma quoted_len_quoted:
  "CHR 0x22 \<notin> set v \<Longrightarrow> CHR 0x5C \<notin> set v \<Longrightarrow> quoted_len (v @ CHR 0x22 # b) = length v + 1"
proof (induction v)
  case Nil
  then show ?case by (cases b) auto
next
  case (Cons c v)
  then show ?case by (cases v) auto
qed

lemma ref_parse_long_show: "ref_parse_long (a @ show_nat n) (length a) 10 = (int (length (a @ show_nat n)), int n)"
proof -
  obtain c t where ct: "show_nat n = c # t" "isdigit c" by (rule show_nat_hd)
  have "dropWhile isspace (show_nat n) = show_nat n" using ct isdigit_not_isspace by simp
  moreover have tw: "takeWhile isdigit (show_nat n) = show_nat n"
    using show_nat_digits by (simp add: takeWhile_eq_all_conv)
  moreover have "take 1 (show_nat n) \<noteq> ''-''" "take 1 (show_nat n) \<noteq> ''+''"
    using ct isdigit_neq by auto
  ultimately show ?thesis by (simp add: ref_parse_long_def Let_def read_nat_show_nat tw del: takeWhile_eq_all_conv)
qed

interpretation ref: gwlib_api gwlib_ref
  by unfold_locales (simp_all add: gwlib_ref_def quoted_len_quoted read_uintvar uintvar_not_empty
      ref_parse_long_show [simplified])

lemma gwlib_ref_api: "gwlib_api gwlib_ref"
  by (rule ref.gwlib_api_axioms)

lemma strip_ws_id: "s = [] \<or> \<not> isspace (hd s) \<and> \<not> isspace (last s) \<Longrightarrow> strip_ws s = s"
proof -
  assume s: "s = [] \<or> \<not> isspace (hd s) \<and> \<not> isspace (last s)"
  then have "dropWhile isspace s = s" by (auto simp: dropWhile_eq_self_iff)
  moreover from s have "dropWhile isspace (rev s) = rev s" by (auto simp: dropWhile_eq_self_iff hd_rev)
  ultimately show ?thesis by (simp add: strip_ws_def)
qed

section \<open>Facts on substring positions\<close>

text \<open>The position of an occurrence that no other precedes, and the absence of any.\<close>

lemma sub_pos_first:
  assumes hit: "take (length p) (drop k s) = p" and len: "k + length p \<le> length s"
    and first: "\<And>i. i < k \<Longrightarrow> take (length p) (drop i s) \<noteq> p"
  shows "sub_pos s p 0 = int k"
proof -
  let ?P = "\<lambda>i. take (length p) (drop i s) = p" and ?n = "Suc (length s) - length p"
  have k: "k < ?n" using len by simp
  have "List.find ?P [0 ..< ?n] = Some k"
    unfolding find_Some_iff using k hit first by (auto intro!: exI [of _ k])
  then show ?thesis by (simp add: sub_pos_def)
qed

lemma sub_pos_hit:
  assumes "c \<notin> set a"
  shows "sub_pos (a @ (c # q) @ r) (c # q) 0 = int (length a)"
proof (rule sub_pos_first)
  fix i assume i: "i < length a"
  show "take (length (c # q)) (drop i (a @ (c # q) @ r)) \<noteq> c # q"
  proof
    assume "take (length (c # q)) (drop i (a @ (c # q) @ r)) = c # q"
    then have "hd (take (length (c # q)) (drop i (a @ (c # q) @ r))) = c" by simp
    then have "(a @ (c # q) @ r) ! i = c" using i by (simp add: hd_drop_conv_nth del: drop_append)
    then have "a ! i = c" using i by (simp add: nth_append)
    with assms i show False by auto
  qed
qed simp_all

lemma sub_pos_miss:
  assumes "c \<notin> set s"
  shows "sub_pos s (c # q) 0 = -1"
proof -
  have "take (length (c # q)) (drop i s) \<noteq> c # q" for i
    using assms by (metis in_set_dropD in_set_takeD list.set_intros(1))
  then have "List.find (\<lambda>i. take (length (c # q)) (drop i s) = c # q) is = None" for "is"
    by (simp add: find_None_iff)
  then show ?thesis by (simp add: sub_pos_def)
qed

lemma sub_pos_prefix: "sub_pos (p @ r) p 0 = 0"
  using sub_pos_first [of p 0 "p @ r"] by simp

lemma sub_pos_ge: "-1 \<le> sub_pos s p k"
  by (simp add: sub_pos_def split: option.splits)

end
