(* ===== verification/MmsStrings.thy ===== *)
theory MmsStrings
  imports Gwlib
begin

text \<open>
  \<open>mmlib/mms_strings.c\<close> with the tables of \<open>mmlib/mms_strings.def\<close>: the enumerations of MMS header
  names and field values, as tables searched by number and, ignoring case, by string; and the
  reference count by which the tables are set up and torn down. The locale \<open>string_table\<close> is the
  contract of a table whose names and numbers are unambiguous; every table but \<open>mm7tag\<close> provides it.
\<close>

named_theorems table_defs \<open>definitions of the tables\<close>
named_theorems accessor_defs \<open>definitions of the table accessors\<close>

section \<open>Tables\<close>

record table =
  tsize :: nat
  tstrings :: "octstr list"
  tnumbers :: "int list"      \<comment> \<open>\<open>NULL\<close> (here: empty) for a linear table\<close>
  tversions :: "int list"
  tlinear :: bool

definition construct_linear_table :: "(octstr \<times> int) list \<Rightarrow> table" where
  "construct_linear_table strings = \<lparr>
     tsize = length strings,
     tstrings = map fst strings,
     tnumbers = [],
     tversions = map snd strings,
     tlinear = True \<rparr>"

definition construct_numbered_table :: "(octstr \<times> int \<times> int) list \<Rightarrow> table" where
  "construct_numbered_table strings = \<lparr>
     tsize = length strings,
     tstrings = map fst strings,
     tnumbers = map (fst \<circ> snd) strings,
     tversions = map (snd \<circ> snd) strings,
     tlinear = False \<rparr>"

definition number_to_cstr :: "int \<Rightarrow> table \<Rightarrow> octstr option" where
  "number_to_cstr number t =
     (if tlinear t
      then if 0 \<le> number \<and> number < int (tsize t) then Some (tstrings t ! nat number) else None
      else case List.find (\<lambda>i. tnumbers t ! i = number) [0 ..< tsize t] of
             Some i \<Rightarrow> Some (tstrings t ! i)
           | None \<Rightarrow> None)"

definition number_to_string :: "int \<Rightarrow> table \<Rightarrow> octstr" where
  "number_to_string number t =
     (if tlinear t
      then if 0 \<le> number \<and> number < int (tsize t) then tstrings t ! nat number else []
      else case List.find (\<lambda>i. tnumbers t ! i = number) [0 ..< tsize t] of
             Some i \<Rightarrow> tstrings t ! i
           | None \<Rightarrow> [])"

definition string_to_number :: "gwlib \<Rightarrow> octstr \<Rightarrow> table \<Rightarrow> int" where
  "string_to_number G ostr t =
     (case List.find (\<lambda>i. gw_case_compare G ostr (tstrings t ! i) = 0) [0 ..< tsize t] of
        Some i \<Rightarrow> if tlinear t then int i else tnumbers t ! i
      | None \<Rightarrow> -1)"

text \<open>The versioned search keeps the last match in \<open>unsigned int ret\<close>, which is then widened to
  the \<open>long\<close> of the result.\<close>

definition string_to_versioned_number :: "gwlib \<Rightarrow> octstr \<Rightarrow> table \<Rightarrow> int \<Rightarrow> int" where
  "string_to_versioned_number G ostr t version =
     uint (fold
       (\<lambda>i (ret :: 32 word).
          if gw_case_compare G ostr (tstrings t ! i) = 0 \<and> tversions t ! i \<le> version
          then word_of_int (if tlinear t then int i else tnumbers t ! i)
          else ret)
       [0 ..< tsize t] (- 1))"

section \<open>The contract of an unambiguous table\<close>

definition table_ok :: "table \<Rightarrow> bool" where
  "table_ok t \<longleftrightarrow>
     length (tstrings t) = tsize t \<and> distinct (map ci (tstrings t)) \<and>
     (tlinear t \<or> length (tnumbers t) = tsize t \<and> distinct (tnumbers t) \<and> list_all (\<lambda>n. 0 \<le> n) (tnumbers t))"

text \<open>The number of the \<open>i\<close>-th entry.\<close>

definition table_code :: "table \<Rightarrow> nat \<Rightarrow> int" where
  "table_code t i = (if tlinear t then int i else tnumbers t ! i)"

lemma find_unique:
  assumes "i < n" and "P i" and "\<And>j. j < n \<Longrightarrow> P j \<Longrightarrow> j = i"
  shows "List.find P [0 ..< n] = Some i"
proof -
  have "\<forall>j < i. \<not> P j" using assms by (metis less_trans less_irrefl)
  with assms(1,2) show ?thesis by (auto simp: find_Some_iff intro!: exI [of _ i])
qed

lemma find_upt_Some: "List.find P [0 ..< n] = Some i \<Longrightarrow> i < n \<and> P i"
  by (auto simp: find_Some_iff)

lemma find_upt_None: "List.find P [0 ..< n] = None \<longleftrightarrow> (\<forall>i < n. \<not> P i)"
  by (auto simp: find_None_iff)

locale string_table =
  fixes t :: table
  assumes ok: "table_ok t"
begin

lemma len: "length (tstrings t) = tsize t"
  and names: "distinct (map ci (tstrings t))"
  using ok by (simp_all add: table_ok_def)

lemma name_inj: "i < tsize t \<Longrightarrow> j < tsize t \<Longrightarrow> ci (tstrings t ! i) = ci (tstrings t ! j) \<Longrightarrow> i = j"
  using names len by (metis length_map nth_eq_iff_index_eq nth_map)

lemma code_inj: "i < tsize t \<Longrightarrow> j < tsize t \<Longrightarrow> table_code t i = table_code t j \<Longrightarrow> i = j"
  using ok by (auto simp: table_ok_def table_code_def nth_eq_iff_index_eq split: if_splits)

lemma code_nonneg: "i < tsize t \<Longrightarrow> 0 \<le> table_code t i"
  using ok by (auto simp: table_ok_def table_code_def list_all_length)

lemma number_to_cstr_code: "i < tsize t \<Longrightarrow> number_to_cstr (table_code t i) t = Some (tstrings t ! i)"
  using find_unique [of i "tsize t" "\<lambda>j. tnumbers t ! j = table_code t i"] code_inj [of _ i]
  by (auto simp: number_to_cstr_def table_code_def split: if_splits)

lemma number_to_cstr_Some:
  assumes "number_to_cstr n t = Some s"
  shows "\<exists>i < tsize t. table_code t i = n \<and> s = tstrings t ! i"
proof (cases "tlinear t")
  case True
  with assms have "nat n < tsize t \<and> table_code t (nat n) = n \<and> s = tstrings t ! nat n"
    by (auto simp: number_to_cstr_def table_code_def split: if_splits)
  then show ?thesis by blast
next
  case False
  with assms show ?thesis
    by (auto simp: number_to_cstr_def table_code_def split: option.splits dest!: find_upt_Some)
qed

lemma string_to_number_code:
  assumes "gwlib_api G" and "i < tsize t" and "ci s = ci (tstrings t ! i)"
  shows "string_to_number G s t = table_code t i"
proof -
  have "List.find (\<lambda>j. gw_case_compare G s (tstrings t ! j) = 0) [0 ..< tsize t] = Some i"
  proof (rule find_unique)
    show "gw_case_compare G s (tstrings t ! i) = 0"
      using assms(3) by (simp add: gwlib_api.case_compare [OF assms(1)])
    show "j = i" if "j < tsize t" "gw_case_compare G s (tstrings t ! j) = 0" for j
      using that assms(2,3) name_inj [of j i] by (simp add: gwlib_api.case_compare [OF assms(1)])
  qed (rule assms(2))
  then show ?thesis by (simp add: string_to_number_def table_code_def)
qed

lemma string_to_number_known:
  assumes "gwlib_api G" and "string_to_number G s t \<noteq> -1"
  shows "\<exists>i < tsize t. string_to_number G s t = table_code t i \<and> ci s = ci (tstrings t ! i)"
  using assms(2)
  by (auto simp: string_to_number_def table_code_def gwlib_api.case_compare [OF assms(1)]
      split: option.splits dest: find_upt_Some)

text \<open>Writing a number as its string and reading the string back gives the number, and the string
  found for the number of a string is that string up to case.\<close>

lemma number_string_number:
  assumes "gwlib_api G" and "number_to_cstr n t = Some s"
  shows "string_to_number G s t = n"
  using number_to_cstr_Some [OF assms(2)] string_to_number_code [OF assms(1)] by blast

lemma string_number_string:
  assumes "gwlib_api G" and "string_to_number G s t \<noteq> -1"
  shows "\<exists>s'. number_to_cstr (string_to_number G s t) t = Some s' \<and> ci s' = ci s"
  using string_to_number_known [OF assms] number_to_cstr_code by metis

lemma string_to_number_unknown:
  assumes "gwlib_api G"
  shows "string_to_number G s t = -1 \<longleftrightarrow> (\<forall>i < tsize t. ci s \<noteq> ci (tstrings t ! i))"
  using string_to_number_known [OF assms, of s] string_to_number_code [OF assms, of _ s] code_nonneg
  by (metis neg_0_le_iff_le not_one_le_zero)

lemma string_to_number_range: "gwlib_api G \<Longrightarrow> -1 \<le> string_to_number G s t"
  using string_to_number_known [of G s] code_nonneg by fastforce

end

text \<open>A string the table does not hold: the unversioned search gives \<open>-1\<close>, the versioned one the
  \<open>unsigned int\<close> value of \<open>-1\<close>.\<close>

lemma versioned_unknown:
  assumes "gwlib_api G" and "\<And>i. i < tsize t \<Longrightarrow> ci s \<noteq> ci (tstrings t ! i)"
  shows "string_to_versioned_number G s t v = 2 ^ 32 - 1"
proof -
  have "fold (\<lambda>i (ret :: 32 word). if gw_case_compare G s (tstrings t ! i) = 0 \<and> tversions t ! i \<le> v
           then word_of_int (if tlinear t then int i else tnumbers t ! i) else ret) is r = r"
    if "set is \<subseteq> {..< tsize t}" for "is" r
    using that assms(2) by (induction "is" arbitrary: r) (auto simp: gwlib_api.case_compare [OF assms(1)])
  from this [of "[0 ..< tsize t]"] show ?thesis
    by (simp add: string_to_versioned_number_def lessThan_atLeast0 unsigned_minus_1_eq_mask
        mask_eq_exp_minus_1)
qed

section \<open>The tables of \<open>mms_strings.def\<close>\<close>

definition header_table :: table where
  [table_defs]: "header_table = construct_linear_table [
     (''Unknown'', 1),
     (''Bcc'', 1),
     (''Cc'', 1),
     (''X-Mms-Content-Location'', 1),
     (''Content-Type'', 1),
     (''Date'', 1),
     (''X-Mms-Delivery-Report'', 1),
     (''X-Mms-Delivery-Time'', 1),
     (''X-Mms-Expiry'', 1),
     (''From'', 1),
     (''X-Mms-Message-Class'', 1),
     (''Message-ID'', 1),
     (''X-Mms-Message-Type'', 1),
     (''X-Mms-MMS-Version'', 1),
     (''X-Mms-Message-Size'', 1),
     (''X-Mms-Priority'', 1),
     (''X-Mms-Read-Report'', 1),
     (''X-Mms-Report-Allowed'', 1),
     (''X-Mms-Response-Status'', 1),
     (''X-Mms-Response-Text'', 1),
     (''X-Mms-Sender-Visibility'', 1),
     (''X-Mms-Status'', 1),
     (''Subject'', 1),
     (''To'', 1),
     (''X-Mms-Transaction-Id'', 1),
     (''X-Mms-Retrieve-Status'', 1),
     (''X-Mms-Retrieve-Text'', 1),
     (''X-Mms-Read-Status'', 1),
     (''X-Mms-Reply-Charging'', 1),
     (''X-Mms-Reply-Charging-Deadline'', 1),
     (''X-Mms-Reply-Charging-ID'', 1),
     (''X-Mms-Reply-Charging-Size'', 1),
     (''X-Mms-Previously-Sent-By'', 1),
     (''X-Mms-Previously-Sent-Date'', 1),
     (''X-Mms-Store'', 2),
     (''X-Mms-MM-State'', 2),
     (''X-Mms-MM-Flags'', 2),
     (''X-Mms-Store-Status'', 2),
     (''X-Mms-Store-Status-Text'', 2),
     (''X-Mms-Stored'', 2),
     (''X-Mms-Attributes'', 2),
     (''X-Mms-Totals'', 2),
     (''X-Mms-Mbox-Totals'', 2),
     (''X-Mms-Quotas'', 2),
     (''X-Mms-Mbox-Quotas'', 2),
     (''X-Mms-Message-Count'', 2),
     (''Content'', 2),
     (''X-Mms-Start'', 2),
     (''Additional-headers'', 2),
     (''X-Mms-Distribution-Indicator'', 2),
     (''X-Mms-Element-Descriptor'', 2),
     (''X-Mms-Limit'', 2)]"

definition reports_table :: table where
  [table_defs]: "reports_table = construct_linear_table [
     (''Yes'', 0),
     (''No'', 0)]"

definition boolean_flag_table :: table where
  [table_defs]: "boolean_flag_table = construct_linear_table [
     (''true'', 0),
     (''false'', 0)]"

definition message_type_table :: table where
  [table_defs]: "message_type_table = construct_linear_table [
     (''m-send-req'', 1),
     (''m-send-conf'', 1),
     (''m-notification-ind'', 1),
     (''m-notifyresp-ind'', 1),
     (''m-retrieve-conf'', 1),
     (''m-acknowledge-ind'', 1),
     (''m-delivery-ind'', 1),
     (''m-read-rec-ind'', 1),
     (''m-read-orig-ind'', 1),
     (''m-forward-req'', 1),
     (''m-forward-conf'', 1),
     (''m-mbox-store-req'', 2),
     (''m-mbox-store-conf'', 2),
     (''m-mbox-view-req'', 2),
     (''m-mbox-view-conf'', 2),
     (''m-mbox-upload-req'', 2),
     (''m-mbox-upload-conf'', 2),
     (''m-mbox-delete-req'', 2),
     (''m-mbox-delete-conf'', 2),
     (''m-mbox-descr'', 2)]"

definition message_class_table :: table where
  [table_defs]: "message_class_table = construct_linear_table [
     (''Personal'', 0),
     (''Advertisement'', 0),
     (''Informational'', 0),
     (''Auto'', 0)]"

definition response_status_table :: table where
  [table_defs]: "response_status_table = construct_numbered_table [
     (''Ok'', 128, 0),
     (''Error-unspecified'', 129, 0),
     (''Error-service-denied'', 130, 0),
     (''Error-message-format-corrupt'', 131, 0),
     (''Error-sending-address-unresolved'', 132, 0),
     (''Error-message-not-found'', 133, 0),
     (''Error-network-problem'', 134, 0),
     (''Error-content-not-accepted'', 135, 0),
     (''Error-unsupported-message'', 136, 0),
     (''Error-transient-failure'', 192, 0),
     (''Error-transient-sending-address-unresolved'', 193, 0),
     (''Error-transient-message-not-found'', 194, 0),
     (''Error-transient-network-problem'', 195, 0),
     (''Error-permanent-failure'', 224, 0),
     (''Error-permanent-service-denied'', 225, 0),
     (''Error-permanent-message-format-corrupt'', 226, 0),
     (''Error-permanent-sending-address-unresolved'', 227, 0),
     (''Error-permanent-message-not-found'', 228, 0),
     (''Error-permanent-content-not-accepted'', 229, 0),
     (''Error-permanent-reply-charging-limitations-not-met'', 230, 0),
     (''Error-permanent-reply-charging-request-not-accepted'', 231, 0),
     (''Error-permanent-reply-charging-forwarding-denied'', 232, 0),
     (''Error-permanent-reply-charging-not-supported'', 233, 0)]"

definition retrieve_status_table :: table where
  [table_defs]: "retrieve_status_table = construct_numbered_table [
     (''Ok'', 128, 0),
     (''Error-transient-failure'', 192, 0),
     (''Error-transient-message-not-found'', 193, 0),
     (''Error-transient-network-problem'', 194, 0),
     (''Error-permanent-failure'', 224, 0),
     (''Error-permanent-service-denied'', 225, 0),
     (''Error-permanent-message-not-found'', 226, 0),
     (''Error-permanent-content-unsupported'', 227, 0)]"

definition priority_table :: table where
  [table_defs]: "priority_table = construct_linear_table [
     (''Low'', 0),
     (''Normal'', 0),
     (''High'', 0)]"

definition read_status_table :: table where
  [table_defs]: "read_status_table = construct_linear_table [
     (''Read'', 0),
     (''Deleted without being read'', 0)]"

definition visibility_table :: table where
  [table_defs]: "visibility_table = construct_linear_table [
     (''Hide'', 0),
     (''Show'', 0)]"

definition reply_charging_table :: table where
  [table_defs]: "reply_charging_table = construct_linear_table [
     (''Requested'', 0),
     (''Requested text only'', 0),
     (''Accepted'', 0),
     (''Accepted text only'', 0)]"

definition status_table :: table where
  [table_defs]: "status_table = construct_linear_table [
     (''Expired'', 0),
     (''Retrieved'', 0),
     (''Rejected'', 0),
     (''Deferred'', 0),
     (''Unrecognised'', 0),
     (''Indeterminate'', 0),
     (''Forwarded'', 0)]"

definition mm_state_table :: table where
  [table_defs]: "mm_state_table = construct_linear_table [
     (''Draft'', 0),
     (''Sent'', 0),
     (''New'', 0),
     (''Retrieved'', 0),
     (''Forwarded'', 0)]"

definition store_status_table :: table where
  [table_defs]: "store_status_table = construct_numbered_table [
     (''Success'', 128, 0),
     (''Error-transient-failure'', 192, 0),
     (''Error-transient-network-problem'', 193, 0),
     (''Error-permanent-failure'', 224, 0),
     (''Error-permanent-service-denied'', 225, 0),
     (''Error-permanent-message-format-corrupt'', 226, 0),
     (''Error-permanent-message-not-found'', 227, 0),
     (''Error-permanent-mmbox-full'', 228, 0)]"

definition descriptor_params_table :: table where
  [table_defs]: "descriptor_params_table = construct_numbered_table [
     (''type'', 130, 0)]"

definition mm7tag_table :: table where
  [table_defs]: "mm7tag_table = construct_linear_table [
     (''Bcc'', 5),
     (''CancelReq'', 5),
     (''CancelRsp'', 5),
     (''Cc'', 5),
     (''ChargedParty'', 5),
     (''Content'', 5),
     (''Date'', 5),
     (''DeliverReq'', 5),
     (''DeliverRsp'', 5),
     (''DeliveryReportReq'', 5),
     (''DeliveryReportRsp'', 5),
     (''DistributionIndicator'', 5),
     (''EarliestDeliveryTime'', 5),
     (''ExpiryDate'', 5),
     (''LinkedID'', 5),
     (''MM7Version'', 5),
     (''MMSRelayServerID'', 5),
     (''MMStatus'', 5),
     (''MessageClass'', 5),
     (''MessageID'', 5),
     (''Number'', 5),
     (''Priority'', 5),
     (''RFC2822Address'', 5),
     (''RSErrorRsp'', 5),
     (''ReadReplyReq'', 5),
     (''ReadReplyRsp'', 5),
     (''Recipient'', 5),
     (''Recipients'', 5),
     (''ReplaceReq'', 5),
     (''ReplaceRsp'', 5),
     (''ReplyCharging'', 5),
     (''ReplyChargingID'', 5),
     (''Sender'', 5),
     (''SenderAddress'', 5),
     (''SenderIdentification'', 5),
     (''ServiceCode'', 5),
     (''ShortCode'', 5),
     (''Status'', 5),
     (''StatusCode'', 5),
     (''StatusText'', 5),
     (''Subject'', 5),
     (''SubmitReq'', 5),
     (''SubmitRsp'', 5),
     (''TimeStamp'', 5),
     (''To'', 5),
     (''TransactionID'', 5),
     (''VASID'', 5),
     (''VASPErrorRsp'', 5),
     (''VASPID'', 5),
     (''Fault'', 5),
     (''Details'', 5),
     (''faultcode'', 5),
     (''faultstring'', 5),
     (''MessageType'', 5),
     (''replyChargingSize'', 5),
     (''replyDeadline'', 5),
     (''DeliveryReport'', 5),
     (''allowAdaptations'', 5),
     (''DistributionIndicator'', 5),
     (''UACapabilities'', 5)]"

definition soap_status_table :: table where
  [table_defs]: "soap_status_table = construct_numbered_table [
     (''Success'', 1000, 0),
     (''Partial success'', 1100, 0),
     (''Client error'', 2000, 0),
     (''Operation restricted'', 2001, 0),
     (''Address Error'', 2002, 0),
     (''Address Not Found'', 2003, 0),
     (''Multimedia content refused'', 2004, 0),
     (''Message ID Not found'', 2005, 0),
     (''LinkedID not found'', 2006, 0),
     (''Message format corrupt'', 2007, 0),
     (''Server Error'', 3000, 0),
     (''Not Possible'', 3001, 0),
     (''Message rejected'', 3002, 0),
     (''Multiple addresses not supported'', 3003, 0),
     (''Command Rejected'', 3005, 0),
     (''General service error'', 4000, 0),
     (''Improper identification'', 4001, 0),
     (''Unsupported version'', 4002, 0),
     (''Unsupported operation'', 4003, 0),
     (''Validation error'', 4004, 0),
     (''Service error'', 4005, 0),
     (''Service unavailable'', 4006, 0),
     (''Service denied'', 4007, 0)]"

text \<open>The enumerations of the \<open>NAMED\<close> tables number their entries from 0.\<close>

abbreviation (input) MMS_HEADER_NONE :: int where "MMS_HEADER_NONE \<equiv> 0"
abbreviation (input) MMS_HEADER_BCC :: int where "MMS_HEADER_BCC \<equiv> 1"
abbreviation (input) MMS_HEADER_CC :: int where "MMS_HEADER_CC \<equiv> 2"
abbreviation (input) MMS_HEADER_CONTENT_LOCATION :: int where "MMS_HEADER_CONTENT_LOCATION \<equiv> 3"
abbreviation (input) MMS_HEADER_CONTENT_TYPE :: int where "MMS_HEADER_CONTENT_TYPE \<equiv> 4"
abbreviation (input) MMS_HEADER_DATE :: int where "MMS_HEADER_DATE \<equiv> 5"
abbreviation (input) MMS_HEADER_DELIVERY_REPORT :: int where "MMS_HEADER_DELIVERY_REPORT \<equiv> 6"
abbreviation (input) MMS_HEADER_DELIVERY_TIME :: int where "MMS_HEADER_DELIVERY_TIME \<equiv> 7"
abbreviation (input) MMS_HEADER_EXPIRY :: int where "MMS_HEADER_EXPIRY \<equiv> 8"
abbreviation (input) MMS_HEADER_FROM :: int where "MMS_HEADER_FROM \<equiv> 9"
abbreviation (input) MMS_HEADER_MESSAGE_CLASS :: int where "MMS_HEADER_MESSAGE_CLASS \<equiv> 10"
abbreviation (input) MMS_HEADER_MESSAGE_ID :: int where "MMS_HEADER_MESSAGE_ID \<equiv> 11"
abbreviation (input) MMS_HEADER_MESSAGE_TYPE :: int where "MMS_HEADER_MESSAGE_TYPE \<equiv> 12"
abbreviation (input) MMS_HEADER_MMS_VERSION :: int where "MMS_HEADER_MMS_VERSION \<equiv> 13"
abbreviation (input) MMS_HEADER_MESSAGE_SIZE :: int where "MMS_HEADER_MESSAGE_SIZE \<equiv> 14"
abbreviation (input) MMS_HEADER_PRIORITY :: int where "MMS_HEADER_PRIORITY \<equiv> 15"
abbreviation (input) MMS_HEADER_READ_REPORT :: int where "MMS_HEADER_READ_REPORT \<equiv> 16"
abbreviation (input) MMS_HEADER_REPORT_ALLOWED :: int where "MMS_HEADER_REPORT_ALLOWED \<equiv> 17"
abbreviation (input) MMS_HEADER_RESPONSE_STATUS :: int where "MMS_HEADER_RESPONSE_STATUS \<equiv> 18"
abbreviation (input) MMS_HEADER_RESPONSE_TEXT :: int where "MMS_HEADER_RESPONSE_TEXT \<equiv> 19"
abbreviation (input) MMS_HEADER_SENDER_VISIBILITY :: int where "MMS_HEADER_SENDER_VISIBILITY \<equiv> 20"
abbreviation (input) MMS_HEADER_STATUS :: int where "MMS_HEADER_STATUS \<equiv> 21"
abbreviation (input) MMS_HEADER_SUBJECT :: int where "MMS_HEADER_SUBJECT \<equiv> 22"
abbreviation (input) MMS_HEADER_TO :: int where "MMS_HEADER_TO \<equiv> 23"
abbreviation (input) MMS_HEADER_TRANSACTION_ID :: int where "MMS_HEADER_TRANSACTION_ID \<equiv> 24"
abbreviation (input) MMS_HEADER_RETRIEVE_STATUS :: int where "MMS_HEADER_RETRIEVE_STATUS \<equiv> 25"
abbreviation (input) MMS_HEADER_RETRIEVE_TEXT :: int where "MMS_HEADER_RETRIEVE_TEXT \<equiv> 26"
abbreviation (input) MMS_HEADER_READ_STATUS :: int where "MMS_HEADER_READ_STATUS \<equiv> 27"
abbreviation (input) MMS_HEADER_REPLY_CHARGING :: int where "MMS_HEADER_REPLY_CHARGING \<equiv> 28"
abbreviation (input) MMS_HEADER_REPLY_CHARGING_DEADLINE :: int where "MMS_HEADER_REPLY_CHARGING_DEADLINE \<equiv> 29"
abbreviation (input) MMS_HEADER_REPLY_CHARGING_ID :: int where "MMS_HEADER_REPLY_CHARGING_ID \<equiv> 30"
abbreviation (input) MMS_HEADER_REPLY_CHARGING_SIZE :: int where "MMS_HEADER_REPLY_CHARGING_SIZE \<equiv> 31"
abbreviation (input) MMS_HEADER_PREVIOUSLY_SENT_BY :: int where "MMS_HEADER_PREVIOUSLY_SENT_BY \<equiv> 32"
abbreviation (input) MMS_HEADER_PREVIOUSLY_SENT_DATE :: int where "MMS_HEADER_PREVIOUSLY_SENT_DATE \<equiv> 33"
abbreviation (input) MMS_HEADER_STORE :: int where "MMS_HEADER_STORE \<equiv> 34"
abbreviation (input) MMS_HEADER_MM_STATE :: int where "MMS_HEADER_MM_STATE \<equiv> 35"
abbreviation (input) MMS_HEADER_MM_FLAGS :: int where "MMS_HEADER_MM_FLAGS \<equiv> 36"
abbreviation (input) MMS_HEADER_STORE_STATUS :: int where "MMS_HEADER_STORE_STATUS \<equiv> 37"
abbreviation (input) MMS_HEADER_STORE_STATUS_TEXT :: int where "MMS_HEADER_STORE_STATUS_TEXT \<equiv> 38"
abbreviation (input) MMS_HEADER_STORED :: int where "MMS_HEADER_STORED \<equiv> 39"
abbreviation (input) MMS_HEADER_ATTRIBUTES :: int where "MMS_HEADER_ATTRIBUTES \<equiv> 40"
abbreviation (input) MMS_HEADER_TOTALS :: int where "MMS_HEADER_TOTALS \<equiv> 41"
abbreviation (input) MMS_HEADER_MBOX_TOTALS :: int where "MMS_HEADER_MBOX_TOTALS \<equiv> 42"
abbreviation (input) MMS_HEADER_QUOTAS :: int where "MMS_HEADER_QUOTAS \<equiv> 43"
abbreviation (input) MMS_HEADER_MBOX_QUOTAS :: int where "MMS_HEADER_MBOX_QUOTAS \<equiv> 44"
abbreviation (input) MMS_HEADER_MESSAGE_COUNT :: int where "MMS_HEADER_MESSAGE_COUNT \<equiv> 45"
abbreviation (input) MMS_HEADER_CONTENT :: int where "MMS_HEADER_CONTENT \<equiv> 46"
abbreviation (input) MMS_HEADER_START :: int where "MMS_HEADER_START \<equiv> 47"
abbreviation (input) MMS_HEADER_ADDITIONAL_HEADERS :: int where "MMS_HEADER_ADDITIONAL_HEADERS \<equiv> 48"
abbreviation (input) MMS_HEADER_DISTRIBUTION_INDICATOR :: int where "MMS_HEADER_DISTRIBUTION_INDICATOR \<equiv> 49"
abbreviation (input) MMS_HEADER_ELEMENT_DESCRIPTOR :: int where "MMS_HEADER_ELEMENT_DESCRIPTOR \<equiv> 50"
abbreviation (input) MMS_HEADER_LIMIT :: int where "MMS_HEADER_LIMIT \<equiv> 51"
abbreviation (input) MMS_MSGTYPE_SEND_REQ :: int where "MMS_MSGTYPE_SEND_REQ \<equiv> 0"
abbreviation (input) MMS_MSGTYPE_SEND_CONF :: int where "MMS_MSGTYPE_SEND_CONF \<equiv> 1"
abbreviation (input) MMS_MSGTYPE_NOTIFICATION_IND :: int where "MMS_MSGTYPE_NOTIFICATION_IND \<equiv> 2"
abbreviation (input) MMS_MSGTYPE_NOTIFYRESP :: int where "MMS_MSGTYPE_NOTIFYRESP \<equiv> 3"
abbreviation (input) MMS_MSGTYPE_RETRIEVE_CONF :: int where "MMS_MSGTYPE_RETRIEVE_CONF \<equiv> 4"
abbreviation (input) MMS_MSGTYPE_ACKNOWLEDGE_IND :: int where "MMS_MSGTYPE_ACKNOWLEDGE_IND \<equiv> 5"
abbreviation (input) MMS_MSGTYPE_DELIVERY_IND :: int where "MMS_MSGTYPE_DELIVERY_IND \<equiv> 6"
abbreviation (input) MMS_MSGTYPE_READ_REC_IND :: int where "MMS_MSGTYPE_READ_REC_IND \<equiv> 7"
abbreviation (input) MMS_MSGTYPE_READ_ORIG_IND :: int where "MMS_MSGTYPE_READ_ORIG_IND \<equiv> 8"
abbreviation (input) MMS_MSGTYPE_FORWARD_REQ :: int where "MMS_MSGTYPE_FORWARD_REQ \<equiv> 9"
abbreviation (input) MMS_MSGTYPE_FORWARD_CONF :: int where "MMS_MSGTYPE_FORWARD_CONF \<equiv> 10"
abbreviation (input) MMS_MSGTYPE_MBOX_STORE_REQ :: int where "MMS_MSGTYPE_MBOX_STORE_REQ \<equiv> 11"
abbreviation (input) MMS_MSGTYPE_MBOX_STORE_CONF :: int where "MMS_MSGTYPE_MBOX_STORE_CONF \<equiv> 12"
abbreviation (input) MMS_MSGTYPE_MBOX_VIEW_REQ :: int where "MMS_MSGTYPE_MBOX_VIEW_REQ \<equiv> 13"
abbreviation (input) MMS_MSGTYPE_MBOX_VIEW_CONF :: int where "MMS_MSGTYPE_MBOX_VIEW_CONF \<equiv> 14"
abbreviation (input) MMS_MSGTYPE_MBOX_UPLOAD_REQ :: int where "MMS_MSGTYPE_MBOX_UPLOAD_REQ \<equiv> 15"
abbreviation (input) MMS_MSGTYPE_MBOX_UPLOAD_CONF :: int where "MMS_MSGTYPE_MBOX_UPLOAD_CONF \<equiv> 16"
abbreviation (input) MMS_MSGTYPE_MBOX_DELETE_REQ :: int where "MMS_MSGTYPE_MBOX_DELETE_REQ \<equiv> 17"
abbreviation (input) MMS_MSGTYPE_MBOX_DELETE_CONF :: int where "MMS_MSGTYPE_MBOX_DELETE_CONF \<equiv> 18"
abbreviation (input) MMS_MSGTYPE_MBOX_DESCR :: int where "MMS_MSGTYPE_MBOX_DESCR \<equiv> 19"

section \<open>The accessors generated for each table\<close>

definition mms_header_to_cstr :: "int \<Rightarrow> octstr option" where
  [accessor_defs]: "mms_header_to_cstr number = number_to_cstr number header_table"

definition mms_string_to_header :: "gwlib \<Rightarrow> octstr \<Rightarrow> int" where
  [accessor_defs]: "mms_string_to_header G ostr = string_to_number G ostr header_table"

definition mms_reports_to_cstr :: "int \<Rightarrow> octstr option" where
  [accessor_defs]: "mms_reports_to_cstr number = number_to_cstr number reports_table"

definition mms_string_to_reports :: "gwlib \<Rightarrow> octstr \<Rightarrow> int" where
  [accessor_defs]: "mms_string_to_reports G ostr = string_to_number G ostr reports_table"

definition mms_boolean_flag_to_cstr :: "int \<Rightarrow> octstr option" where
  [accessor_defs]: "mms_boolean_flag_to_cstr number = number_to_cstr number boolean_flag_table"

definition mms_string_to_boolean_flag :: "gwlib \<Rightarrow> octstr \<Rightarrow> int" where
  [accessor_defs]: "mms_string_to_boolean_flag G ostr = string_to_number G ostr boolean_flag_table"

definition mms_message_type_to_cstr :: "int \<Rightarrow> octstr option" where
  [accessor_defs]: "mms_message_type_to_cstr number = number_to_cstr number message_type_table"

definition mms_string_to_message_type :: "gwlib \<Rightarrow> octstr \<Rightarrow> int" where
  [accessor_defs]: "mms_string_to_message_type G ostr = string_to_number G ostr message_type_table"

definition mms_message_class_to_cstr :: "int \<Rightarrow> octstr option" where
  [accessor_defs]: "mms_message_class_to_cstr number = number_to_cstr number message_class_table"

definition mms_string_to_message_class :: "gwlib \<Rightarrow> octstr \<Rightarrow> int" where
  [accessor_defs]: "mms_string_to_message_class G ostr = string_to_number G ostr message_class_table"

definition mms_response_status_to_cstr :: "int \<Rightarrow> octstr option" where
  [accessor_defs]: "mms_response_status_to_cstr number = number_to_cstr number response_status_table"

definition mms_string_to_response_status :: "gwlib \<Rightarrow> octstr \<Rightarrow> int" where
  [accessor_defs]: "mms_string_to_response_status G ostr = string_to_number G ostr response_status_table"

definition mms_retrieve_status_to_cstr :: "int \<Rightarrow> octstr option" where
  [accessor_defs]: "mms_retrieve_status_to_cstr number = number_to_cstr number retrieve_status_table"

definition mms_string_to_retrieve_status :: "gwlib \<Rightarrow> octstr \<Rightarrow> int" where
  [accessor_defs]: "mms_string_to_retrieve_status G ostr = string_to_number G ostr retrieve_status_table"

definition mms_priority_to_cstr :: "int \<Rightarrow> octstr option" where
  [accessor_defs]: "mms_priority_to_cstr number = number_to_cstr number priority_table"

definition mms_string_to_priority :: "gwlib \<Rightarrow> octstr \<Rightarrow> int" where
  [accessor_defs]: "mms_string_to_priority G ostr = string_to_number G ostr priority_table"

definition mms_read_status_to_cstr :: "int \<Rightarrow> octstr option" where
  [accessor_defs]: "mms_read_status_to_cstr number = number_to_cstr number read_status_table"

definition mms_string_to_read_status :: "gwlib \<Rightarrow> octstr \<Rightarrow> int" where
  [accessor_defs]: "mms_string_to_read_status G ostr = string_to_number G ostr read_status_table"

definition mms_visibility_to_cstr :: "int \<Rightarrow> octstr option" where
  [accessor_defs]: "mms_visibility_to_cstr number = number_to_cstr number visibility_table"

definition mms_string_to_visibility :: "gwlib \<Rightarrow> octstr \<Rightarrow> int" where
  [accessor_defs]: "mms_string_to_visibility G ostr = string_to_number G ostr visibility_table"

definition mms_reply_charging_to_cstr :: "int \<Rightarrow> octstr option" where
  [accessor_defs]: "mms_reply_charging_to_cstr number = number_to_cstr number reply_charging_table"

definition mms_string_to_reply_charging :: "gwlib \<Rightarrow> octstr \<Rightarrow> int" where
  [accessor_defs]: "mms_string_to_reply_charging G ostr = string_to_number G ostr reply_charging_table"

definition mms_status_to_cstr :: "int \<Rightarrow> octstr option" where
  [accessor_defs]: "mms_status_to_cstr number = number_to_cstr number status_table"

definition mms_string_to_status :: "gwlib \<Rightarrow> octstr \<Rightarrow> int" where
  [accessor_defs]: "mms_string_to_status G ostr = string_to_number G ostr status_table"

definition mms_mm_state_to_cstr :: "int \<Rightarrow> octstr option" where
  [accessor_defs]: "mms_mm_state_to_cstr number = number_to_cstr number mm_state_table"

definition mms_string_to_mm_state :: "gwlib \<Rightarrow> octstr \<Rightarrow> int" where
  [accessor_defs]: "mms_string_to_mm_state G ostr = string_to_number G ostr mm_state_table"

definition mms_store_status_to_cstr :: "int \<Rightarrow> octstr option" where
  [accessor_defs]: "mms_store_status_to_cstr number = number_to_cstr number store_status_table"

definition mms_string_to_store_status :: "gwlib \<Rightarrow> octstr \<Rightarrow> int" where
  [accessor_defs]: "mms_string_to_store_status G ostr = string_to_number G ostr store_status_table"

definition mms_descriptor_params_to_cstr :: "int \<Rightarrow> octstr option" where
  [accessor_defs]: "mms_descriptor_params_to_cstr number = number_to_cstr number descriptor_params_table"

definition mms_string_to_descriptor_params :: "gwlib \<Rightarrow> octstr \<Rightarrow> int" where
  [accessor_defs]: "mms_string_to_descriptor_params G ostr = string_to_number G ostr descriptor_params_table"

definition mms_mm7tag_to_cstr :: "int \<Rightarrow> octstr option" where
  [accessor_defs]: "mms_mm7tag_to_cstr number = number_to_cstr number mm7tag_table"

definition mms_string_to_mm7tag :: "gwlib \<Rightarrow> octstr \<Rightarrow> int" where
  [accessor_defs]: "mms_string_to_mm7tag G ostr = string_to_number G ostr mm7tag_table"

definition mms_soap_status_to_cstr :: "int \<Rightarrow> octstr option" where
  [accessor_defs]: "mms_soap_status_to_cstr number = number_to_cstr number soap_status_table"

definition mms_string_to_soap_status :: "gwlib \<Rightarrow> octstr \<Rightarrow> int" where
  [accessor_defs]: "mms_string_to_soap_status G ostr = string_to_number G ostr soap_status_table"

text \<open>Every table but \<open>mm7tag\<close> is unambiguous.\<close>

interpretation header_tab: string_table header_table
  by unfold_locales code_simp

interpretation reports_tab: string_table reports_table
  by unfold_locales code_simp

interpretation boolean_flag_tab: string_table boolean_flag_table
  by unfold_locales code_simp

interpretation message_type_tab: string_table message_type_table
  by unfold_locales code_simp

interpretation message_class_tab: string_table message_class_table
  by unfold_locales code_simp

interpretation response_status_tab: string_table response_status_table
  by unfold_locales code_simp

interpretation retrieve_status_tab: string_table retrieve_status_table
  by unfold_locales code_simp

interpretation priority_tab: string_table priority_table
  by unfold_locales code_simp

interpretation read_status_tab: string_table read_status_table
  by unfold_locales code_simp

interpretation visibility_tab: string_table visibility_table
  by unfold_locales code_simp

interpretation reply_charging_tab: string_table reply_charging_table
  by unfold_locales code_simp

interpretation status_tab: string_table status_table
  by unfold_locales code_simp

interpretation mm_state_tab: string_table mm_state_table
  by unfold_locales code_simp

interpretation store_status_tab: string_table store_status_table
  by unfold_locales code_simp

interpretation descriptor_params_tab: string_table descriptor_params_table
  by unfold_locales code_simp

interpretation soap_status_tab: string_table soap_status_table
  by unfold_locales code_simp


section \<open>The reference count of the tables\<close>

text \<open>\<open>initialized\<close>, and whether the table structures are allocated.\<close>

record strings_state =
  initialized :: int
  tables_live :: bool

definition mms_strings_init :: "strings_state \<Rightarrow> strings_state" where
  "mms_strings_init s =
     (if initialized s > 0
      then s\<lparr>initialized := initialized s + 1\<rparr>
      else s\<lparr>tables_live := True, initialized := initialized s + 1\<rparr>)"

definition mms_strings_shutdown :: "strings_state \<Rightarrow> strings_state" where
  "mms_strings_shutdown s =
     (if initialized s > 1
      then s\<lparr>initialized := initialized s - 1\<rparr>
      else s\<lparr>tables_live := False, initialized := 0\<rparr>)"

definition strings_start :: strings_state where
  "strings_start = \<lparr>initialized = 0, tables_live = False\<rparr>"

text \<open>A run of the library's users: \<open>True\<close> an initialisation, \<open>False\<close> a shutdown.\<close>

fun strings_run :: "strings_state \<Rightarrow> bool list \<Rightarrow> strings_state" where
  "strings_run s [] = s"
| "strings_run s (True # es) = strings_run (mms_strings_init s) es"
| "strings_run s (False # es) = strings_run (mms_strings_shutdown s) es"

definition strings_inv :: "strings_state \<Rightarrow> bool" where
  "strings_inv s \<longleftrightarrow> 0 \<le> initialized s \<and> (tables_live s \<longleftrightarrow> 0 < initialized s)"

lemma strings_init_inv: "strings_inv s \<Longrightarrow> strings_inv (mms_strings_init s)"
  and strings_shutdown_inv: "strings_inv s \<Longrightarrow> strings_inv (mms_strings_shutdown s)"
  by (auto simp: strings_inv_def mms_strings_init_def mms_strings_shutdown_def)

lemma strings_run_inv: "strings_inv s \<Longrightarrow> strings_inv (strings_run s es)"
  by (induction s es rule: strings_run.induct) (auto intro: strings_init_inv strings_shutdown_inv)

text \<open>No prefix of the run has more shutdowns than initialisations before it.\<close>

fun balanced :: "int \<Rightarrow> bool list \<Rightarrow> bool" where
  "balanced n [] = True"
| "balanced n (True # es) = balanced (n + 1) es"
| "balanced n (False # es) = (0 < n \<and> balanced (n - 1) es)"

lemma strings_run_count:
  "strings_inv s \<Longrightarrow> balanced (initialized s) es \<Longrightarrow>
   initialized (strings_run s es) =
     initialized s + int (count_list es True) - int (count_list es False)"
proof (induction s es rule: strings_run.induct)
  case (2 s es)
  then show ?case using strings_init_inv [of s] by (simp add: mms_strings_init_def split: if_splits)
next
  case (3 s es)
  then show ?case using strings_shutdown_inv [of s]
    by (cases "initialized s = 1") (auto simp: mms_strings_shutdown_def)
qed simp


section \<open>Properties\<close>

text \<open>C31: Encoding and decoding of the enumerated protocol values agree: whenever a number of the
  header, message type, response status, retrieve status, store status or MMS status table has a
  string, looking that string up (in any letter case) gives the number back.\<close>

theorem enum_roundtrip:
  assumes "gwlib_api G" and "ci s' = ci s"
  shows "(mms_header_to_cstr n = Some s \<longrightarrow> mms_string_to_header G s' = n) \<and>
    (mms_message_type_to_cstr n = Some s \<longrightarrow> mms_string_to_message_type G s' = n) \<and>
    (mms_response_status_to_cstr n = Some s \<longrightarrow> mms_string_to_response_status G s' = n) \<and>
    (mms_retrieve_status_to_cstr n = Some s \<longrightarrow> mms_string_to_retrieve_status G s' = n) \<and>
    (mms_store_status_to_cstr n = Some s \<longrightarrow> mms_string_to_store_status G s' = n) \<and>
    (mms_status_to_cstr n = Some s \<longrightarrow> mms_string_to_status G s' = n)"
  using assms
  by (auto simp: accessor_defs dest!: header_tab.number_to_cstr_Some message_type_tab.number_to_cstr_Some
      response_status_tab.number_to_cstr_Some retrieve_status_tab.number_to_cstr_Some
      store_status_tab.number_to_cstr_Some status_tab.number_to_cstr_Some
      intro!: header_tab.string_to_number_code message_type_tab.string_to_number_code
      response_status_tab.string_to_number_code retrieve_status_tab.string_to_number_code
      store_status_tab.string_to_number_code status_tab.string_to_number_code)

theorem enum_roundtrip_witness:
  "mms_string_to_message_type gwlib_ref ''M-Send-Req'' = 0 \<and>
   mms_string_to_response_status gwlib_ref ''error-network-problem'' = 134"
  using enum_roundtrip [OF gwlib_ref_api, of "''M-Send-Req''" "''m-send-req''" 0]
    enum_roundtrip [OF gwlib_ref_api, of "''error-network-problem''" "''Error-network-problem''" 134]
  by (auto simp: accessor_defs number_to_cstr_def table_defs construct_linear_table_def
      construct_numbered_table_def ci_def)

text \<open>A string that is not in the message type table gives \<open>-1\<close> in the plain search, but the
  versioned search of any table answers an unknown string with \<open>4294967295\<close>: its \<open>-1\<close> is kept in an
  \<open>unsigned int\<close> and widened, so a caller's test for a negative result never succeeds.\<close>

theorem unknown_string_results:
  assumes "gwlib_api G" and "\<And>i. i < tsize message_type_table \<Longrightarrow> ci s \<noteq> ci (tstrings message_type_table ! i)"
  shows "mms_string_to_message_type G s = -1 \<and>
         string_to_versioned_number G s message_type_table v = 4294967295"
  using message_type_tab.string_to_number_unknown [OF assms(1), of s] versioned_unknown [OF assms] assms(2)
  by (simp add: accessor_defs)

theorem unknown_string_results_witness:
  "mms_string_to_message_type gwlib_ref ''bogus'' = -1 \<and>
   string_to_versioned_number gwlib_ref ''bogus'' message_type_table 1 = 4294967295"
proof (rule unknown_string_results [OF gwlib_ref_api])
  have "list_all (\<lambda>t. ci ''bogus'' \<noteq> ci t) (tstrings message_type_table)" by code_simp
  then show "ci ''bogus'' \<noteq> ci (tstrings message_type_table ! i)" if "i < tsize message_type_table" for i
    using that message_type_tab.len by (simp add: list_all_length)
qed

text \<open>The string tables are allocated exactly while the number of initialisations exceeds the
  number of shutdowns, for every sequence of calls in which no shutdown comes before its
  initialisation.\<close>

theorem strings_live_while_used:
  assumes "balanced 0 es"
  shows "tables_live (strings_run strings_start es) \<longleftrightarrow> count_list es False < count_list es True"
proof -
  have inv: "strings_inv strings_start" by (simp add: strings_inv_def strings_start_def)
  from strings_run_count [OF inv, of es] assms
  have "initialized (strings_run strings_start es) = int (count_list es True) - int (count_list es False)"
    by (simp add: strings_start_def)
  with strings_run_inv [OF inv, of es] show ?thesis by (auto simp: strings_inv_def)
qed

theorem strings_live_while_used_witness:
  "tables_live (strings_run strings_start [True, True, False])"
  using strings_live_while_used [of "[True, True, False]"] by simp

text \<open>The SOAP tag table is ambiguous: its entry 58, \<open>MM7_TAG_distributionIndicator\<close>, has the same
  string as entry 11, so no string is ever decoded as 58.\<close>

theorem mm7tag_ambiguous:
  assumes "gwlib_api G"
  shows "mms_mm7tag_to_cstr 58 = Some ''DistributionIndicator'' \<and> mms_string_to_mm7tag G s \<noteq> 58"
proof -
  have cstr: "mms_mm7tag_to_cstr 58 = Some ''DistributionIndicator''"
    and same: "tstrings mm7tag_table ! 11 = tstrings mm7tag_table ! 58"
    and lin: "tlinear mm7tag_table"
    by code_simp+
  have "mms_string_to_mm7tag G s \<noteq> 58"
  proof
    assume "mms_string_to_mm7tag G s = 58"
    then have "List.find (\<lambda>i. gw_case_compare G s (tstrings mm7tag_table ! i) = 0) [0 ..< tsize mm7tag_table] = Some 58"
      using lin by (auto simp: accessor_defs string_to_number_def split: option.splits)
    then have "gw_case_compare G s (tstrings mm7tag_table ! 58) = 0"
      and "\<not> gw_case_compare G s (tstrings mm7tag_table ! 11) = 0"
      by (auto simp: find_Some_iff)
    with same show False by simp
  qed
  with cstr show ?thesis by simp
qed

theorem mm7tag_ambiguous_witness: "mms_string_to_mm7tag gwlib_ref ''DistributionIndicator'' \<noteq> 58"
  using mm7tag_ambiguous [OF gwlib_ref_api] by blast

end
