(* ===== verification/MmsUtil.thy ===== *)
theory MmsUtil
  imports MmsStrings "HOL-Library.Multiset"
begin

text \<open>
  Helper functions of \<open>mmlib/mms_util.c\<close>, with the address validation of \<open>mms_msg.c\<close> and the
  address clean-up of \<open>mms_queue.c\<close>: recipient addresses and phone numbers, transaction and message
  identifiers, shell escaping and the mail command, header values with parameters, file extensions,
  tokens and envelope data taken from message headers.
\<close>

section \<open>Addresses\<close>

text \<open>Result 0 is valid, -1 is not.\<close>

definition mms_validate_address :: "gwlib \<Rightarrow> octstr option \<Rightarrow> int" where
  "mms_validate_address G so =
     (case so of
        None \<Rightarrow> -1
      | Some s \<Rightarrow>
          let i = octstr_search_char s CHR ''/'' 0; l = int (length s) in
          if octstr_search_char s CHR ''@'' 0 > 0 then 0
          else if i \<ge> 0
          then if gw_case_search G s ''PLMN'' 0 + 4 = l \<or>
                  gw_case_search G s ''IPv4'' 0 + 4 = l \<or>
                  gw_case_search G s ''IPv6'' 0 + 4 = l
               then 0 else -1
          else -1)"

definition isphonenum :: "octstr \<Rightarrow> bool" where
  "isphonenum s =
     (let i = (if length s \<ge> 1 \<and> s ! 0 = CHR ''+'' then 1 else 0)
      in list_all isdigit (drop i s))"

fun strip_first_prefix :: "gwlib \<Rightarrow> octstr list \<Rightarrow> octstr \<Rightarrow> octstr" where
  "strip_first_prefix G [] num = num"
| "strip_first_prefix G (x # xs) num =
     (if gw_search G num x 0 = 0 then octstr_delete num 0 (length x)
      else strip_first_prefix G xs num)"

definition mms_normalize_phonenum ::
  "gwlib \<Rightarrow> octstr option \<Rightarrow> octstr option \<Rightarrow> octstr list \<Rightarrow> octstr option" where
  "mms_normalize_phonenum G num unified_prefix strip_prefixes =
     (case num of
        None \<Rightarrow> None
      | Some n \<Rightarrow>
          let n1 = strip_first_prefix G strip_prefixes n in
          case unified_prefix of
            None \<Rightarrow> Some n1
          | Some u \<Rightarrow> Some (gw_normalize_number G u n1))"

definition mms_fixup_address ::
  "gwlib \<Rightarrow> octstr option \<Rightarrow> octstr option \<Rightarrow> octstr list \<Rightarrow> bool \<Rightarrow> octstr option" where
  "mms_fixup_address G address unified_prefix strip_prefixes keep_suffix =
     (case address of
        None \<Rightarrow> None
      | Some a \<Rightarrow>
          if octstr_search_char a CHR ''@'' 0 > 0 then Some a
          else
            let i = gw_case_search G a ''/TYPE='' 0;
                typ = (if i > 0 then Some (octstr_copy a (nat i) (length a)) else None);
                b = (if i > 0 then octstr_delete a (nat i) (length a) else a) in
            if isphonenum b \<or>
               (case typ of Some ty \<Rightarrow> gw_case_compare G ty ''/TYPE=PLMN'' = 0 | None \<Rightarrow> False)
            then map_option (\<lambda>n. n @ (if keep_suffix then ''/TYPE=PLMN'' else []))
                   (mms_normalize_phonenum G (Some b) unified_prefix strip_prefixes)
            else case typ of
                   Some ty \<Rightarrow> Some (b @ (if keep_suffix then ty else []))
                 | None \<Rightarrow> Some (b @ (if keep_suffix then ''@unknown'' else [])))"

definition copy_and_clean_address :: "gwlib \<Rightarrow> octstr option \<Rightarrow> octstr option" where
  "copy_and_clean_address G addr =
     (case addr of
        None \<Rightarrow> None
      | Some a \<Rightarrow>
          let s = gw_strip_blanks G a;
              k = octstr_search_char s CHR ''@'' 0;
              i = octstr_search_char s CHR ''<'' 0;
              r = (if k < 0 then s
                   else if i \<ge> 0
                   then let s1 = octstr_delete s 0 (nat i + 1);
                            j = octstr_search_char s1 CHR ''>'' 0
                        in if j \<ge> 0 then octstr_delete s1 (nat j) (length s1) else s1
                   else case List.find (\<lambda>i. isspace (s ! i)) [nat k + 1 ..< length s] of
                          Some i \<Rightarrow> octstr_delete s i (length s)
                        | None \<Rightarrow> s)
          in if length r = 0 then None else Some r)"

definition extract_phonenum :: "gwlib \<Rightarrow> octstr \<Rightarrow> octstr option \<Rightarrow> octstr" where
  "extract_phonenum G num unified_prefix =
     (let j = gw_case_search G num ''/TYPE=PLMN'' 0;
          phonenum = (if j > 0 \<and> j - 1 + 11 = int (length num) then octstr_copy num 0 (nat j) else num)
      in case unified_prefix of
           Some u \<Rightarrow> gw_normalize_number G u phonenum
         | None \<Rightarrow> phonenum)"

definition addmmscname :: "gwlib \<Rightarrow> octstr \<Rightarrow> octstr \<Rightarrow> octstr" where
  "addmmscname G s myhostname =
     (if octstr_search_char s CHR ''@'' 0 \<ge> 0 then s
      else let j = gw_case_search G s ''/TYPE=PLMN'' 0
           in if j > 0 \<and> j - 1 + 11 = int (length s) then s @ ''@'' @ myhostname else s)"

definition is_allowed_host :: "gwlib \<Rightarrow> octstr \<Rightarrow> octstr \<Rightarrow> bool" where
  "is_allowed_host G host host_list =
     (List.find (\<lambda>item. gw_case_compare G item host = 0) (gw_split G host_list '';'') \<noteq> None)"

text \<open>\<open>unsigned h\<close> sums \<open>((unsigned) tolower (*s) << 4) + 1249\<close>; \<open>*s\<close> is a signed char.\<close>

definition signed_char :: "char \<Rightarrow> int" where
  "signed_char c = (let n = int (of_char c) in if n \<ge> 128 then n - 256 else n)"

definition mshash :: "string \<Rightarrow> 32 word" where
  "mshash s = fold (\<lambda>c h. h + (push_bit 4 (word_of_int (signed_char (tolower c))) + 1249)) s 0"

section \<open>Transaction and message identifiers\<close>

text \<open>Without a queue file name an identifier is made of the clock, a counter, the process id and a
  random number, the arguments \<open>tm\<close>, \<open>ct\<close>, \<open>pid\<close> and \<open>rnd\<close>; the counter is returned advanced.\<close>

definition fresh_id :: "int \<Rightarrow> int \<Rightarrow> int \<Rightarrow> int \<Rightarrow> octstr" where
  "fresh_id tm ct pid rnd =
     ''msg.'' @ show_int (tm mod 10000) @ ''.x'' @ show_int (ct mod 1000) @ ''.'' @
     show_int (pid mod 100) @ ''.'' @ show_int (rnd mod 100)"

definition mms_maketransid ::
  "int \<Rightarrow> int \<Rightarrow> int \<Rightarrow> int \<Rightarrow> octstr option \<Rightarrow> octstr \<Rightarrow> octstr \<times> int" where
  "mms_maketransid tm ct pid rnd qf mmscname =
     (case qf of
        None \<Rightarrow> (mmscname @ ''-'' @ fresh_id tm (ct + 1) pid rnd, ct + 1)
      | Some q \<Rightarrow> (mmscname @ ''-'' @ q, ct))"

definition mms_make_msgid ::
  "int \<Rightarrow> int \<Rightarrow> int \<Rightarrow> int \<Rightarrow> octstr option \<Rightarrow> octstr option \<Rightarrow> octstr \<times> int" where
  "mms_make_msgid tm ct pid rnd qf mmscname =
     (let (x, ct') = (case qf of None \<Rightarrow> (fresh_id tm (ct + 1) pid rnd, ct + 1) | Some q \<Rightarrow> (q, ct))
      in (case mmscname of Some m \<Rightarrow> (x @ ''@'' @ m, ct') | None \<Rightarrow> (x, ct')))"

definition mms_getqf_fromtransid :: "octstr option \<Rightarrow> octstr option" where
  "mms_getqf_fromtransid transid =
     (case transid of
        None \<Rightarrow> None
      | Some t \<Rightarrow>
          let i = octstr_search_char t CHR ''-'' 0;
              i' = (if i < 0 then octstr_search_char t CHR ''@'' 0 else i)
          in if i' \<ge> 0 then Some (octstr_copy t (nat i' + 1) (length t)) else Some t)"

definition mms_getqf_from_msgid :: "octstr option \<Rightarrow> octstr option" where
  "mms_getqf_from_msgid msgid =
     (case msgid of
        None \<Rightarrow> None
      | Some m \<Rightarrow>
          let i = octstr_search_char m CHR ''@'' 0
          in if i > 0 then Some (octstr_copy m 0 (nat i)) else mms_getqf_fromtransid msgid)"

section \<open>The mail command\<close>

definition shellchars :: string where
  "shellchars = [CHR 0x27, CHR ''|'', CHR 0x22, CHR ''('', CHR '')'', CHR ''['', CHR '']'', CHR ''{'',
     CHR ''}'', CHR ''$'', CHR ''&'', CHR ''!'', CHR ''?'', CHR ''*'', CHR ''>'', CHR ''<'', CHR ''%'',
     CHR 0x60, CHR 0x0A, CHR '' '', CHR 0x09, CHR 0x5C]"

text \<open>\<open>strchr\<close> also finds the terminating NUL byte.\<close>

definition is_shell_char :: "char \<Rightarrow> bool" where
  "is_shell_char c = (c \<in> set shellchars \<or> c = CHR 0x00)"

definition escape_shell_chars :: "gwlib \<Rightarrow> octstr \<Rightarrow> octstr" where
  "escape_shell_chars G str =
     concat (map (\<lambda>ch. (if is_shell_char ch then [CHR 0x5C] else []) @ [ch]) (gw_strip_blanks G str))"

text \<open>The command line that \<open>send2email\<close> hands to \<open>popen\<close>: the template with its \<open>%\<close> letters
  replaced.\<close>

definition mail_letter ::
  "gwlib \<Rightarrow> octstr \<Rightarrow> octstr \<Rightarrow> octstr \<Rightarrow> octstr \<Rightarrow> bool \<Rightarrow> octstr \<Rightarrow> char \<Rightarrow> octstr" where
  "mail_letter G to from subject msgid append_hostname myhostname c =
     (if c = CHR ''t'' then escape_shell_chars G to
      else if c = CHR ''f''
      then if append_hostname then escape_shell_chars G (addmmscname G from myhostname)
           else escape_shell_chars G from
      else if c = CHR ''s'' then subject
      else if c = CHR ''m'' then msgid
      else if c = CHR ''%'' then ''%''
      else [CHR ''%'', c])"

fun mail_command ::
  "gwlib \<Rightarrow> octstr \<Rightarrow> octstr \<Rightarrow> octstr \<Rightarrow> octstr \<Rightarrow> bool \<Rightarrow> octstr \<Rightarrow> string \<Rightarrow> octstr" where
  "mail_command G to from subject msgid ah host [] = []"
| "mail_command G to from subject msgid ah host [c] = [c]"
| "mail_command G to from subject msgid ah host (c # d # r) =
     (if c \<noteq> CHR ''%'' then c # mail_command G to from subject msgid ah host (d # r)
      else mail_letter G to from subject msgid ah host d @ mail_command G to from subject msgid ah host r)"

section \<open>Envelope data from message headers\<close>

record envdata =
  ed_to :: "octstr option list"
  ed_subject :: "octstr option"
  ed_transid :: "octstr option"
  ed_expiry :: int
  ed_delivery :: int

definition mms_collect_envdata_from_msgheaders ::
  "gwlib \<Rightarrow> int \<Rightarrow> headers \<Rightarrow> octstr option list \<Rightarrow> int \<Rightarrow> int \<Rightarrow> octstr option \<Rightarrow> octstr list \<Rightarrow> envdata" where
  "mms_collect_envdata_from_msgheaders G tnow mh xto default_msgexpiry max_msgexpiry unified_prefix strip_prefixes =
     (let fix = (\<lambda>h. mms_fixup_address G (Some (snd h)) unified_prefix strip_prefixes True);
          expiry = (case gw_header_value G mh ''X-Mms-Expiry'' of
                      Some s \<Rightarrow> gw_date_parse_http G s
                    | None \<Rightarrow> tnow + default_msgexpiry)
      in \<lparr> ed_to = xto @ map fix (gw_header_find_all G mh ''To'') @
                   map fix (gw_header_find_all G mh ''Cc'') @
                   map fix (gw_header_find_all G mh ''Bcc''),
           ed_subject = gw_header_value G mh ''Subject'',
           ed_transid = gw_header_value G mh ''X-Mms-Transaction-ID'',
           ed_expiry = (if max_msgexpiry > 0 \<and> expiry - tnow > max_msgexpiry
                        then tnow + max_msgexpiry else expiry),
           ed_delivery = (case gw_header_value G mh ''X-Mms-Delivery-Time'' of
                            Some s \<Rightarrow> gw_date_parse_http G s
                          | None \<Rightarrow> 0) \<rparr>)"

section \<open>Facts on addresses\<close>

lemma isphonenum_chars: "isphonenum s \<Longrightarrow> c \<in> set s \<Longrightarrow> isdigit c \<or> c = CHR ''+''"
  by (cases s) (auto simp: isphonenum_def Let_def list_all_iff split: if_splits)

lemma phone_no_special:
  assumes "isphonenum s"
  shows "CHR ''@'' \<notin> set s" and "CHR ''/'' \<notin> set s" and "CHR ''p'' \<notin> set s"
  using isphonenum_chars [OF assms, of "CHR ''@''"] isphonenum_chars [OF assms, of "CHR ''/''"]
    isphonenum_chars [OF assms, of "CHR ''p''"]
  by (auto simp: isdigit_def)

lemma ci_digit: "isdigit c \<Longrightarrow> tolower c = c"
  by (simp add: isdigit_def Let_def)

lemma phone_ci: "isphonenum s \<Longrightarrow> ci s = s"
  unfolding ci_def by (rule map_idI) (auto dest!: isphonenum_chars simp: ci_digit)

text \<open>An address whose type suffix is \<open>/TYPE=PLMN\<close>, with nothing in front of it that could be
  taken for the type or for a mail address, is valid.\<close>

lemma type_suffix_first:
  assumes "c \<notin> set a" and "length p = 4" and "hd p = c" and "c = CHR ''p'' \<or> c = CHR ''i''"
    and "p ! 1 \<noteq> CHR ''e''"
  shows "sub_pos (a @ ''/type='' @ p) p 0 = int (length a + 6)"
proof (rule sub_pos_first)
  from assms(2) obtain x y z w where p: "p = [x, y, z, w]"
    by (auto simp: numeral_eq_Suc length_Suc_conv)
  show "take (length p) (drop i (a @ ''/type='' @ p)) \<noteq> p" if i: "i < length a + 6" for i
  proof (cases "i < length a")
    case True
    have "hd (take (length p) (drop i (a @ ''/type='' @ p))) = a ! i"
      using True p by (simp add: hd_take hd_drop_conv_nth nth_append del: drop_append)
    moreover have "a ! i \<noteq> c" using True assms(1) by auto
    ultimately show ?thesis using assms(3) by metis
  next
    case False
    then obtain j where j: "i = length a + j" "j < 6" using i by (metis le_Suc_ex not_le nat_add_left_cancel_less)
    then have "j \<in> {0, 1, 2, 3, 4, 5}" by auto
    with j(1) assms(3-) p show ?thesis by auto
  qed
qed (use assms(2) in simp_all)

lemma validate_typed:
  assumes G: "gwlib_api G" and "CHR ''@'' \<notin> set a"
    and ty: "ty = ''PLMN'' \<and> CHR ''p'' \<notin> set (ci a) \<or> (ty = ''IPv4'' \<or> ty = ''IPv6'') \<and> CHR ''i'' \<notin> set (ci a)"
  shows "mms_validate_address G (Some (a @ ''/TYPE='' @ ty)) = 0"
proof -
  let ?s = "a @ ''/TYPE='' @ ty"
  have cis: "ci ?s = ci a @ ''/type='' @ ci ty" by (simp add: ci_def)
  have pos: "sub_pos (ci ?s) (ci ty) 0 + 4 = int (length ?s)"
    unfolding cis using ty type_suffix_first [of "CHR ''p''" "ci a" "ci ty"] type_suffix_first [of "CHR ''i''" "ci a" "ci ty"]
    by (auto simp: ci_def)
  have "octstr_search_char ?s CHR ''@'' 0 = -1"
    using assms(2) ty by (intro octstr_search_char_none) auto
  moreover have "octstr_search_char ?s CHR ''/'' 0 \<ge> 0"
    by (simp add: octstr_search_char_ge0_iff)
  ultimately show ?thesis
    using pos ty by (auto simp: mms_validate_address_def Let_def gwlib_api.case_search [OF G])
qed

lemma validate_email: "octstr_search_char s CHR ''@'' 0 > 0 \<Longrightarrow> mms_validate_address G (Some s) = 0"
  by (simp add: mms_validate_address_def)

lemma fixup_email:
  "octstr_search_char s CHR ''@'' 0 > 0 \<Longrightarrow> mms_fixup_address G (Some s) u sp k = Some s"
  by (simp add: mms_fixup_address_def)

text \<open>Where the type suffix starts, for an address part without a slash.\<close>

lemma case_search_type:
  assumes "gwlib_api G" and "CHR ''/'' \<notin> set a"
  shows "gw_case_search G (a @ ''/TYPE='' @ ty) ''/TYPE='' 0 = int (length a)"
proof -
  have "CHR ''/'' \<notin> set (ci a)" using assms(2)
    by (simp add: nonletter_in_ci)
  then show ?thesis
    using sub_pos_hit [of "CHR ''/''" "ci a" "''type=''" "ci ty"]
    by (simp add: gwlib_api.case_search [OF assms(1)] ci_def)
qed

lemma case_search_no_slash:
  assumes "gwlib_api G" and "CHR ''/'' \<notin> set a"
  shows "gw_case_search G a (CHR ''/'' # q) 0 = -1"
proof -
  have "CHR ''/'' \<notin> set (ci a)" using assms(2)
    by (simp add: nonletter_in_ci)
  then show ?thesis
    using sub_pos_miss [of "CHR ''/''" "ci a" "ci q"]
    by (simp add: gwlib_api.case_search [OF assms(1)] ci_Cons)
qed

lemma fixup_phone:
  assumes "gwlib_api G" and "isphonenum s"
  shows "mms_fixup_address G (Some s) None [] True = Some (s @ ''/TYPE=PLMN'')"
  using assms phone_no_special [OF assms(2)] case_search_no_slash [OF assms(1), of s "''TYPE=''"]
  by (simp add: mms_fixup_address_def octstr_search_char_none mms_normalize_phonenum_def Let_def)

lemma fixup_typed:
  assumes G: "gwlib_api G" and "a \<noteq> []" and "CHR ''@'' \<notin> set (a @ ty)" and "CHR ''/'' \<notin> set a"
  shows "mms_fixup_address G (Some (a @ ''/TYPE='' @ ty)) None [] True =
    Some (a @ (if isphonenum a \<or> ci ty = ''plmn'' then ''/TYPE=PLMN'' else ''/TYPE='' @ ty))"
proof -
  have at: "octstr_search_char (a @ ''/TYPE='' @ ty) CHR ''@'' 0 = -1"
    using assms(3) by (intro octstr_search_char_none) auto
  have "ci (''/TYPE='' @ ty) = ci ''/TYPE=PLMN'' \<longleftrightarrow> ci ty = ''plmn''"
    by (simp add: ci_def)
  with at case_search_type [OF G assms(4), of ty] assms(2) show ?thesis
    by (simp add: mms_fixup_address_def mms_normalize_phonenum_def Let_def octstr_defs
        gwlib_api.case_compare [OF G])
qed

section \<open>Facts on identifiers, commands and dates\<close>

lemma getqf_after_hyphen:
  "CHR ''-'' \<notin> set m \<Longrightarrow> mms_getqf_fromtransid (Some (m @ CHR ''-'' # q)) = Some q"
  by (simp add: mms_getqf_fromtransid_def octstr_search_char_split Let_def octstr_defs)

lemma getqf_before_at:
  "CHR ''@'' \<notin> set q \<Longrightarrow> q \<noteq> [] \<Longrightarrow> mms_getqf_from_msgid (Some (q @ CHR ''@'' # m)) = Some q"
  by (simp add: mms_getqf_from_msgid_def octstr_search_char_split Let_def octstr_defs)

text \<open>What the shell reads back: a backslash quotes the byte after it.\<close>

fun unescape :: "string \<Rightarrow> string" where
  "unescape [] = []"
| "unescape [c] = [c]"
| "unescape (c # d # s) = (if c = CHR 0x5C then d # unescape s else c # unescape (d # s))"

definition escape1 :: "char \<Rightarrow> string" where
  "escape1 ch = (if is_shell_char ch then [CHR 0x5C] else []) @ [ch]"

lemma unescape_Cons: "c \<noteq> CHR 0x5C \<Longrightarrow> unescape (c # s) = c # unescape s"
  by (cases s) auto

lemma unescape_escape1: "unescape (escape1 c @ s) = c # unescape s"
proof -
  have "is_shell_char CHR 0x5C" by (simp add: is_shell_char_def shellchars_def)
  then show ?thesis by (cases s) (auto simp: escape1_def)
qed

lemma unescape_escape: "unescape (concat (map escape1 s)) = s"
  by (induction s) (simp_all add: unescape_escape1)

lemma escape_shell_chars_alt: "escape_shell_chars G str = concat (map escape1 (gw_strip_blanks G str))"
  by (simp add: escape_shell_chars_def escape1_def [abs_def])

text \<open>No byte of \<open>shellchars\<close> stands unquoted.\<close>

fun quoted_ok :: "string \<Rightarrow> bool" where
  "quoted_ok [] = True"
| "quoted_ok (c # s) =
     (if c = CHR 0x5C then (case s of [] \<Rightarrow> False | d # s' \<Rightarrow> quoted_ok s')
      else \<not> is_shell_char c \<and> quoted_ok s)"

lemma quoted_ok_escape: "quoted_ok (concat (map escape1 s))"
proof (induction s)
  case (Cons c s)
  have "is_shell_char CHR 0x5C" by (simp add: is_shell_char_def shellchars_def)
  with Cons show ?case by (auto simp: escape1_def)
qed simp

lemma mshash_perm_fold:
  "fold (\<lambda>c h. h + f c) s (h :: 'a :: comm_monoid_add) = h + sum_list (map f s)"
  by (induction s arbitrary: h) (simp_all add: ac_simps)


section \<open>Properties\<close>



text \<open>The validation accepts every three-byte address that has a slash and none of the letters
  p and i, such as \<open>1/2\<close>: \<open>octstr_case_search\<close> answers -1 when the type is absent, and -1 + 4 is the
  length.\<close>

theorem validate_accepts_short:
  assumes "gwlib_api G" and "length s = 3" and "CHR ''/'' \<in> set s" and "CHR ''p'' \<notin> set (ci s)"
  shows "mms_validate_address G (Some s) = 0"
proof -
  have "gw_case_search G s ''PLMN'' 0 = -1"
    using sub_pos_miss [of "CHR ''p''" "ci s" "ci ''LMN''"] assms(4)
    by (simp add: gwlib_api.case_search [OF assms(1)] ci_Cons)
  with assms(2,3) show ?thesis by (simp add: mms_validate_address_def octstr_search_char_ge0_iff)
qed

theorem validate_accepts_short_witness: "mms_validate_address gwlib_ref (Some ''1/2'') = 0"
  by (rule validate_accepts_short [OF gwlib_ref_api]) (simp_all add: ci_def)

text \<open>A transaction identifier made from a queue file name leads back to that name when the MMSC
  name has no hyphen, and a message identifier does when the queue file name has no at sign.\<close>

theorem id_roundtrip:
  assumes "CHR ''-'' \<notin> set mmscname" and "CHR ''@'' \<notin> set qf" and "qf \<noteq> []"
  shows "mms_getqf_fromtransid (Some (fst (mms_maketransid tm ct pid rnd (Some qf) mmscname))) = Some qf \<and>
         mms_getqf_from_msgid (Some (fst (mms_make_msgid tm ct pid rnd (Some qf) (Some mmscname)))) = Some qf"
  using getqf_after_hyphen [OF assms(1), of qf] getqf_before_at [OF assms(2,3), of mmscname]
  by (simp add: mms_maketransid_def mms_make_msgid_def)

theorem id_roundtrip_witness:
  "mms_getqf_fromtransid (Some (fst (mms_maketransid 0 0 0 0 (Some ''a-bc-qf1'') ''mmsc''))) = Some ''a-bc-qf1''"
  using id_roundtrip [of "''mmsc''" "''a-bc-qf1''" 0 0 0 0] by simp

text \<open>When the MMSC name does have a hyphen, the name taken back from a transaction identifier is
  never the queue file name it was made from.\<close>

theorem transid_hyphen_breaks:
  assumes "CHR ''-'' \<in> set mmscname"
  shows "mms_getqf_fromtransid (Some (fst (mms_maketransid tm ct pid rnd (Some qf) mmscname))) \<noteq> Some qf"
proof -
  from assms obtain a b where m: "mmscname = a @ CHR ''-'' # b" "CHR ''-'' \<notin> set a"
    by (metis split_list_first)
  then have "mms_getqf_fromtransid (Some (fst (mms_maketransid tm ct pid rnd (Some qf) mmscname))) =
      Some (b @ CHR ''-'' # qf)"
    using getqf_after_hyphen [of a "b @ CHR ''-'' # qf"] by (simp add: mms_maketransid_def)
  then show ?thesis by (auto dest: arg_cong [where f = length])
qed

theorem transid_hyphen_breaks_witness:
  "mms_getqf_fromtransid (Some (fst (mms_maketransid 0 0 0 0 (Some ''qf1'') ''mms-gw''))) \<noteq> Some ''qf1''"
  by (rule transid_hyphen_breaks) simp

text \<open>Shell escaping quotes every byte of the metacharacter list and loses nothing: no listed byte
  stands unquoted in the result, and what the shell reads back is the argument without its
  surrounding blanks.\<close>

theorem escape_shell_chars_correct:
  assumes "gwlib_api G"
  shows "quoted_ok (escape_shell_chars G s) \<and> unescape (escape_shell_chars G s) = strip_ws s"
  by (simp add: escape_shell_chars_alt quoted_ok_escape unescape_escape gwlib_api.strip_blanks [OF assms])

theorem escape_shell_chars_correct_witness:
  "unescape (escape_shell_chars gwlib_ref ''a $b'') = strip_ws ''a $b''"
  using escape_shell_chars_correct [OF gwlib_ref_api] by blast

text \<open>The mail command is not safe against its arguments: the subject is put into the command
  line as it is (the escaped copy is thrown away), and a semicolon, the shell's command separator,
  is not in the list of escaped bytes, so it survives in an escaped recipient.\<close>

theorem mail_command_injection:
  assumes "gwlib_api G"
  shows "mail_command G to from subject msgid ah host ''mail -s %s'' = ''mail -s '' @ subject \<and>
         mail_command G ''a;b'' from subject msgid ah host ''mail %t'' = ''mail a;b''"
proof -
  have "strip_ws ''a;b'' = ''a;b''" by code_simp
  then show ?thesis
    by (simp add: mail_letter_def escape_shell_chars_alt escape1_def is_shell_char_def shellchars_def
        gwlib_api.strip_blanks [OF assms])
qed

theorem mail_command_injection_witness:
  "mail_command gwlib_ref ''a;b'' ''f'' ''s'' ''m'' True ''h'' ''mail %t'' = ''mail a;b''"
  using mail_command_injection [OF gwlib_ref_api] by blast

text \<open>The expiry time taken from a message's headers is never later than the configured maximum
  after now, and without an expiry header it is the default, or the maximum if that is less.\<close>

theorem expiry_clamped:
  assumes "gwlib_api G" and "0 < mx"
  shows "ed_expiry (mms_collect_envdata_from_msgheaders G tnow mh xto df mx u sp) \<le> tnow + mx \<and>
    (header_value mh ''X-Mms-Expiry'' = None \<longrightarrow>
     ed_expiry (mms_collect_envdata_from_msgheaders G tnow mh xto df mx u sp) = tnow + min df mx)"
  using assms(2)
  by (auto simp: mms_collect_envdata_from_msgheaders_def gwlib_api.header_value [OF assms(1)] Let_def
      split: option.splits)

theorem expiry_clamped_witness:
  "ed_expiry (mms_collect_envdata_from_msgheaders gwlib_ref 1000 [(''X-Mms-Expiry'', ''9999'')] [] 5 60 None []) \<le> 1060"
  using expiry_clamped [OF gwlib_ref_api, of 60 1000 "[(''X-Mms-Expiry'', ''9999'')]" "[]" 5 None "[]"] by simp

text \<open>The hash that spreads user mailboxes over directories only counts the bytes of the user name:
  names that are permutations of each other, up to case, always share a directory.\<close>

theorem mshash_permutation:
  assumes "mset (ci s) = mset (ci t)"
  shows "mshash s = mshash t"
proof -
  let ?f = "\<lambda>c. push_bit 4 (word_of_int (signed_char c) :: 32 word) + 1249"
  have sum: "mshash x = sum_list (map ?f (ci x))" for x
    using mshash_perm_fold [of "\<lambda>c. ?f (tolower c)" x 0] by (simp add: mshash_def ci_def comp_def)
  have "sum_mset (image_mset ?f (mset (ci s))) = sum_mset (image_mset ?f (mset (ci t)))"
    using assms by simp
  then have "sum_list (map ?f (ci s)) = sum_list (map ?f (ci t))"
    by (simp add: sum_mset_sum_list [symmetric])
  then show ?thesis by (simp add: sum)
qed

theorem mshash_permutation_witness: "mshash ''256772'' = mshash ''772562''"
  by (rule mshash_permutation) (simp add: ci_def)

end
