(* ===== verification/MmsMime.thy ===== *)
theory MmsMime
  imports MmsUtil
begin

text \<open>
  Headers and MIME entities: the header value and parameter syntax, content types, file extensions,
  transfer encodings and header rewriting of \<open>mmlib/mms_util.c\<close>, and the WAP multipart body encoder
  and decoder of \<open>mmlib/mms_msg.c\<close>.
\<close>

section \<open>Header values and their parameters\<close>

definition strip_quotes :: "octstr \<Rightarrow> octstr" where
  "strip_quotes s =
     (if s = [] then s
      else let s1 = (if hd s = CHR 0x22 then octstr_delete s 0 1 else s)
           in if octstr_get_char s1 (int (length s1) - 1) = Some CHR 0x22
              then octstr_delete s1 (length s1 - 1) 1 else s1)"

text \<open>The loop of \<open>get_value_parameters\<close> at index \<open>i\<close>, with the parameter text starting at \<open>k\<close>. A
  quoted string is at least one byte long, so the index always advances.\<close>

function value_parameters_loop :: "gwlib \<Rightarrow> octstr \<Rightarrow> nat \<Rightarrow> nat \<Rightarrow> headers \<Rightarrow> headers" where
  "value_parameters_loop G xparams i k h =
     (if i \<ge> length xparams then h
      else if xparams ! i = CHR '';''
      then let j = octstr_search_char xparams CHR ''='' k;
               h' = (if j > 0 \<and> j < int i
                     then let name = gw_strip_blanks G (octstr_copy xparams k (nat j - k));
                              value = strip_quotes (gw_strip_blanks G (octstr_copy xparams (nat j + 1) (i - nat j - 1)))
                          in if length name > 0 then h @ [(name, value)] else h
                     else h)
           in value_parameters_loop G xparams (i + 1) (i + 1) h'
      else if xparams ! i = CHR 0x22
      then value_parameters_loop G xparams (i + max 1 (gw_quoted_string_len G xparams i)) k h
      else value_parameters_loop G xparams (i + 1) k h)"
  by pat_completeness auto
termination
  by (relation "measure (\<lambda>(G, xparams, i, k, h). length xparams - i)") auto

declare value_parameters_loop.simps [simp del]

definition get_value_parameters :: "gwlib \<Rightarrow> octstr \<Rightarrow> headers" where
  "get_value_parameters G params = value_parameters_loop G (params @ '';'') 0 0 []"

text \<open>The index of the first semicolon outside quotes, or the length.\<close>

function split_value_loop :: "gwlib \<Rightarrow> octstr \<Rightarrow> nat \<Rightarrow> nat" where
  "split_value_loop G value i =
     (if i \<ge> length value then i
      else if value ! i = CHR '';'' then i
      else if value ! i = CHR 0x22 then split_value_loop G value (i + max 1 (gw_quoted_string_len G value i))
      else split_value_loop G value (i + 1))"
  by pat_completeness auto
termination
  by (relation "measure (\<lambda>(G, value, i). length value - i)") auto

declare split_value_loop.simps [simp del]

definition split_header_value :: "gwlib \<Rightarrow> octstr \<Rightarrow> octstr \<times> octstr" where
  "split_header_value G value =
     (let i = split_value_loop G value 0
      in if i < length value
         then (octstr_delete value i (length value), octstr_copy value (i + 1) (length value))
         else (value, []))"

text \<open>Result, type and parameters; -1 when there is no content type.\<close>

definition get_content_type :: "gwlib \<Rightarrow> headers \<Rightarrow> int \<times> octstr \<times> octstr" where
  "get_content_type G hdrs =
     (case gw_header_value G hdrs ''Content-Type'' of
        None \<Rightarrow> (-1, ''application/octet-stream'', [])
      | Some v \<Rightarrow> (0, split_header_value G v))"

definition is_mime_special_char :: "char \<Rightarrow> bool" where
  "is_mime_special_char ch = (ch \<in> set (''=;<>[]?()@:'' @ [CHR 0x5C] @ ''/,''))"

definition needs_quotes :: "octstr \<Rightarrow> bool" where
  "needs_quotes s = (\<exists>ch \<in> set s. isspace ch \<or> is_mime_special_char ch)"

definition make_value_parameter :: "octstr \<times> octstr \<Rightarrow> octstr" where
  "make_value_parameter p =
     (let space = needs_quotes (snd p)
      in fst p @ ''='' @ (if space then [CHR 0x22] else []) @ snd p @ (if space then [CHR 0x22] else []))"

fun make_value_parameters :: "headers \<Rightarrow> octstr" where
  "make_value_parameters [] = []"
| "make_value_parameters (p # ps) =
     make_value_parameter p @ concat (map (\<lambda>q. ''; '' @ make_value_parameter q) ps)"

definition strip_quoted_string :: "gwlib \<Rightarrow> octstr option \<Rightarrow> octstr option" where
  "strip_quoted_string G so =
     map_option (\<lambda>s0. let s = gw_strip_blanks G s0 in
        if octstr_get_char s 0 = Some CHR 0x22
        then let s1 = octstr_delete s 0 1 in octstr_delete s1 (length s1 - 1) 1
        else s) so"

definition get_stripped_param_value :: "gwlib \<Rightarrow> octstr \<Rightarrow> octstr \<Rightarrow> octstr option" where
  "get_stripped_param_value G value param =
     (case gw_header_parameter G value param of
        None \<Rightarrow> None
      | Some x \<Rightarrow>
          if octstr_get_char x 0 = Some CHR 0x22 \<and> octstr_get_char x (int (length x) - 1) = Some CHR 0x22
          then let x1 = octstr_delete x 0 1 in Some (octstr_delete x1 (length x1 - 1) 1)
          else Some x)"

definition x_get_content_id :: "gwlib \<Rightarrow> headers \<Rightarrow> octstr option" where
  "x_get_content_id G headers =
     map_option (\<lambda>cid.
        if octstr_get_char cid 0 = Some CHR 0x22 \<and>
           octstr_get_char cid (int (length cid) - 1) \<noteq> Some CHR 0x22
        then octstr_delete cid 0 1 else cid)
       (gw_header_value G headers ''Content-ID'')"

definition make_url :: "http_url \<Rightarrow> octstr" where
  "make_url h =
     u_scheme h @
     (case u_user h of
        Some u \<Rightarrow> u @ (case u_pass h of Some p \<Rightarrow> '':'' @ p | None \<Rightarrow> []) @ ''@''
      | None \<Rightarrow> []) @
     u_host h @ '':'' @ show_int (u_port h) @ (case u_path h of Some p \<Rightarrow> p | None \<Rightarrow> []) @
     (case u_query h of Some x \<Rightarrow> ''?'' @ x | None \<Rightarrow> []) @
     (case u_fragment h of Some x \<Rightarrow> ''#'' @ x | None \<Rightarrow> [])"

definition is_separator_char :: "char \<Rightarrow> bool" where
  "is_separator_char c =
     (c \<in> set (''()<>@,;:'' @ [CHR 0x5C, CHR 0x22] @ ''/[]?={}'' @ [CHR 0x20, CHR 0x09]))"

definition is_token_char :: "char \<Rightarrow> bool" where
  "is_token_char c = (32 \<le> (of_char c :: nat) \<and> (of_char c :: nat) < 127 \<and> \<not> is_separator_char c)"

definition mms_is_token :: "octstr \<Rightarrow> bool" where
  "mms_is_token token = (length token > 0 \<and> list_all is_token_char token)"

section \<open>File extensions\<close>

definition exts :: "(string \<times> string) list" where
  "exts =
    [(''text/plain'', ''txt''),
     (''image/jpeg'', ''jpg''),
     (''image/jpeg'', ''jpeg''),
     (''image/png'', ''png''),
     (''image/tiff'', ''tiff''),
     (''image/gif'', ''gif''),
     (''image/bmp'', ''bmp''),
     (''image/vnd.wap.wbmp'', ''wbmp''),
     (''image/x-bmp'', ''bmp''),
     (''image/x-wmf'', ''bmp''),
     (''image/vnd.wap.wpng'', ''png''),
     (''image/x-up-wpng'', ''png''),
     (''audio/mpeg'', ''mp3''),
     (''audio/wav'', ''wav''),
     (''audio/basic'', ''au''),
     (''audio/amr'', ''amr''),
     (''audio/x-amr'', ''amr''),
     (''audio/amr-wb'', ''amr''),
     (''audio/midi'', ''mid''),
     (''audio/sp-midi'', ''mid''),
     (''application/smil'', ''smil''),
     (''application/smil'', ''smi''),
     (''application/vnd.wap.mms-message'', ''mms''),
     (''application/java-archive'', ''jar''),
     (''video/3gpp'', ''3gp''),
     (''video/3gpp'', ''3gp2''),
     (''video/3gpp2'', ''3g2''),
     (''audio/vnd.qcelp'', ''qcp''),
     (''application/vnd.mbuni.url-list'', ''urls'')]"

definition l_exts :: "(string \<times> string) list" where
  "l_exts =
    [(''Perl'', ''pl''),
     (''Php'', ''php''),
     (''Python'', ''py''),
     (''Common Gateway Interface'', ''cgi''),
     (''Active Server Page'', ''asp''),
     (''Java Server Page'', ''jsp''),
     (''Ruby on Rails'', ''rb''),
     (''Tool Command Language'', ''tcl''),
     (''Shell Command Language'', ''sh''),
     (''Executables'', ''exe'')]"

definition filename2content_type :: "string \<Rightarrow> octstr" where
  "filename2content_type fname =
     (case strrchr_split fname CHR ''.'' of
        None \<Rightarrow> ''application/octet-stream''
      | Some (_, ext) \<Rightarrow>
          case List.find (\<lambda>e. ci ext = ci (snd e)) exts of
            Some e \<Rightarrow> fst e
          | None \<Rightarrow> ''application/octet-stream'')"

text \<open>Returns the extension and the content type, which the code truncates in place.\<close>

definition content_type2file_ext :: "gwlib \<Rightarrow> octstr \<Rightarrow> string \<times> octstr" where
  "content_type2file_ext G ctype0 =
     (let j = octstr_search_char ctype0 CHR '';'' 0;
          ctype = (if j \<noteq> -1 then octstr_delete ctype0 (nat j) (length ctype0) else ctype0)
      in case List.find (\<lambda>e. gw_case_compare G ctype (fst e) = 0) exts of
           Some e \<Rightarrow> (snd e, ctype)
         | None \<Rightarrow> (''dat'', ctype))"

text \<open>The callers pass a zeroed buffer of five bytes, so four copied bytes stay terminated.\<close>

definition make_file_ext :: "gwlib \<Rightarrow> octstr option \<Rightarrow> octstr \<Rightarrow> string \<times> octstr" where
  "make_file_ext G url ctype =
     (case url of
        None \<Rightarrow> content_type2file_ext G ctype
      | Some u \<Rightarrow>
          case gw_parse_url G u of
            None \<Rightarrow> content_type2file_ext G ctype
          | Some h \<Rightarrow>
              let s = (case u_path h of Some p \<Rightarrow> p | None \<Rightarrow> []);
                  fext = (case strrchr_split s CHR ''.'' of Some (_, e) \<Rightarrow> strncpy 4 e | None \<Rightarrow> [])
              in if List.find (\<lambda>l. ci fext = ci (snd l)) l_exts \<noteq> None then content_type2file_ext G ctype
                 else if fext \<noteq> [] then (fext, ctype)
                 else content_type2file_ext G ctype)"

section \<open>Headers of MIME entities\<close>

definition drm_content_type :: "gwlib \<Rightarrow> octstr option \<Rightarrow> bool" where
  "drm_content_type G ctype =
     (case ctype of Some c \<Rightarrow> gw_case_search G c ''application/vnd.oma.drm'' 0 = 0 | None \<Rightarrow> False)"

text \<open>Comma-separated recipients become one header each; unnamed, unknown and malformed headers go.\<close>

definition unpack_header :: "gwlib \<Rightarrow> octstr \<times> octstr \<Rightarrow> headers" where
  "unpack_header G hv =
     (let header = fst hv; value = snd hv in
      if gw_compare G header ''X-Unknown'' = 0 \<or>
         (\<exists>c \<in> set header. c \<in> {CHR '' '', CHR 0x0A, CHR 0x09}) then []
      else let skip = \<not> (gw_case_compare G header ''Cc'' = 0 \<or> gw_case_compare G header ''To'' = 0 \<or>
                         gw_case_compare G header ''Bcc'' = 0)
           in if \<not> skip \<and> octstr_search_char value CHR '','' 0 > 0 \<and> length (gw_split_value G value) > 1
              then map (\<lambda>v. (header, v)) (gw_split_value G value)
              else [(header, value)])"

definition unpack_mimeheaders :: "gwlib \<Rightarrow> mime \<Rightarrow> mime" where
  "unpack_mimeheaders G mm =
     Mime (concat (map (unpack_header G) (mime_headers mm))) (mime_parts mm) (mime_body mm)"

fun unbase64_mimeparts :: "gwlib \<Rightarrow> mime \<Rightarrow> mime" where
  "unbase64_mimeparts G (Mime headers parts body) =
     (if parts \<noteq> [] then Mime headers (map (unbase64_mimeparts G) parts) body
      else
        let ctype = gw_header_value G headers ''Content-Type'';
            te = gw_header_value G headers ''Content-Transfer-Encoding'' in
        if drm_content_type G ctype then Mime headers parts body
        else
          let body' = (if ctype \<noteq> None \<and> (case te of Some t \<Rightarrow> gw_case_compare G t ''base64'' = 0 | None \<Rightarrow> False)
                       then map_option (gw_base64_decode G) body else body)
          in Mime (gw_header_remove_all G headers ''Content-Transfer-Encoding'') parts body')"

definition mms_gw_isprint :: "char \<Rightarrow> bool" where
  "mms_gw_isprint c = (isprint c \<or> isspace c)"

fun base64_mimeparts :: "gwlib \<Rightarrow> mime \<Rightarrow> bool \<Rightarrow> mime" where
  "base64_mimeparts G (Mime headers parts body) all =
     (if parts \<noteq> [] then Mime headers (map (\<lambda>x. base64_mimeparts G x all) parts) body
      else
        let ctype = gw_header_value G headers ''Content-Type'';
            te = gw_header_value G headers ''Content-Transfer-Encoding'' in
        case body of
          None \<Rightarrow> Mime headers parts body
        | Some b \<Rightarrow>
            if ctype \<noteq> None \<and>
               (case te of None \<Rightarrow> True | Some t \<Rightarrow> gw_case_compare G t ''binary'' = 0) \<and>
               (all \<or> \<not> list_all mms_gw_isprint b) \<and>
               \<not> drm_content_type G ctype
            then Mime (gw_header_remove_all G headers ''Content-Transfer-Encoding'' @
                       [(''Content-Transfer-Encoding'', ''base64'')])
                   parts (Some (gw_base64_encode G b))
            else Mime headers parts body)"

text \<open>\<open>s\<close> replaces the content type when it is given.\<close>

definition strip_boundary_element :: "gwlib \<Rightarrow> headers \<Rightarrow> octstr option \<Rightarrow> headers" where
  "strip_boundary_element G headers s =
     (let (n, ctype0, params) = get_content_type G headers;
          ctype1 = (if n < 0 \<or> drm_content_type G (Some ctype0) then None else Some ctype0);
          ctype = (case s of Some x \<Rightarrow> Some x | None \<Rightarrow> ctype1)
      in case ctype of
           None \<Rightarrow> headers
         | Some ct \<Rightarrow>
             let h = gw_header_remove_all G (get_value_parameters G params) ''boundary'';
                 ps = make_value_parameters h;
                 value = ct @ (if length ps > 0 then ''; '' else []) @ ps
             in gw_header_remove_all G headers ''Content-Type'' @ [(''Content-Type'', value)])"

definition keep_header :: "gwlib \<Rightarrow> headers \<Rightarrow> octstr \<Rightarrow> headers" where
  "keep_header G h name = (case gw_header_value G h name of Some v \<Rightarrow> [(name, v)] | None \<Rightarrow> [])"

definition strip_non_essential_headers :: "gwlib \<Rightarrow> mime \<Rightarrow> mime" where
  "strip_non_essential_headers G m =
     (let h = mime_headers m in
      Mime (keep_header G h ''Content-Type'' @ keep_header G h ''Content-ID'' @
            keep_header G h ''Content-Location'' @ keep_header G h ''Content-Transfer-Encoding'')
        (mime_parts m) (mime_body m))"

text \<open>\<open>VERSION\<close> comes from the build; it is the argument \<open>version\<close>.\<close>

definition make_multipart_formdata :: "octstr \<Rightarrow> mime" where
  "make_multipart_formdata version =
     Mime [(''User-Agent'', ''Mbuni/'' @ version), (''Accept'', ''*/*''),
           (''Content-Type'', ''multipart/form-data'')] [] None"

definition add_multipart_form_field ::
  "mime \<Rightarrow> octstr \<Rightarrow> octstr option \<Rightarrow> octstr option \<Rightarrow> octstr \<Rightarrow> mime" where
  "add_multipart_form_field multipart field_name ctype content_loc data =
     (let cd = ''form-data; name='' @ [CHR 0x22] @ field_name @ [CHR 0x22] @
               (case content_loc of
                  Some l \<Rightarrow> ''; filename='' @ [CHR 0x22] @ l @ [CHR 0x22] | None \<Rightarrow> []);
          xh = (''Content-Disposition'', cd) #
               (case ctype of Some c \<Rightarrow> [(''Content-Type'', c)] | None \<Rightarrow> [])
      in Mime (mime_headers multipart) (mime_parts multipart @ [Mime xh [] (Some data)])
           (mime_body multipart))"

text \<open>\<open>fetch\<close> is \<open>mms_url_fetch_content\<close>: status, reply headers and body.\<close>

definition url_part :: "gwlib \<Rightarrow> headers \<Rightarrow> octstr \<Rightarrow> mime list" where
  "url_part G rph rbody =
     (let mh = (case gw_header_value G rph ''Content-Type'' of
                  Some x \<Rightarrow> [(''Content-Type'', x)]
                | None \<Rightarrow> [(''Content-Type'', ''application/content-stream'')]) @
               keep_header G rph ''Content-ID'' @ keep_header G rph ''Content-Location''
      in [gw_http_to_mime G mh rbody])"

definition multipart_from_urls ::
  "gwlib \<Rightarrow> (octstr \<Rightarrow> int \<times> headers \<times> octstr) \<Rightarrow> octstr list \<Rightarrow> mime" where
  "multipart_from_urls G fetch url_list =
     Mime [(''Content-Type'', ''multipart/mixed'')]
       (concat (map (\<lambda>url. case fetch url of (st, rph, rbody) \<Rightarrow>
                              if st = 200 then url_part G rph rbody else []) url_list)) None"

text \<open>The headers that \<open>send2email\<close> puts on the message: with \<open>append_hostname\<close> every sender and
  recipient phone number gets the host name.\<close>

definition email_headers :: "gwlib \<Rightarrow> headers \<Rightarrow> bool \<Rightarrow> octstr \<Rightarrow> headers" where
  "email_headers G headers append_hostname myhostname =
     gw_header_pack G
       (if append_hostname
        then let l = (case gw_header_value G headers ''From'' of
                        Some xfrom \<Rightarrow> [(''From'', addmmscname G xfrom myhostname)] | None \<Rightarrow> []) @
                     map (\<lambda>h. (''To'', addmmscname G (snd h) myhostname)) (gw_header_find_all G headers ''To'') @
                     map (\<lambda>h. (''Cc'', addmmscname G (snd h) myhostname)) (gw_header_find_all G headers ''Cc'')
             in gw_header_remove_all G (gw_header_remove_all G
                  (gw_header_remove_all G headers ''From'') ''To'') ''Cc'' @ l
        else headers)"

section \<open>WAP multipart bodies\<close>

function encode_multipart :: "gwlib \<Rightarrow> mime list \<Rightarrow> octstr" where
  "encode_multipart G body =
     gw_uintvar G (length body) @
     concat (map (\<lambda>x.
       let mhdr = gw_headers_pack G (strip_boundary_element G (mime_headers x) None);
           mbody = (if mime_parts x \<noteq> [] then encode_multipart G (mime_parts x)
                    else case mime_body x of Some s \<Rightarrow> s | None \<Rightarrow> [])
       in gw_uintvar G (length mhdr) @ gw_uintvar G (length mbody) @ mhdr @ mbody) body)"
  by pat_completeness auto
termination
proof (relation "measure (\<lambda>(G, body). size_list size body)")
  fix G :: gwlib and body x
  assume "x \<in> set body" and "mime_parts x \<noteq> []"
  moreover have "size_list size (mime_parts x) < size x" by (cases x) simp
  ultimately show "((G, mime_parts x), G, body) \<in> measure (\<lambda>(G, body). size_list size body)"
    using size_list_estimation [of x body "size_list size (mime_parts x)" size] by simp
qed simp

declare encode_multipart.simps [simp del]

text \<open>The body parts read, or a parse error, or more nested multiparts than \<open>fuel\<close>.\<close>

datatype decode_result = Decoded "mime list" | Parse_error | Out_of_fuel

definition wap_multipart_type :: "gwlib \<Rightarrow> octstr \<Rightarrow> bool" where
  "wap_multipart_type G content_type =
     (gw_case_compare G content_type ''application/vnd.wap.multipart.related'' = 0 \<or>
      gw_case_compare G content_type ''application/vnd.wap.multipart.alternative'' = 0 \<or>
      gw_case_compare G content_type ''application/vnd.wap.multipart.mixed'' = 0)"

text \<open>The loop over \<open>k\<close> parts, \<open>nested\<close> being the decoder of a part that is itself a multipart.
  \<open>parse_limit\<close> has no effect when fewer than \<open>hlen\<close> bytes are left: the headers are then all of
  them.\<close>

fun decode_parts ::
  "gwlib \<Rightarrow> (octstr \<Rightarrow> decode_result) \<Rightarrow> nat \<Rightarrow> octstr \<Rightarrow> mime list \<Rightarrow> decode_result" where
  "decode_parts G nested 0 s body = Decoded body"
| "decode_parts G nested (Suc k) s body =
     (if s = [] then Decoded body
      else
        let (hlen, s1) = gw_get_uintvar G s; (dlen, s2) = gw_get_uintvar G s1 in
        if hlen < 0 \<or> dlen < 0 then Parse_error
        else
          let (hs, s3) = (if nat hlen \<le> length s2 then (take (nat hlen) s2, drop (nat hlen) s2) else (s2, []));
              headers = strip_boundary_element G (gw_headers_unpack G hs) None in
          if nat dlen > length s3 then Parse_error
          else
            case gw_header_value G headers ''Content-Type'' of
              None \<Rightarrow> Parse_error
            | Some content_type \<Rightarrow>
                let content = take (nat dlen) s3; s4 = drop (nat dlen) s3 in
                if wap_multipart_type G content_type
                then case nested content of
                       Decoded ml \<Rightarrow> decode_parts G nested k s4 (body @ [Mime headers ml None])
                     | r \<Rightarrow> r
                else decode_parts G nested k s4 (body @ [Mime headers [] (Some content)]))"

fun decode_multipart :: "gwlib \<Rightarrow> nat \<Rightarrow> octstr \<Rightarrow> decode_result" where
  "decode_multipart G 0 s = Out_of_fuel"
| "decode_multipart G (Suc fuel) s =
     (let (n, s1) = gw_get_uintvar G s in decode_parts G (decode_multipart G fuel) (nat n) s1 [])"

section \<open>Facts on parameters\<close>

lemma value_parameters_skip:
  assumes "\<forall>c \<in> set seg. c \<noteq> CHR '';'' \<and> c \<noteq> CHR 0x22"
  shows "value_parameters_loop G (pre @ seg @ rest) (length pre) k h =
    value_parameters_loop G (pre @ seg @ rest) (length pre + length seg) k h"
  using assms
proof (induction seg arbitrary: pre)
  case (Cons c seg)
  from Cons.IH [of "pre @ [c]"] Cons.prems show ?case
    by (subst value_parameters_loop.simps) (simp add: nth_append)
qed simp

lemma value_parameters_quoted:
  assumes "gwlib_api G" and "CHR 0x22 \<notin> set v" and "CHR 0x5C \<notin> set v"
  shows "value_parameters_loop G (pre @ CHR 0x22 # v @ CHR 0x22 # rest) (length pre) k h =
    value_parameters_loop G (pre @ CHR 0x22 # v @ CHR 0x22 # rest) (length pre + length v + 2) k h"
  using gwlib_api.quoted_string_len [OF assms, of pre rest]
  by (subst value_parameters_loop.simps) (simp add: nth_append numeral_2_eq_2)

text \<open>A name or an unquoted value has none of the bytes with a meaning in the parameter syntax; a
  quoted value may have any byte but the quote and the backslash, and no blank at its ends.\<close>

definition param_plain :: "octstr \<Rightarrow> bool" where
  "param_plain s = list_all (\<lambda>c. \<not> isspace c \<and> \<not> is_mime_special_char c \<and> c \<noteq> CHR 0x22) s"

definition good_param :: "octstr \<times> octstr \<Rightarrow> bool" where
  "good_param p =
     (fst p \<noteq> [] \<and> param_plain (fst p) \<and> CHR 0x22 \<notin> set (snd p) \<and> CHR 0x5C \<notin> set (snd p))"

lemma strip_ws_Cons: "isspace c \<Longrightarrow> strip_ws (c # s) = strip_ws s"
  by (simp add: strip_ws_def)

lemma strip_ws_blanks: "set sp \<subseteq> {CHR '' ''} \<Longrightarrow> strip_ws (sp @ s) = strip_ws s"
  by (induction sp) (auto simp: strip_ws_def isspace_def)

lemma param_plain_strip: "param_plain s \<Longrightarrow> strip_ws s = s"
proof (rule strip_ws_id)
  assume "param_plain s"
  then have "\<forall>c \<in> set s. \<not> isspace c" by (simp add: param_plain_def list_all_iff)
  then show "s = [] \<or> \<not> isspace (hd s) \<and> \<not> isspace (last s)"
    using hd_in_set [of s] last_in_set [of s] by blast
qed

lemma quote_not_space: "\<not> isspace CHR 0x22" by (simp add: isspace_def)

lemma strip_quotes_quoted: "strip_quotes (CHR 0x22 # v @ [CHR 0x22]) = v"
  by (simp add: strip_quotes_def octstr_defs nth_append)

lemma strip_quotes_plain: "CHR 0x22 \<notin> set v \<Longrightarrow> strip_quotes v = v"
proof (cases "v = []")
  case False
  assume "CHR 0x22 \<notin> set v"
  then have "hd v \<noteq> CHR 0x22" and "i < length v \<Longrightarrow> v ! i \<noteq> CHR 0x22" for i
    using False hd_in_set [of v] nth_mem [of i v] by metis+
  moreover have "nat (int (length v) - 1) < length v" using False by (cases v) simp_all
  ultimately show ?thesis by (simp add: strip_quotes_def octstr_defs Let_def)
qed (simp add: strip_quotes_def)

lemma value_quoted_or_plain:
  assumes "CHR 0x22 \<notin> set v"
  shows "strip_quotes (strip_ws (if needs_quotes v then CHR 0x22 # v @ [CHR 0x22] else v)) = v"
proof (cases "needs_quotes v")
  case True
  then show ?thesis
    using strip_ws_id [of "CHR 0x22 # v @ [CHR 0x22]"] by (simp add: strip_quotes_quoted quote_not_space)
next
  case False
  then have "strip_ws v = v"
    using hd_in_set [of v] last_in_set [of v] by (intro strip_ws_id) (auto simp: needs_quotes_def)
  with False assms show ?thesis by (simp add: strip_quotes_plain)
qed

lemma special_in_param:
  "is_mime_special_char CHR '';''" "is_mime_special_char CHR ''=''" "is_mime_special_char CHR 0x5C"
  by (simp_all add: is_mime_special_char_def)

text \<open>The position of the equals sign of the parameter that starts at \<open>length pre\<close>, after an
  optional blank.\<close>

lemma equals_position:
  assumes "CHR ''='' \<notin> set n"
  shows "octstr_search_char (pre @ n @ CHR ''='' # rest) CHR ''='' (length pre) = int (length pre + length n)"
  using assms by (simp add: octstr_search_char_def Let_def)

lemma value_parameters_one:
  assumes G: "gwlib_api G" and p: "good_param (n, v)" and sp: "set sp \<subseteq> {CHR '' ''}"
    and xs: "xs = pre @ sp @ make_value_parameter (n, v) @ '';'' @ rest"
  shows "value_parameters_loop G xs (length pre) (length pre) h =
    value_parameters_loop G xs (length pre + length sp + length (make_value_parameter (n, v)) + 1)
      (length pre + length sp + length (make_value_parameter (n, v)) + 1) (h @ [(n, v)])"
proof -
  define w where "w = (if needs_quotes v then CHR 0x22 # v @ [CHR 0x22] else v)"
  define m where "m = sp @ n"
  have mvp: "make_value_parameter (n, v) = n @ ''='' @ w"
    by (simp add: make_value_parameter_def w_def Let_def)
  have n: "\<forall>c \<in> set n. \<not> isspace c \<and> \<not> is_mime_special_char c \<and> c \<noteq> CHR 0x22" "n \<noteq> []"
    using p by (auto simp: good_param_def param_plain_def list_all_iff)
  have v: "CHR 0x22 \<notin> set v" "CHR 0x5C \<notin> set v" using p by (auto simp: good_param_def)
  let ?a = "length pre + length m" and ?b = "length pre + length m + 1 + length w"
  have xs1: "xs = pre @ (m @ ''='') @ w @ '';'' @ rest" and xs2: "xs = (pre @ m @ ''='') @ w @ '';'' @ rest"
    and xs3: "xs = pre @ m @ CHR ''='' # w @ '';'' @ rest"
    by (simp_all add: xs mvp m_def)
  have "CHR '';'' \<notin> set n" "CHR ''='' \<notin> set n" "CHR 0x22 \<notin> set n"
    using n(1) special_in_param by blast+
  then have m_set: "CHR '';'' \<notin> set m" "CHR ''='' \<notin> set m" "CHR 0x22 \<notin> set m"
    using sp by (auto simp: m_def)
  have m_clean: "\<forall>c \<in> set (m @ ''=''). c \<noteq> CHR '';'' \<and> c \<noteq> CHR 0x22" and m_eq: "CHR ''='' \<notin> set m"
    using m_set by auto
  have "value_parameters_loop G xs (length pre) (length pre) h = value_parameters_loop G xs (length (pre @ m @ ''='')) (length pre) h"
    using value_parameters_skip [OF m_clean, of G pre "w @ '';'' @ rest" "length pre" h] xs1 by simp
  also have "\<dots> = value_parameters_loop G xs ?b (length pre) h"
  proof (cases "needs_quotes v")
    case True
    then show ?thesis
      using value_parameters_quoted [OF G v, of "pre @ m @ ''=''" "'';'' @ rest" "length pre" h] xs2
      by (simp add: w_def)
  next
    case False
    then have "\<forall>c \<in> set v. c \<noteq> CHR '';'' \<and> c \<noteq> CHR 0x22"
      using v special_in_param by (auto simp: needs_quotes_def)
    then show ?thesis
      using value_parameters_skip [of v G "pre @ m @ ''=''" "'';'' @ rest" "length pre" h] xs2 False
      by (simp add: w_def)
  qed
  also have "\<dots> = value_parameters_loop G xs (?b + 1) (?b + 1) (h @ [(n, v)])"
  proof -
    have "xs ! ?b = CHR '';''" "?b < length xs" by (simp_all add: xs3 nth_append)
    moreover have "octstr_search_char xs CHR ''='' (length pre) = int ?a"
      using equals_position [OF m_eq, of pre] xs3 by simp
    moreover have "strip_ws (octstr_copy xs (length pre) (?a - length pre)) = n"
    proof -
      have "param_plain n" using p by (simp add: good_param_def)
      moreover have "isspace CHR '' ''" by (simp add: isspace_def)
      ultimately have "strip_ws m = n"
        using sp param_plain_strip [of n] by (simp add: m_def strip_ws_blanks)
      then show ?thesis by (simp add: xs3 octstr_copy_def)
    qed
    moreover have "strip_quotes (strip_ws (octstr_copy xs (?a + 1) (?b - ?a - 1))) = v"
      using value_quoted_or_plain [OF v(1)] by (simp add: xs3 octstr_copy_def w_def)
    moreover have "0 < int ?a" using n(2) by (cases n) (simp_all add: m_def)
    ultimately show ?thesis
      using n(2)
      by (subst value_parameters_loop.simps)
        (simp add: gwlib_api.strip_blanks [OF G] Let_def del: of_nat_add)
  qed
  also have "?b + 1 = length pre + length sp + length (make_value_parameter (n, v)) + 1"
    by (simp add: mvp m_def)
  finally show ?thesis .
qed

lemma value_parameters_many:
  assumes G: "gwlib_api G" and "list_all good_param ps"
    and "xs = pre @ concat (map (\<lambda>q. '' '' @ make_value_parameter q @ '';'') ps)"
  shows "value_parameters_loop G xs (length pre) (length pre) h = h @ ps"
  using assms(2,3)
proof (induction ps arbitrary: pre h)
  case Nil
  then show ?case by (subst value_parameters_loop.simps) simp
next
  case (Cons p ps)
  obtain n v where p: "p = (n, v)" by (cases p)
  let ?w = "'' '' @ make_value_parameter p @ '';''"
  have "value_parameters_loop G xs (length pre) (length pre) h =
      value_parameters_loop G xs (length (pre @ ?w)) (length (pre @ ?w)) (h @ [p])"
    using value_parameters_one [OF G, of n v "'' ''" xs pre "concat (map (\<lambda>q. '' '' @ make_value_parameter q @ '';'') ps)" h]
      Cons.prems p by (simp add: add.assoc)
  also have "\<dots> = (h @ [p]) @ ps"
    using Cons.prems by (intro Cons.IH) simp_all
  finally show ?case by simp
qed

lemma concat_shift:
  "concat (map (\<lambda>q. a @ f q) ps) @ a = a @ concat (map (\<lambda>q. f q @ a) ps)"
  by (induction ps) auto

text \<open>A parameter text may start with blanks, as after the semicolon of a header value.\<close>

lemma get_make_value_parameters:
  assumes G: "gwlib_api G" and ps: "list_all good_param ps" and sp: "set sp \<subseteq> {CHR '' ''}"
  shows "get_value_parameters G (sp @ make_value_parameters ps) = ps"
proof (cases ps)
  case Nil
  have "value_parameters_loop G (sp @ '';'') 0 0 [] = value_parameters_loop G (sp @ '';'') (length sp) 0 []"
    using value_parameters_skip [of sp G "[]" "'';''" 0 "[]"] sp by auto
  also have "\<dots> = value_parameters_loop G (sp @ '';'') (length sp + 1) (length sp + 1) []"
  proof -
    have "CHR ''='' \<notin> set (sp @ '';'')" using sp by auto
    note octstr_search_char_none [OF this, of 0]
    then show ?thesis by (subst value_parameters_loop.simps) (simp add: nth_append)
  qed
  also have "\<dots> = []" by (subst value_parameters_loop.simps) simp
  finally show ?thesis using Nil by (simp add: get_value_parameters_def)
next
  case (Cons p qs)
  obtain n v where p: "p = (n, v)" by (cases p)
  let ?rest = "concat (map (\<lambda>q. '' '' @ make_value_parameter q @ '';'') qs)"
  let ?xs = "sp @ make_value_parameters ps @ '';''" and ?w = "sp @ make_value_parameter p @ '';''"
  have xs: "?xs = ?w @ ?rest"
    using concat_shift [of "'';''" "\<lambda>q. '' '' @ make_value_parameter q" qs]
    unfolding Cons make_value_parameters.simps append_assoc by simp
  have xs': "?xs = [] @ sp @ make_value_parameter (n, v) @ '';'' @ ?rest"
    using xs unfolding p by (simp only: append_assoc append_Nil)
  have good: "good_param (n, v)" using ps Cons p by simp
  have len: "length ?w = length ([] :: octstr) + length sp + length (make_value_parameter p) + 1"
    by simp
  have "value_parameters_loop G ?xs 0 0 [] = value_parameters_loop G ?xs (length ?w) (length ?w) [p]"
    using value_parameters_one [OF G good sp xs', of "[]"]
    unfolding p [symmetric] len by (simp only: list.size append_Nil)
  also have "\<dots> = [p] @ qs"
    by (rule value_parameters_many [OF G]) (use ps Cons in simp, use xs in \<open>simp only: append_assoc\<close>)
  finally show ?thesis using Cons by (simp add: get_value_parameters_def)
qed

lemma split_value_skip:
  assumes "CHR '';'' \<notin> set seg" and "CHR 0x22 \<notin> set seg"
  shows "split_value_loop G (pre @ seg @ rest) (length pre) = split_value_loop G (pre @ seg @ rest) (length pre + length seg)"
  using assms
proof (induction seg arbitrary: pre)
  case (Cons c seg)
  from Cons.IH [of "pre @ [c]"] Cons.prems show ?case
    by (subst split_value_loop.simps) (auto simp: nth_append)
qed simp

lemma split_header_value_plain:
  assumes "CHR '';'' \<notin> set b" and "CHR 0x22 \<notin> set b"
  shows "split_header_value G b = (b, [])"
    and "split_header_value G (b @ CHR '';'' # p) = (b, p)"
proof -
  have "split_value_loop G b (length b) = length b"
    and "split_value_loop G (b @ CHR '';'' # p) (length b) = length b"
    by (subst split_value_loop.simps, simp add: nth_append)+
  then show "split_header_value G b = (b, [])" and "split_header_value G (b @ CHR '';'' # p) = (b, p)"
    using split_value_skip [OF assms, of G "[]" "[]"] split_value_skip [OF assms, of G "[]" "CHR '';'' # p"]
    by (simp_all add: split_header_value_def octstr_defs)
qed

text \<open>A header value with its parameters, the way the code writes it.\<close>

definition with_params :: "octstr \<Rightarrow> headers \<Rightarrow> octstr" where
  "with_params b ps = b @ (if length (make_value_parameters ps) > 0 then ''; '' else []) @ make_value_parameters ps"

lemma make_value_parameters_empty: "make_value_parameters ps = [] \<longleftrightarrow> ps = []"
  by (cases ps) (auto simp: make_value_parameter_def Let_def)

lemma split_with_params:
  assumes "gwlib_api G" and "CHR '';'' \<notin> set b" and "CHR 0x22 \<notin> set b" and "list_all good_param ps"
  shows "fst (split_header_value G (with_params b ps)) = b"
    and "get_value_parameters G (snd (split_header_value G (with_params b ps))) = ps"
proof -
  have s: "split_header_value G (with_params b ps) = (b, if ps = [] then [] else '' '' @ make_value_parameters ps)"
    using split_header_value_plain(1) [OF assms(2,3), of G]
      split_header_value_plain(2) [OF assms(2,3), of G "'' '' @ make_value_parameters ps"]
    by (simp add: with_params_def make_value_parameters_empty)
  show "fst (split_header_value G (with_params b ps)) = b" by (simp add: s)
  show "get_value_parameters G (snd (split_header_value G (with_params b ps))) = ps"
    using get_make_value_parameters [OF assms(1,4), of "'' ''"]
      get_make_value_parameters [OF assms(1,4), of "[]"] unfolding s
    by (cases "ps = []") simp_all
qed

section \<open>Properties of header values\<close>

text \<open>Parameter lists survive printing and parsing, values with separators being quoted: the
  parameters that \<open>get_value_parameters\<close> reads from the text of \<open>make_value_parameters\<close> are those that
  were written, and a header value made of a base value and parameters is split into them again.\<close>

theorem value_parameters_roundtrip:
  assumes "gwlib_api G" and "list_all good_param ps" and "CHR '';'' \<notin> set b" and "CHR 0x22 \<notin> set b"
  shows "get_value_parameters G (make_value_parameters ps) = ps \<and>
    fst (split_header_value G (with_params b ps)) = b \<and>
    get_value_parameters G (snd (split_header_value G (with_params b ps))) = ps"
  using get_make_value_parameters [OF assms(1,2), of "[]"] split_with_params [OF assms(1,3,4,2)] by simp

lemma value_parameters_roundtrip_witness:
  "get_value_parameters gwlib_ref (make_value_parameters [(''name'', ''a; b''), (''type'', ''x'')]) =
     [(''name'', ''a; b''), (''type'', ''x'')]"
  using value_parameters_roundtrip [OF gwlib_ref_api, of "[(''name'', ''a; b''), (''type'', ''x'')]" "[]"]
  by (simp add: good_param_def param_plain_def isspace_def is_mime_special_char_def)

text \<open>Removing the boundary parameter from the content type of a header list leaves the other
  parameters, in their order, and every other header; a DRM content type is left alone, and so is a list
  without a content type.\<close>

theorem strip_boundary_keeps_rest:
  assumes G: "gwlib_api G" and b: "CHR '';'' \<notin> set b" "CHR 0x22 \<notin> set b" and ps: "list_all good_param ps"
    and ct: "gw_header_value G hs ''Content-Type'' = Some (with_params b ps)"
  shows "strip_boundary_element G hs None =
      (if drm_content_type G (Some b) then hs
       else gw_header_remove_all G hs ''Content-Type'' @
         [(''Content-Type'', with_params b (filter (\<lambda>p. ci (fst p) \<noteq> ''boundary'') ps))]) \<and>
    (gw_header_value G hs' ''Content-Type'' = None \<longrightarrow> strip_boundary_element G hs' None = hs')"
proof -
  have "ci ''boundary'' = ''boundary''" by (simp add: ci_def)
  then have "gw_header_remove_all G ps ''boundary'' = filter (\<lambda>p. ci (fst p) \<noteq> ''boundary'') ps"
    by (simp add: gwlib_api.header_remove_all [OF G] header_remove_all_def header_named_def)
  then show ?thesis
    using split_with_params [OF G b ps] ct
    by (auto simp: strip_boundary_element_def get_content_type_def Let_def with_params_def split: prod.splits)
qed

lemma strip_boundary_keeps_rest_witness:
  "strip_boundary_element gwlib_ref [(''To'', ''a''), (''Content-Type'', ''multipart/mixed; boundary=xx; x=1'')] None =
     [(''To'', ''a''), (''Content-Type'', ''multipart/mixed; x=1'')]"
  using strip_boundary_keeps_rest [OF gwlib_ref_api, of "''multipart/mixed''" "[(''boundary'', ''xx''), (''x'', ''1'')]"
      "[(''To'', ''a''), (''Content-Type'', ''multipart/mixed; boundary=xx; x=1'')]" "[]"]
  by (simp add: good_param_def param_plain_def isspace_def is_mime_special_char_def with_params_def
      make_value_parameter_def needs_quotes_def gwlib_api.gwlib_simps [OF gwlib_ref_api] header_value_def
      header_named_def header_remove_all_def ci_def drm_content_type_def sub_pos_def)

section \<open>Properties of transfer encodings\<close>

text \<open>No plain part, other than DRM content, has a transfer encoding of its own.\<close>

fun no_transfer_encoding :: "gwlib \<Rightarrow> mime \<Rightarrow> bool" where
  "no_transfer_encoding G (Mime headers parts body) =
     (if parts \<noteq> [] then list_all (no_transfer_encoding G) parts
      else drm_content_type G (gw_header_value G headers ''Content-Type'') \<or>
           gw_header_value G headers ''Content-Transfer-Encoding'' = None)"

lemma remove_all_absent: "header_value hs n = None \<Longrightarrow> header_remove_all hs n = hs"
  by (induction hs) (auto simp: header_value_def header_remove_all_def split: if_splits)

lemma ci_content_headers: "ci ''Content-Type'' \<noteq> ci ''Content-Transfer-Encoding''"
  by (simp add: ci_def)

text \<open>Transfer encoding and decoding are inverse: for a MIME tree whose parts carry no transfer
  encoding yet, \<open>unbase64_mimeparts\<close> undoes \<open>base64_mimeparts\<close>, whether or not every part is to be
  encoded, and restores headers and bodies exactly.\<close>

theorem base64_mimeparts_roundtrip:
  assumes G: "gwlib_api G" and m: "no_transfer_encoding G m"
  shows "unbase64_mimeparts G (base64_mimeparts G m all) = m"
  using m
proof (induction m)
  case (Mime h ps b)
  let ?te = "''Content-Transfer-Encoding''" and ?ct = "gw_header_value G h ''Content-Type''"
  show ?case
  proof (cases "ps = []")
    case False
    then have "map (\<lambda>x. unbase64_mimeparts G (base64_mimeparts G x all)) ps = ps"
      using Mime by (intro map_idI) (auto simp: list_all_iff)
    with False show ?thesis by (simp add: comp_def)
  next
    case ps: True
    have gone: "gw_header_remove_all G (gw_header_remove_all G h ?te @ [(?te, ''base64'')]) ?te = h"
      if "gw_header_value G h ?te = None"
      using that remove_all_absent [of h ?te]
      by (simp add: gwlib_api.gwlib_simps [OF G] header_remove_all_def header_named_def)
    have ct: "gw_header_value G (gw_header_remove_all G h ?te @ [(?te, ''base64'')]) ''Content-Type'' = ?ct"
      using gwlib_api.header_value_remove_other [OF G ci_content_headers]
        gwlib_api.header_value_append_other [OF G ci_content_headers] by simp
    have te: "gw_header_value G (gw_header_remove_all G h ?te @ [(?te, ''base64'')]) ?te = Some ''base64''"
      using gwlib_api.header_value_append_new [OF G gwlib_api.header_value_after_remove [OF G]] by simp
    show ?thesis
      using ps Mime.prems gone ct te remove_all_absent [of h ?te]
      by (cases b; cases "drm_content_type G ?ct")
        (auto simp: Let_def gwlib_api.base64 [OF G] gwlib_api.gwlib_simps [OF G])
  qed
qed

lemma base64_mimeparts_roundtrip_witness:
  "unbase64_mimeparts gwlib_ref
     (base64_mimeparts gwlib_ref (Mime [] [Mime [(''Content-Type'', ''image/gif'')] [] (Some [CHR 0x80])] None) False) =
   Mime [] [Mime [(''Content-Type'', ''image/gif'')] [] (Some [CHR 0x80])] None"
  by (rule base64_mimeparts_roundtrip [OF gwlib_ref_api])
    (simp add: gwlib_api.gwlib_simps [OF gwlib_ref_api] header_value_def header_named_def ci_def)

text \<open>Decoding forgets an encoding that it does not undo: of a part with another transfer encoding
  than base64, such as quoted-printable, \<open>unbase64_mimeparts\<close> removes the header and leaves the encoded
  body.\<close>

theorem other_encoding_lost:
  assumes G: "gwlib_api G" and "gw_header_value G hs ''Content-Transfer-Encoding'' = Some te"
    and "ci te \<noteq> ''base64''" and "\<not> drm_content_type G (gw_header_value G hs ''Content-Type'')"
  shows "mime_body (unbase64_mimeparts G (Mime hs [] body)) = body \<and>
    gw_header_value G (mime_headers (unbase64_mimeparts G (Mime hs [] body))) ''Content-Transfer-Encoding'' = None"
proof -
  have "ci ''base64'' = ''base64''" by (simp add: ci_def)
  then show ?thesis
    using assms(2-) gwlib_api.header_value_after_remove [OF G, of hs "''Content-Transfer-Encoding''"]
    by (simp add: gwlib_api.case_compare [OF G])
qed

lemma other_encoding_lost_witness:
  "mime_body (unbase64_mimeparts gwlib_ref
     (Mime [(''Content-Transfer-Encoding'', ''quoted-printable'')] [] (Some ''caf=E9''))) = Some ''caf=E9''"
  using other_encoding_lost [OF gwlib_ref_api, of "[(''Content-Transfer-Encoding'', ''quoted-printable'')]"
      "''quoted-printable''" "Some ''caf=E9''"]
  by (simp add: gwlib_api.gwlib_simps [OF gwlib_ref_api] header_value_def header_named_def ci_def
      drm_content_type_def)

section \<open>Properties of multipart bodies\<close>

text \<open>An entity whose headers are the ones that the WSP coding of them stands for, and whose content
  type says a WAP multipart exactly when it has parts.\<close>

fun wap_entity :: "gwlib \<Rightarrow> mime \<Rightarrow> bool" where
  "wap_entity G (Mime h ps b) =
     (strip_boundary_element G h None = h \<and> gw_headers_unpack G (gw_headers_pack G h) = h \<and>
      (case gw_header_value G h ''Content-Type'' of
         None \<Rightarrow> False
       | Some ct \<Rightarrow>
           if ps = [] then b \<noteq> None \<and> \<not> wap_multipart_type G ct
           else b = None \<and> wap_multipart_type G ct \<and> list_all (wap_entity G) ps))"

definition part_body :: "gwlib \<Rightarrow> mime \<Rightarrow> octstr" where
  "part_body G x =
     (if mime_parts x \<noteq> [] then encode_multipart G (mime_parts x)
      else case mime_body x of Some s \<Rightarrow> s | None \<Rightarrow> [])"

definition encode_part :: "gwlib \<Rightarrow> mime \<Rightarrow> octstr" where
  "encode_part G x =
     (let mhdr = gw_headers_pack G (strip_boundary_element G (mime_headers x) None); mbody = part_body G x
      in gw_uintvar G (length mhdr) @ gw_uintvar G (length mbody) @ mhdr @ mbody)"

lemma encode_multipart_parts:
  "encode_multipart G body = gw_uintvar G (length body) @ concat (map (encode_part G) body)"
  by (subst encode_multipart.simps) (simp add: encode_part_def [abs_def] part_body_def Let_def)

lemma decode_one:
  assumes G: "gwlib_api G" and "gw_headers_unpack G mhdr = h" and "strip_boundary_element G h None = h"
    and "gw_header_value G h ''Content-Type'' = Some ct"
    and "length mhdr < 2 ^ 32" and "length mbody < 2 ^ 32"
  shows "decode_parts G nested (Suc k)
      ((gw_uintvar G (length mhdr) @ gw_uintvar G (length mbody) @ mhdr @ mbody) @ r) acc =
    (if wap_multipart_type G ct
     then case nested mbody of Decoded ml \<Rightarrow> decode_parts G nested k r (acc @ [Mime h ml None]) | e \<Rightarrow> e
     else decode_parts G nested k r (acc @ [Mime h [] (Some mbody)]))"
  using assms(2-4) gwlib_api.get_uintvar [OF G assms(5)] gwlib_api.get_uintvar [OF G assms(6)]
  by (simp add: gwlib_api.uintvar_nonempty [OF G])

lemma decode_parts_encoded:
  assumes G: "gwlib_api G"
    and "list_all (wap_entity G) body" and "length (concat (map (encode_part G) body)) < 2 ^ 32"
    and "\<forall>x \<in> set body. mime_parts x \<noteq> [] \<longrightarrow> nested (part_body G x) = Decoded (mime_parts x)"
  shows "decode_parts G nested (length body) (concat (map (encode_part G) body)) acc = Decoded (acc @ body)"
  using assms(2-)
proof (induction body arbitrary: acc)
  case (Cons x body)
  obtain h ps b where x: "x = Mime h ps b" by (cases x)
  from Cons.prems(1) x obtain ct where ct: "gw_header_value G h ''Content-Type'' = Some ct"
    and h: "strip_boundary_element G h None = h" "gw_headers_unpack G (gw_headers_pack G h) = h"
    and kind: "if ps = [] then b \<noteq> None \<and> \<not> wap_multipart_type G ct else b = None \<and> wap_multipart_type G ct"
    by (auto split: option.splits if_splits)
  have "length (gw_headers_pack G h) < 2 ^ 32" "length (part_body G x) < 2 ^ 32"
    using Cons.prems(2) by (simp_all add: encode_part_def x h(1) Let_def)
  note one = decode_one [OF G h(2,1) ct this]
  have "decode_parts G nested (length (x # body)) (concat (map (encode_part G) (x # body))) acc =
      decode_parts G nested (length body) (concat (map (encode_part G) body)) (acc @ [x])"
    using one [of nested "length body" "concat (map (encode_part G) body)" acc] kind Cons.prems(3)
    by (cases "ps = []") (auto simp: encode_part_def Let_def h(1) x part_body_def)
  also have "\<dots> = Decoded (acc @ x # body)" using Cons by simp
  finally show ?case .
qed simp

lemma encode_part_nonempty: "gwlib_api G \<Longrightarrow> 1 \<le> length (encode_part G x)"
  using gwlib_api.uintvar_nonempty [of G] by (simp add: encode_part_def Let_def Suc_le_eq)

lemma encode_parts_length: "gwlib_api G \<Longrightarrow> length body \<le> length (concat (map (encode_part G) body))"
proof (induction body)
  case (Cons x body)
  with encode_part_nonempty [of G x] show ?case by simp
qed simp

lemma encode_part_member:
  "x \<in> set body \<Longrightarrow> length (encode_part G x) \<le> length (concat (map (encode_part G) body))"
  by (induction body) auto

lemma decode_encode_multipart:
  assumes G: "gwlib_api G" and "list_all (wap_entity G) body" and "length (encode_multipart G body) < 2 ^ 32"
    and "length (encode_multipart G body) < fuel"
  shows "decode_multipart G fuel (encode_multipart G body) = Decoded body"
  using assms(2-)
proof (induction fuel arbitrary: body)
  case (Suc fuel)
  let ?c = "concat (map (encode_part G) body)"
  have c: "length ?c < 2 ^ 32" using Suc.prems(2) by (simp add: encode_multipart_parts)
  then have n: "length body < 2 ^ 32" using encode_parts_length [OF G, of body] by linarith
  have fuel: "length ?c < fuel"
    using Suc.prems(3) gwlib_api.uintvar_nonempty [OF G, of "length body"]
    by (cases "gw_uintvar G (length body)") (simp_all add: encode_multipart_parts)
  have "decode_multipart G fuel (part_body G x) = Decoded (mime_parts x)"
    if x: "x \<in> set body" "mime_parts x \<noteq> []" for x
  proof -
    have "list_all (wap_entity G) (mime_parts x)"
      using Suc.prems(1) x by (cases x) (auto simp: list_all_iff split: option.splits)
    moreover have "length (encode_multipart G (mime_parts x)) \<le> length ?c"
      using encode_part_member [OF x(1), of G] x(2) by (simp add: encode_part_def part_body_def Let_def)
    ultimately show ?thesis using Suc.IH x(2) c fuel by (simp add: part_body_def)
  qed
  then show ?case
    using decode_parts_encoded [OF G Suc.prems(1) c, of "decode_multipart G fuel" "[]"]
      gwlib_api.get_uintvar [OF G n, of ?c]
    by (simp add: encode_multipart_parts)
qed simp


text \<open>Two header lists of the reference instance, and small lengths.\<close>

lemma ref_headers:
  shows "strip_boundary_element gwlib_ref [(''Content-Type'', ''text/plain'')] None = [(''Content-Type'', ''text/plain'')]"
    and "gw_headers_pack gwlib_ref [(''Content-Type'', ''text/plain'')] = ''Content-Type'' @ [CHR 0x00] @ ''text/plain'' @ [CHR 0x00]"
    and "gw_headers_unpack gwlib_ref (''Content-Type'' @ [CHR 0x00] @ ''text/plain'' @ [CHR 0x00]) = [(''Content-Type'', ''text/plain'')]"
    and "\<not> wap_multipart_type gwlib_ref ''text/plain''"
    and "strip_boundary_element gwlib_ref [(''Content-Type'', ''multipart/mixed'')] None = [(''Content-Type'', ''multipart/mixed'')]"
    and "gw_headers_pack gwlib_ref [(''Content-Type'', ''multipart/mixed'')] = ''Content-Type'' @ [CHR 0x00] @ ''multipart/mixed'' @ [CHR 0x00]"
    and "gw_headers_unpack gwlib_ref (''Content-Type'' @ [CHR 0x00] @ ''multipart/mixed'' @ [CHR 0x00]) = [(''Content-Type'', ''multipart/mixed'')]"
    and "\<not> wap_multipart_type gwlib_ref ''multipart/mixed''"
  by code_simp+

lemma ref_wap_headers:
  shows "strip_boundary_element gwlib_ref [(''Content-Type'', ''application/vnd.wap.multipart.mixed'')] None = [(''Content-Type'', ''application/vnd.wap.multipart.mixed'')]"
    and "gw_headers_pack gwlib_ref [(''Content-Type'', ''application/vnd.wap.multipart.mixed'')] = ''Content-Type'' @ [CHR 0x00] @ ''application/vnd.wap.multipart.mixed'' @ [CHR 0x00]"
    and "gw_headers_unpack gwlib_ref (''Content-Type'' @ [CHR 0x00] @ ''application/vnd.wap.multipart.mixed'' @ [CHR 0x00]) = [(''Content-Type'', ''application/vnd.wap.multipart.mixed'')]"
    and "wap_multipart_type gwlib_ref ''application/vnd.wap.multipart.mixed''"
  by code_simp+

lemma ref_header_value: "gw_header_value gwlib_ref [(n, v)] n = Some v"
  by (simp add: gwlib_api.gwlib_simps [OF gwlib_ref_api] header_value_def header_named_def)

lemma ref_uintvar_small: "n < 128 \<Longrightarrow> gw_uintvar gwlib_ref n = [char_of n]"
  by (simp add: gwlib_ref_def uintvar_def uintvar_high.simps)

lemmas ref_encode_simps = encode_multipart_parts encode_part_def part_body_def Let_def
  ref_headers ref_wap_headers ref_header_value ref_uintvar_small

definition nested_example :: "mime list" where
  "nested_example =
     [Mime [(''Content-Type'', ''application/vnd.wap.multipart.mixed'')] [Mime [(''Content-Type'', ''text/plain'')] [] (Some ''hi'')] None]"


text \<open>Only the three WAP types are decoded as multiparts: an entity with parts whose content type
  is another one (such as \<open>multipart/related\<close>, or a WAP type with parameters) is encoded with its
  parts but decoded as a plain part whose body is their encoding.\<close>

theorem nested_multipart_not_recognised:
  assumes G: "gwlib_api G" and "ps \<noteq> []"
    and h: "strip_boundary_element G h None = h" "gw_headers_unpack G (gw_headers_pack G h) = h"
    and ct: "gw_header_value G h ''Content-Type'' = Some ct" "\<not> wap_multipart_type G ct"
    and len: "length (encode_multipart G [Mime h ps b]) < 2 ^ 32"
  shows "decode_multipart G (Suc fuel) (encode_multipart G [Mime h ps b]) =
    Decoded [Mime h [] (Some (encode_multipart G ps))]"
proof -
  have "length (gw_headers_pack G h) < 2 ^ 32" and "length (encode_multipart G ps) < 2 ^ 32"
    using len assms(2) h(1) by (simp_all add: encode_multipart_parts [of G "[_]"] encode_part_def part_body_def Let_def)
  from decode_one [OF G h(2,1) ct(1) this, of "decode_multipart G fuel" 0 "[]" "[]"]
  show ?thesis
    using assms(2) h(1) ct(2) gwlib_api.get_uintvar [OF G, of 1]
    by (simp add: encode_multipart_parts [of G "[_]"] encode_part_def part_body_def Let_def)
qed

lemma nested_multipart_not_recognised_witness:
  "decode_multipart gwlib_ref 9
     (encode_multipart gwlib_ref [Mime [(''Content-Type'', ''multipart/mixed'')]
        [Mime [(''Content-Type'', ''text/plain'')] [] (Some ''hi'')] None]) =
   Decoded [Mime [(''Content-Type'', ''multipart/mixed'')] []
     (Some (encode_multipart gwlib_ref [Mime [(''Content-Type'', ''text/plain'')] [] (Some ''hi'')]))]"
proof -
  let ?h = "[(''Content-Type'', ''multipart/mixed'')]"
  let ?ps = "[Mime [(''Content-Type'', ''text/plain'')] [] (Some ''hi'')]"
  have ps: "?ps \<noteq> []" by simp
  have s: "strip_boundary_element gwlib_ref ?h None = ?h" by (rule ref_headers)
  have u: "gw_headers_unpack gwlib_ref (gw_headers_pack gwlib_ref ?h) = ?h" by (simp only: ref_headers)
  have c: "gw_header_value gwlib_ref ?h ''Content-Type'' = Some ''multipart/mixed''" by (rule ref_header_value)
  have w: "\<not> wap_multipart_type gwlib_ref ''multipart/mixed''" by (rule ref_headers)
  have l: "length (encode_multipart gwlib_ref [Mime ?h ?ps None]) < 2 ^ 32"
    by (simp add: ref_encode_simps [unfolded append_Cons append_Nil])
  show ?thesis
    using nested_multipart_not_recognised [OF gwlib_ref_api ps s u c w l, of 8] by simp
qed

section \<open>Properties of file extensions\<close>

lemma content_type2file_ext_known: "fst (content_type2file_ext G ct) \<in> insert ''dat'' (snd ` set exts)"
proof -
  define c where "c = (if octstr_search_char ct CHR '';'' 0 \<noteq> -1
    then octstr_delete ct (nat (octstr_search_char ct CHR '';'' 0)) (length ct) else ct)"
  have "fst (content_type2file_ext G ct) =
      (case List.find (\<lambda>e. gw_case_compare G c (fst e) = 0) exts of Some e \<Rightarrow> snd e | None \<Rightarrow> ''dat'')"
    by (simp add: content_type2file_ext_def c_def Let_def split: option.split)
  then show ?thesis
    by (cases "List.find (\<lambda>e. gw_case_compare G c (fst e) = 0) exts") (auto dest!: find_Some_in)
qed

lemma known_no_language: "\<forall>e \<in> insert ''dat'' (snd ` set exts). \<forall>l \<in> set l_exts. ci e \<noteq> ci (snd l)"
  by code_simp

lemma known_length: "\<forall>e \<in> insert ''dat'' (snd ` set exts). e \<noteq> [] \<and> length e \<le> 4"
  by code_simp

text \<open>The extension given to a fetched part is never one of a web programming language, whatever
  the URL ends in; it is never empty and has at most four bytes, so it fits the callers' buffer of five.\<close>

theorem make_file_ext_safe:
  "(\<forall>l \<in> set l_exts. ci (fst (make_file_ext G url ctype)) \<noteq> ci (snd l)) \<and>
   fst (make_file_ext G url ctype) \<noteq> [] \<and> length (fst (make_file_ext G url ctype)) \<le> 4"
proof -
  let ?e = "fst (content_type2file_ext G ctype)"
  have e: "\<forall>l \<in> set l_exts. ci ?e \<noteq> ci (snd l)" "?e \<noteq> []" "length ?e \<le> 4"
    using known_no_language known_length content_type2file_ext_known [of G ctype] by blast+
  show ?thesis
  proof (cases "make_file_ext G url ctype = content_type2file_ext G ctype")
    case False
    then obtain f where "f \<noteq> []" "length f \<le> 4" and no: "List.find (\<lambda>l. ci f = ci (snd l)) l_exts = None"
      and "fst (make_file_ext G url ctype) = f"
      by (fastforce simp: make_file_ext_def Let_def strncpy_def split: option.splits if_splits)
    moreover have "\<forall>l \<in> set l_exts. ci f \<noteq> ci (snd l)" using no unfolding find_None_iff by blast
    ultimately show ?thesis by blast
  qed (use e in simp)
qed

lemma make_file_ext_safe_witness:
  "make_file_ext gwlib_ref (Some ''/a/b.php'') ''image/gif; q=1'' = (''gif'', ''image/gif'')"
proof -
  have "fst (make_file_ext gwlib_ref (Some ''/a/b.php'') ''image/gif; q=1'') \<noteq> []"
    using make_file_ext_safe by blast
  moreover have "make_file_ext gwlib_ref (Some ''/a/b.php'') ''image/gif; q=1'' = (''gif'', ''image/gif'')"
    by code_simp
  ultimately show ?thesis by simp
qed
end
