(* ===== verification/MmsMsg.thy ===== *)
theory MmsMsg
  imports MmsMime
begin

text \<open>
  MMS messages, \<open>mmlib/mms_msg.c\<close>: the message structure, the binary encoding of its headers and
  body, the fix-ups applied to received messages, conversion to and from MIME content types, the
  constructors of every kind of response and report, and the operations on headers and body.

  Bytes that the code would take from an uninitialised variable, and writes past the end of a
  buffer, are the result \<open>None\<close>. The clock is the argument \<open>tnow\<close>.
\<close>

section \<open>Messages\<close>

abbreviation (input) MS_1_1 :: int where "MS_1_1 \<equiv> 1"
abbreviation (input) MS_1_2 :: int where "MS_1_2 \<equiv> 2"

definition MMS_DEFAULT_VERSION :: octstr where
  "MMS_DEFAULT_VERSION = ''1.0''"

text \<open>The union \<open>body\<close> with its null pointer, and the structure; \<open>enc\<close> is not set by the
  constructors.\<close>

datatype msg_body = Body_null | Body_l "mime list" | Body_s octstr

record MmsMsg =
  m_message_type :: int
  m_msgId :: "octstr option"
  m_headers :: headers
  m_enc :: "int option"
  m_ismultipart :: bool
  m_body :: msg_body

section \<open>Encoding\<close>

text \<open>\<open>((unsigned) ch) & 0x7f\<close>.\<close>

definition pack_short_integer :: "gwlib \<Rightarrow> int \<Rightarrow> octstr" where
  "pack_short_integer G ch = gw_pack_short_integer G (nat (ch mod 128))"

definition starts_with_digit :: "octstr \<Rightarrow> bool" where
  "starts_with_digit value = (case octstr_get_char value 0 of Some c \<Rightarrow> isdigit c | None \<Rightarrow> False)"

text \<open>The counter in front of a value and the text after it. When \<open>octstr_parse_long\<close> fails the
  counter variable has no value.\<close>

definition counter_value :: "gwlib \<Rightarrow> octstr \<Rightarrow> (int \<times> octstr) option" where
  "counter_value G value =
     (case gw_parse_long G value 0 10 of
        (i, l) \<Rightarrow> if i < 0 then None
                  else Some (l, gw_strip_blanks G (octstr_copy value (nat i) (length value))))"

text \<open>A text field that may carry a counter: \<open>Response-Text\<close> and \<open>Content-Location\<close>.\<close>

definition pack_counted_text :: "gwlib \<Rightarrow> octstr \<Rightarrow> octstr option" where
  "pack_counted_text G value =
     (if starts_with_digit value
      then map_option (\<lambda>(l, s). gw_pack_value G (gw_pack_integer_value G l @ gw_pack_text G s)) (counter_value G value)
      else Some (gw_pack_text G value))"

definition pack_response_status :: "gwlib \<Rightarrow> octstr \<Rightarrow> octstr option" where
  "pack_response_status G value =
     (if starts_with_digit value
      then map_option (\<lambda>(l, s). gw_pack_value G (gw_pack_integer_value G l @
             pack_short_integer G (mms_string_to_response_status G s))) (counter_value G value)
      else Some (pack_short_integer G (mms_string_to_response_status G value)))"

text \<open>Delivery time, expiry and reply charging deadline: a delta in seconds or a date.\<close>

definition pack_time_value :: "gwlib \<Rightarrow> octstr \<Rightarrow> octstr" where
  "pack_time_value G value =
     gw_pack_value G
       (if gw_isnum G value then [char_of (129 :: nat)] @ gw_pack_long_integer G (atol value)
        else [char_of (128 :: nat)] @ gw_pack_date G value)"

definition pack_from :: "gwlib \<Rightarrow> octstr \<Rightarrow> octstr" where
  "pack_from G value =
     gw_pack_value G
       (if gw_compare G ''#insert'' value = 0 then [char_of (129 :: nat)]
        else [char_of (128 :: nat)] @ gw_pack_text G value)"

definition pack_previously_sent :: "gwlib \<Rightarrow> int \<Rightarrow> octstr \<Rightarrow> octstr option" where
  "pack_previously_sent G field_type value =
     map_option (\<lambda>(l, s). gw_pack_value G (gw_pack_integer_value G l @
         (if field_type = MMS_HEADER_PREVIOUSLY_SENT_BY then gw_pack_text G s else gw_pack_date G s)))
       (counter_value G value)"

definition pack_mm_flags :: "gwlib \<Rightarrow> octstr \<Rightarrow> octstr" where
  "pack_mm_flags G value =
     (let ch = octstr_get_char value 0;
          (code, i) = (if ch = Some CHR ''+'' then (0x80, 1)
                       else if ch = Some CHR ''-'' then (0x81, 1)
                       else if ch = Some CHR ''/'' then (0x82, 1)
                       else (0x82, 0))
      in gw_pack_value G (pack_short_integer G code @ gw_pack_text G (octstr_copy value i (length value))))"

definition pack_mbox_totals :: "gwlib \<Rightarrow> octstr \<Rightarrow> octstr option" where
  "pack_mbox_totals G value =
     (case gw_parse_long G value 0 10 of
        (i, l) \<Rightarrow>
          if i < 0 then None
          else Some (gw_pack_value G
                 (pack_short_integer G (if gw_case_search G value ''bytes'' (nat i) < 0 then 0x80 else 0x81) @
                  gw_pack_integer_value G l)))"

definition pack_element_descriptor :: "gwlib \<Rightarrow> octstr \<Rightarrow> octstr" where
  "pack_element_descriptor G value =
     (let (cv, cpar) = split_header_value G value
      in gw_pack_value G (gw_pack_text G cv @
           concat (map (\<lambda>(h, v).
             (let ch = mms_string_to_descriptor_params G h
              in if ch < 0 then gw_pack_text G h else pack_short_integer G ch) @
             (let ch = gw_string_to_content_type G v
              in if ch < 0 then gw_pack_text G v else pack_short_integer G ch))
             (get_value_parameters G cpar))))"

text \<open>The value of one well-known field. An unknown field type is skipped with a warning.\<close>

definition mms_pack_well_known_field :: "gwlib \<Rightarrow> int \<Rightarrow> octstr \<Rightarrow> octstr option" where
  "mms_pack_well_known_field G field_type value =
     (if field_type \<in> {MMS_HEADER_TO, MMS_HEADER_CC, MMS_HEADER_BCC, MMS_HEADER_SUBJECT,
                        MMS_HEADER_TRANSACTION_ID, MMS_HEADER_MESSAGE_ID, MMS_HEADER_REPLY_CHARGING_ID,
                        MMS_HEADER_RETRIEVE_TEXT, MMS_HEADER_STORE_STATUS_TEXT}
      then Some (gw_pack_text G value)
      else if field_type \<in> {MMS_HEADER_RESPONSE_TEXT, MMS_HEADER_CONTENT_LOCATION}
      then pack_counted_text G value
      else if field_type = MMS_HEADER_MMS_VERSION then Some (gw_pack_version_value G (Some value))
      else if field_type \<in> {MMS_HEADER_DELIVERY_REPORT, MMS_HEADER_REPORT_ALLOWED, MMS_HEADER_READ_REPORT,
                             MMS_HEADER_DISTRIBUTION_INDICATOR, MMS_HEADER_QUOTAS, MMS_HEADER_STORE,
                             MMS_HEADER_STORED, MMS_HEADER_TOTALS}
      then Some (pack_short_integer G (mms_string_to_reports G value))
      else if field_type = MMS_HEADER_MESSAGE_TYPE
      then Some (pack_short_integer G (mms_string_to_message_type G value))
      else if field_type = MMS_HEADER_PRIORITY
      then Some (pack_short_integer G (mms_string_to_priority G value))
      else if field_type = MMS_HEADER_READ_STATUS
      then Some (pack_short_integer G (mms_string_to_read_status G value))
      else if field_type = MMS_HEADER_REPLY_CHARGING
      then Some (pack_short_integer G (mms_string_to_reply_charging G value))
      else if field_type = MMS_HEADER_RESPONSE_STATUS then pack_response_status G value
      else if field_type = MMS_HEADER_RETRIEVE_STATUS
      then Some (pack_short_integer G (mms_string_to_retrieve_status G value))
      else if field_type = MMS_HEADER_STATUS
      then Some (pack_short_integer G (mms_string_to_status G value))
      else if field_type = MMS_HEADER_SENDER_VISIBILITY
      then Some (pack_short_integer G (mms_string_to_visibility G value))
      else if field_type = MMS_HEADER_MESSAGE_CLASS
      then let ch = mms_string_to_message_class G value
           in Some (if ch < 0 then gw_pack_text G value else pack_short_integer G ch)
      else if field_type = MMS_HEADER_DATE then Some (gw_pack_date G value)
      else if field_type \<in> {MMS_HEADER_MESSAGE_SIZE, MMS_HEADER_REPLY_CHARGING_SIZE, MMS_HEADER_START,
                             MMS_HEADER_LIMIT, MMS_HEADER_MESSAGE_COUNT}
      then Some (gw_pack_integer_string G value)
      else if field_type = MMS_HEADER_CONTENT_TYPE then Some (gw_pack_content_type G value)
      else if field_type \<in> {MMS_HEADER_DELIVERY_TIME, MMS_HEADER_EXPIRY, MMS_HEADER_REPLY_CHARGING_DEADLINE}
      then Some (pack_time_value G value)
      else if field_type = MMS_HEADER_FROM then Some (pack_from G value)
      else if field_type \<in> {MMS_HEADER_PREVIOUSLY_SENT_BY, MMS_HEADER_PREVIOUSLY_SENT_DATE}
      then pack_previously_sent G field_type value
      else if field_type = MMS_HEADER_MM_STATE
      then Some (pack_short_integer G (mms_string_to_mm_state G value))
      else if field_type = MMS_HEADER_STORE_STATUS
      then Some (pack_short_integer G (mms_string_to_store_status G value))
      else if field_type = MMS_HEADER_MM_FLAGS then Some (pack_mm_flags G value)
      else if field_type = MMS_HEADER_ATTRIBUTES
      then Some (pack_short_integer G (mms_string_to_header G value))
      else if field_type \<in> {MMS_HEADER_MBOX_TOTALS, MMS_HEADER_MBOX_QUOTAS} then pack_mbox_totals G value
      else if field_type = MMS_HEADER_ELEMENT_DESCRIPTOR then Some (pack_element_descriptor G value)
      else Some [])"

text \<open>One header of the loop in \<open>encode_msgheaders\<close>; the headers that have a fixed place are left
  out of it.\<close>

definition encode_header :: "gwlib \<Rightarrow> octstr \<times> octstr \<Rightarrow> octstr option" where
  "encode_header G h =
     (let htype = mms_string_to_header G (fst h)
      in if htype \<in> {MMS_HEADER_MMS_VERSION, MMS_HEADER_MESSAGE_TYPE, MMS_HEADER_TRANSACTION_ID,
                      MMS_HEADER_CONTENT_TYPE}
         then Some []
         else if htype < 0 then Some (gw_pack_application_header G (fst h) (snd h))
         else map_option (\<lambda>v. pack_short_integer G htype @ v) (mms_pack_well_known_field G htype (snd h)))"

fun encode_each :: "gwlib \<Rightarrow> headers \<Rightarrow> octstr option" where
  "encode_each G [] = Some []"
| "encode_each G (h # hs) =
     (case (encode_header G h, encode_each G hs) of
        (Some a, Some b) \<Rightarrow> Some (a @ b)
      | _ \<Rightarrow> None)"

text \<open>Returns the bytes and the header list, whose content type loses its boundary. The loop bound is
  the length before that. A missing message type is looked up as a null pointer, which panics.\<close>

definition encode_msgheaders :: "gwlib \<Rightarrow> headers \<Rightarrow> (octstr \<times> headers) option" where
  "encode_msgheaders G hdrs0 =
     (let l = length hdrs0; hdrs = strip_boundary_element G hdrs0 None in
      case gw_header_value G hdrs ''X-Mms-Message-Type'' of
        None \<Rightarrow> None
      | Some msgtype \<Rightarrow>
          map_option (\<lambda>rest.
            (pack_short_integer G MMS_HEADER_MESSAGE_TYPE @
             pack_short_integer G (mms_string_to_message_type G msgtype) @
             (case gw_header_value G hdrs ''X-Mms-Transaction-Id'' of
                Some transid \<Rightarrow> pack_short_integer G MMS_HEADER_TRANSACTION_ID @ gw_pack_text G transid
              | None \<Rightarrow> []) @
             pack_short_integer G MMS_HEADER_MMS_VERSION @
             gw_pack_version_value G (gw_header_value G hdrs ''X-Mms-MMS-Version'') @
             rest @
             (case gw_header_value G hdrs ''Content-Type'' of
                Some ctype \<Rightarrow> pack_short_integer G MMS_HEADER_CONTENT_TYPE @ gw_pack_content_type G ctype
              | None \<Rightarrow> []), hdrs))
            (encode_each G (take l hdrs)))"

definition encode_msgbody :: "gwlib \<Rightarrow> MmsMsg \<Rightarrow> octstr" where
  "encode_msgbody G msg =
     (case m_body msg of
        Body_null \<Rightarrow> []
      | Body_l l \<Rightarrow> encode_multipart G l
      | Body_s s \<Rightarrow> s)"

text \<open>Returns the bytes and the message, whose headers the encoder changes.\<close>

definition mms_tobinary :: "gwlib \<Rightarrow> MmsMsg \<Rightarrow> (octstr \<times> MmsMsg) option" where
  "mms_tobinary G msg =
     map_option (\<lambda>(s, h). (s @ encode_msgbody G msg, msg\<lparr>m_headers := h\<rparr>)) (encode_msgheaders G (m_headers msg))"

definition mms_msgsize :: "gwlib \<Rightarrow> MmsMsg \<Rightarrow> int option" where
  "mms_msgsize G m = map_option (\<lambda>(s, _). int (length s)) (mms_tobinary G m)"

section \<open>Fix-ups of received messages\<close>

definition add_if_missing :: "gwlib \<Rightarrow> octstr \<Rightarrow> octstr \<Rightarrow> headers \<Rightarrow> headers" where
  "add_if_missing G name value h =
     (if gw_header_value G h name = None then h @ [(name, value)] else h)"

definition default_content_type :: "MmsMsg \<Rightarrow> octstr" where
  "default_content_type m =
     (if m_body m = Body_null \<or>
         (\<not> m_ismultipart m \<and> (case m_body m of Body_s s \<Rightarrow> \<not> list_all mms_gw_isprint s | _ \<Rightarrow> False))
      then ''application/octet-stream''
      else if m_ismultipart m then ''application/vnd.wap.multipart.mixed''
      else ''text/plain'')"

definition fixup_version :: "gwlib \<Rightarrow> MmsMsg \<Rightarrow> MmsMsg" where
  "fixup_version G m =
     (case gw_header_value G (m_headers m) ''X-Mms-MMS-Version'' of
        None \<Rightarrow> m\<lparr>m_enc := Some MS_1_1,
                  m_headers := m_headers m @ [(''X-Mms-MMS-Version'', MMS_DEFAULT_VERSION)]\<rparr>
      | Some ver \<Rightarrow>
          if gw_compare G ver ''1.1'' \<le> 0 then m\<lparr>m_enc := Some MS_1_1\<rparr>
          else if gw_compare G ver ''1.2'' \<le> 0 then m\<lparr>m_enc := Some MS_1_2\<rparr>
          else m)"

definition fixup_msg :: "gwlib \<Rightarrow> int \<Rightarrow> MmsMsg \<Rightarrow> octstr option \<Rightarrow> MmsMsg" where
  "fixup_msg G tnow m0 from =
     (let m = fixup_version G m0;
          h0 = gw_header_remove_all G (m_headers m) ''MIME-Version'';
          t = m_message_type m in
      if t \<in> {MMS_MSGTYPE_SEND_REQ, MMS_MSGTYPE_RETRIEVE_CONF, MMS_MSGTYPE_FORWARD_REQ}
      then
        let h1 = (case from of Some f \<Rightarrow> add_if_missing G ''From'' f h0 | None \<Rightarrow> h0);
            h2 = add_if_missing G ''Date'' (gw_date_format_http G tnow) h1;
            h3 = (if t \<noteq> MMS_MSGTYPE_RETRIEVE_CONF
                  then add_if_missing G ''X-Mms-Transaction-ID'' ''00001'' h2 else h2);
            h4 = add_if_missing G ''Content-Type'' (default_content_type m) h3
        in m\<lparr>m_headers := strip_boundary_element G h4 None\<rparr>
      else if t \<in> {MMS_MSGTYPE_SEND_CONF, MMS_MSGTYPE_NOTIFICATION_IND, MMS_MSGTYPE_DELIVERY_IND,
                    MMS_MSGTYPE_READ_REC_IND, MMS_MSGTYPE_READ_ORIG_IND}
      then m\<lparr>m_headers := gw_header_remove_all G h0 ''Content-Type''\<rparr>
      else m\<lparr>m_headers := h0\<rparr>)"

section \<open>Conversion to and from MIME\<close>

definition mime_multipart_type :: "gwlib \<Rightarrow> octstr \<Rightarrow> octstr option" where
  "mime_multipart_type G content_type =
     (if gw_compare G content_type ''application/vnd.wap.multipart.related'' = 0 then Some ''multipart/related''
      else if gw_compare G content_type ''application/vnd.wap.multipart.alternative'' = 0 then Some ''multipart/alternative''
      else if gw_compare G content_type ''application/vnd.wap.multipart.mixed'' = 0 then Some ''multipart/mixed''
      else None)"

text \<open>The content type with its raw parameters: the re-quoted ones that the code computes are not
  used.\<close>

definition convert_mime_headers :: "gwlib \<Rightarrow> headers \<Rightarrow> headers" where
  "convert_mime_headers G h =
     (let (n, content_type, params) = get_content_type G h in
      case (if n = 0 then mime_multipart_type G content_type else None) of
        None \<Rightarrow> h
      | Some s \<Rightarrow>
          gw_header_remove_all G h ''Content-Type'' @
          [(''Content-Type'', if length params > 0 then s @ ''; '' @ params else s)])"

fun convert_mime_msg :: "gwlib \<Rightarrow> mime \<Rightarrow> mime" where
  "convert_mime_msg G (Mime h ps b) = Mime (convert_mime_headers G h) (map (convert_mime_msg G) ps) b"

definition wap_type_of :: "gwlib \<Rightarrow> octstr \<Rightarrow> octstr option" where
  "wap_type_of G content_type =
     (if gw_case_compare G content_type ''multipart/related'' = 0 then Some ''application/vnd.wap.multipart.related''
      else if gw_case_compare G content_type ''multipart/alternative'' = 0 then Some ''application/vnd.wap.multipart.alternative''
      else if gw_case_compare G content_type ''multipart/mixed'' = 0 then Some ''application/vnd.wap.multipart.mixed''
      else None)"

text \<open>A DRM entity that was parsed into parts loses them; its body is kept.\<close>

fun unconvert_mime_msg :: "gwlib \<Rightarrow> mime \<Rightarrow> mime" where
  "unconvert_mime_msg G (Mime h ps b) =
     (let (n, content_type, params) = get_content_type G h in
      if n \<noteq> 0 then Mime h (map (unconvert_mime_msg G) ps) b
      else
        case wap_type_of G content_type of
          Some s \<Rightarrow> Mime (strip_boundary_element G h (Some s)) (map (unconvert_mime_msg G) ps) b
        | None \<Rightarrow>
            if drm_content_type G (Some content_type) \<and> ps \<noteq> [] then Mime h [] b
            else Mime h (map (unconvert_mime_msg G) ps) b)"

definition mms_tomime :: "gwlib \<Rightarrow> MmsMsg \<Rightarrow> bool \<Rightarrow> mime" where
  "mms_tomime G msg base64 =
     (let m = (if \<not> m_ismultipart msg
               then Mime (m_headers msg) [] (case m_body msg of Body_s s \<Rightarrow> Some s | _ \<Rightarrow> None)
               else Mime (m_headers msg) (case m_body msg of Body_l l \<Rightarrow> l | _ \<Rightarrow> []) None);
          m' = convert_mime_msg G m
      in if base64 then base64_mimeparts G m' False else m')"

section \<open>Reports, notifications and confirmations\<close>

definition mms_readreport ::
  "gwlib \<Rightarrow> octstr option \<Rightarrow> octstr \<Rightarrow> octstr \<Rightarrow> int \<Rightarrow> octstr \<Rightarrow> MmsMsg" where
  "mms_readreport G msgid from to date status =
     \<lparr> m_message_type = MMS_MSGTYPE_READ_ORIG_IND,
       m_msgId = Some (case msgid of Some i \<Rightarrow> i | None \<Rightarrow> ''none''),
       m_headers =
         [(''X-Mms-Message-Type'', ''m-read-orig-ind''), (''X-Mms-MMS-Version'', MMS_DEFAULT_VERSION),
          (''Message-ID'', case msgid of Some i \<Rightarrow> i | None \<Rightarrow> ''none''), (''To'', to), (''From'', from),
          (''Date'', gw_date_format_http G date), (''X-Mms-Status'', status)],
       m_enc = None, m_ismultipart = False, m_body = Body_null \<rparr>"

definition mms_deliveryreport ::
  "gwlib \<Rightarrow> octstr option \<Rightarrow> octstr option \<Rightarrow> octstr option \<Rightarrow> int \<Rightarrow> octstr \<Rightarrow> MmsMsg" where
  "mms_deliveryreport G msgid from to date status =
     \<lparr> m_message_type = MMS_MSGTYPE_DELIVERY_IND,
       m_msgId = Some (case msgid of Some i \<Rightarrow> i | None \<Rightarrow> ''none''),
       m_headers =
         [(''X-Mms-Message-Type'', ''m-delivery-ind''), (''X-Mms-MMS-Version'', MMS_DEFAULT_VERSION),
          (''Message-ID'', case msgid of Some i \<Rightarrow> i | None \<Rightarrow> ''none'')] @
         (case to of Some t \<Rightarrow> [(''To'', t)] | None \<Rightarrow> []) @
         (case from of Some f \<Rightarrow> [(''From'', f)] | None \<Rightarrow> []) @
         [(''Date'', gw_date_format_http G date), (''X-Mms-Status'', status)],
       m_enc = None, m_ismultipart = False, m_body = Body_null \<rparr>"

text \<open>\<open>sprintf\<close> into a buffer of \<open>n\<close> bytes: with its NUL byte the text must fit.\<close>

definition sprintf_buf :: "nat \<Rightarrow> string \<Rightarrow> string option" where
  "sprintf_buf n s = (if length s < n then Some s else None)"

text \<open>The message size is an \<open>unsigned int\<close> printed with \<open>%d\<close>.\<close>

definition mms_notification ::
  "gwlib \<Rightarrow> int \<Rightarrow> octstr option \<Rightarrow> octstr option \<Rightarrow> octstr option \<Rightarrow> 32 word \<Rightarrow> octstr \<Rightarrow> octstr \<Rightarrow>
   int \<Rightarrow> bool \<Rightarrow> MmsMsg option" where
  "mms_notification G tnow from subject mclass msize url transactionid expiryt optimizesize =
     (case (sprintf_buf 10 (show_int (sint msize)),
            sprintf_buf 10 (show_int (if expiryt \<noteq> 0 then expiryt - tnow else 365 * 24 * 3600))) of
        (Some buf1, Some buf2) \<Rightarrow> Some
          \<lparr> m_message_type = MMS_MSGTYPE_NOTIFICATION_IND, m_msgId = None,
            m_headers =
              [(''X-Mms-Message-Type'', ''m-notification-ind''), (''X-Mms-Transaction-ID'', transactionid),
               (''X-Mms-MMS-Version'', MMS_DEFAULT_VERSION)] @
              (case from of Some f \<Rightarrow> [(''From'', f)] | None \<Rightarrow> []) @
              (case subject of Some s \<Rightarrow> if optimizesize then [] else [(''Subject'', s)] | None \<Rightarrow> []) @
              [(''X-Mms-Message-Class'', case mclass of Some c \<Rightarrow> c | None \<Rightarrow> ''Personal''),
               (''X-Mms-Message-Size'', buf1), (''X-Mms-Expiry'', buf2), (''X-Mms-Content-Location'', url)],
            m_enc = None, m_ismultipart = False, m_body = Body_null \<rparr>
      | _ \<Rightarrow> None)"

definition version_for :: "int \<Rightarrow> octstr" where
  "version_for menc = (if menc \<ge> MS_1_2 then ''1.2'' else MMS_DEFAULT_VERSION)"

text \<open>Without a message the text of the error report is the error string itself, and the error must
  not be a null pointer.\<close>

definition mms_retrieveconf ::
  "gwlib \<Rightarrow> int \<Rightarrow> MmsMsg option \<Rightarrow> octstr option \<Rightarrow> octstr \<Rightarrow> octstr option \<Rightarrow> octstr option \<Rightarrow> int \<Rightarrow> MmsMsg" where
  "mms_retrieveconf G tnow msg transactionid err errtxt opt_from menc =
     (let h = [(''X-Mms-Message-Type'', ''m-retrieve-conf'')] @
              (case transactionid of Some t \<Rightarrow> [(''X-Mms-Transaction-ID'', t)] | None \<Rightarrow> []) @
              [(''X-Mms-MMS-Version'', version_for menc)] in
      case msg of
        None \<Rightarrow>
          \<lparr> m_message_type = MMS_MSGTYPE_RETRIEVE_CONF, m_msgId = Some ''00000'',
            m_headers = h @
              [(''Date'', gw_date_format_http G tnow), (''X-Mms-Retrieve-Status'', err),
               (''X-Mms-Retrieve-Text'', err)] @
              (case opt_from of Some f \<Rightarrow> [(''From'', f)] | None \<Rightarrow> []) @
              [(''Content-Type'', ''text/plain'')],
            m_enc = None, m_ismultipart = False,
            m_body = Body_s (case errtxt of Some e \<Rightarrow> e | None \<Rightarrow> '' '') \<rparr>
      | Some m \<Rightarrow>
          \<lparr> m_message_type = MMS_MSGTYPE_RETRIEVE_CONF, m_msgId = m_msgId m,
            m_headers =
              gw_header_remove_all G (gw_header_remove_all G (gw_header_remove_all G
                (gw_header_combine G (m_headers m) h)
                ''X-Mms-Expiry'') ''X-Mms-Delivery-Time'') ''X-Mms-Sender-Visibility'',
            m_enc = None, m_ismultipart = m_ismultipart m, m_body = m_body m \<rparr>)"

definition mms_sendconf :: "octstr \<Rightarrow> octstr option \<Rightarrow> octstr \<Rightarrow> bool \<Rightarrow> int \<Rightarrow> MmsMsg" where
  "mms_sendconf errstr msgid transid isforward menc =
     \<lparr> m_message_type = (if isforward then MMS_MSGTYPE_FORWARD_CONF else MMS_MSGTYPE_SEND_CONF),
       m_msgId = msgid,
       m_headers =
         [(''X-Mms-Message-Type'', if isforward then ''m-forward-conf'' else ''m-send-conf''),
          (''X-Mms-Transaction-ID'', transid), (''X-Mms-MMS-Version'', version_for menc),
          (''X-Mms-Response-Status'', errstr)] @
         (case msgid of Some i \<Rightarrow> [(''Message-ID'', i)] | None \<Rightarrow> []),
       m_enc = None, m_ismultipart = False, m_body = Body_null \<rparr>"

definition mms_notifyresp_ind :: "octstr \<Rightarrow> int \<Rightarrow> octstr \<Rightarrow> bool \<Rightarrow> MmsMsg" where
  "mms_notifyresp_ind transid menc status report_allowed =
     \<lparr> m_message_type = MMS_MSGTYPE_NOTIFYRESP, m_msgId = None,
       m_headers =
         [(''X-Mms-Message-Type'', ''m-notifyresp-ind''), (''X-Mms-Transaction-ID'', transid),
          (''X-Mms-MMS-Version'', version_for menc), (''X-Mms-Status'', status),
          (''X-Mms-Report-Allowed'', if report_allowed then ''Yes'' else ''No'')],
       m_enc = None, m_ismultipart = False, m_body = Body_null \<rparr>"

definition mms_storeconf :: "octstr \<Rightarrow> octstr \<Rightarrow> octstr option \<Rightarrow> bool \<Rightarrow> MmsMsg" where
  "mms_storeconf errstr transid msgloc isupload =
     \<lparr> m_message_type = (if isupload then MMS_MSGTYPE_MBOX_UPLOAD_CONF else MMS_MSGTYPE_MBOX_STORE_CONF),
       m_msgId = None,
       m_headers =
         [(''X-Mms-Message-Type'', if isupload then ''m-mbox-upload-conf'' else ''m-mbox-store-conf''),
          (''X-Mms-Transaction-ID'', transid), (''X-Mms-MMS-Version'', ''1.2''),
          (''X-Mms-Store-Status'', errstr)] @
         (case msgloc of Some l \<Rightarrow> [(''X-Mms-Content-Location'', l)] | None \<Rightarrow> []),
       m_enc = None, m_ismultipart = False, m_body = Body_null \<rparr>"

definition mms_deleteconf :: "octstr \<Rightarrow> MmsMsg" where
  "mms_deleteconf transid =
     \<lparr> m_message_type = MMS_MSGTYPE_MBOX_DELETE_CONF, m_msgId = None,
       m_headers =
         [(''X-Mms-Message-Type'', ''m-mbox-delete-conf''), (''X-Mms-Transaction-ID'', transid),
          (''X-Mms-MMS-Version'', ''1.2'')],
       m_enc = None, m_ismultipart = False, m_body = Body_null \<rparr>"

section \<open>Headers and body\<close>

definition mms_remove_headers :: "gwlib \<Rightarrow> MmsMsg \<Rightarrow> octstr \<Rightarrow> MmsMsg" where
  "mms_remove_headers G m name = m\<lparr>m_headers := gw_header_remove_all G (m_headers m) name\<rparr>"

definition mms_replace_header_value :: "gwlib \<Rightarrow> MmsMsg \<Rightarrow> octstr \<Rightarrow> octstr \<Rightarrow> MmsMsg" where
  "mms_replace_header_value G msg hname value =
     msg\<lparr>m_headers := gw_header_remove_all G (m_headers msg) hname @ [(hname, value)]\<rparr>"

definition mms_replace_header_values :: "gwlib \<Rightarrow> MmsMsg \<Rightarrow> octstr \<Rightarrow> octstr list \<Rightarrow> MmsMsg" where
  "mms_replace_header_values G msg hname value =
     msg\<lparr>m_headers := gw_header_remove_all G (m_headers msg) hname @ map (\<lambda>x. (hname, x)) value\<rparr>"

definition mms_add_missing_headers :: "gwlib \<Rightarrow> MmsMsg \<Rightarrow> headers \<Rightarrow> MmsMsg" where
  "mms_add_missing_headers G msg headers =
     msg\<lparr>m_headers := gw_header_combine G headers (m_headers msg)\<rparr>"

definition mms_get_header_value :: "gwlib \<Rightarrow> MmsMsg \<Rightarrow> octstr \<Rightarrow> octstr option" where
  "mms_get_header_value G msg header = gw_header_value G (m_headers msg) header"

definition mms_get_header_values :: "gwlib \<Rightarrow> MmsMsg \<Rightarrow> octstr \<Rightarrow> octstr list" where
  "mms_get_header_values G msg header = map snd (gw_header_find_all G (m_headers msg) header)"

text \<open>\<open>None\<close> is the failed assertion on another message type.\<close>

definition mms_make_sendreq :: "gwlib \<Rightarrow> MmsMsg \<Rightarrow> MmsMsg option" where
  "mms_make_sendreq G m =
     (if m_message_type m = MMS_MSGTYPE_SEND_REQ then Some m
      else if m_message_type m \<noteq> MMS_MSGTYPE_RETRIEVE_CONF then None
      else map_option (\<lambda>s. mms_replace_header_value G (m\<lparr>m_message_type := MMS_MSGTYPE_SEND_REQ\<rparr>)
                             ''X-Mms-Message-Type'' s)
             (mms_message_type_to_cstr MMS_MSGTYPE_SEND_REQ))"

definition mms_convert_readrec2readorig :: "gwlib \<Rightarrow> int \<Rightarrow> MmsMsg \<Rightarrow> int \<times> MmsMsg" where
  "mms_convert_readrec2readorig G tnow msg =
     (if m_message_type msg \<noteq> MMS_MSGTYPE_READ_REC_IND then (-1, msg)
      else
        let m1 = (mms_replace_header_value G msg ''X-Mms-Message-Type'' ''m-read-orig-ind'')
                   \<lparr>m_message_type := MMS_MSGTYPE_READ_ORIG_IND\<rparr>
        in (0, if mms_get_header_value G m1 ''Date'' = None
               then mms_replace_header_value G m1 ''Date'' (gw_date_format_http G tnow) else m1))"

definition mms_clearbody :: "gwlib \<Rightarrow> MmsMsg \<Rightarrow> MmsMsg" where
  "mms_clearbody G msg =
     msg\<lparr>m_body := Body_null, m_ismultipart := False,
         m_headers := gw_header_remove_all G (m_headers msg) ''Content-Type''\<rparr>"

definition mms_putbody :: "gwlib \<Rightarrow> MmsMsg \<Rightarrow> msg_body \<Rightarrow> bool \<Rightarrow> MmsMsg" where
  "mms_putbody G msg body ismultipart =
     (mms_clearbody G msg)\<lparr>m_ismultipart := ismultipart, m_body := body\<rparr>"

section \<open>Mailbox views\<close>

text \<open>The headers of one mailbox description that a requested header contributes.\<close>

definition requested_headers :: "gwlib \<Rightarrow> headers \<Rightarrow> nat \<Rightarrow> octstr \<Rightarrow> headers" where
  "requested_headers G hs msize header =
     (if gw_case_compare G header ''Content'' = 0 then []
      else if gw_case_compare G header ''X-Mms-Message-Size'' = 0 then [(''X-Mms-Message-Size'', show_nat msize)]
      else map (\<lambda>h. (header, snd h)) (gw_header_find_all G hs header))"

definition mms_convert_to_mboxdescr ::
  "gwlib \<Rightarrow> MmsMsg \<Rightarrow> octstr \<Rightarrow> octstr list \<Rightarrow> nat \<Rightarrow> MmsMsg" where
  "mms_convert_to_mboxdescr G mm cloc reqhdrs msize =
     (let hs = m_headers mm;
          addcontent = (\<exists>r \<in> set reqhdrs. gw_case_compare G r ''Content'' = 0);
          hasmsgid = (\<exists>r \<in> set reqhdrs. gw_case_compare G r ''Content'' \<noteq> 0 \<and>
                        gw_case_compare G r ''X-Mms-Message-Size'' \<noteq> 0 \<and> gw_case_compare G r ''Message-ID'' = 0);
          mh0 = [(''X-Mms-Message-Type'', ''m-mbox-descr''), (''X-Mms-MMS-Version'', ''1.2''),
                 (''X-Mms-Content-Location'', cloc)] @ concat (map (requested_headers G hs msize) reqhdrs);
          mh1 = (if hasmsgid then mh0
                 else case gw_header_value G hs ''Message-ID'' of
                        Some v \<Rightarrow> mh0 @ [(''Message-ID'', v)] | None \<Rightarrow> mh0);
          mh2 = gw_header_combine G mh1 (gw_header_find_all G hs ''X-Mms-MM-Flags'');
          mh3 = (case gw_header_value G hs ''X-Mms-MM-State'' of
                   Some x \<Rightarrow> gw_header_remove_all G mh2 ''X-Mms-MM-State'' @ [(''X-Mms-MM-State'', x)]
                 | None \<Rightarrow> mh2);
          mh4 = (if addcontent
                 then case gw_header_value G hs ''Content-Type'' of
                        Some c \<Rightarrow> mh3 @ [(''Content-Type'', c)] | None \<Rightarrow> mh3
                 else mh3)
      in mm\<lparr>m_message_type := MMS_MSGTYPE_MBOX_DESCR, m_headers := mh4,
            m_body := (if addcontent then m_body mm else Body_null)\<rparr>)"

text \<open>The loop over the message references: \<open>getmsg\<close> gives the message and its size. The first
  description that does not fit ends the loop. Returns the parts and the size reached.\<close>

fun view_parts ::
  "gwlib \<Rightarrow> (octstr \<Rightarrow> 's \<Rightarrow> ((MmsMsg \<times> nat) option \<times> 's) option) \<Rightarrow> octstr list \<Rightarrow> int \<Rightarrow> (octstr \<times> octstr) list \<Rightarrow> int \<Rightarrow>
   's \<Rightarrow> ((mime list \<times> int) \<times> 's) option" where
  "view_parts G getmsg required_headers maxsize [] msize w = Some (([], msize), w)"
| "view_parts G getmsg required_headers maxsize ((msgref, msgloc) # refs) msize w =
     (case getmsg msgref w of
        None \<Rightarrow> None
      | Some (None, w1) \<Rightarrow> view_parts G getmsg required_headers maxsize refs msize w1
      | Some (Some (mm, tmsize), w1) \<Rightarrow>
          case mms_tobinary G (mms_convert_to_mboxdescr G mm msgloc required_headers tmsize) of
            None \<Rightarrow> None
          | Some (ms, _) \<Rightarrow>
              if int (length ms) + msize \<le> maxsize
              then map_option (\<lambda>((ps, sz), w2).
                     ((Mime [(''Content-Type'', ''application/vnd.wap.mms-message'')] [] (Some ms) # ps, sz), w2))
                     (view_parts G getmsg required_headers maxsize refs (msize + int (length ms)) w1)
              else Some (([], msize), w1))"

definition view_headers :: "gwlib \<Rightarrow> octstr \<Rightarrow> headers \<Rightarrow> headers" where
  "view_headers G transid otherhdrs =
     gw_header_combine G
       [(''X-Mms-Message-Type'', ''m-mbox-view-conf''), (''X-Mms-Transaction-ID'', transid),
        (''X-Mms-MMS-Version'', ''1.2''), (''X-Mms-Message-Count'', ''0''), (''Content-Type'', ''*/*'')]
       otherhdrs"

definition mms_viewconf ::
  "gwlib \<Rightarrow> octstr \<Rightarrow> (octstr \<times> octstr) list option \<Rightarrow> octstr option \<Rightarrow> octstr list \<Rightarrow>
   (octstr \<Rightarrow> 's \<Rightarrow> ((MmsMsg \<times> nat) option \<times> 's) option) \<Rightarrow> int \<Rightarrow> headers \<Rightarrow> 's \<Rightarrow> (MmsMsg \<times> 's) option" where
  "mms_viewconf G transid msgrefs err required_headers getmsg maxsize otherhdrs w =
     (let err' = (case err of Some e \<Rightarrow> e | None \<Rightarrow> ''Ok'');
          h = view_headers G transid otherhdrs;
          base = \<lparr> m_message_type = MMS_MSGTYPE_MBOX_VIEW_CONF, m_msgId = None, m_headers = h,
                   m_enc = None, m_ismultipart = False, m_body = Body_null \<rparr> in
      if msgrefs = None \<or> ci err' \<noteq> ''ok''
      then Some (base\<lparr>m_headers := h @ [(''X-Mms-Response-Status'', err')]\<rparr>, w)
      else
        let m = base\<lparr>m_headers := h @ [(''X-Mms-Response-Status'', ''Ok'')]\<rparr> in
        case mms_tobinary G m of
          None \<Rightarrow> None
        | Some (s, m') \<Rightarrow>
            case view_parts G getmsg required_headers maxsize (the msgrefs) (int (length s)) w of
              None \<Rightarrow> None
            | Some ((parts, _), w1) \<Rightarrow>
                Some (if parts \<noteq> []
                      then mms_replace_header_value G
                             (mms_replace_header_value G (m'\<lparr>m_ismultipart := True, m_body := Body_l parts\<rparr>)
                                ''X-Mms-Message-Count'' (show_nat (length parts)))
                             ''Content-Type'' ''application/vnd.wap.multipart.mixed''
                      else m', w1))"

section \<open>Facts on headers\<close>

lemma strip_boundary_other:
  assumes G: "gwlib_api G" and "ci n \<noteq> ci ''Content-Type''"
  shows "gw_header_value G (strip_boundary_element G h s) n = gw_header_value G h n"
  using gwlib_api.header_value_remove_other [OF assms] gwlib_api.header_value_append_other [OF assms]
  by (simp add: strip_boundary_element_def Let_def split: prod.split option.split)

lemma strip_boundary_content_type:
  assumes G: "gwlib_api G"
  shows "gw_header_value G (strip_boundary_element G h None) ''Content-Type'' = None \<longleftrightarrow>
    gw_header_value G h ''Content-Type'' = None"
  using gwlib_api.header_value_append_new [OF G gwlib_api.header_value_after_remove [OF G], of "''Content-Type''" "''Content-Type''"]
  by (auto simp: strip_boundary_element_def get_content_type_def Let_def split: prod.splits option.splits)

lemma add_if_missing_has:
  assumes G: "gwlib_api G"
  shows "gw_header_value G (add_if_missing G n v h) n = Some (case gw_header_value G h n of Some x \<Rightarrow> x | None \<Rightarrow> v)"
  using gwlib_api.header_value_append_new [OF G, of h n n v] by (simp add: add_if_missing_def split: option.split)

lemma add_if_missing_other:
  assumes "gwlib_api G" and "ci n \<noteq> ci m"
  shows "gw_header_value G (add_if_missing G m v h) n = gw_header_value G h n"
  using gwlib_api.header_value_append_other [OF assms] by (simp add: add_if_missing_def)

section \<open>Properties of the encoding\<close>

lemma header_bytes: "char_of (140 :: nat) = CHR 0x8C" "char_of (152 :: nat) = CHR 0x98" "char_of (129 :: nat) = CHR 0x81"
    "char_of (128 :: nat) = CHR 0x80"
  by code_simp+

text \<open>The header fields whose value is one of a table, with that table.\<close>

definition enum_fields :: "(int \<times> table) list" where
  "enum_fields =
     map (\<lambda>f. (f, reports_table))
       [MMS_HEADER_DELIVERY_REPORT, MMS_HEADER_REPORT_ALLOWED, MMS_HEADER_READ_REPORT,
        MMS_HEADER_DISTRIBUTION_INDICATOR, MMS_HEADER_QUOTAS, MMS_HEADER_STORE, MMS_HEADER_STORED,
        MMS_HEADER_TOTALS] @
     [(MMS_HEADER_MESSAGE_TYPE, message_type_table), (MMS_HEADER_PRIORITY, priority_table),
      (MMS_HEADER_READ_STATUS, read_status_table), (MMS_HEADER_REPLY_CHARGING, reply_charging_table),
      (MMS_HEADER_RESPONSE_STATUS, response_status_table), (MMS_HEADER_RETRIEVE_STATUS, retrieve_status_table),
      (MMS_HEADER_STATUS, status_table), (MMS_HEADER_SENDER_VISIBILITY, visibility_table),
      (MMS_HEADER_MM_STATE, mm_state_table), (MMS_HEADER_STORE_STATUS, store_status_table),
      (MMS_HEADER_ATTRIBUTES, header_table)]"

lemmas enum_tab_simps =
  reports_tab.number_string_number message_type_tab.number_string_number priority_tab.number_string_number
  read_status_tab.number_string_number reply_charging_tab.number_string_number
  response_status_tab.number_string_number retrieve_status_tab.number_string_number
  status_tab.number_string_number visibility_tab.number_string_number mm_state_tab.number_string_number
  store_status_tab.number_string_number header_tab.number_string_number

lemma pack_short:
  assumes "gwlib_api G"
  shows "pack_short_integer G ch = [char_of (128 + nat (ch mod 128))]"
proof -
  have "nat (ch mod 128) < 128" by (simp add: nat_less_iff)
  then show ?thesis by (simp add: pack_short_integer_def gwlib_api.pack_short_integer [OF assms])
qed

lemma response_status_no_digit: "list_all (\<lambda>s. \<not> starts_with_digit s) (tstrings response_status_table)"
  by code_simp

lemma response_status_plain:
  "number_to_cstr n response_status_table = Some v \<Longrightarrow> \<not> starts_with_digit v"
  using response_status_tab.number_to_cstr_Some [of n v] response_status_no_digit response_status_tab.len
  by (auto simp: list_all_length)

text \<open>Every header field with an enumerated value is encoded as one byte that determines the value:
  the name of the number \<open>n\<close> in the table of the field becomes the byte with the top bit set and
  the number in its low seven bits.\<close>

theorem enum_fields_one_byte:
  assumes G: "gwlib_api G" and "(f, t) \<in> set enum_fields" and "number_to_cstr n t = Some v"
  shows "mms_pack_well_known_field G f v = Some [char_of (128 + nat (n mod 128))]"
proof -
  have plain: "t = response_status_table \<Longrightarrow> \<not> starts_with_digit v"
    using response_status_plain assms(3) by simp
  have "string_to_number G v t = n"
    using assms(2,3) unfolding enum_fields_def
    by (simp, elim disjE conjE; simp only: enum_tab_simps [OF G])
  moreover have "mms_pack_well_known_field G f v = Some (pack_short_integer G (string_to_number G v t))"
    using assms(2) plain unfolding enum_fields_def
    by (simp, elim disjE conjE; simp add: mms_pack_well_known_field_def accessor_defs pack_response_status_def)
  ultimately show ?thesis by (simp add: pack_short [OF G])
qed

lemma enum_fields_one_byte_witness:
  "mms_pack_well_known_field gwlib_ref MMS_HEADER_STATUS ''Retrieved'' = Some [CHR 0x81]"
proof -
  have "number_to_cstr 1 status_table = Some ''Retrieved''" by code_simp
  then show ?thesis
    using enum_fields_one_byte [OF gwlib_ref_api, of MMS_HEADER_STATUS status_table 1 "''Retrieved''"]
    by (simp add: enum_fields_def header_bytes)
qed

text \<open>The encoding of a message starts with its type, then the transaction identifier, as the MMS
  specification requires: the first two bytes are the message type field and the code of the type, and
  a transaction identifier follows directly, wherever these headers stand in the list.\<close>

theorem encoding_starts_with_type:
  assumes G: "gwlib_api G" and enc: "encode_msgheaders G hs = Some (s, h)"
    and ty: "gw_header_value G hs ''X-Mms-Message-Type'' = Some v" "number_to_cstr n message_type_table = Some v"
  shows "take 2 s = [CHR 0x8C, char_of (128 + nat (n mod 128))] \<and>
    (\<forall>t. gw_header_value G hs ''X-Mms-Transaction-Id'' = Some t \<longrightarrow>
      take (1 + length (gw_pack_text G t)) (drop 2 s) = CHR 0x98 # gw_pack_text G t)"
proof -
  have "gw_header_value G (strip_boundary_element G hs None) ''X-Mms-Message-Type'' = Some v"
    using ty(1) strip_boundary_other [OF G, of "''X-Mms-Message-Type''" hs None] by (simp add: ci_def)
  moreover have "gw_header_value G (strip_boundary_element G hs None) ''X-Mms-Transaction-Id'' =
      gw_header_value G hs ''X-Mms-Transaction-Id''"
    by (rule strip_boundary_other [OF G]) (simp add: ci_def)
  ultimately show ?thesis
    using enc message_type_tab.number_string_number [OF G ty(2)]
    by (auto simp: encode_msgheaders_def Let_def pack_short [OF G] accessor_defs header_bytes)
qed

lemma encoding_starts_with_type_witness:
  "\<exists>s h. encode_msgheaders gwlib_ref [(''X-Mms-Transaction-Id'', ''7''), (''X-Mms-Message-Type'', ''m-send-req'')] = Some (s, h) \<and>
     take 2 s = [CHR 0x8C, CHR 0x80]"
proof -
  let ?hs = "[(''X-Mms-Transaction-Id'', ''7''), (''X-Mms-Message-Type'', ''m-send-req'')]"
  have v: "gw_header_value gwlib_ref ?hs ''X-Mms-Message-Type'' = Some ''m-send-req''" by code_simp
  have n: "number_to_cstr 0 message_type_table = Some ''m-send-req''" by code_simp
  have b: "char_of (128 :: nat) = CHR 0x80" by (rule header_bytes)
  have "encode_msgheaders gwlib_ref ?hs \<noteq> None" by code_simp
  then obtain s h where e: "encode_msgheaders gwlib_ref ?hs = Some (s, h)" by auto
  then show ?thesis using encoding_starts_with_type [OF gwlib_ref_api e v n] by (simp add: b)
qed

text \<open>A previous-sender field without a counter has no encoding: the code packs an uninitialised
  variable, so neither the field nor any message that has it is encoded to definite bytes.\<close>

theorem previously_sent_uninitialised:
  assumes G: "gwlib_api G" and bad: "fst (gw_parse_long G v 0 10) < 0"
    and f: "f \<in> {MMS_HEADER_PREVIOUSLY_SENT_BY, MMS_HEADER_PREVIOUSLY_SENT_DATE}"
    and n: "mms_string_to_header G name = f"
  shows "mms_pack_well_known_field G f v = None \<and> encode_each G (hs @ (name, v) # hs') = None"
proof -
  have p: "mms_pack_well_known_field G f v = None"
    using bad f by (auto simp: mms_pack_well_known_field_def pack_previously_sent_def counter_value_def split: prod.splits)
  moreover have "encode_header G (name, v) = None"
    using p n f by (auto simp: encode_header_def Let_def)
  then have "encode_each G (hs @ (name, v) # hs') = None"
    by (induction hs) (auto split: option.splits)
  ultimately show ?thesis ..
qed

lemma previously_sent_uninitialised_witness:
  "encode_each gwlib_ref [(''X-Mms-Previously-Sent-By'', ''a@b'')] = None"
proof -
  have "fst (gw_parse_long gwlib_ref ''a@b'' 0 10) < 0" by code_simp
  moreover have "mms_string_to_header gwlib_ref ''X-Mms-Previously-Sent-By'' = MMS_HEADER_PREVIOUSLY_SENT_BY"
    by code_simp
  ultimately show ?thesis
    using previously_sent_uninitialised [OF gwlib_ref_api, of "''a@b''" MMS_HEADER_PREVIOUSLY_SENT_BY
        "''X-Mms-Previously-Sent-By''" "[]" "[]"] by simp
qed

section \<open>Properties of fix-ups, notifications and views\<close>

text \<open>Fixing up a send or forward request supplies everything the MMSC needs later: a date, a
  transaction identifier, a content type, a protocol version and, when the caller knows the sender, a
  sender; a value that was already there is kept, and a MIME version header is removed.\<close>

theorem fixup_msg_complete:
  assumes G: "gwlib_api G" and t: "m_message_type m \<in> {MMS_MSGTYPE_SEND_REQ, MMS_MSGTYPE_FORWARD_REQ}"
    and h_def: "h = m_headers m" and h'_def: "h' = m_headers (fixup_msg G tnow m (Some from))"
  shows "gw_header_value G h' ''Date'' = Some (case gw_header_value G h ''Date'' of Some d \<Rightarrow> d | None \<Rightarrow> gw_date_format_http G tnow) \<and>
    gw_header_value G h' ''From'' = Some (case gw_header_value G h ''From'' of Some f \<Rightarrow> f | None \<Rightarrow> from) \<and>
    gw_header_value G h' ''X-Mms-Transaction-ID'' = Some (case gw_header_value G h ''X-Mms-Transaction-ID'' of Some x \<Rightarrow> x | None \<Rightarrow> ''00001'') \<and>
    gw_header_value G h' ''X-Mms-MMS-Version'' = Some (case gw_header_value G h ''X-Mms-MMS-Version'' of Some x \<Rightarrow> x | None \<Rightarrow> ''1.0'') \<and>
    gw_header_value G h' ''Content-Type'' \<noteq> None \<and> gw_header_value G h' ''MIME-Version'' = None"
proof -
  define h0 where "h0 = gw_header_remove_all G (m_headers (fixup_version G m)) ''MIME-Version''"
  define h2 where "h2 = add_if_missing G ''Date'' (gw_date_format_http G tnow) (add_if_missing G ''From'' from h0)"
  define h4 where "h4 = add_if_missing G ''Content-Type'' (default_content_type (fixup_version G m))
    (add_if_missing G ''X-Mms-Transaction-ID'' ''00001'' h2)"
  have ty: "m_message_type (fixup_version G m) = m_message_type m"
    by (simp add: fixup_version_def split: option.split)
  have h': "h' = strip_boundary_element G h4 None"
    using t ty by (auto simp: h'_def h4_def h2_def h0_def fixup_msg_def Let_def)
  have ver: "gw_header_value G (m_headers (fixup_version G m)) n = gw_header_value G h n"
    if "ci n \<noteq> ci ''X-Mms-MMS-Version''" for n
    using gwlib_api.header_value_append_other [OF G that]
    by (simp add: fixup_version_def h_def split: option.split)
  have ver': "gw_header_value G (m_headers (fixup_version G m)) ''X-Mms-MMS-Version'' =
      Some (case gw_header_value G h ''X-Mms-MMS-Version'' of Some x \<Rightarrow> x | None \<Rightarrow> ''1.0'')"
    using gwlib_api.header_value_append_new [OF G, of h "''X-Mms-MMS-Version''" "''X-Mms-MMS-Version''"]
    by (simp add: fixup_version_def h_def MMS_DEFAULT_VERSION_def split: option.split)
  note has = add_if_missing_has [OF G] and other = add_if_missing_other [OF G]
    and rest = strip_boundary_other [OF G] gwlib_api.header_value_remove_other [OF G]
  have "gw_header_value G h' ''Date'' = Some (case gw_header_value G h ''Date'' of Some d \<Rightarrow> d | None \<Rightarrow> gw_date_format_http G tnow)"
    by (simp add: h' h4_def h2_def h0_def has other rest ver ci_def)
  moreover have "gw_header_value G h' ''From'' = Some (case gw_header_value G h ''From'' of Some f \<Rightarrow> f | None \<Rightarrow> from)"
    by (simp add: h' h4_def h2_def h0_def has other rest ver ci_def)
  moreover have "gw_header_value G h' ''X-Mms-Transaction-ID'' = Some (case gw_header_value G h ''X-Mms-Transaction-ID'' of Some x \<Rightarrow> x | None \<Rightarrow> ''00001'')"
    by (simp add: h' h4_def h2_def h0_def has other rest ver ci_def)
  moreover have "gw_header_value G h' ''X-Mms-MMS-Version'' = Some (case gw_header_value G h ''X-Mms-MMS-Version'' of Some x \<Rightarrow> x | None \<Rightarrow> ''1.0'')"
    by (simp add: h' h4_def h2_def h0_def has other rest ver' ci_def)
  moreover have "gw_header_value G h' ''Content-Type'' \<noteq> None"
    by (simp only: h' strip_boundary_content_type [OF G] h4_def has) simp
  moreover have "gw_header_value G h' ''MIME-Version'' = None"
    by (simp add: h' h4_def h2_def h0_def other rest gwlib_api.header_value_after_remove [OF G] ci_def)
  ultimately show ?thesis by blast
qed

lemma fixup_msg_complete_witness:
  "gw_header_value gwlib_ref (m_headers (fixup_msg gwlib_ref 5
      \<lparr>m_message_type = MMS_MSGTYPE_SEND_REQ, m_msgId = None, m_headers = [(''MIME-Version'', ''1.0'')],
       m_enc = None, m_ismultipart = False, m_body = Body_null\<rparr> (Some ''anon@unknown''))) ''From'' = Some ''anon@unknown''"
  using fixup_msg_complete [OF gwlib_ref_api _ refl refl, of
      "\<lparr>m_message_type = MMS_MSGTYPE_SEND_REQ, m_msgId = None, m_headers = [(''MIME-Version'', ''1.0'')],
       m_enc = None, m_ismultipart = False, m_body = Body_null\<rparr>" 5 "''anon@unknown''"]
  by (simp add: gwlib_api.gwlib_simps [OF gwlib_ref_api] header_value_def header_named_def ci_def)

lemma length_show_int_less_10: "length (show_int i) < 10 \<longleftrightarrow> -100000000 < i \<and> i < 1000000000"
proof (cases "i < 0")
  case True
  have "length (show_nat (nat (- i))) \<le> 8 \<longleftrightarrow> nat (- i) < 10 ^ 8" by (rule length_show_nat_le) simp
  moreover have "length (show_int i) = Suc (length (show_nat (nat (- i))))" using True by (simp add: show_int_def)
  ultimately show ?thesis using True by simp linarith
next
  case False
  have "length (show_nat (nat i)) \<le> 9 \<longleftrightarrow> nat i < 10 ^ 9" by (rule length_show_nat_le) simp
  moreover have "length (show_int i) = length (show_nat (nat i))" using False by (simp add: show_int_def)
  ultimately show ?thesis using False by simp linarith
qed

text \<open>A notification is built without writing past the end of its ten byte buffer exactly when the
  message size, taken as a signed number, and the seconds to expiry have at most nine digits, or
  eight after a minus sign: a message of a thousand million bytes, or an expiry three years ago,
  overflows it.\<close>

theorem notification_buffer:
  "mms_notification G tnow from subject mclass msize url transactionid expiryt optimizesize = None \<longleftrightarrow>
     \<not> (-100000000 < sint msize \<and> sint msize < 1000000000 \<and>
        (expiryt \<noteq> 0 \<longrightarrow> -100000000 < expiryt - tnow \<and> expiryt - tnow < 1000000000))"
  using length_show_int_less_10 [of "sint msize"] length_show_int_less_10 [of "expiryt - tnow"]
    length_show_int_less_10 [of 31536000]
  by (auto simp: mms_notification_def sprintf_buf_def split: option.splits)

lemma notification_buffer_witness:
  "mms_notification gwlib_ref 200000000 None None None 7 ''u'' ''t'' 1 False = None"
  using notification_buffer [of gwlib_ref 200000000 None None None 7 "''u''" "''t''" 1 False] by simp

text \<open>A mailbox description tells no more than it was asked for: its headers are the four fixed
  ones, the flags and the state, the content type when the content was requested, and requested ones;
  without a request for the content it has no body.\<close>

theorem mboxdescr_only_requested:
  assumes G: "gwlib_api G"
  shows "fst ` set (m_headers (mms_convert_to_mboxdescr G mm cloc req msize)) \<subseteq>
      {''X-Mms-Message-Type'', ''X-Mms-MMS-Version'', ''X-Mms-Content-Location'', ''Message-ID'', ''X-Mms-MM-State''} \<union>
      fst ` set (filter (\<lambda>h. ci (fst h) = ci ''X-Mms-MM-Flags'') (m_headers mm)) \<union>
      (if \<exists>r \<in> set req. ci r = ci ''Content'' then {''Content-Type''} else {}) \<union>
      {''X-Mms-Message-Size''} \<union> set req \<and>
    ((\<forall>r \<in> set req. ci r \<noteq> ci ''Content'') \<longrightarrow>
      m_body (mms_convert_to_mboxdescr G mm cloc req msize) = Body_null)"
proof -
  let ?hs = "m_headers mm"
  define S where "S =
      {''X-Mms-Message-Type'', ''X-Mms-MMS-Version'', ''X-Mms-Content-Location'', ''Message-ID'', ''X-Mms-MM-State''} \<union>
      fst ` set (filter (\<lambda>h. ci (fst h) = ci ''X-Mms-MM-Flags'') ?hs) \<union>
      (if \<exists>r \<in> set req. ci r = ci ''Content'' then {''Content-Type''} else {}) \<union>
      {''X-Mms-Message-Size''} \<union> set req"
  define mh0 where "mh0 = [(''X-Mms-Message-Type'', ''m-mbox-descr''), (''X-Mms-MMS-Version'', ''1.2''),
                 (''X-Mms-Content-Location'', cloc)] @ concat (map (requested_headers G ?hs msize) req)"
  define mh1 where "mh1 = (if (\<exists>r \<in> set req. gw_case_compare G r ''Content'' \<noteq> 0 \<and>
                        gw_case_compare G r ''X-Mms-Message-Size'' \<noteq> 0 \<and> gw_case_compare G r ''Message-ID'' = 0) then mh0
                 else case gw_header_value G ?hs ''Message-ID'' of
                        Some v \<Rightarrow> mh0 @ [(''Message-ID'', v)] | None \<Rightarrow> mh0)"
  define mh2 where "mh2 = gw_header_combine G mh1 (gw_header_find_all G ?hs ''X-Mms-MM-Flags'')"
  define mh3 where "mh3 = (case gw_header_value G ?hs ''X-Mms-MM-State'' of
                   Some x \<Rightarrow> gw_header_remove_all G mh2 ''X-Mms-MM-State'' @ [(''X-Mms-MM-State'', x)]
                 | None \<Rightarrow> mh2)"
  have "fst ` set mh0 \<subseteq> S"
    by (auto simp: mh0_def S_def requested_headers_def split: if_splits)
  moreover have mem: "''Message-ID'' \<in> S" "''X-Mms-MM-State'' \<in> S" by (simp_all add: S_def)
  ultimately have "fst ` set mh1 \<subseteq> S"
    by (auto simp: mh1_def split: option.split)
  moreover have "fst ` set mh2 \<subseteq> fst ` set mh1 \<union> fst ` set (filter (\<lambda>h. ci (fst h) = ci ''X-Mms-MM-Flags'') ?hs)"
    by (auto simp: mh2_def gwlib_api.gwlib_simps [OF G] header_combine_def header_named_def)
  moreover have "fst ` set (filter (\<lambda>h. ci (fst h) = ci ''X-Mms-MM-Flags'') ?hs) \<subseteq> S" unfolding S_def by blast
  ultimately have "fst ` set mh2 \<subseteq> S" by (meson Un_least subset_trans)
  then have s3: "fst ` set mh3 \<subseteq> S"
    using mem by (auto simp: mh3_def gwlib_api.header_remove_all [OF G] header_remove_all_def split: option.split)
  have "fst ` set (m_headers (mms_convert_to_mboxdescr G mm cloc req msize)) \<subseteq> S"
  proof -
    have upd: "m_headers (mm\<lparr>m_message_type := a, m_headers := x, m_body := b\<rparr>) = x" for a x b by simp
    have "m_headers (mms_convert_to_mboxdescr G mm cloc req msize) =
        (if \<exists>r \<in> set req. ci r = ci ''Content''
         then case gw_header_value G ?hs ''Content-Type'' of Some c \<Rightarrow> mh3 @ [(''Content-Type'', c)] | None \<Rightarrow> mh3
         else mh3)"
      unfolding mms_convert_to_mboxdescr_def Let_def mh3_def mh2_def mh1_def mh0_def gwlib_api.case_compare [OF G]
      by (rule upd)
    moreover have "\<exists>r \<in> set req. ci r = ci ''Content'' \<Longrightarrow> ''Content-Type'' \<in> S" by (simp add: S_def)
    ultimately show ?thesis using s3 by (auto split: option.split)
  qed
  moreover have "(\<forall>r \<in> set req. ci r \<noteq> ci ''Content'') \<longrightarrow>
      m_body (mms_convert_to_mboxdescr G mm cloc req msize) = Body_null"
    by (simp add: mms_convert_to_mboxdescr_def Let_def gwlib_api.case_compare [OF G])
  ultimately show ?thesis by (simp add: S_def)
qed

lemma mboxdescr_only_requested_witness:
  "m_body (mms_convert_to_mboxdescr gwlib_ref
     \<lparr>m_message_type = 0, m_msgId = None, m_headers = [(''Subject'', ''x'')], m_enc = None,
      m_ismultipart = False, m_body = Body_s ''text''\<rparr> ''loc'' [''Subject''] 4) = Body_null"
  using mboxdescr_only_requested [OF gwlib_ref_api, of
     "\<lparr>m_message_type = 0, m_msgId = None, m_headers = [(''Subject'', ''x'')], m_enc = None,
      m_ismultipart = False, m_body = Body_s ''text''\<rparr>" "''loc''" "[''Subject'']" 4]
  by (simp add: ci_def)

lemma view_parts_size:
  "view_parts G getmsg req maxsize refs msize w = Some ((ps, sz), w') \<Longrightarrow> msize \<le> maxsize \<Longrightarrow>
     sz \<le> maxsize \<and> sz = msize + int (sum_list (map (\<lambda>p. length (the (mime_body p))) ps)) \<and>
     length ps \<le> length refs"
proof (induction refs arbitrary: msize ps sz w)
  case (Cons r refs)
  obtain ref loc where r: "r = (ref, loc)" by (cases r)
  show ?case
    using Cons.prems unfolding r
    by (auto split: option.splits prod.splits if_splits dest!: Cons.IH)
qed simp


lemma header_code:
  "number_to_cstr n header_table = Some s' \<Longrightarrow> ci s = ci s' \<Longrightarrow> mms_string_to_header gwlib_ref s = n"
  using header_tab.number_to_cstr_Some header_tab.string_to_number_code [OF gwlib_ref_api]
  by (auto simp: mms_string_to_header_def)

lemma view_header_codes:
  "mms_string_to_header gwlib_ref ''X-Mms-Message-Type'' = MMS_HEADER_MESSAGE_TYPE"
  "mms_string_to_header gwlib_ref ''X-Mms-Transaction-ID'' = MMS_HEADER_TRANSACTION_ID"
  "mms_string_to_header gwlib_ref ''X-Mms-MMS-Version'' = MMS_HEADER_MMS_VERSION"
  "mms_string_to_header gwlib_ref ''X-Mms-Message-Count'' = MMS_HEADER_MESSAGE_COUNT"
  "mms_string_to_header gwlib_ref ''Content-Type'' = MMS_HEADER_CONTENT_TYPE"
  "mms_string_to_header gwlib_ref ''X-Mms-Response-Status'' = MMS_HEADER_RESPONSE_STATUS"
  by (rule header_code, code_simp, simp add: ci_def)+


section \<open>Properties of the conversion to MIME\<close>

text \<open>Headers that end with a content type: a WAP multipart, or a type that neither conversion
  changes, with parameters that have no boundary.\<close>

definition wap_pairs :: "(octstr \<times> octstr) list" where
  "wap_pairs =
     [(''application/vnd.wap.multipart.related'', ''multipart/related''),
      (''application/vnd.wap.multipart.alternative'', ''multipart/alternative''),
      (''application/vnd.wap.multipart.mixed'', ''multipart/mixed'')]"

definition wap_headers :: "gwlib \<Rightarrow> headers \<Rightarrow> bool" where
  "wap_headers G h =
     (\<exists>hs ct ps. h = hs @ [(''Content-Type'', with_params ct ps)] \<and>
        gw_header_value G hs ''Content-Type'' = None \<and> CHR '';'' \<notin> set ct \<and> CHR 0x22 \<notin> set ct \<and>
        list_all good_param ps \<and> list_all (\<lambda>p. ci (fst p) \<noteq> ''boundary'') ps \<and>
        (ct \<in> fst ` set wap_pairs \<or>
         mime_multipart_type G ct = None \<and> wap_type_of G ct = None \<and> \<not> drm_content_type G (Some ct)))"

fun wap_tree :: "gwlib \<Rightarrow> mime \<Rightarrow> bool" where
  "wap_tree G (Mime h ps b) = (wap_headers G h \<and> list_all (wap_tree G) ps)"

lemma content_type_of:
  assumes G: "gwlib_api G" and "gw_header_value G hs ''Content-Type'' = None"
  shows "get_content_type G (hs @ [(''Content-Type'', v)]) = (0, split_header_value G v)"
    and "gw_header_remove_all G (hs @ [(''Content-Type'', v)]) ''Content-Type'' = hs"
  using gwlib_api.header_value_append_new [OF G assms(2), of "''Content-Type''" v]
    remove_all_absent [of hs "''Content-Type''"] assms(2)
  by (simp_all add: get_content_type_def gwlib_api.gwlib_simps [OF G] header_remove_all_def header_named_def)

lemma wap_pair_types:
  assumes G: "gwlib_api G" and "(w, s) \<in> set wap_pairs"
  shows "mime_multipart_type G w = Some s" and "wap_type_of G s = Some w"
    and "CHR '';'' \<notin> set s" and "CHR 0x22 \<notin> set s"
  using assms(2)
  by (auto simp: wap_pairs_def mime_multipart_type_def wap_type_of_def gwlib_api.gwlib_simps [OF G] ci_def)

lemma unconvert_convert_headers:
  assumes G: "gwlib_api G" and hs: "gw_header_value G hs ''Content-Type'' = None" and w: "(w, s) \<in> set wap_pairs"
    and ps: "list_all good_param ps" "list_all (\<lambda>p. ci (fst p) \<noteq> ''boundary'') ps"
    and ct: "CHR '';'' \<notin> set w" "CHR 0x22 \<notin> set w"
  defines "h \<equiv> hs @ [(''Content-Type'', with_params w ps)]"
  shows "\<exists>ps'. get_content_type G (convert_mime_headers G h) = (0, s, ps')"
    and "strip_boundary_element G (convert_mime_headers G h) (Some w) = h"
proof -
  let ?p = "if ps = [] then [] else '' '' @ make_value_parameters ps"
  let ?v = "if ps = [] then s else s @ ''; '' @ ?p"
  note pair = wap_pair_types [OF G w]
  have split: "split_header_value G (with_params w ps) = (w, ?p)"
    using split_header_value_plain(1) [OF ct, of G] split_header_value_plain(2) [OF ct, of G "'' '' @ make_value_parameters ps"]
    by (simp add: with_params_def make_value_parameters_empty)
  have conv: "convert_mime_headers G h = hs @ [(''Content-Type'', ?v)]"
    by (simp add: convert_mime_headers_def h_def content_type_of [OF G hs] split pair)
  have split': "split_header_value G ?v = (s, if ps = [] then [] else '' '' @ ?p)"
    using split_header_value_plain(1) [OF pair(3,4), of G] split_header_value_plain(2) [OF pair(3,4), of G "'' '' @ ?p"]
    by (cases "ps = []") simp_all
  have ct': "get_content_type G (convert_mime_headers G h) = (0, s, if ps = [] then [] else '' '' @ ?p)"
    by (simp only: conv content_type_of [OF G hs] split')
  then show "\<exists>ps'. get_content_type G (convert_mime_headers G h) = (0, s, ps')" by blast
  have "get_value_parameters G (if ps = [] then [] else '' '' @ ?p) = ps"
    using get_make_value_parameters [OF G ps(1), of "''  ''"] get_make_value_parameters [OF G ps(1), of "[]"]
    by (cases "ps = []") simp_all
  moreover have "gw_header_remove_all G ps ''boundary'' = ps"
  proof -
    have "ci ''boundary'' = ''boundary''" by (simp add: ci_def)
    then show ?thesis
      using ps(2) by (simp add: gwlib_api.gwlib_simps [OF G] header_remove_all_def header_named_def list_all_iff)
  qed
  moreover have "gw_header_remove_all G (convert_mime_headers G h) ''Content-Type'' = hs"
    by (simp only: conv content_type_of [OF G hs])
  ultimately have "strip_boundary_element G (convert_mime_headers G h) (Some w) = hs @ [(''Content-Type'', with_params w ps)]"
    by (simp only: strip_boundary_element_def ct' prod.case option.case Let_def with_params_def)
  then show "strip_boundary_element G (convert_mime_headers G h) (Some w) = h" by (simp only: h_def)
qed

text \<open>Conversion to MIME content types and back is the identity: for a tree whose content types are
  WAP multiparts or types that are no multiparts, with well-formed parameters and no boundary,
  \<open>unconvert_mime_msg\<close> undoes \<open>convert_mime_msg\<close>, headers, order and parameters included.\<close>

theorem mime_conversion_roundtrip:
  assumes G: "gwlib_api G" and "wap_tree G m"
  shows "unconvert_mime_msg G (convert_mime_msg G m) = m"
  using assms(2)
proof (induction m)
  case (Mime h ps b)
  have parts: "map (unconvert_mime_msg G) (map (convert_mime_msg G) ps) = ps"
    using Mime unfolding map_map by (intro map_idI) (auto simp: list_all_iff)
  from Mime.prems obtain hs ct pars where h: "h = hs @ [(''Content-Type'', with_params ct pars)]"
    and hs: "gw_header_value G hs ''Content-Type'' = None" and ct: "CHR '';'' \<notin> set ct" "CHR 0x22 \<notin> set ct"
    and pars: "list_all good_param pars" "list_all (\<lambda>p. ci (fst p) \<noteq> ''boundary'') pars"
    and kind: "ct \<in> fst ` set wap_pairs \<or>
         mime_multipart_type G ct = None \<and> wap_type_of G ct = None \<and> \<not> drm_content_type G (Some ct)"
    by (auto simp: wap_headers_def)
  from kind show ?case
  proof
    assume "ct \<in> fst ` set wap_pairs"
    then obtain s where w: "(ct, s) \<in> set wap_pairs" by auto
    from unconvert_convert_headers [OF G hs w pars ct] wap_pair_types(2) [OF G w] parts show ?thesis
      by (auto simp: h)
  next
    assume "mime_multipart_type G ct = None \<and> wap_type_of G ct = None \<and> \<not> drm_content_type G (Some ct)"
    moreover obtain x where "split_header_value G (with_params ct pars) = (ct, x)"
      using split_with_params(1) [OF G ct pars(1)] by (cases "split_header_value G (with_params ct pars)") simp
    ultimately show ?thesis
      using parts by (simp add: h convert_mime_headers_def content_type_of [OF G hs])
  qed
qed

lemma mime_conversion_roundtrip_witness:
  "unconvert_mime_msg gwlib_ref (convert_mime_msg gwlib_ref
     (Mime [(''Content-Type'', ''application/vnd.wap.multipart.related; type=x'')] [] None)) =
   Mime [(''Content-Type'', ''application/vnd.wap.multipart.related; type=x'')] [] None"
proof (rule mime_conversion_roundtrip [OF gwlib_ref_api])
  have "wap_headers gwlib_ref ([] @ [(''Content-Type'', with_params ''application/vnd.wap.multipart.related'' [(''type'', ''x'')])])"
    unfolding wap_headers_def
    by (intro exI conjI, rule refl)
      (simp_all add: wap_pairs_def good_param_def param_plain_def isspace_def is_mime_special_char_def ci_def
        gwlib_api.gwlib_simps [OF gwlib_ref_api] header_value_def)
  then show "wap_tree gwlib_ref (Mime [(''Content-Type'', ''application/vnd.wap.multipart.related; type=x'')] [] None)"
    by (simp add: with_params_def make_value_parameter_def needs_quotes_def isspace_def is_mime_special_char_def)
qed

end
