(* ===== verification/Posix.thy ===== *)
theory Posix
  imports MmsUtil
begin

text \<open>
  The operating system as the queue and the mailbox use it: files named by paths, with contents,
  descriptors and advisory locks on inodes, directories, the clock, the random number generator and
  a disk of limited space. Calls fail when their arguments make them fail, and also when the fault
  oracle says so; a write to a full disk writes what fits. The lock functions of
  \<open>mmlib/mms_util.c\<close> follow.
\<close>

record os =
  os_files :: "string \<rightharpoonup> nat"     \<comment> \<open>path to inode\<close>
  os_data :: "nat \<Rightarrow> octstr"       \<comment> \<open>contents of an inode\<close>
  os_fds :: "nat \<rightharpoonup> nat"          \<comment> \<open>open descriptor to inode\<close>
  os_off :: "nat \<Rightarrow> nat"           \<comment> \<open>file offset of a descriptor\<close>
  os_locks :: "nat \<rightharpoonup> nat"        \<comment> \<open>locked inode to the descriptor that holds the lock\<close>
  os_dirs :: "string list"
  os_next :: nat                  \<comment> \<open>larger than every inode and descriptor in use\<close>
  os_space :: nat                 \<comment> \<open>bytes left on the disk\<close>
  os_fault :: "nat \<Rightarrow> bool"        \<comment> \<open>which calls fail for other reasons\<close>
  os_tick :: nat
  os_now :: int
  os_pid :: int
  os_rand :: "nat \<Rightarrow> nat"
  os_rpos :: nat

section \<open>System calls\<close>

definition sys_random :: "os \<Rightarrow> nat \<times> os" where
  "sys_random os = (os_rand os (os_rpos os), os\<lparr>os_rpos := os_rpos os + 1\<rparr>)"

definition sys_fault :: "os \<Rightarrow> bool \<times> os" where
  "sys_fault os = (os_fault os (os_tick os), os\<lparr>os_tick := os_tick os + 1\<rparr>)"

definition new_fd :: "nat \<Rightarrow> os \<Rightarrow> nat \<times> os" where
  "new_fd ino os =
     (os_next os, os\<lparr>os_fds := (os_fds os)(os_next os \<mapsto> ino), os_off := (os_off os)(os_next os := 0),
                    os_next := os_next os + 1\<rparr>)"

text \<open>\<open>open(path, O_RDWR)\<close>.\<close>

definition sys_open :: "string \<Rightarrow> os \<Rightarrow> nat option \<times> os" where
  "sys_open path os0 =
     (let (f, os) = sys_fault os0 in
      case os_files os path of
        None \<Rightarrow> (None, os)
      | Some ino \<Rightarrow> if f then (None, os) else let (fd, os') = new_fd ino os in (Some fd, os'))"

definition parent_dir :: "string \<Rightarrow> string" where
  "parent_dir path = (case strrchr_split path CHR ''/'' of Some (d, _) \<Rightarrow> d | None \<Rightarrow> ''.'')"

definition new_file :: "string \<Rightarrow> os \<Rightarrow> nat option \<times> os" where
  "new_file path os =
     (let ino = os_next os;
          (fd, os') = new_fd ino (os\<lparr>os_files := (os_files os)(path \<mapsto> ino), os_data := (os_data os)(ino := []),
                                   os_next := ino + 1\<rparr>)
      in (Some fd, os'))"

text \<open>\<open>open(path, O_RDWR | O_CREAT | O_EXCL)\<close>.\<close>

definition sys_creat_excl :: "string \<Rightarrow> os \<Rightarrow> nat option \<times> os" where
  "sys_creat_excl path os0 =
     (let (f, os) = sys_fault os0 in
      if f \<or> os_files os path \<noteq> None \<or> parent_dir path \<notin> set (os_dirs os) then (None, os)
      else new_file path os)"

text \<open>\<open>open(path, O_WRONLY | O_CREAT)\<close>, which keeps the contents of a file that exists.\<close>

definition sys_creat :: "string \<Rightarrow> os \<Rightarrow> nat option \<times> os" where
  "sys_creat path os0 =
     (let (f, os) = sys_fault os0 in
      if f then (None, os)
      else case os_files os path of
             Some ino \<Rightarrow> let (fd, os') = new_fd ino os in (Some fd, os')
           | None \<Rightarrow> if parent_dir path \<in> set (os_dirs os) then new_file path os else (None, os))"

text \<open>\<open>write\<close> until all is written or the disk is full: \<open>octstr_write_to_socket\<close>.\<close>

definition sys_write :: "nat \<Rightarrow> octstr \<Rightarrow> os \<Rightarrow> bool \<times> os" where
  "sys_write fd s os =
     (case os_fds os fd of
        None \<Rightarrow> (False, os)
      | Some ino \<Rightarrow>
          let s' = take (os_space os) s; k = os_off os fd; d = os_data os ino
          in (length s \<le> os_space os,
              os\<lparr>os_data := (os_data os)(ino := take k d @ s' @ drop (k + length s') d),
                 os_off := (os_off os)(fd := k + length s'), os_space := os_space os - length s'\<rparr>))"

definition sys_close :: "nat \<Rightarrow> os \<Rightarrow> os" where
  "sys_close fd os =
     os\<lparr>os_locks := (case os_fds os fd of
                       Some ino \<Rightarrow> if os_locks os ino = Some fd then (os_locks os)(ino := None) else os_locks os
                     | None \<Rightarrow> os_locks os),
        os_fds := (os_fds os)(fd := None)\<rparr>"

definition sys_unlink :: "string \<Rightarrow> os \<Rightarrow> os" where
  "sys_unlink path os0 =
     (let (f, os) = sys_fault os0 in if f then os else os\<lparr>os_files := (os_files os)(path := None)\<rparr>)"

definition sys_rename :: "string \<Rightarrow> string \<Rightarrow> os \<Rightarrow> bool \<times> os" where
  "sys_rename old new os0 =
     (let (f, os) = sys_fault os0 in
      case os_files os old of
        None \<Rightarrow> (False, os)
      | Some ino \<Rightarrow>
          if f then (False, os)
          else (True, os\<lparr>os_files := (os_files os)(old := None, new \<mapsto> ino)\<rparr>))"

definition strip_slashes :: "string \<Rightarrow> string" where
  "strip_slashes p = rev (dropWhile (\<lambda>c. c = CHR ''/'') (rev p))"

text \<open>\<open>mkdir\<close>: made, already there, or failed.\<close>

datatype mkdir_result = Made | Exists | Mkdir_error

definition sys_mkdir :: "string \<Rightarrow> os \<Rightarrow> mkdir_result \<times> os" where
  "sys_mkdir path0 os0 =
     (let (f, os) = sys_fault os0; path = strip_slashes path0 in
      if path \<in> set (os_dirs os) then (Exists, os)
      else if f \<or> parent_dir path \<notin> set (os_dirs os) then (Mkdir_error, os)
      else (Made, os\<lparr>os_dirs := path # os_dirs os\<rparr>))"

text \<open>\<open>octstr_read_file\<close>.\<close>

definition read_file :: "string \<Rightarrow> os \<Rightarrow> octstr option" where
  "read_file path os = map_option (os_data os) (os_files os path)"

section \<open>Locks\<close>

text \<open>\<open>flock(fd, LOCK_EX)\<close>: a lock that another descriptor holds fails with \<open>EWOULDBLOCK\<close>, or blocks.\<close>

datatype lock_result = Locked | Would_block | Blocked

definition lockfile :: "nat \<Rightarrow> bool \<Rightarrow> os \<Rightarrow> lock_result \<times> os" where
  "lockfile fd shouldblock os =
     (case os_fds os fd of
        None \<Rightarrow> (Would_block, os)
      | Some ino \<Rightarrow>
          (case os_locks os ino of
             None \<Rightarrow> (Locked, os\<lparr>os_locks := (os_locks os)(ino \<mapsto> fd)\<rparr>)
           | Some fd' \<Rightarrow>
               if fd' = fd then (Locked, os)
               else if shouldblock then (Blocked, os) else (Would_block, os)))"

text \<open>The name must still stand for the locked inode; its link count, owner and size are then the
  same too.\<close>

definition check_lock :: "nat \<Rightarrow> string \<Rightarrow> os \<Rightarrow> bool" where
  "check_lock fd fname os =
     (case os_fds os fd of Some ino \<Rightarrow> os_files os fname = Some ino | None \<Rightarrow> False)"

text \<open>\<open>Some True\<close> is success (0), \<open>Some False\<close> failure; \<open>None\<close> is waiting for the lock.\<close>

definition mm_lockfile :: "nat \<Rightarrow> string \<Rightarrow> bool \<Rightarrow> os \<Rightarrow> bool option \<times> os" where
  "mm_lockfile fd fname shouldblock os =
     (case lockfile fd shouldblock os of
        (Locked, os') \<Rightarrow> (Some (check_lock fd fname os'), os')
      | (Would_block, os') \<Rightarrow> (Some False, os')
      | (Blocked, os') \<Rightarrow> (None, os'))"

definition unlock_and_close :: "nat \<Rightarrow> os \<Rightarrow> os" where
  "unlock_and_close fd os = sys_close fd os"


section \<open>Facts\<close>

text \<open>Names and descriptors stand for inodes in use, a file has one name, and a lock is held by an open
  descriptor of the locked inode.\<close>

definition os_wf :: "os \<Rightarrow> bool" where
  "os_wf os =
     ((\<forall>p i. os_files os p = Some i \<longrightarrow> i < os_next os) \<and>
      (\<forall>p q i. os_files os p = Some i \<longrightarrow> os_files os q = Some i \<longrightarrow> p = q) \<and>
      (\<forall>fd i. os_fds os fd = Some i \<longrightarrow> fd < os_next os \<and> i < os_next os) \<and>
      (\<forall>i fd. os_locks os i = Some fd \<longrightarrow> os_fds os fd = Some i))"

lemma os_wfD:
  assumes "os_wf os"
  shows "os_files os p = Some i \<Longrightarrow> i < os_next os"
    and "os_fds os fd = Some i \<Longrightarrow> fd < os_next os"
    and "os_fds os fd = Some i \<Longrightarrow> i < os_next os"
    and "os_locks os i = Some fd \<Longrightarrow> os_fds os fd = Some i"
    and "os_files os p = Some i \<Longrightarrow> os_files os q = Some i \<Longrightarrow> p = q"
  using assms by (auto simp: os_wf_def)

lemma wf_random [intro]: "os_wf os \<Longrightarrow> os_wf (snd (sys_random os))"
  by (simp add: sys_random_def os_wf_def)

lemma wf_new_fd:
  assumes wf: "os_wf os" and "ino < os_next os"
  shows "os_wf (snd (new_fd ino os))"
proof -
  have "os_fds os fd \<noteq> Some i" if "os_next os \<le> fd" for fd i
    using os_wfD(2) [OF wf] that by fastforce
  moreover have "os_locks os i \<noteq> Some (os_next os)" for i
    using os_wfD(2,4) [OF wf] by blast
  ultimately show ?thesis
    using wf assms(2) unfolding os_wf_def new_fd_def Let_def
    by (auto simp: less_Suc_eq)
qed

lemma wf_new_file: "os_wf os \<Longrightarrow> os_wf (snd (new_file p os))"
proof -
  let ?os = "os\<lparr>os_files := (os_files os)(p \<mapsto> os_next os), os_data := (os_data os)(os_next os := []),
                os_next := os_next os + 1\<rparr>"
  assume wf: "os_wf os"
  then have "os_files os q \<noteq> Some (os_next os)" for q using os_wfD(1) by blast
  with wf have "os_wf ?os" unfolding os_wf_def by (auto simp: less_Suc_eq)
  then have "os_wf (snd (new_fd (os_next os) ?os))" by (rule wf_new_fd) simp
  then show ?thesis by (simp add: new_file_def new_fd_def Let_def)
qed

lemma wf_tick: "os_wf (os\<lparr>os_tick := n\<rparr>) = os_wf os"
  by (simp add: os_wf_def)

lemma wf_open: "os_wf os \<Longrightarrow> os_wf (snd (sys_open p os))"
proof (cases "os_files os p")
  case None
  then show "os_wf os \<Longrightarrow> ?thesis" by (simp add: sys_open_def sys_fault_def wf_tick)
next
  case (Some i)
  assume wf: "os_wf os"
  then have "i < os_next os" using Some by (rule os_wfD(1))
  then have "os_wf (snd (new_fd i (os\<lparr>os_tick := os_tick os + 1\<rparr>)))"
    using wf by (intro wf_new_fd) (simp_all add: wf_tick)
  then show ?thesis using wf Some by (simp add: sys_open_def sys_fault_def wf_tick case_prod_unfold Let_def)
qed

lemma wf_creat_excl: "os_wf os \<Longrightarrow> os_wf (snd (sys_creat_excl p os))"
  by (auto simp: sys_creat_excl_def sys_fault_def Let_def wf_tick intro!: wf_new_file)

lemma wf_write: "os_wf os \<Longrightarrow> os_wf (snd (sys_write fd s os))"
  by (auto simp: sys_write_def os_wf_def Let_def split: option.split)

lemma wf_close: "os_wf os \<Longrightarrow> os_wf (sys_close fd os)"
  by (auto simp: sys_close_def os_wf_def split: option.split) (metis option.inject)

lemma wf_unlink: "os_wf os \<Longrightarrow> os_wf (sys_unlink p os)"
  by (auto simp: sys_unlink_def sys_fault_def os_wf_def Let_def)

lemma wf_rename: "os_wf os \<Longrightarrow> os_wf (snd (sys_rename p q os))"
  by (auto simp: sys_rename_def sys_fault_def os_wf_def Let_def split: option.split)

lemma wf_lockfile: "os_wf os \<Longrightarrow> os_wf (snd (lockfile fd b os))"
  by (auto simp: lockfile_def os_wf_def split: option.split)

lemma wf_mm_lockfile: "os_wf os \<Longrightarrow> os_wf (snd (mm_lockfile fd p b os))"
  using wf_lockfile [of os fd b]
  by (auto simp: mm_lockfile_def split: prod.split lock_result.split)

text \<open>A file that was just created exclusively can be locked, and the lock is valid.\<close>

lemma creat_excl_Some:
  assumes "sys_creat_excl p os = (Some fd, os1)"
  shows "fd = os_next os + 1"
    and "os1 = os\<lparr>os_tick := os_tick os + 1, os_files := (os_files os)(p \<mapsto> os_next os),
                  os_data := (os_data os)(os_next os := []),
                  os_fds := (os_fds os)(fd \<mapsto> os_next os), os_off := (os_off os)(fd := 0),
                  os_next := os_next os + 2\<rparr>"
    and "os_files os p = None"
  using assms
  by (auto simp: sys_creat_excl_def sys_fault_def new_file_def new_fd_def Let_def split: if_splits)

lemma creat_excl_None:
  assumes "sys_creat_excl p os = (None, os1)"
  shows "os1 = os\<lparr>os_tick := os_tick os + 1\<rparr>"
  using assms
  by (auto simp: sys_creat_excl_def sys_fault_def new_file_def new_fd_def Let_def split: if_splits)

lemma lock_created:
  assumes wf: "os_wf os" and c: "sys_creat_excl p os = (Some fd, os1)"
  shows "mm_lockfile fd p b os1 = (Some True, os1\<lparr>os_locks := (os_locks os1)(os_next os \<mapsto> fd)\<rparr>)"
proof -
  have "os_locks os (os_next os) = None"
    using os_wfD(3,4) [OF wf] by (cases "os_locks os (os_next os)") fastforce+
  then show ?thesis
    by (simp add: creat_excl_Some(2) [OF c] mm_lockfile_def lockfile_def check_lock_def)
qed

text \<open>Writing at the end of a file when the disk has room, and what a write leaves alone.\<close>

lemma write_at_end:
  assumes "os_fds os fd = Some i" and "os_off os fd = length (os_data os i)" and "length s \<le> os_space os"
  shows "sys_write fd s os = (True, os\<lparr>os_data := (os_data os)(i := os_data os i @ s),
      os_off := (os_off os)(fd := length (os_data os i) + length s), os_space := os_space os - length s\<rparr>)"
  using assms by (simp add: sys_write_def Let_def)

lemma write_frame:
  "os_files (snd (sys_write fd s os)) = os_files os" "os_fds (snd (sys_write fd s os)) = os_fds os"
  "os_locks (snd (sys_write fd s os)) = os_locks os" "os_next (snd (sys_write fd s os)) = os_next os"
  "os_dirs (snd (sys_write fd s os)) = os_dirs os" "os_fault (snd (sys_write fd s os)) = os_fault os"
  "os_tick (snd (sys_write fd s os)) = os_tick os" "os_now (snd (sys_write fd s os)) = os_now os"
  "os_fds os fd \<noteq> Some i \<Longrightarrow> os_data (snd (sys_write fd s os)) i = os_data os i"
  by (auto simp: sys_write_def Let_def split: option.split)

end
