(* ===== verification/MmsQueue.thy ===== *)
theory MmsQueue
  imports MmsMsg Posix
begin

text \<open>
  The file-based message queue, \<open>mmlib/mms_queue.c\<close>: one control file per message (a line per
  envelope field) and one data file with the binary message, the control file being locked by whoever
  works on the message. The result \<open>None\<close> of an operation stands for waiting on a lock and for
  undefined behaviour (a fixed buffer that is too small).
\<close>

section \<open>Envelopes\<close>

record MmsEnvelopeTo =
  rcpt :: octstr
  process :: bool

text \<open>Amounts are in thousandths, the precision of the queue file. The last four fields are the
  structure \<open>qfile_t\<close> behind \<open>qfs_data\<close>.\<close>

record MmsEnvelope =
  e_msgtype :: int
  e_msgId :: "octstr option"
  e_token :: "octstr option"
  e_from :: "octstr option"
  e_mclass :: "octstr option"
  e_vaspid :: "octstr option"
  e_vasid :: "octstr option"
  e_url1 :: "octstr option"
  e_url2 :: "octstr option"
  e_hdrs :: headers
  e_to :: "MmsEnvelopeTo list"
  e_subject :: "octstr option"
  e_created :: int
  e_sendt :: int
  e_lasttry :: int
  e_expiryt :: int
  e_lastaccess :: int
  e_dlr :: bool
  e_attempts :: int
  e_msize :: int
  e_billed :: bool
  e_amt :: int
  e_mdata :: "octstr option"
  e_fromproxy :: "octstr option"
  e_viaproxy :: "octstr option"
  e_src_interface :: string
  e_xqfname :: string
  q_name :: string
  q_dir :: string
  q_subdir :: string
  q_fd :: nat

text \<open>The arguments of \<open>mms_queue_add\<close> and \<open>mms_queue_create_envelope\<close> that are copied into the
  envelope.\<close>

record envelope_args =
  a_from :: "octstr option"
  a_to :: "octstr option list"
  a_subject :: "octstr option"
  a_fromproxy :: "octstr option"
  a_viaproxy :: "octstr option"
  a_senddate :: int
  a_expirydate :: int
  a_token :: "octstr option"
  a_vaspid :: "octstr option"
  a_vasid :: "octstr option"
  a_url1 :: "octstr option"
  a_url2 :: "octstr option"
  a_hdrs :: headers
  a_dlr :: bool
  a_src_interface :: string
  a_mmscname :: "octstr option"

definition DEFAULT_EXPIRE :: int where
  "DEFAULT_EXPIRE = 3600 * 24 * 7"

text \<open>Type, message id, binary form and class of a message; a send request without an identifier gets
  one from the queue name.\<close>

definition envelope_of_msg ::
  "gwlib \<Rightarrow> octstr option \<Rightarrow> octstr option \<Rightarrow> MmsMsg option \<Rightarrow>
   (int \<times> octstr option \<times> octstr option \<times> octstr option) option" where
  "envelope_of_msg G mmscname xqfname mo =
     (case mo of
        None \<Rightarrow> Some (-1, None, None, None)
      | Some m \<Rightarrow>
          let mid = mms_get_header_value G m ''Message-ID'';
              (msgid, m1) =
                (case (mid, xqfname) of
                   (None, Some q) \<Rightarrow>
                     let i = fst (mms_make_msgid 0 0 0 0 (Some q) mmscname)
                     in (Some i, if m_message_type m = MMS_MSGTYPE_SEND_REQ
                                 then mms_replace_header_value G m ''Message-ID'' i else m)
                 | _ \<Rightarrow> (mid, m))
          in case mms_tobinary G m1 of
               None \<Rightarrow> None
             | Some (ms, m2) \<Rightarrow>
                 Some (m_message_type m, msgid, Some ms, mms_get_header_value G m2 ''X-Mms-Message-Class''))"

text \<open>The recipients: those that are empty after cleaning are left out.\<close>

definition clean_recipients :: "gwlib \<Rightarrow> octstr option list \<Rightarrow> MmsEnvelopeTo list" where
  "clean_recipients G to =
     concat (map (\<lambda>r. case copy_and_clean_address G r of
                        Some a \<Rightarrow> [\<lparr>rcpt = a, process = True\<rparr>] | None \<Rightarrow> []) to)"

definition mms_queue_create_envelope ::
  "gwlib \<Rightarrow> int \<Rightarrow> envelope_args \<Rightarrow> MmsMsg option \<Rightarrow> octstr option \<Rightarrow> (MmsEnvelope \<times> octstr option) option" where
  "mms_queue_create_envelope G tnow a m xqfname =
     map_option (\<lambda>(mtype, msgid, ms, mclass).
       (\<lparr> e_msgtype = mtype, e_msgId = msgid, e_token = a_token a,
          e_from = copy_and_clean_address G (a_from a), e_mclass = mclass,
          e_vaspid = a_vaspid a, e_vasid = a_vasid a, e_url1 = a_url1 a, e_url2 = a_url2 a,
          e_hdrs = a_hdrs a, e_to = clean_recipients G (a_to a), e_subject = a_subject a,
          e_created = tnow, e_sendt = a_senddate a, e_lasttry = 0,
          e_expiryt = (if a_expirydate a \<noteq> 0 then a_expirydate a else tnow + DEFAULT_EXPIRE),
          e_lastaccess = 0, e_dlr = a_dlr a, e_attempts = 0,
          e_msize = (case ms of Some s \<Rightarrow> int (length s) | None \<Rightarrow> 0),
          e_billed = False, e_amt = 0, e_mdata = None,
          e_fromproxy = a_fromproxy a, e_viaproxy = a_viaproxy a,
          e_src_interface = strncpy 16 (a_src_interface a),
          e_xqfname = (case xqfname of Some q \<Rightarrow> strncpy 192 q | None \<Rightarrow> []),
          q_name = [], q_dir = [], q_subdir = [], q_fd = 0 \<rparr>, ms))
       (envelope_of_msg G (a_mmscname a) xqfname m)"

section \<open>Queue file names\<close>

definition xmake_qf :: "string \<Rightarrow> string \<Rightarrow> octstr" where
  "xmake_qf realqf subdir = replace_char CHR ''/'' CHR ''-'' (subdir @ realqf)"

text \<open>Sub-directory and file name of an identifier; the buffers have 64 and 128 bytes.\<close>

definition get_subdir :: "string \<Rightarrow> (string \<times> string) option" where
  "get_subdir qf =
     (case strrchr_split qf CHR ''-'' of
        None \<Rightarrow> if length qf < 128 then Some ([], qf) else None
      | Some (d, r) \<Rightarrow>
          if length d + 1 < 64 \<and> length r < 128
          then Some (replace_char CHR ''-'' CHR ''/'' (d @ ''-''), r) else None)"

section \<open>Reading a queue file\<close>

text \<open>Thousandths of an amount, as \<open>%.3f\<close> prints it.\<close>

definition show_milli :: "int \<Rightarrow> string" where
  "show_milli a =
     (let n = nat (abs a); f = n mod 1000
      in (if a < 0 then ''-'' else []) @ show_nat (n div 1000) @ ''.'' @
         [digit_char (f div 100), digit_char (f div 10 mod 10), digit_char (f mod 10)])"

text \<open>\<open>atof\<close> on such a text; further decimals are dropped.\<close>

definition read_milli :: "string \<Rightarrow> int" where
  "read_milli s0 =
     (let neg = (take 1 s0 = ''-''); s = (if neg then drop 1 s0 else s0);
          i = takeWhile isdigit s; r = dropWhile isdigit s;
          f = (if take 1 r = ''.'' then takeWhile isdigit (drop 1 r) else []);
          v = int (read_nat 0 i * 1000 + read_nat 0 (take 3 (f @ ''000'')))
      in if neg then - v else v)"

definition read_address :: "gwlib \<Rightarrow> octstr \<Rightarrow> octstr option" where
  "read_address G a =
     (if mms_validate_address G (Some a) \<noteq> 0 then mms_fixup_address G (Some a) None [] True else Some a)"

text \<open>One line: the envelope, and whether the line is the end mark.\<close>

definition read_line :: "gwlib \<Rightarrow> octstr \<Rightarrow> MmsEnvelope \<Rightarrow> MmsEnvelope \<times> bool" where
  "read_line G line e =
     (case line of
        [] \<Rightarrow> (e, False)
      | ch # res \<Rightarrow>
          if ch = CHR ''T'' then
            (e\<lparr>e_msgtype := (let t = mms_string_to_message_type G res in if t < 0 then 0 else t)\<rparr>, False)
          else if ch = CHR ''I'' then (e\<lparr>e_msgId := Some res\<rparr>, False)
          else if ch = CHR ''i'' then (e\<lparr>e_src_interface := strncpy 16 res\<rparr>, False)
          else if ch = CHR ''F'' then (e\<lparr>e_from := read_address G res\<rparr>, False)
          else if ch = CHR ''R'' \<or> ch = CHR ''z'' then
            (case read_address G res of
               Some a \<Rightarrow> (e\<lparr>e_to := e_to e @ [\<lparr>rcpt = a, process = (ch = CHR ''R'')\<rparr>]\<rparr>, False)
             | None \<Rightarrow> (e, False))
          else if ch = CHR ''C'' then (e\<lparr>e_created := atol res\<rparr>, False)
          else if ch = CHR ''c'' then (e\<lparr>e_mclass := Some res\<rparr>, False)
          else if ch = CHR ''L'' then (e\<lparr>e_lasttry := atol res\<rparr>, False)
          else if ch = CHR ''D'' then (e\<lparr>e_sendt := atol res\<rparr>, False)
          else if ch = CHR ''X'' then (e\<lparr>e_expiryt := atol res\<rparr>, False)
          else if ch = CHR ''N'' then (e\<lparr>e_attempts := atol res\<rparr>, False)
          else if ch = CHR ''P'' then (e\<lparr>e_fromproxy := Some res\<rparr>, False)
          else if ch = CHR ''M'' then (e\<lparr>e_mdata := Some res\<rparr>, False)
          else if ch = CHR ''p'' then (e\<lparr>e_viaproxy := Some res\<rparr>, False)
          else if ch = CHR ''S'' then (e\<lparr>e_msize := atol res\<rparr>, False)
          else if ch = CHR ''s'' then (e\<lparr>e_subject := Some res\<rparr>, False)
          else if ch = CHR ''t'' then (e\<lparr>e_token := Some res\<rparr>, False)
          else if ch = CHR ''f'' then (e\<lparr>e_lastaccess := atol res\<rparr>, False)
          else if ch = CHR ''b'' then (e\<lparr>e_billed := True, e_amt := read_milli res\<rparr>, False)
          else if ch = CHR ''r'' then (e\<lparr>e_dlr := True\<rparr>, False)
          else if ch = CHR ''V'' then (e\<lparr>e_vaspid := Some res\<rparr>, False)
          else if ch = CHR ''v'' then (e\<lparr>e_vasid := Some res\<rparr>, False)
          else if ch = CHR ''U'' then (e\<lparr>e_url1 := Some res\<rparr>, False)
          else if ch = CHR ''u'' then (e\<lparr>e_url2 := Some res\<rparr>, False)
          else if ch = CHR ''H'' then
            (if CHR '':'' \<in> set res
             then (e\<lparr>e_hdrs := e_hdrs e @
                      [(strncpy 511 (takeWhile (\<lambda>c. c \<noteq> CHR '':'') res), tl (dropWhile (\<lambda>c. c \<noteq> CHR '':'') res))]\<rparr>, False)
             else (e, False))
          else if ch = CHR ''.'' then (e, True)
          else (e, False))"

fun read_lines :: "gwlib \<Rightarrow> octstr list \<Rightarrow> MmsEnvelope \<Rightarrow> MmsEnvelope \<times> bool" where
  "read_lines G [] e = (e, False)"
| "read_lines G (l # ls) e =
     (let (e', okfile) = read_line G l e in if okfile then (e', True) else read_lines G ls e')"

text \<open>The envelope that \<open>mms_queue_readenvelope\<close> starts from.\<close>

definition blank_envelope :: "gwlib \<Rightarrow> int \<Rightarrow> string \<Rightarrow> string \<Rightarrow> string \<Rightarrow> string \<Rightarrow> nat \<Rightarrow> MmsEnvelope" where
  "blank_envelope G tnow qf realqf subdir dir fd =
     \<lparr> e_msgtype = -1, e_msgId = None, e_token = None, e_from = None, e_mclass = None, e_vaspid = None,
       e_vasid = None, e_url1 = None, e_url2 = None, e_hdrs = [], e_to = [], e_subject = None,
       e_created = tnow, e_sendt = 0, e_lasttry = 0, e_expiryt = tnow + DEFAULT_EXPIRE, e_lastaccess = 0,
       e_dlr = False, e_attempts = 0, e_msize = 0, e_billed = False, e_amt = 0, e_mdata = None,
       e_fromproxy = None, e_viaproxy = None, e_src_interface = [], e_xqfname = strncpy 192 qf,
       q_name = strncpy 128 realqf, q_dir = strncpy 128 dir, q_subdir = strncpy 64 subdir, q_fd = fd \<rparr>"

definition mms_queue_readenvelope ::
  "gwlib \<Rightarrow> string \<Rightarrow> string \<Rightarrow> bool \<Rightarrow> os \<Rightarrow> (MmsEnvelope option \<times> os) option" where
  "mms_queue_readenvelope G qf mms_queuedir shouldblock os =
     (case get_subdir qf of
        None \<Rightarrow> None
      | Some (subdir, realqf) \<Rightarrow>
          let fname = take 128 mms_queuedir @ ''/'' @ subdir @ realqf in
          case sys_open fname os of
            (None, os1) \<Rightarrow> Some (None, os1)
          | (Some fd, os1) \<Rightarrow>
              case mm_lockfile fd fname shouldblock os1 of
                (None, os2) \<Rightarrow> None
              | (Some False, os2) \<Rightarrow> Some (None, unlock_and_close fd os2)
              | (Some True, os2) \<Rightarrow>
                  let e0 = blank_envelope G (os_now os2) qf realqf subdir mms_queuedir fd;
                      qdata = (case read_file fname os2 of Some d \<Rightarrow> d | None \<Rightarrow> []);
                      (e, okfile) = read_lines G (gw_get_lines G qdata) e0
                  in if okfile then Some (Some e, os2)
                     else Some (None, unlock_and_close fd os2))"

section \<open>Writing a queue file\<close>

definition opt_line :: "char \<Rightarrow> octstr option \<Rightarrow> octstr list" where
  "opt_line c so = (case so of Some s \<Rightarrow> [c # s] | None \<Rightarrow> [])"

definition time_line :: "char \<Rightarrow> int \<Rightarrow> octstr list" where
  "time_line c t = (if t \<noteq> 0 then [c # show_int t] else [])"

definition one_line :: "char \<Rightarrow> octstr \<Rightarrow> octstr list" where
  "one_line c s = [c # s]"

definition if_line :: "bool \<Rightarrow> char \<Rightarrow> octstr \<Rightarrow> octstr list" where
  "if_line b c s = (if b then [c # s] else [])"

definition rcpt_lines :: "MmsEnvelopeTo list \<Rightarrow> octstr list" where
  "rcpt_lines ts = map (\<lambda>t. (if process t then CHR ''R'' else CHR ''z'') # rcpt t) ts"

definition header_lines :: "headers \<Rightarrow> octstr list" where
  "header_lines hs = map (\<lambda>h. CHR ''H'' # fst h @ '':'' @ snd h) hs"

text \<open>The lines that \<open>writeenvelope\<close> puts, in its order.\<close>

definition envelope_lines :: "MmsEnvelope \<Rightarrow> octstr list" where
  "envelope_lines e =
     one_line CHR ''T'' (case mms_message_type_to_cstr (e_msgtype e) of Some s \<Rightarrow> s | None \<Rightarrow> []) @
     opt_line CHR ''I'' (e_msgId e) @
     opt_line CHR ''c'' (e_mclass e) @
     if_line (e_src_interface e \<noteq> []) CHR ''i'' (e_src_interface e) @
     opt_line CHR ''F'' (e_from e) @
     rcpt_lines (e_to e) @
     header_lines (e_hdrs e) @
     one_line CHR ''C'' (show_int (e_created e)) @
     time_line CHR ''L'' (e_lasttry e) @
     time_line CHR ''D'' (e_sendt e) @
     time_line CHR ''X'' (e_expiryt e) @
     time_line CHR ''N'' (e_attempts e) @
     time_line CHR ''f'' (e_lastaccess e) @
     one_line CHR ''S'' (show_int (e_msize e)) @
     opt_line CHR ''P'' (e_fromproxy e) @
     opt_line CHR ''M'' (e_mdata e) @
     opt_line CHR ''s'' (e_subject e) @
     opt_line CHR ''p'' (e_viaproxy e) @
     opt_line CHR ''t'' (e_token e) @
     opt_line CHR ''V'' (e_vaspid e) @
     opt_line CHR ''v'' (e_vasid e) @
     opt_line CHR ''U'' (e_url1 e) @
     opt_line CHR ''u'' (e_url2 e) @
     if_line (e_dlr e) CHR ''r'' ''Yes'' @
     if_line (e_billed e) CHR ''b'' (show_milli (e_amt e)) @
     one_line CHR ''.'' []"

text \<open>The result of \<open>_putline\<close> is not looked at.\<close>

definition putline :: "nat \<Rightarrow> os \<Rightarrow> octstr \<Rightarrow> os" where
  "putline fd os line = snd (sys_write fd (line @ [CHR 0x0A]) os)"

definition put_lines :: "nat \<Rightarrow> octstr list \<Rightarrow> os \<Rightarrow> os" where
  "put_lines fd ls os = foldl (putline fd) os ls"

definition q_path :: "MmsEnvelope \<Rightarrow> string \<Rightarrow> string" where
  "q_path e name = q_dir e @ ''/'' @ q_subdir e @ name"

definition writeenvelope :: "MmsEnvelope \<Rightarrow> bool \<Rightarrow> os \<Rightarrow> int \<times> MmsEnvelope \<times> os" where
  "writeenvelope e newenv os =
     (if newenv then (0, e, put_lines (q_fd e) (envelope_lines e) os)
      else
        let (r, os1) = sys_random os;
            tfname = q_path e (''t'' @ drop 1 (q_name e) @ ''.'' @ show_nat r) in
        case sys_creat_excl tfname os1 of
          (None, os2) \<Rightarrow> (-1, e, os2)
        | (Some fd, os2) \<Rightarrow>
            case mm_lockfile fd tfname False os2 of
              (Some True, os3) \<Rightarrow>
                let os4 = put_lines fd (envelope_lines e) os3 in
                (case sys_rename tfname (q_path e (q_name e)) os4 of
                   (False, os5) \<Rightarrow> (-1, e, sys_close fd os5)
                 | (True, os5) \<Rightarrow> (0, e\<lparr>q_fd := fd\<rparr>, unlock_and_close (q_fd e) os5))
            | (_, os3) \<Rightarrow> (-1, e, os3))"

section \<open>Queue operations\<close>

definition TT :: string where
  "TT = ''0123456789abcdefghijklmnopqrstuvwxyz''"

definition tt_char :: "nat \<Rightarrow> char" where
  "tt_char r = TT ! (r mod 36)"

text \<open>The attempts of \<open>mkqf\<close>; a new file is locked by nobody, so the blocking lock does not wait.
  \<open>ect\<close> is the static counter.\<close>

fun mkqf_try :: "nat \<Rightarrow> string \<Rightarrow> string \<Rightarrow> nat \<Rightarrow> os \<Rightarrow> (nat \<times> string) option \<times> nat \<times> os" where
  "mkqf_try 0 dir subdir ect os = (None, ect, os)"
| "mkqf_try (Suc k) dir subdir ect os =
     (let (r, os1) = sys_random os;
          xqf = ''qf'' @ show_int (os_now os mod 10000) @ ''.'' @ show_nat ((ect + 1) mod 10000) @ ''.x'' @
                show_int (os_pid os mod 1000) @ ''.'' @ show_nat (r mod 100);
          tmp = take 64 dir @ ''/'' @ subdir @ xqf in
      case sys_creat_excl tmp os1 of
        (None, os2) \<Rightarrow> mkqf_try k dir subdir (ect + 1) os2
      | (Some fd, os2) \<Rightarrow>
          case mm_lockfile fd tmp True os2 of
            (Some True, os3) \<Rightarrow> (Some (fd, xqf), ect + 1, os3)
          | (_, os3) \<Rightarrow> mkqf_try k dir subdir (ect + 1) (unlock_and_close fd (sys_unlink tmp os3)))"

text \<open>The sub-directory: none, one level, or two levels, the second made when needed. The random
  numbers of one call are taken from left to right. Tries are counted by the variable that also held
  the choice of the level.\<close>

definition mkqf_subdir :: "string \<Rightarrow> os \<Rightarrow> (string \<times> nat) option \<times> os" where
  "mkqf_subdir dir os =
     (let (r, os1) = sys_random os; i = r mod 3 in
      if i = 0 then (Some ([], 0), os1)
      else if i = 1 then let (a, os2) = sys_random os1 in (Some ([tt_char a] @ ''/'', 1), os2)
      else
        let (a, os2) = sys_random os1; (b, os3) = sys_random os2; (c, os4) = sys_random os3;
            subdir = [tt_char a] @ ''/'' @ [tt_char b, tt_char c] @ ''/'' in
        case sys_mkdir (dir @ ''/'' @ subdir) os4 of
          (Mkdir_error, os5) \<Rightarrow> (None, os5)
        | (_, os5) \<Rightarrow> (Some (subdir, 2), os5))"

definition MAXTRIES :: nat where "MAXTRIES = 10"

definition mkqf :: "string \<Rightarrow> nat \<Rightarrow> os \<Rightarrow> (nat \<times> string \<times> string) option \<times> nat \<times> os" where
  "mkqf dir ect os =
     (case mkqf_subdir dir os of
        (None, os1) \<Rightarrow> (None, ect, os1)
      | (Some (subdir, i), os1) \<Rightarrow>
          case mkqf_try (MAXTRIES + 1 - i) dir subdir ect os1 of
            (None, ect', os2) \<Rightarrow> (None, ect', os2)
          | (Some (fd, qf), ect', os2) \<Rightarrow> (Some (fd, strncpy 128 qf, subdir), ect', os2))"

definition writemmsdata :: "octstr \<Rightarrow> string \<Rightarrow> string \<Rightarrow> string \<Rightarrow> os \<Rightarrow> int \<times> os" where
  "writemmsdata ms df subdir dir os =
     (let dfname = dir @ ''/'' @ subdir @ df in
      case sys_creat dfname os of
        (None, os1) \<Rightarrow> (-1, os1)
      | (Some fd, os1) \<Rightarrow>
          let (n, os2) = sys_write fd ms os1; os3 = sys_close fd os2
          in if n then (0, os3) else (-1, sys_unlink dfname os3))"

definition free_envelope :: "MmsEnvelope \<Rightarrow> bool \<Rightarrow> os \<Rightarrow> os" where
  "free_envelope e removefromqueue os =
     (let os1 = (if removefromqueue
                 then sys_unlink (take 254 (q_path e (''d'' @ drop 1 (q_name e))))
                        (sys_unlink (take 254 (q_path e (q_name e))) os)
                 else os)
      in unlock_and_close (q_fd e) os1)"

text \<open>Returns the queue name of the message, the counter of \<open>mkqf\<close> and the system.\<close>

definition mms_queue_add ::
  "gwlib \<Rightarrow> envelope_args \<Rightarrow> MmsMsg \<Rightarrow> string \<Rightarrow> nat \<Rightarrow> os \<Rightarrow> (octstr option \<times> nat \<times> os) option" where
  "mms_queue_add G a m directory ect os =
     (case mkqf directory ect os of
        (None, ect', os1) \<Rightarrow> Some (None, ect', os1)
      | (Some (fd, qf, subdir), ect', os1) \<Rightarrow>
          let res = xmake_qf qf subdir in
          case mms_queue_create_envelope G (os_now os1) a (Some m) (Some res) of
            None \<Rightarrow> None
          | Some (e0, ms) \<Rightarrow>
              let e = e0\<lparr>q_name := strncpy 128 qf, q_subdir := strncpy 64 subdir,
                         q_dir := strncpy 128 directory, q_fd := fd\<rparr>;
                  (r1, e1, os2) = writeenvelope e True os1
              in if r1 < 0 then Some (None, ect', free_envelope e1 False os2)
                 else
                   let (r2, os3) = writemmsdata (case ms of Some s \<Rightarrow> s | None \<Rightarrow> []) (''d'' @ drop 1 qf) subdir directory os2
                   in Some (if r2 < 0 then None else Some res, ect', free_envelope e1 False os3))"

text \<open>The envelope is freed, and the result 1, when no recipient is left.\<close>

definition mms_queue_update :: "MmsEnvelope \<Rightarrow> os \<Rightarrow> int \<times> MmsEnvelope option \<times> os" where
  "mms_queue_update e0 os =
     (let e = (if e_expiryt e0 \<le> 0 then e0\<lparr>e_expiryt := os_now os + DEFAULT_EXPIRE\<rparr> else e0)
      in if \<not> (\<exists>x \<in> set (e_to e). process x) then (1, None, free_envelope e True os)
         else let (r, e', os') = writeenvelope e False os in (r, Some e', os'))"

definition mms_queue_replacedata :: "gwlib \<Rightarrow> MmsEnvelope \<Rightarrow> MmsMsg \<Rightarrow> os \<Rightarrow> (int \<times> os) option" where
  "mms_queue_replacedata G e m os =
     (let (r, os1) = sys_random os;
          tfname = ''.d'' @ drop 1 (q_name e) @ ''.'' @ show_int (os_now os) @ ''.'' @ show_nat r in
      case mms_tobinary G m of
        None \<Rightarrow> None
      | Some (ms, _) \<Rightarrow>
          let (r2, os2) = writemmsdata ms tfname (q_subdir e) (q_dir e) os1 in
          if r2 < 0 then Some (-1, os2)
          else
            case sys_rename (q_path e tfname) (q_path e (''d'' @ drop 1 (q_name e))) os2 of
              (False, os3) \<Rightarrow> Some (-1, sys_unlink (q_path e tfname) os3)
            | (True, os3) \<Rightarrow> Some (0, os3))"

text \<open>\<open>frombinary\<close> is the decoder \<open>mms_frombinary\<close>.\<close>

definition mms_queue_getdata :: "(octstr \<Rightarrow> MmsMsg option) \<Rightarrow> MmsEnvelope \<Rightarrow> os \<Rightarrow> MmsMsg option" where
  "mms_queue_getdata frombinary e os =
     (case read_file (q_path e (''d'' @ drop 1 (q_name e))) os of
        None \<Rightarrow> None
      | Some ms \<Rightarrow> frombinary ms)"

section \<open>Queue runs\<close>

text \<open>\<open>sdir\<close>, the top-level directory, is set once; a second initialisation fails its assertion.\<close>

definition mms_init_queue_module :: "octstr \<Rightarrow> string option \<Rightarrow> string option" where
  "mms_init_queue_module storage_dir sdir =
     (case sdir of Some _ \<Rightarrow> None | None \<Rightarrow> Some (strncpy 256 storage_dir))"

fun init_subdirs :: "string \<Rightarrow> string \<Rightarrow> os \<Rightarrow> bool \<times> os" where
  "init_subdirs xqdir [] os = (True, os)"
| "init_subdirs xqdir (c # cs) os =
     (case sys_mkdir (take 128 xqdir @ ''/'' @ [c]) os of
        (Mkdir_error, os1) \<Rightarrow> (False, os1)
      | (_, os1) \<Rightarrow> init_subdirs xqdir cs os1)"

definition mms_init_queue_dir :: "gwlib \<Rightarrow> string \<Rightarrow> string \<Rightarrow> os \<Rightarrow> octstr option \<times> os" where
  "mms_init_queue_dir G sdir qdir os =
     (let dir = strip_slashes (gw_strip_blanks G (sdir @ ''/'' @ qdir)) in
      case sys_mkdir dir os of
        (Mkdir_error, os1) \<Rightarrow> (None, os1)
      | (_, os1) \<Rightarrow>
          let (ok, os2) = init_subdirs dir TT os1 in (if ok then Some dir else None, os2))"

text \<open>The sender threads, each with its list of envelopes, or \<open>None\<close> when it has gone away. The
  search starts at \<open>i\<close> and goes once around.\<close>

fun pick_thread :: "nat \<Rightarrow> nat \<Rightarrow> MmsEnvelope list option list \<Rightarrow> MmsEnvelope \<Rightarrow>
    bool \<times> nat \<times> MmsEnvelope list option list" where
  "pick_thread 0 i tlist e = (False, i, tlist)"
| "pick_thread (Suc k) i tlist e =
     (let i' = (i + 1) mod length tlist in
      case tlist ! i of
        Some l \<Rightarrow> (True, i', tlist[i := Some (l @ [e])])
      | None \<Rightarrow> pick_thread k i' tlist e)"

text \<open>One directory entry, then the loop over those that \<open>readdir\<close> returns; \<open>dir\<close> ends with a slash
  or is empty. Result -2 is to quit.\<close>

definition is_queue_file :: "string \<Rightarrow> bool" where
  "is_queue_file name = (take 2 name = ''qf'')"

fun run_entries ::
  "gwlib \<Rightarrow> string \<Rightarrow> string \<Rightarrow> string list \<Rightarrow> MmsEnvelope list option list \<Rightarrow> nat \<Rightarrow> string list \<Rightarrow> os \<Rightarrow>
   (int \<times> MmsEnvelope list option list \<times> nat \<times> string list \<times> os) option" where
  "run_entries G topdir dir [] tlist i stack os = Some (0, tlist, i, stack, os)"
| "run_entries G topdir dir (d_name # ds) tlist i stack os =
     (let xfname = topdir @ ''/'' @ dir @ d_name in
      if os_files os xfname \<noteq> None \<and> is_queue_file d_name
      then
        case mms_queue_readenvelope G (xmake_qf d_name dir) topdir False os of
          None \<Rightarrow> None
        | Some (None, os1) \<Rightarrow> run_entries G topdir dir ds tlist i stack os1
        | Some (Some e, os1) \<Rightarrow>
            if e_sendt e \<le> os_now os
            then
              let (queued, i', tlist') = pick_thread (length tlist) i tlist e in
              if queued then run_entries G topdir dir ds tlist' i' stack os1
              else Some (-2, tlist', i', stack, free_envelope e False os1)
            else run_entries G topdir dir ds tlist i stack (free_envelope e False os1)
      else if xfname \<in> set (os_dirs os) \<and> d_name \<noteq> ''.'' \<and> d_name \<noteq> ''..''
      then run_entries G topdir dir ds tlist i (stack @ [dir @ d_name @ ''/'']) os
      else run_entries G topdir dir ds tlist i stack os)"

text \<open>\<open>readdir\<close> lists a directory, or fails to open it.\<close>

definition run_dir ::
  "gwlib \<Rightarrow> (os \<Rightarrow> string \<Rightarrow> string list option) \<Rightarrow> string \<Rightarrow> string \<Rightarrow> MmsEnvelope list option list \<Rightarrow> nat \<Rightarrow>
   string list \<Rightarrow> os \<Rightarrow> (int \<times> MmsEnvelope list option list \<times> nat \<times> string list \<times> os) option" where
  "run_dir G readdir topdir dir tlist i stack os =
     (case readdir os (topdir @ ''/'' @ dir) of
        None \<Rightarrow> Some (-1, tlist, i, stack, os)
      | Some names \<Rightarrow> run_entries G topdir dir names tlist i stack os)"

text \<open>One round of \<open>mms_queue_run\<close>: directories are taken from the front of the stack until it is
  empty, at most \<open>fuel\<close> of them; the result says whether to quit.\<close>

fun queue_round ::
  "gwlib \<Rightarrow> (os \<Rightarrow> string \<Rightarrow> string list option) \<Rightarrow> nat \<Rightarrow> string \<Rightarrow> MmsEnvelope list option list \<Rightarrow> nat \<Rightarrow>
   string list \<Rightarrow> os \<Rightarrow> (bool \<times> MmsEnvelope list option list \<times> nat \<times> string list \<times> os) option" where
  "queue_round G readdir fuel dir tlist i [] os = Some (False, tlist, i, [], os)"
| "queue_round G readdir 0 dir tlist i (x # stack) os = None"
| "queue_round G readdir (Suc fuel) dir tlist i (xdir # stack) os =
     (case run_dir G readdir dir xdir tlist i stack os of
        None \<Rightarrow> None
      | Some (ret, tlist', i', stack', os') \<Rightarrow>
          if ret < 0 then Some (ret \<le> -2, tlist', i', stack', os')
          else queue_round G readdir fuel dir tlist' i' stack' os')"

text \<open>A sender thread takes the first envelope of its list; unless \<open>deliver\<close> says that it freed it, it
  is freed.\<close>

definition tdeliver_one :: "(MmsEnvelope \<Rightarrow> os \<Rightarrow> int \<times> os) \<Rightarrow> MmsEnvelope list \<Rightarrow> os \<Rightarrow> MmsEnvelope list \<times> os" where
  "tdeliver_one deliver l os =
     (case l of
        [] \<Rightarrow> ([], os)
      | e # l' \<Rightarrow> (case deliver e os of (res, os1) \<Rightarrow>
          (l', if res \<noteq> 1 then free_envelope e False os1 else os1)))"

section \<open>Facts on reading and writing lines\<close>

definition apply_lines :: "gwlib \<Rightarrow> octstr list \<Rightarrow> MmsEnvelope \<Rightarrow> MmsEnvelope" where
  "apply_lines G ls e = fold (\<lambda>l e. fst (read_line G l e)) ls e"

lemma apply_append [simp]: "apply_lines G (a @ b) e = apply_lines G b (apply_lines G a e)"
  and apply_Nil [simp]: "apply_lines G [] e = e"
  and apply_Cons: "apply_lines G (l # ls) e = apply_lines G ls (fst (read_line G l e))"
  by (simp_all add: apply_lines_def)

lemma read_line_end: "snd (read_line G l e) \<longleftrightarrow> (\<exists>r. l = CHR ''.'' # r)"
  by (cases l) (auto simp: read_line_def Let_def split: option.splits)

lemma read_lines_until_end:
  assumes "\<forall>l \<in> set ls. \<forall>r. l \<noteq> CHR ''.'' # r"
  shows "read_lines G (ls @ [''.'']) e = (apply_lines G ls e, True)"
  using assms
proof (induction ls arbitrary: e)
  case Nil
  then show ?case by (simp add: read_line_def)
next
  case (Cons l ls)
  then show ?case
    using read_line_end [of G l e] by (auto simp: apply_Cons split: prod.splits)
qed

text \<open>What the groups of lines do to an envelope that has the field still unset.\<close>

named_theorems line_simps \<open>effect of the lines of a queue file\<close>

lemma apply_opt_lines [line_simps]:
  "e_msgId e = None \<Longrightarrow> apply_lines G (opt_line CHR ''I'' so) e = e\<lparr>e_msgId := so\<rparr>"
  "e_mclass e = None \<Longrightarrow> apply_lines G (opt_line CHR ''c'' so) e = e\<lparr>e_mclass := so\<rparr>"
  "e_fromproxy e = None \<Longrightarrow> apply_lines G (opt_line CHR ''P'' so) e = e\<lparr>e_fromproxy := so\<rparr>"
  "e_mdata e = None \<Longrightarrow> apply_lines G (opt_line CHR ''M'' so) e = e\<lparr>e_mdata := so\<rparr>"
  "e_subject e = None \<Longrightarrow> apply_lines G (opt_line CHR ''s'' so) e = e\<lparr>e_subject := so\<rparr>"
  "e_viaproxy e = None \<Longrightarrow> apply_lines G (opt_line CHR ''p'' so) e = e\<lparr>e_viaproxy := so\<rparr>"
  "e_token e = None \<Longrightarrow> apply_lines G (opt_line CHR ''t'' so) e = e\<lparr>e_token := so\<rparr>"
  "e_vaspid e = None \<Longrightarrow> apply_lines G (opt_line CHR ''V'' so) e = e\<lparr>e_vaspid := so\<rparr>"
  "e_vasid e = None \<Longrightarrow> apply_lines G (opt_line CHR ''v'' so) e = e\<lparr>e_vasid := so\<rparr>"
  "e_url1 e = None \<Longrightarrow> apply_lines G (opt_line CHR ''U'' so) e = e\<lparr>e_url1 := so\<rparr>"
  "e_url2 e = None \<Longrightarrow> apply_lines G (opt_line CHR ''u'' so) e = e\<lparr>e_url2 := so\<rparr>"
  by (cases so; simp add: opt_line_def apply_Cons read_line_def)+

lemma apply_time_lines [line_simps]:
  "e_lasttry e = 0 \<Longrightarrow> apply_lines G (time_line CHR ''L'' t) e = e\<lparr>e_lasttry := t\<rparr>"
  "e_sendt e = 0 \<Longrightarrow> apply_lines G (time_line CHR ''D'' t) e = e\<lparr>e_sendt := t\<rparr>"
  "t \<noteq> 0 \<Longrightarrow> apply_lines G (time_line CHR ''X'' t) e = e\<lparr>e_expiryt := t\<rparr>"
  "e_attempts e = 0 \<Longrightarrow> apply_lines G (time_line CHR ''N'' t) e = e\<lparr>e_attempts := t\<rparr>"
  "e_lastaccess e = 0 \<Longrightarrow> apply_lines G (time_line CHR ''f'' t) e = e\<lparr>e_lastaccess := t\<rparr>"
  "apply_lines G (one_line CHR ''C'' (show_int t)) e = e\<lparr>e_created := t\<rparr>"
  "apply_lines G (one_line CHR ''S'' (show_int t)) e = e\<lparr>e_msize := t\<rparr>"
  "apply_lines G (one_line CHR ''.'' []) e = e"
  by (cases "t = 0"; simp add: time_line_def one_line_def apply_Cons read_line_def)+

lemma apply_from_line [line_simps]:
  "e_from e = None \<Longrightarrow> (\<And>a. so = Some a \<Longrightarrow> mms_validate_address G (Some a) = 0) \<Longrightarrow>
   apply_lines G (opt_line CHR ''F'' so) e = e\<lparr>e_from := so\<rparr>"
  by (cases so) (simp_all add: opt_line_def apply_Cons read_line_def read_address_def)

lemma apply_rcpt_lines [line_simps]:
  "list_all (\<lambda>t. mms_validate_address G (Some (rcpt t)) = 0) ts \<Longrightarrow>
   apply_lines G (rcpt_lines ts) e = e\<lparr>e_to := e_to e @ ts\<rparr>"
  by (induction ts arbitrary: e) (simp_all add: rcpt_lines_def apply_Cons read_line_def read_address_def)

definition header_ok :: "octstr \<times> octstr \<Rightarrow> bool" where
  "header_ok h = (CHR '':'' \<notin> set (fst h) \<and> length (fst h) < 512)"

lemma apply_header_lines [line_simps]:
  "list_all header_ok hs \<Longrightarrow>
   apply_lines G (header_lines hs) e = e\<lparr>e_hdrs := e_hdrs e @ hs\<rparr>"
proof (induction hs arbitrary: e)
  case (Cons h hs)
  have "takeWhile (\<lambda>c. c \<noteq> CHR '':'') (fst h @ CHR '':'' # snd h) = fst h"
    and "dropWhile (\<lambda>c. c \<noteq> CHR '':'') (fst h @ CHR '':'' # snd h) = CHR '':'' # snd h"
    using Cons.prems takeWhile_hit [of "CHR '':''" "fst h" "snd h"]
    by (auto simp: header_ok_def dropWhile_append)
  moreover have "take 511 (fst h) = fst h" using Cons.prems by (simp add: header_ok_def)
  ultimately have "fst (read_line G (CHR ''H'' # fst h @ '':'' @ snd h) e) = e\<lparr>e_hdrs := e_hdrs e @ [h]\<rparr>"
    by (simp add: read_line_def strncpy_def)
  then show ?case using Cons by (simp add: apply_Cons header_lines_def)
qed (simp add: header_lines_def)

lemma read_nat_digit3:
  assumes "f < 1000"
  shows "read_nat 0 [digit_char (f div 100), digit_char (f div 10 mod 10), digit_char (f mod 10)] = f"
proof -
  have "f div 100 < 10" using assms by (simp add: less_mult_imp_div_less)
  moreover have "10 * (10 * (f div 100) + f div 10 mod 10) + f mod 10 = f"
  proof -
    have "f div 10 = 10 * (f div 100) + f div 10 mod 10"
      using mult_div_mod_eq [of 10 "f div 10"] by (simp add: div_mult2_eq [symmetric])
    then show ?thesis by (metis mult_div_mod_eq)
  qed
  ultimately show ?thesis by simp
qed

lemma read_milli_parts:
  assumes i: "\<forall>c \<in> set i. isdigit c" and d: "\<forall>c \<in> set d. isdigit c" "length d = 3"
  shows "read_milli (i @ CHR ''.'' # d) = int (read_nat 0 i * 1000 + read_nat 0 d)"
    and "read_milli (CHR ''-'' # i @ CHR ''.'' # d) = - int (read_nat 0 i * 1000 + read_nat 0 d)"
proof -
  have dot: "\<not> isdigit CHR ''.''" by (simp add: isdigit_def)
  have "takeWhile isdigit (i @ CHR ''.'' # d) = i" "dropWhile isdigit (i @ CHR ''.'' # d) = CHR ''.'' # d"
    using i dot by (simp_all add: takeWhile_append2 dropWhile_append2)
  moreover have tw: "takeWhile isdigit d = d" using d(1) by (simp add: takeWhile_eq_all_conv)
  moreover have "take 1 (i @ CHR ''.'' # d) \<noteq> ''-''"
    using i isdigit_neq by (cases i) auto
  ultimately show "read_milli (i @ CHR ''.'' # d) = int (read_nat 0 i * 1000 + read_nat 0 d)"
    and "read_milli (CHR ''-'' # i @ CHR ''.'' # d) = - int (read_nat 0 i * 1000 + read_nat 0 d)"
    by (simp_all add: read_milli_def Let_def tw d(2))
qed

lemma read_show_milli: "read_milli (show_milli a) = a"
proof -
  define n where "n = nat (abs a)"
  define f where "f = n mod 1000"
  define d where "d = [digit_char (f div 100), digit_char (f div 10 mod 10), digit_char (f mod 10)]"
  have f: "f < 1000" by (simp add: f_def)
  then have "f div 100 < 10" by (simp add: less_mult_imp_div_less)
  then have d: "\<forall>c \<in> set d. isdigit c" "length d = 3" by (simp_all add: d_def)
  have i: "\<forall>c \<in> set (show_nat (n div 1000)). isdigit c" using show_nat_digits by blast
  have "read_nat 0 d = f" unfolding d_def by (rule read_nat_digit3 [OF f])
  then have val: "read_nat 0 (show_nat (n div 1000)) * 1000 + read_nat 0 d = n"
    by (simp only: read_nat_show_nat f_def) simp
  have s: "show_milli a = (if a < 0 then CHR ''-'' # show_nat (n div 1000) @ CHR ''.'' # d else show_nat (n div 1000) @ CHR ''.'' # d)"
    by (simp add: show_milli_def Let_def n_def f_def d_def)
  show ?thesis
    unfolding s using read_milli_parts [OF i d] by (simp only: val split: if_split) (simp add: n_def)
qed

lemma apply_other_lines [line_simps]:
  "mms_string_to_message_type G s = n \<Longrightarrow> 0 \<le> n \<Longrightarrow> apply_lines G (one_line CHR ''T'' s) e = e\<lparr>e_msgtype := n\<rparr>"
  "e_src_interface e = [] \<Longrightarrow> length i \<le> 16 \<Longrightarrow>
   apply_lines G (if_line (i \<noteq> []) CHR ''i'' i) e = e\<lparr>e_src_interface := i\<rparr>"
  "\<not> e_dlr e \<Longrightarrow> apply_lines G (if_line d CHR ''r'' ''Yes'') e = e\<lparr>e_dlr := d\<rparr>"
  by (simp_all add: one_line_def if_line_def apply_Cons read_line_def strncpy_def)

lemma apply_billed_line [line_simps]:
  "\<not> e_billed e \<Longrightarrow> e_amt e = 0 \<Longrightarrow> b \<or> a = 0 \<Longrightarrow>
   apply_lines G (if_line b CHR ''b'' (show_milli a)) e = e\<lparr>e_billed := b, e_amt := a\<rparr>"
  by (cases b) (auto simp: if_line_def apply_Cons read_line_def read_show_milli intro!: MmsEnvelope.equality)

section \<open>The queue file as a record of the envelope\<close>

text \<open>An envelope that the queue file can hold: a known type, valid addresses, header names without a
  colon, an expiry, and no line end in any text.\<close>

definition envelope_ok :: "gwlib \<Rightarrow> MmsEnvelope \<Rightarrow> bool" where
  "envelope_ok G e =
     (mms_message_type_to_cstr (e_msgtype e) \<noteq> None \<and>
      (case e_from e of Some a \<Rightarrow> mms_validate_address G (Some a) = 0 | None \<Rightarrow> True) \<and>
      list_all (\<lambda>t. mms_validate_address G (Some (rcpt t)) = 0) (e_to e) \<and>
      list_all header_ok (e_hdrs e) \<and> length (e_src_interface e) \<le> 16 \<and> e_expiryt e \<noteq> 0 \<and>
      (e_billed e \<or> e_amt e = 0) \<and>
      list_all (\<lambda>l. CHR 0x0A \<notin> set l \<and> CHR 0x0D \<notin> set l) (envelope_lines e))"

definition file_text :: "MmsEnvelope \<Rightarrow> octstr" where
  "file_text e = concat (map (\<lambda>l. l @ [CHR 0x0A]) (envelope_lines e))"

lemma body_lines_no_end:
  "\<exists>ls. envelope_lines e = ls @ [''.''] \<and> (\<forall>l \<in> set ls. \<forall>r. l \<noteq> CHR ''.'' # r)"
  unfolding envelope_lines_def one_line_def [of "CHR ''.''"] append_assoc [symmetric]
  by (rule exI, rule conjI, rule refl)
    (auto simp: one_line_def if_line_def rcpt_lines_def header_lines_def opt_line_def time_line_def split: option.splits if_splits)

definition with_place :: "MmsEnvelope \<Rightarrow> MmsEnvelope \<Rightarrow> MmsEnvelope" where
  "with_place e p =
     e\<lparr>e_xqfname := e_xqfname p, q_name := q_name p, q_dir := q_dir p, q_subdir := q_subdir p, q_fd := q_fd p\<rparr>"

lemma apply_envelope_lines:
  assumes G: "gwlib_api G" and ok: "envelope_ok G e"
  shows "apply_lines G (envelope_lines e) (blank_envelope G tnow qf realqf subdir dir fd) =
    with_place e (blank_envelope G tnow qf realqf subdir dir fd)"
proof -
  from ok obtain s where s: "mms_message_type_to_cstr (e_msgtype e) = Some s" by (auto simp: envelope_ok_def)
  then obtain i where i: "i < tsize message_type_table" "table_code message_type_table i = e_msgtype e"
    using message_type_tab.number_to_cstr_Some by (auto simp: accessor_defs)
  have n: "mms_string_to_message_type G s = e_msgtype e" "0 \<le> e_msgtype e"
    using s message_type_tab.number_string_number [OF G] message_type_tab.code_nonneg [OF i(1)] i(2)
    by (simp_all add: accessor_defs)
  have from_ok: "e_from e = Some a \<Longrightarrow> mms_validate_address G (Some a) = 0" for a
    using ok by (simp add: envelope_ok_def)
  show ?thesis
    using ok n from_ok
    unfolding envelope_lines_def
    by (simp add: line_simps s blank_envelope_def envelope_ok_def with_place_def)
qed

lemma read_file_text:
  assumes "gwlib_api G" and "envelope_ok G e"
  shows "read_lines G (gw_get_lines G (file_text e)) (blank_envelope G tnow qf realqf subdir dir fd) =
    (with_place e (blank_envelope G tnow qf realqf subdir dir fd), True)"
proof -
  let ?b = "blank_envelope G tnow qf realqf subdir dir fd"
  have "gw_get_lines G (file_text e) = envelope_lines e"
    unfolding file_text_def using assms(2)
    by (intro gwlib_api.get_lines_concat [OF assms(1)]) (auto simp: envelope_ok_def list_all_iff)
  moreover obtain ls where ls: "envelope_lines e = ls @ [''.'']" "\<forall>l \<in> set ls. \<forall>r. l \<noteq> CHR ''.'' # r"
    using body_lines_no_end by blast
  moreover have "apply_lines G ls ?b = apply_lines G (envelope_lines e) ?b"
    by (simp add: ls(1) apply_Cons read_line_def)
  ultimately show ?thesis
    using read_lines_until_end [OF ls(2), of G ?b] apply_envelope_lines [OF assms, of tnow qf realqf subdir dir fd]
    by simp
qed
end
