(* ===== verification/QueueFrames.thy ===== *)
theory QueueFrames
  imports MmsQueue
begin

text \<open>
  What each operation of the file-based queue leaves untouched, what writing an envelope does to the
  files, and the two steps of reading one. The properties of the queue are in \<open>QueueStore\<close>.
\<close>

section \<open>Frames\<close>

text \<open>An operation keeps what is under the paths outside \<open>ps\<close>, with its contents, and the descriptors
  and locks outside \<open>fds\<close>.\<close>

definition keeps :: "string set \<Rightarrow> nat set \<Rightarrow> os \<Rightarrow> os \<Rightarrow> bool" where
  "keeps ps fds os os' =
     ((\<forall>p i. p \<notin> ps \<longrightarrow> os_files os p = Some i \<longrightarrow> os_files os' p = Some i \<and> os_data os' i = os_data os i) \<and>
      (\<forall>fd i. fd \<notin> fds \<longrightarrow> os_fds os fd = Some i \<longrightarrow> os_fds os' fd = Some i) \<and>
      (\<forall>i fd. fd \<notin> fds \<longrightarrow> os_locks os i = Some fd \<longrightarrow> os_locks os' i = Some fd) \<and>
      os_next os \<le> os_next os')"

lemma keepsD:
  assumes "keeps ps fds os os'"
  shows "p \<notin> ps \<Longrightarrow> os_files os p = Some i \<Longrightarrow> os_files os' p = Some i"
    and "p \<notin> ps \<Longrightarrow> os_files os p = Some i \<Longrightarrow> os_data os' i = os_data os i"
    and "fd \<notin> fds \<Longrightarrow> os_fds os fd = Some i \<Longrightarrow> os_fds os' fd = Some i"
    and "fd \<notin> fds \<Longrightarrow> os_locks os i = Some fd \<Longrightarrow> os_locks os' i = Some fd"
    and "os_next os \<le> os_next os'"
  using assms by (auto simp: keeps_def)

lemma keeps_refl [intro, simp]: "keeps ps fds os os"
  by (simp add: keeps_def)

lemma keeps_trans [trans]:
  assumes "keeps ps fds os os'" and "keeps ps fds os' os''"
  shows "keeps ps fds os os''"
  unfolding keeps_def
proof (intro conjI allI impI)
  fix p i assume "p \<notin> ps" "os_files os p = Some i"
  then show "os_files os'' p = Some i" "os_data os'' i = os_data os i"
    using keepsD(1,2) [OF assms(1)] keepsD(1,2) [OF assms(2)] by auto
next
  show "os_next os \<le> os_next os''" using keepsD(5) [OF assms(1)] keepsD(5) [OF assms(2)] by simp
qed (use keepsD(3,4) [OF assms(1)] keepsD(3,4) [OF assms(2)] in blast)+

lemma keeps_mono:
  assumes "keeps ps fds os os'" and "ps \<subseteq> ps'" and "\<And>fd. fd \<in> fds \<Longrightarrow> fd < os_next os \<Longrightarrow> fd \<in> fds'" and "os_wf os"
  shows "keeps ps' fds' os os'"
proof -
  have out: "fd \<notin> fds" if "os_fds os fd = Some i" "fd \<notin> fds'" for fd i
    using assms(3) os_wfD(2) [OF assms(4) that(1)] that(2) by blast
  show ?thesis
    unfolding keeps_def
  proof (intro conjI allI impI)
    fix i fd assume fd: "fd \<notin> fds'" and "os_locks os i = Some fd"
    then show "os_locks os' i = Some fd"
      using keepsD(4) [OF assms(1)] out [OF os_wfD(4) [OF assms(4)] fd] by blast
  next
    fix fd i assume "fd \<notin> fds'" "os_fds os fd = Some i"
    then show "os_fds os' fd = Some i" using out keepsD(3) [OF assms(1)] by blast
  qed (use keepsD(1,2,5) [OF assms(1)] assms(2) in blast)+
qed

lemma keeps_fields:
  "keeps ps fds os (os'\<lparr>os_tick := n\<rparr>) = keeps ps fds os os'"
  "keeps ps fds (os\<lparr>os_tick := n\<rparr>) os' = keeps ps fds os os'"
  "keeps ps fds os (os'\<lparr>os_rpos := n\<rparr>) = keeps ps fds os os'"
  "keeps ps fds os (os'\<lparr>os_dirs := d\<rparr>) = keeps ps fds os os'"
  by (simp_all add: keeps_def)

lemma keeps_random: "keeps ps fds os (snd (sys_random os))"
  by (simp add: sys_random_def keeps_fields)

lemma keeps_mkdir: "keeps ps fds os (snd (sys_mkdir p os))"
  by (simp add: sys_mkdir_def sys_fault_def Let_def keeps_fields)

lemma keeps_new_fd:
  assumes "os_wf os" shows "keeps ps fds os (snd (new_fd i os))"
  using os_wfD(2) [OF assms, of "os_next os"] by (auto simp: new_fd_def keeps_def)

lemma keeps_new_file:
  assumes "os_wf os" and "os_files os p = None"
  shows "keeps ps fds os (snd (new_file p os))"
proof -
  have "os_fds os (os_next os + 1) \<noteq> Some i" "os_files os q \<noteq> Some (os_next os)" for i q
    using os_wfD(1,2) [OF assms(1)] by fastforce+
  then show ?thesis using assms(2) by (auto simp: new_file_def new_fd_def Let_def keeps_def)
qed

lemma keeps_open: "os_wf os \<Longrightarrow> keeps ps fds os (snd (sys_open p os))"
  using keeps_new_fd [of "os\<lparr>os_tick := os_tick os + 1\<rparr>"]
  by (auto simp: sys_open_def sys_fault_def Let_def keeps_fields wf_tick case_prod_unfold split: option.split)

lemma keeps_creat_excl: "os_wf os \<Longrightarrow> keeps ps fds os (snd (sys_creat_excl p os))"
  using keeps_new_file [of "os\<lparr>os_tick := os_tick os + 1\<rparr>" p]
  by (auto simp: sys_creat_excl_def sys_fault_def Let_def keeps_fields wf_tick)

lemma keeps_creat: "os_wf os \<Longrightarrow> keeps ps fds os (snd (sys_creat p os))"
  using keeps_new_file [of "os\<lparr>os_tick := os_tick os + 1\<rparr>" p] keeps_new_fd [of "os\<lparr>os_tick := os_tick os + 1\<rparr>"]
  by (auto simp: sys_creat_def sys_fault_def Let_def keeps_fields wf_tick case_prod_unfold split: option.split)

text \<open>A write changes the file that the descriptor was opened on.\<close>

lemma keeps_write:
  assumes "os_wf os" and "\<And>i q. os_fds os fd = Some i \<Longrightarrow> os_files os q = Some i \<Longrightarrow> q \<in> ps"
  shows "keeps ps fds os (snd (sys_write fd s os))"
  using assms(2) unfolding keeps_def
  by (auto simp: write_frame sys_write_def Let_def split: option.split)

lemma keeps_close: "fd \<in> fds \<Longrightarrow> keeps ps fds os (sys_close fd os)"
  by (auto simp: sys_close_def keeps_def split: option.split)

lemma keeps_unlink: "p \<in> ps \<Longrightarrow> keeps ps fds os (sys_unlink p os)"
  by (auto simp: sys_unlink_def sys_fault_def keeps_def Let_def)

lemma keeps_rename: "p \<in> ps \<Longrightarrow> q \<in> ps \<Longrightarrow> keeps ps fds os (snd (sys_rename p q os))"
  by (auto simp: sys_rename_def sys_fault_def keeps_def Let_def split: option.split)

lemma keeps_lockfile: "keeps ps fds os (snd (lockfile fd b os))"
  by (auto simp: lockfile_def keeps_def split: option.split)

lemma keeps_mm_lockfile: "keeps ps fds os (snd (mm_lockfile fd p b os))"
  using keeps_lockfile [of ps fds os fd b]
  by (auto simp: mm_lockfile_def split: prod.split lock_result.split)

lemma wf_creat:
  assumes "os_wf os" shows "os_wf (snd (sys_creat p os))"
proof -
  let ?os = "os\<lparr>os_tick := os_tick os + 1\<rparr>"
  have wf: "os_wf ?os" using assms by (simp add: wf_tick)
  have "os_wf (snd (new_fd i ?os))" if "os_files os p = Some i" for i
    using os_wfD(1) [OF assms that] by (intro wf_new_fd [OF wf]) simp
  with wf_new_file [OF wf, of p] wf show ?thesis
    by (auto simp: sys_creat_def sys_fault_def Let_def wf_tick case_prod_unfold split: option.split)
qed

lemma wf_mkdir: "os_wf os \<Longrightarrow> os_wf (snd (sys_mkdir p os))"
  by (simp add: sys_mkdir_def sys_fault_def Let_def os_wf_def)


text \<open>Paths that do not exist and descriptors that are not open need no exception.\<close>

lemma keeps_drop_path:
  assumes "keeps (insert p ps) fds os os'" and "os_files os p = None"
  shows "keeps ps fds os os'"
  using assms unfolding keeps_def by (metis insert_iff option.distinct(1))

section \<open>Writing an envelope\<close>

text \<open>The process that works on a message: its descriptor is the lock on the file that has the
  message's name.\<close>

definition holds :: "MmsEnvelope \<Rightarrow> os \<Rightarrow> bool" where
  "holds e os =
     (case os_files os (q_path e (q_name e)) of
        Some i \<Rightarrow> os_fds os (q_fd e) = Some i \<and> os_locks os i = Some (q_fd e)
      | None \<Rightarrow> False)"

lemma holdsE:
  assumes "holds e os"
  obtains i where "os_files os (q_path e (q_name e)) = Some i" "os_fds os (q_fd e) = Some i"
    "os_locks os i = Some (q_fd e)"
  using assms by (auto simp: holds_def split: option.splits)

text \<open>What an operation keeps, a holder elsewhere does not lose.\<close>

lemma keeps_holds:
  assumes "keeps ps fds os os'" and "holds e os" and "q_path e (q_name e) \<notin> ps" and "q_fd e \<notin> fds"
  shows "holds e os'" and "read_file (q_path e (q_name e)) os' = read_file (q_path e (q_name e)) os"
proof -
  obtain i where "os_files os (q_path e (q_name e)) = Some i" "os_fds os (q_fd e) = Some i"
    "os_locks os i = Some (q_fd e)" using assms(2) by (rule holdsE)
  then show "holds e os'" and "read_file (q_path e (q_name e)) os' = read_file (q_path e (q_name e)) os"
    using keepsD(1,2) [OF assms(1,3)] keepsD(3,4) [OF assms(1,4)] by (auto simp: holds_def read_file_def)
qed

definition lines_text :: "octstr list \<Rightarrow> octstr" where
  "lines_text ls = concat (map (\<lambda>l. l @ [CHR 0x0A]) ls)"

lemma lines_text_simps [simp]: "lines_text [] = []" "lines_text (l # ls) = l @ CHR 0x0A # lines_text ls"
  by (simp_all add: lines_text_def)

lemma file_text_lines: "file_text e = lines_text (envelope_lines e)"
  by (simp add: file_text_def lines_text_def)

text \<open>Lines put at the end of a file: what the disk has room for is there.\<close>

lemma put_lines_text:
  assumes "os_fds os fd = Some i" and "os_off os fd = length (os_data os i)"
  shows "put_lines fd ls os = os\<lparr>os_data := (os_data os)(i := os_data os i @ take (os_space os) (lines_text ls)),
      os_off := (os_off os)(fd := length (os_data os i) + length (take (os_space os) (lines_text ls))),
      os_space := os_space os - length (lines_text ls)\<rparr>"
  using assms
proof (induction ls arbitrary: os)
  case Nil
  then have "(os_data os)(i := os_data os i) = os_data os" "(os_off os)(fd := length (os_data os i)) = os_off os"
    by auto
  then show ?case by (simp only: put_lines_def) simp
next
  case (Cons l ls)
  define s where "s = l @ [CHR 0x0A]"
  have lt: "lines_text (l # ls) = s @ lines_text ls" by (simp add: s_def)
  let ?os = "putline fd os l"
  have os: "?os = os\<lparr>os_data := (os_data os)(i := os_data os i @ take (os_space os) s),
      os_off := (os_off os)(fd := length (os_data os i) + length (take (os_space os) s)),
      os_space := os_space os - length s\<rparr>"
    using Cons.prems by (simp add: putline_def sys_write_def Let_def s_def [symmetric] min_def)
  have "put_lines fd (l # ls) os = put_lines fd ls ?os" by (simp add: put_lines_def)
  also have "\<dots> = ?os\<lparr>os_data := (os_data ?os)(i := os_data ?os i @ take (os_space ?os) (lines_text ls)),
      os_off := (os_off ?os)(fd := length (os_data ?os i) + length (take (os_space ?os) (lines_text ls))),
      os_space := os_space ?os - length (lines_text ls)\<rparr>"
    using Cons.prems by (intro Cons.IH) (simp_all add: os)
  finally show ?case unfolding lt by (simp add: os add.assoc fun_upd_def cong: if_cong)
qed

text \<open>A successful update moves the descriptor and the lock to a new file under the same name, which
  holds the text of the envelope as far as the disk had room; a failed one leaves everything.\<close>

definition temp_name :: "MmsEnvelope \<Rightarrow> nat \<Rightarrow> string" where
  "temp_name e r = q_path e (''t'' @ drop 1 (q_name e) @ ''.'' @ show_nat r)"

lemma q_path_fd [simp]: "q_path (e\<lparr>q_fd := fd\<rparr>) n = q_path e n" "q_path (e\<lparr>e_expiryt := t\<rparr>) n = q_path e n"
  by (simp_all add: q_path_def)

lemma temp_name_neq: "temp_name e r \<noteq> q_path e (q_name e)"
  by (auto simp: temp_name_def q_path_def dest!: arg_cong [where f = length])

lemma wf_put_lines: "os_wf os \<Longrightarrow> os_wf (put_lines fd ls os)"
  by (induction ls arbitrary: os) (simp_all add: put_lines_def putline_def wf_write)

lemma rename_cases:
  assumes "sys_rename p q os = (b, os')"
  shows "b \<and> (\<exists>i. os_files os p = Some i \<and>
             os' = os\<lparr>os_tick := os_tick os + 1, os_files := (os_files os)(p := None, q \<mapsto> i)\<rparr>) \<or>
         \<not> b \<and> os' = os\<lparr>os_tick := os_tick os + 1\<rparr>"
  using assms by (auto simp: sys_rename_def sys_fault_def Let_def split: option.splits if_splits)

lemma writeenvelope_update:
  assumes wf: "os_wf os" and h: "holds e os" and w: "writeenvelope e False os = (r, e', os')"
  shows "(r = 0 \<and> e' = e\<lparr>q_fd := q_fd e'\<rparr> \<and> os_next os \<le> q_fd e' \<and> holds e' os' \<and>
          read_file (q_path e (q_name e)) os' = Some (take (os_space os) (file_text e)) \<and>
          os_space os' = os_space os - length (file_text e) \<and>
          keeps {q_path e (q_name e)} {q_fd e} os os' \<or>
          r = -1 \<and> e' = e \<and> keeps {} {} os os' \<and> os_space os - length (file_text e) \<le> os_space os') \<and> os_wf os'"
proof -
  let ?P = "q_path e (q_name e)"
  obtain r1 os1 where r1: "sys_random os = (r1, os1)" by fastforce
  let ?T = "temp_name e r1"
  have wf1: "os_wf os1" and k1: "keeps ps fds os os1" for ps fds
    using wf_random [OF wf] keeps_random [of ps fds os] by (simp_all add: r1)
  have os1: "os_files os1 = os_files os" "os_space os1 = os_space os" "os_next os1 = os_next os"
    "os_fds os1 = os_fds os" "os_locks os1 = os_locks os"
    using r1 by (auto simp: sys_random_def)
  obtain fo os2 where c: "sys_creat_excl ?T os1 = (fo, os2)" by fastforce
  have wf2: "os_wf os2" and k2: "keeps ps fds os1 os2" for ps fds
    using wf_creat_excl [OF wf1, of ?T] keeps_creat_excl [OF wf1, of ps fds ?T] by (simp_all add: c)
  show ?thesis
  proof (cases fo)
    case None
    then have "(r, e', os') = (-1, e, os2)"
      using w r1 c by (simp add: writeenvelope_def temp_name_def)
    moreover have "os_space os2 = os_space os" using creat_excl_None [of ?T os1 os2] c None os1 by simp
    ultimately show ?thesis using keeps_trans [OF k1 k2] wf2 by simp
  next
    case (Some fd)
    let ?os3 = "os2\<lparr>os_locks := (os_locks os2)(os_next os1 \<mapsto> fd)\<rparr>"
    note c' = c [unfolded Some]
    note os2 = creat_excl_Some(2) [OF c']
    have lk: "mm_lockfile fd ?T False os2 = (Some True, ?os3)" by (rule lock_created [OF wf1 c'])
    have wf3: "os_wf ?os3" and k3: "keeps ps fds os2 ?os3" for ps fds
      using wf_mm_lockfile [OF wf2, of fd ?T False] keeps_mm_lockfile [of ps fds os2 fd ?T False] by (simp_all add: lk)
    let ?os4 = "put_lines fd (envelope_lines e) ?os3"
    have os4: "?os4 = ?os3\<lparr>os_data := (os_data ?os3)(os_next os := take (os_space os) (file_text e)),
        os_off := (os_off ?os3)(fd := length (take (os_space os) (file_text e))),
        os_space := os_space os - length (file_text e)\<rparr>"
      using put_lines_text [of ?os3 fd "os_next os" "envelope_lines e"]
      by (simp add: os2 os1 file_text_lines)
    have wf4: "os_wf ?os4" by (rule wf_put_lines [OF wf3])
    have T: "os_files ?os4 ?T = Some (os_next os)" unfolding os4 by (simp add: os2 os1)
    have only_T: "q = ?T" if "os_files ?os3 q = Some (os_next os)" for q
      using os_wfD(5) [OF wf3 that] by (simp add: os2 os1)
    have k4: "keeps (insert ?T ps) fds ?os3 ?os4" for ps fds
      unfolding keeps_def os4 using only_T by auto
    have newT: "os_files os ?T = None" using creat_excl_Some(3) [OF c'] os1 by simp
    obtain b os5 where rn: "sys_rename ?T ?P ?os4 = (b, os5)" by fastforce
    have wf5: "os_wf os5" using wf_rename [OF wf4, of ?T ?P] by (simp add: rn)
    have k04: "keeps (insert ?T ps) fds os ?os4" for ps fds
      using keeps_trans [OF keeps_trans [OF keeps_trans [OF k1 k2] k3] k4] .
    have w': "(r, e', os') = (if b then (0, e\<lparr>q_fd := fd\<rparr>, unlock_and_close (q_fd e) os5) else (-1, e, sys_close fd os5))"
      using w r1 c' lk rn by (cases b) (simp_all add: writeenvelope_def temp_name_def)
    show ?thesis
    proof (cases b)
      case True
      let ?e = "e\<lparr>q_fd := fd\<rparr>"
      have os5: "os5 = ?os4\<lparr>os_tick := os_tick ?os4 + 1,
          os_files := (os_files ?os4)(?T := None, ?P \<mapsto> os_next os)\<rparr>"
        using rename_cases [OF rn] True T by auto
      have fd: "fd = os_next os + 1" using creat_excl_Some(1) [OF c'] os1 by simp
      obtain i where i: "os_files os ?P = Some i" "os_fds os (q_fd e) = Some i" using h by (rule holdsE)
      have less: "q_fd e < os_next os" "i < os_next os" using os_wfD(2,3) [OF wf i(2)] by auto
      have fields: "os_fds os5 = (os_fds os)(fd \<mapsto> os_next os)" "os_locks os5 (os_next os) = Some fd"
        "os_files os5 ?P = Some (os_next os)" "os_data os5 (os_next os) = take (os_space os) (file_text e)"
        "os_space os5 = os_space os - length (file_text e)"
        unfolding os5 os4 by (simp_all add: os2 os1)
      have res: "r = 0" "e' = ?e" "os' = sys_close (q_fd e) os5" using w' True by (simp_all add: unlock_and_close_def)
      have "holds ?e os'" and "read_file ?P os' = Some (take (os_space os) (file_text e))"
        and "os_space os' = os_space os - length (file_text e)"
        using less by (simp_all add: res(3) holds_def read_file_def sys_close_def fields fd i)
      moreover have "keeps {?P} {q_fd e} os os'"
      proof -
        have "keeps (insert ?T {?P}) {q_fd e} ?os4 os5" using keeps_rename [of ?T "{?T, ?P}" ?P _ ?os4] by (simp add: rn)
        moreover have "keeps (insert ?T {?P}) {q_fd e} os5 os'" unfolding res(3) by (rule keeps_close) simp
        ultimately show ?thesis using keeps_drop_path [OF _ newT] keeps_trans k04 by blast
      qed
      moreover have "os_wf os'" using wf_close [OF wf5] by (simp add: res(3))
      ultimately show ?thesis using less fd by (simp add: res)
    next
      case False
      have os5: "os5 = ?os4\<lparr>os_tick := os_tick ?os4 + 1\<rparr>" using rename_cases [OF rn] False by auto
      have res: "r = -1" "e' = e" "os' = sys_close fd os5" using w' False by simp_all
      have "keeps (insert ?T {}) {fd} os os5" unfolding os5 keeps_fields by (rule k04)
      then have "keeps (insert ?T {}) {fd} os os'" unfolding res(3) by (rule keeps_trans) (simp add: keeps_close)
      then have "keeps {} {fd} os os'" by (rule keeps_drop_path [OF _ newT])
      then have "keeps {} {} os os'"
        using creat_excl_Some(1) [OF c'] os1 by (elim keeps_mono) (auto intro: wf)
      moreover have "os_space os' = os_space os - length (file_text e)"
        unfolding res(3) os5 os4 by (simp add: sys_close_def)
      ultimately show ?thesis using wf_close [OF wf5] by (simp add: res)
    qed
  qed
qed


section \<open>Frames of the queue operations\<close>

text \<open>Control files are called \<open>q...\<close>, the others not.\<close>

lemma last_part:
  assumes "d @ CHR ''/'' # n = d' @ CHR ''/'' # n'" and "CHR ''/'' \<notin> set n" and "CHR ''/'' \<notin> set n'"
  shows "d = d' \<and> n = n'"
  using assms
proof (induction d arbitrary: d')
  case Nil
  then show ?case by (cases d') auto
next
  case (Cons c d)
  then show ?case by (cases d') auto
qed

definition ctl_path :: "string \<Rightarrow> bool" where
  "ctl_path p = (\<exists>d n. p = d @ CHR ''/'' # CHR ''q'' # n \<and> CHR ''/'' \<notin> set n)"

lemma not_ctl_path:
  assumes "c \<noteq> CHR ''q''" and "c \<noteq> CHR ''/''" and "CHR ''/'' \<notin> set n"
  shows "\<not> ctl_path (d @ CHR ''/'' # c # n)"
proof
  assume "ctl_path (d @ CHR ''/'' # c # n)"
  then obtain d' n' where "d @ CHR ''/'' # c # n = d' @ CHR ''/'' # CHR ''q'' # n'" "CHR ''/'' \<notin> set n'"
    by (auto simp: ctl_path_def)
  then have "c # n = CHR ''q'' # n'" using last_part [of d "c # n" d' "CHR ''q'' # n'"] assms by auto
  then show False using assms(1) by simp
qed

definition place_ok :: "MmsEnvelope \<Rightarrow> bool" where
  "place_ok e =
     ((q_subdir e = [] \<or> last (q_subdir e) = CHR ''/'') \<and> take 1 (q_name e) = ''q'' \<and>
      CHR ''/'' \<notin> set (q_name e) \<and> length (q_path e (q_name e)) \<le> 254)"

lemma q_path_slash:
  assumes "place_ok e" obtains d where "\<forall>n. q_path e n = d @ CHR ''/'' # n"
proof (cases "q_subdir e = []")
  case True
  then show ?thesis using that [of "q_dir e"] by (simp add: q_path_def)
next
  case False
  then have "q_subdir e = butlast (q_subdir e) @ ''/''"
    using assms append_butlast_last_id [OF False] by (simp add: place_ok_def)
  then show ?thesis
    using that [of "q_dir e @ CHR ''/'' # butlast (q_subdir e)"] unfolding q_path_def
    by (metis append_Cons append_Nil append_assoc)
qed

lemma place_okD:
  assumes "place_ok e"
  shows "ctl_path (q_path e (q_name e))"
    and "\<lbrakk> c \<noteq> CHR ''q''; c \<noteq> CHR ''/''; CHR ''/'' \<notin> set n \<rbrakk> \<Longrightarrow> \<not> ctl_path (q_path e (c # n))"
    and "CHR ''/'' \<notin> set (drop k (q_name e))"
    and "take 254 (q_path e (q_name e)) = q_path e (q_name e)"
    and "take 254 (q_path e (CHR ''d'' # drop (Suc 0) (q_name e))) = q_path e (CHR ''d'' # drop (Suc 0) (q_name e))"
proof -
  obtain d where d: "\<forall>n. q_path e n = d @ CHR ''/'' # n" using assms by (rule q_path_slash)
  obtain m where m: "q_name e = CHR ''q'' # m" using assms by (cases "q_name e") (auto simp: place_ok_def)
  show "ctl_path (q_path e (q_name e))" using assms by (auto simp: d m ctl_path_def place_ok_def)
  show "\<lbrakk> c \<noteq> CHR ''q''; c \<noteq> CHR ''/''; CHR ''/'' \<notin> set n \<rbrakk> \<Longrightarrow> \<not> ctl_path (q_path e (c # n))"
    by (simp add: d not_ctl_path)
  show "CHR ''/'' \<notin> set (drop k (q_name e))" using assms by (auto simp: place_ok_def dest: in_set_dropD)
  show "take 254 (q_path e (q_name e)) = q_path e (q_name e)"
    "take 254 (q_path e (CHR ''d'' # drop (Suc 0) (q_name e))) = q_path e (CHR ''d'' # drop (Suc 0) (q_name e))"
    using assms by (auto intro!: take_all simp: d m place_ok_def)
qed

lemma free_envelope_keeps:
  assumes wf: "os_wf os" and e: "place_ok e"
  shows "os_wf (free_envelope e b os)"
    and "keeps ({q_path e (q_name e)} \<union> {p. \<not> ctl_path p}) {q_fd e} os (free_envelope e b os)"
    and "keeps {} {q_fd e} os (free_envelope e False os)"
proof -
  show "os_wf (free_envelope e b os)"
    using wf by (simp add: free_envelope_def unlock_and_close_def wf_close wf_unlink)
  let ?ps = "{q_path e (q_name e)} \<union> {p. \<not> ctl_path p}"
  have "q_path e (CHR ''d'' # drop (Suc 0) (q_name e)) \<in> ?ps"
    using place_okD(2,3) [OF e] by simp
  then show "keeps ?ps {q_fd e} os (free_envelope e b os)"
    by (auto simp: free_envelope_def unlock_and_close_def place_okD(4,5) [OF e]
        intro!: keeps_close keeps_unlink intro: keeps_trans)
  show "keeps {} {q_fd e} os (free_envelope e False os)"
    by (simp add: free_envelope_def unlock_and_close_def keeps_close)
qed

text \<open>Writing the data file.\<close>

lemma new_file_fields:
  "new_file p os = (Some (os_next os + 1),
     os\<lparr>os_files := (os_files os)(p \<mapsto> os_next os), os_data := (os_data os)(os_next os := []),
       os_fds := (os_fds os)(os_next os + 1 \<mapsto> os_next os), os_off := (os_off os)(os_next os + 1 := 0),
       os_next := os_next os + 2\<rparr>)"
  by (simp add: new_file_def new_fd_def Let_def)

lemma creat_Some:
  assumes "os_wf os" and "sys_creat p os = (Some fd, os')"
  shows "os_next os \<le> fd" and "os_fds os' fd = os_files os' p" and "os_files os' p \<noteq> None"
  using assms(2)
  by (auto simp: sys_creat_def sys_fault_def new_fd_def new_file_fields Let_def split: if_splits option.splits)

lemma writemmsdata_keeps:
  assumes wf: "os_wf os" and w: "writemmsdata ms df subdir dir os = (r, os')"
    and p: "dir @ ''/'' @ subdir @ df \<in> ps"
  shows "os_wf os'" and "keeps ps {} os os'"
proof -
  let ?p = "dir @ ''/'' @ subdir @ df"
  obtain fo os1 where c: "sys_creat ?p os = (fo, os1)" by fastforce
  have wf1: "os_wf os1" and k1: "keeps ps fds os os1" for fds
    using wf_creat [OF wf, of ?p] keeps_creat [OF wf, of ps fds ?p] by (simp_all only: c snd_conv)
  have "os_wf os' \<and> keeps ps {} os os'"
  proof (cases fo)
    case None
    then show ?thesis using w c wf1 k1 by (simp add: writemmsdata_def)
  next
    case (Some fd)
    note fd = creat_Some [OF wf c [unfolded Some]]
    obtain b os2 where s: "sys_write fd ms os1 = (b, os2)" by fastforce
    have wf2: "os_wf os2" using wf_write [OF wf1, of fd ms] by (simp add: s)
    have "keeps ps {fd} os1 (snd (sys_write fd ms os1))"
      using fd(2,3) os_wfD(5) [OF wf1] p by (intro keeps_write [OF wf1]) (metis option.exhaust)
    then have k2: "keeps ps {fd} os (sys_close fd os2)"
      using keeps_trans [OF keeps_trans [OF k1]] keeps_close [of fd "{fd}"] by (simp add: s)
    have os': "os' = (if b then sys_close fd os2 else sys_unlink ?p (sys_close fd os2))"
      using w c Some s by (cases b) (auto simp: writemmsdata_def)
    have "keeps ps {fd} os os'"
      unfolding os' using k2 keeps_trans [OF k2 keeps_unlink [OF p]] by simp
    then have "keeps ps {} os os'" by (rule keeps_mono) (use fd(1) wf in auto)
    then show ?thesis using wf_close [OF wf2] wf_unlink by (simp add: os')
  qed
  then show "os_wf os'" and "keeps ps {} os os'" by simp_all
qed


lemma show_no_slash: "CHR ''/'' \<notin> set (show_nat n)" "CHR ''/'' \<notin> set (show_int i)"
proof -
  have "\<not> isdigit CHR ''/''" by (simp add: isdigit_def)
  then show "CHR ''/'' \<notin> set (show_nat n)" for n using show_nat_digits by metis
  then show "CHR ''/'' \<notin> set (show_int i)" by (simp add: show_int_def)
qed

text \<open>The operations of a holder touch its control file and files that are no control files.\<close>

definition own_paths :: "MmsEnvelope \<Rightarrow> string set" where
  "own_paths e = {q_path e (q_name e)} \<union> {p. \<not> ctl_path p}"

lemma replacedata_keeps:
  assumes wf: "os_wf os" and e: "place_ok e" and r: "mms_queue_replacedata G e m os = Some (r, os')"
  shows "os_wf os'" and "keeps {p. \<not> ctl_path p} {} os os'"
proof -
  let ?ps = "{p. \<not> ctl_path p}"
  obtain r1 os1 where r1: "sys_random os = (r1, os1)" by fastforce
  define tf where "tf = ''.d'' @ drop 1 (q_name e) @ ''.'' @ show_int (os_now os) @ ''.'' @ show_nat r1"
  obtain ms m' where ms: "mms_tobinary G m = Some (ms, m')"
    using r r1 by (cases "mms_tobinary G m") (auto simp: mms_queue_replacedata_def)
  obtain r2 os2 where r2: "writemmsdata ms tf (q_subdir e) (q_dir e) os1 = (r2, os2)" by fastforce
  have in_ps: "q_path e tf \<in> ?ps" "q_path e (CHR ''d'' # drop (Suc 0) (q_name e)) \<in> ?ps"
    using place_okD(2,3) [OF e] show_no_slash by (simp_all add: tf_def)
  have "os_wf os1" "keeps ?ps {} os os1"
    using wf_random [OF wf] keeps_random [of ?ps "{}" os] by (simp_all add: r1)
  moreover have "os_wf os2" "keeps ?ps {} os1 os2"
    using writemmsdata_keeps [OF \<open>os_wf os1\<close> r2, of ?ps] in_ps(1) by (simp_all add: q_path_def)
  ultimately have 2: "os_wf os2" "keeps ?ps {} os os2" by (auto intro: keeps_trans)
  obtain b os3 where rn: "sys_rename (q_path e tf) (q_path e (''d'' @ drop 1 (q_name e))) os2 = (b, os3)" by fastforce
  have 3: "os_wf os3" "keeps ?ps {} os os3"
    using wf_rename [OF 2(1), of "q_path e tf"] keeps_trans [OF 2(2) keeps_rename] in_ps rn
    by (simp_all) (metis snd_conv mem_Collect_eq)+
  have "os' = os2 \<or> os' = os3 \<or> os' = sys_unlink (q_path e tf) os3"
    using r r1 ms r2 rn unfolding tf_def by (cases b) (auto simp: mms_queue_replacedata_def Let_def split: if_splits)
  then show "os_wf os'" and "keeps ?ps {} os os'"
    using 2 3 wf_unlink [OF 3(1)] keeps_trans [OF 3(2) keeps_unlink [OF in_ps(1)]] by auto
qed

lemma update_keeps:
  assumes wf: "os_wf os" and e: "place_ok e" and h: "holds e os" and u: "mms_queue_update e os = (r, eo, os')"
  shows "os_wf os'" and "keeps (own_paths e) {q_fd e} os os'"
    and "eo = Some e' \<Longrightarrow> holds e' os' \<and> place_ok e' \<and> q_path e' (q_name e') = q_path e (q_name e) \<and>
         (q_fd e' = q_fd e \<or> os_next os \<le> q_fd e')"
proof -
  define e1 where "e1 = (if e_expiryt e \<le> 0 then e\<lparr>e_expiryt := os_now os + DEFAULT_EXPIRE\<rparr> else e)"
  have same: "q_path e1 = q_path e" "q_fd e1 = q_fd e" "q_name e1 = q_name e" "q_subdir e1 = q_subdir e"
    by (auto simp: e1_def)
  then have e1: "place_ok e1" "holds e1 os" using e h by (simp_all add: place_ok_def holds_def split: option.splits)
  have "os_wf os' \<and> keeps (own_paths e) {q_fd e} os os' \<and>
    (eo = Some e' \<longrightarrow> holds e' os' \<and> place_ok e' \<and> q_path e' (q_name e') = q_path e (q_name e) \<and>
         (q_fd e' = q_fd e \<or> os_next os \<le> q_fd e'))"
  proof (cases "\<exists>x \<in> set (e_to e). process x")
    case False
    then have "eo = None" "os' = free_envelope e1 True os"
      using u by (auto simp: mms_queue_update_def e1_def split: if_splits)
    then show ?thesis using free_envelope_keeps(1,2) [OF wf e1(1), of True] by (simp add: own_paths_def same)
  next
    case True
    then obtain e2 where w: "writeenvelope e1 False os = (r, e2, os')" and eo: "eo = Some e2"
      using u by (auto simp: mms_queue_update_def e1_def Let_def split: prod.splits if_splits)
    from writeenvelope_update [OF wf e1(2) w] show ?thesis
    proof (elim conjE disjE)
      assume a: "e2 = e1\<lparr>q_fd := q_fd e2\<rparr>" "os_next os \<le> q_fd e2" "holds e2 os'" "os_wf os'"
        "keeps {q_path e1 (q_name e1)} {q_fd e1} os os'"
      then have "keeps (own_paths e) {q_fd e} os os'"
        by (elim keeps_mono) (auto simp: same own_paths_def wf)
      moreover have "q_path e2 n = q_path e n" "q_name e2 = q_name e" "place_ok e2" for n
        using e1(1) by (subst a(1), simp add: same place_ok_def)+
      ultimately show ?thesis using a eo by auto
    next
      assume a: "e2 = e1" "keeps {} {} os os'" "os_wf os'"
      then have "keeps (own_paths e) {q_fd e} os os'" by (elim keeps_mono) (auto simp: wf)
      moreover have "holds e1 os'" using keeps_holds(1) [OF a(2) e1(2)] by simp
      moreover have "e' = e1" if "eo = Some e'" using that eo a(1) by simp
      ultimately show ?thesis using a(3) e1(1) same by metis
    qed
  qed
  then show "os_wf os'" and "keeps (own_paths e) {q_fd e} os os'"
    and "eo = Some e' \<Longrightarrow> holds e' os' \<and> place_ok e' \<and> q_path e' (q_name e') = q_path e (q_name e) \<and>
         (q_fd e' = q_fd e \<or> os_next os \<le> q_fd e')"
    by auto
qed


subsection \<open>Making a queue file\<close>

definition mkqf_name :: "int \<Rightarrow> int \<Rightarrow> nat \<Rightarrow> nat \<Rightarrow> string" where
  "mkqf_name now pid ect r =
     ''qf'' @ show_int (now mod 10000) @ ''.'' @ show_nat (ect mod 10000) @ ''.x'' @ show_int (pid mod 1000) @
     ''.'' @ show_nat (r mod 100)"

lemma length_show_int_mod: "length (show_int (i mod 10000)) \<le> 4" "length (show_int (i mod 1000)) \<le> 3"
proof -
  have "length (show_nat (nat (i mod 10000))) \<le> 4" "length (show_nat (nat (i mod 1000))) \<le> 3"
    by (subst length_show_nat_le; simp add: nat_less_iff)+
  then show "length (show_int (i mod 10000)) \<le> 4" "length (show_int (i mod 1000)) \<le> 3"
    using pos_mod_sign [of 10000 i] pos_mod_sign [of 1000 i] by (auto simp: show_int_def)
qed

lemma mkqf_name_ok:
  "take 2 (mkqf_name now pid ect r) = ''qf''" "take 1 (mkqf_name now pid ect r) = ''q''"
  "CHR ''/'' \<notin> set (mkqf_name now pid ect r)" "length (mkqf_name now pid ect r) < 32"
  "CHR ''-'' \<notin> set (mkqf_name now pid ect r)"
proof -
  have i: "show_int (i mod 10000) = show_nat (nat (i mod 10000))" "show_int (i mod 1000) = show_nat (nat (i mod 1000))" for i
    by (simp_all add: show_int_def)
  have "\<not> isdigit CHR ''-''" by (simp add: isdigit_def)
  then have d: "CHR ''-'' \<notin> set (show_nat n)" for n using show_nat_digits by metis
  show "take 2 (mkqf_name now pid ect r) = ''qf''" "take 1 (mkqf_name now pid ect r) = ''q''"
    "CHR ''/'' \<notin> set (mkqf_name now pid ect r)" "CHR ''-'' \<notin> set (mkqf_name now pid ect r)"
    using show_no_slash d by (simp_all add: mkqf_name_def i)
  have "length (show_nat (ect mod 10000)) \<le> 4" "length (show_nat (r mod 100)) \<le> 2"
    by (subst length_show_nat_le; simp)+
  then show "length (mkqf_name now pid ect r) < 32"
    using length_show_int_mod(1) [of now] length_show_int_mod(2) [of pid] by (simp add: mkqf_name_def)
qed

definition made_file :: "string \<Rightarrow> nat \<Rightarrow> os \<Rightarrow> bool" where
  "made_file p fd os =
     (\<exists>i. os_files os p = Some i \<and> os_fds os fd = Some i \<and> os_locks os i = Some fd \<and>
          os_data os i = [] \<and> os_off os fd = 0)"

lemma mkqf_try_facts:
  assumes "os_wf os" and "mkqf_try k dir subdir ect os = (x, ect', os')"
  shows "os_wf os' \<and> keeps {} {} os os' \<and> os_space os' = os_space os \<and> os_now os' = os_now os \<and>
    (case x of
       None \<Rightarrow> True
     | Some (fd, n) \<Rightarrow>
         let p = take 64 dir @ ''/'' @ subdir @ n in
         os_next os \<le> fd \<and> (\<exists>pid ec r. n = mkqf_name (os_now os) pid ec r) \<and>
         made_file p fd os' \<and> os_files os p = None)"
  using assms
proof (induction k arbitrary: ect os)
  case 0
  then show ?case by simp
next
  case (Suc k)
  obtain r os1 where r: "sys_random os = (r, os1)" by fastforce
  then have os1: "os1 = os\<lparr>os_rpos := os_rpos os + 1\<rparr>" by (auto simp: sys_random_def)
  define n where "n = mkqf_name (os_now os) (os_pid os) (ect + 1) r"
  define p where "p = take 64 dir @ ''/'' @ subdir @ n"
  obtain fo os2 where c: "sys_creat_excl p os1 = (fo, os2)" by fastforce
  have wf1: "os_wf os1" using wf_random [OF Suc.prems(1)] r by simp
  have k1: "keeps {} {} os os1" using keeps_random [of "{}" "{}" os] r by simp
  have wf2: "os_wf os2" and k2: "keeps {} {} os os2"
    using wf_creat_excl [OF wf1, of p] keeps_trans [OF k1 keeps_creat_excl [OF wf1, of "{}" "{}" p]] c by simp_all
  have n': "''qf'' @ show_int (os_now os mod 10000) @ ''.'' @ show_nat ((ect + 1) mod 10000) @ ''.x'' @
      show_int (os_pid os mod 1000) @ ''.'' @ show_nat (r mod 100) = n"
    by (simp add: n_def mkqf_name_def)
  have step: "mkqf_try (Suc k) dir subdir ect os =
     (case fo of
        None \<Rightarrow> mkqf_try k dir subdir (ect + 1) os2
      | Some fd \<Rightarrow>
          case mm_lockfile fd p True os2 of
            (Some True, os3) \<Rightarrow> (Some (fd, n), ect + 1, os3)
          | (_, os3) \<Rightarrow> mkqf_try k dir subdir (ect + 1) (unlock_and_close fd (sys_unlink p os3)))"
    by (subst mkqf_try.simps(2)) (simp only: Let_def r case_prod_conv os1 os.simps n' p_def [symmetric] c [unfolded os1])
  show ?case
  proof (cases fo)
    case None
    have os2: "os2 = os1\<lparr>os_tick := os_tick os1 + 1\<rparr>" using creat_excl_None [of p os1 os2] c None by simp
    have IH: "os_wf os' \<and> keeps {} {} os2 os' \<and> os_space os' = os_space os2 \<and> os_now os' = os_now os2 \<and>
      (case x of
         None \<Rightarrow> True
       | Some (fd, n) \<Rightarrow>
           let p = take 64 dir @ ''/'' @ subdir @ n in
           os_next os2 \<le> fd \<and> (\<exists>pid ec r. n = mkqf_name (os_now os2) pid ec r) \<and>
           made_file p fd os' \<and> os_files os2 p = None)"
      using Suc.prems(2) step None by (intro Suc.IH [OF wf2]) simp
    then have "keeps {} {} os os'" using keeps_trans [OF k2] by blast
    then show ?thesis using IH by (simp add: os2 os1 split: option.splits prod.splits)
  next
    case (Some fd)
    note c' = c [unfolded Some]
    have lk: "mm_lockfile fd p True os2 = (Some True, os2\<lparr>os_locks := (os_locks os2)(os_next os1 \<mapsto> fd)\<rparr>)"
      by (rule lock_created [OF wf1 c'])
    then have res: "x = Some (fd, n)" "os' = os2\<lparr>os_locks := (os_locks os2)(os_next os1 \<mapsto> fd)\<rparr>"
      using Suc.prems(2) step Some by simp_all
    have "os_wf os'" and "keeps {} {} os os'"
      using wf_mm_lockfile [OF wf2, of fd p True] keeps_trans [OF k2 keeps_mm_lockfile [of "{}" "{}" os2 fd p True]] lk
      by (simp_all add: res)
    moreover have "made_file p fd os'" "os_files os p = None" "os_next os \<le> fd" "os_space os' = os_space os" "os_now os' = os_now os"
      using creat_excl_Some(1,2,3) [OF c'] by (simp_all add: res made_file_def os1)
    ultimately show ?thesis using n_def by (auto simp: res p_def)
  qed
qed


definition subdir_ok :: "string \<Rightarrow> bool" where
  "subdir_ok s = (\<exists>s'. (s = [] \<or> s = s' @ ''/'') \<and> length s \<le> 5 \<and> CHR ''-'' \<notin> set s)"

lemma tt_char_ok: "tt_char r \<noteq> CHR ''-''"
proof -
  have "tt_char r \<in> set TT" unfolding tt_char_def by (rule nth_mem) (simp add: TT_def)
  then show ?thesis by (auto simp: TT_def)
qed

lemma mkqf_subdir_facts:
  assumes wf: "os_wf os" and m: "mkqf_subdir dir os = (x, os')"
  shows "os_wf os' \<and> keeps {} {} os os' \<and> os_space os' = os_space os \<and> os_now os' = os_now os \<and>
    os_files os' = os_files os \<and> os_next os' = os_next os \<and>
    (case x of None \<Rightarrow> True | Some (s, i) \<Rightarrow> subdir_ok s \<and> i \<le> 2)"
proof -
  obtain r os1 a os2 b os3 c os4 where r: "sys_random os = (r, os1)" "sys_random os1 = (a, os2)"
    "sys_random os2 = (b, os3)" "sys_random os3 = (c, os4)" by fastforce
  define same where "same os' = (os_wf os' \<and> keeps {} {} os os' \<and> os_space os' = os_space os \<and>
    os_now os' = os_now os \<and> os_files os' = os_files os \<and> os_next os' = os_next os)" for os'
  have "same os" using wf by (simp add: same_def)
  moreover have rand: "same (snd (sys_random os'))" if "same os'" for os'
    using that wf_random [of os'] by (auto simp: same_def sys_random_def keeps_fields)
  ultimately have s: "same os1" "same os2" "same os3" "same os4" using r by (metis snd_conv)+
  have mk: "same (snd (sys_mkdir d os4))" for d
    using s(4) wf_mkdir [of os4 d] by (auto simp: same_def sys_mkdir_def sys_fault_def Let_def keeps_fields)
  let ?s1 = "[tt_char a] @ ''/''" and ?s2 = "[tt_char a] @ ''/'' @ [tt_char b, tt_char c] @ ''/''"
  obtain v os5 where v: "sys_mkdir (dir @ ''/'' @ ?s2) os4 = (v, os5)" by fastforce
  have "same os5" using mk [of "dir @ ''/'' @ ?s2"] v by simp
  moreover have "(x, os') = (if r mod 3 = 0 then (Some ([], 0), os1)
      else if r mod 3 = 1 then (Some (?s1, 1), os2)
      else if v = Mkdir_error then (None, os5) else (Some (?s2, 2), os5))"
    unfolding m [symmetric] mkqf_subdir_def Let_def r case_prod_conv v by (cases v) simp_all
  moreover have "subdir_ok []" "subdir_ok ?s1" "subdir_ok ?s2"
    using tt_char_ok tt_char_ok [THEN not_sym] by (auto simp: subdir_ok_def intro: exI [of _ "[tt_char a] @ ''/'' @ [tt_char b, tt_char c]"])
  ultimately show ?thesis using s unfolding same_def by (auto split: if_splits)
qed

lemma mkqf_facts:
  assumes wf: "os_wf os" and m: "mkqf dir ect os = (x, ect', os')"
  shows "os_wf os' \<and> keeps {} {} os os' \<and> os_space os' = os_space os \<and> os_now os' = os_now os \<and>
    (case x of
       None \<Rightarrow> True
     | Some (fd, n, s) \<Rightarrow>
         subdir_ok s \<and> os_next os \<le> fd \<and> (\<exists>pid ec r. n = mkqf_name (os_now os) pid ec r) \<and>
         made_file (take 64 dir @ ''/'' @ s @ n) fd os' \<and> os_files os (take 64 dir @ ''/'' @ s @ n) = None)"
proof -
  obtain y os1 where y: "mkqf_subdir dir os = (y, os1)" by fastforce
  note f1 = mkqf_subdir_facts [OF wf y]
  show ?thesis
  proof (cases y)
    case None
    then show ?thesis using m y f1 by (auto simp: mkqf_def)
  next
    case (Some si)
    obtain s i where si: "si = (s, i)" by fastforce
    obtain z e2 os2 where z: "mkqf_try (MAXTRIES + 1 - i) dir s ect os1 = (z, e2, os2)" by (metis surj_pair)
    note f2 = mkqf_try_facts [OF _ z]
    have "keeps {} {} os os2" if "keeps {} {} os1 os2" using keeps_trans that f1 by blast
    moreover have "(x, os') = ((case z of None \<Rightarrow> None | Some (fd, n) \<Rightarrow> Some (fd, strncpy 128 n, s)), os2)"
      using m y Some si z by (auto simp: mkqf_def split: option.splits prod.splits)
    moreover have "strncpy 128 (mkqf_name a b c d) = mkqf_name a b c d" for a b c d
      using mkqf_name_ok(4) [of a b c d] by (simp add: strncpy_def)
    ultimately show ?thesis
      using f1 f2 by (auto simp: Some si Let_def split: option.splits prod.splits) blast
  qed
qed

lemma data_path_not_ctl:
  assumes "subdir_ok s" and "CHR ''/'' \<notin> set n"
  shows "\<not> ctl_path (dir @ ''/'' @ s @ CHR ''d'' # n)"
proof (cases s rule: rev_cases)
  case Nil
  then show ?thesis using not_ctl_path [of "CHR ''d''" n dir] assms by simp
next
  case (snoc s' c)
  then have "c = CHR ''/''" using assms(1) by (auto simp: subdir_ok_def)
  then show ?thesis using not_ctl_path [of "CHR ''d''" n "dir @ ''/'' @ s'"] assms snoc by simp
qed

text \<open>What \<open>mms_queue_add\<close> does, when the queue file is made.\<close>

lemma add_cases:
  assumes wf: "os_wf os" and a: "mms_queue_add G a m dir ect os = Some (res, ect', os')"
  obtains (no_file) os1 where "mkqf dir ect os = (None, ect', os1)" "res = None" "os' = os1"
  | (made) fd n s os1 e0 ms e r os3 where "mkqf dir ect os = (Some (fd, n, s), ect', os1)"
      "mms_queue_create_envelope G (os_now os1) a (Some m) (Some (xmake_qf n s)) = Some (e0, ms)"
      "e = e0\<lparr>q_name := strncpy 128 n, q_subdir := strncpy 64 s, q_dir := strncpy 128 dir, q_fd := fd\<rparr>"
      "writemmsdata (case ms of Some s \<Rightarrow> s | None \<Rightarrow> []) (''d'' @ drop 1 n) s dir
         (put_lines fd (envelope_lines e) os1) = (r, os3)"
      "os' = sys_close fd os3" "res = (if r < 0 then None else Some (xmake_qf n s))"
proof -
  obtain x e1 os1 where mk: "mkqf dir ect os = (x, e1, os1)" by (metis surj_pair)
  show ?thesis
  proof (cases x)
    case None
    then show ?thesis using a mk by (intro no_file) (auto simp: mms_queue_add_def)
  next
    case (Some y)
    obtain fd n s where y: "y = (fd, n, s)" by (metis surj_pair)
    obtain e0 ms where cr: "mms_queue_create_envelope G (os_now os1) a (Some m) (Some (xmake_qf n s)) = Some (e0, ms)"
      using a mk Some y by (cases "mms_queue_create_envelope G (os_now os1) a (Some m) (Some (xmake_qf n s))") (auto simp: mms_queue_add_def)
    define e where "e = e0\<lparr>q_name := strncpy 128 n, q_subdir := strncpy 64 s, q_dir := strncpy 128 dir, q_fd := fd\<rparr>"
    obtain r os3 where w: "writemmsdata (case ms of Some s \<Rightarrow> s | None \<Rightarrow> []) (''d'' @ drop 1 n) s dir
         (put_lines fd (envelope_lines e) os1) = (r, os3)" by fastforce
    have "res = (if r < 0 then None else Some (xmake_qf n s))" "os' = sys_close fd os3" "ect' = e1"
      using a mk Some y cr w
      by (auto simp: mms_queue_add_def e_def writeenvelope_def Let_def free_envelope_def unlock_and_close_def split: if_splits)
    then show ?thesis using made mk Some y cr e_def w by blast
  qed
qed

lemma add_keeps:
  assumes wf: "os_wf os" and a: "mms_queue_add G a m dir ect os = Some (res, ect', os')"
  shows "os_wf os' \<and> keeps {p. \<not> ctl_path p} {} os os'"
  using wf a
proof (cases rule: add_cases)
  case (no_file os1)
  then show ?thesis using mkqf_facts [OF wf, of dir ect None] by (auto elim!: keeps_mono intro: wf)
next
  case (made fd n s os1 e0 ms e r os3)
  let ?p = "take 64 dir @ ''/'' @ s @ n" and ?os2 = "put_lines fd (envelope_lines e) os1"
  let ?ps = "insert ?p {p. \<not> ctl_path p}"
  have f: "os_wf os1" "keeps {} {} os os1" "subdir_ok s" "os_next os \<le> fd" "made_file ?p fd os1"
    "os_files os ?p = None" and n: "CHR ''/'' \<notin> set n"
    using mkqf_facts [OF wf made(1)] mkqf_name_ok(3) by auto
  obtain i where i: "os_files os1 ?p = Some i" "os_fds os1 fd = Some i" "os_off os1 fd = length (os_data os1 i)"
    using f(5) by (auto simp: made_file_def)
  have "q = ?p" if "os_files os1 q = Some i" for q using os_wfD(5) [OF f(1) that i(1)] .
  then have k2: "keeps ?ps {} os1 ?os2"
    unfolding keeps_def put_lines_text [OF i(2,3)] by auto
  have in_ps: "dir @ ''/'' @ s @ ''d'' @ drop 1 n \<in> ?ps"
    using data_path_not_ctl [OF f(3), of "drop 1 n" dir] n by (auto dest: in_set_dropD)
  have k3: "os_wf os3" "keeps ?ps {} ?os2 os3"
    using writemmsdata_keeps [OF wf_put_lines [OF f(1)] made(4) in_ps] by simp_all
  have "keeps ?ps {} os os1" using f(2) by (rule keeps_mono) (auto intro: wf)
  then have "keeps ?ps {} os os3" using k2 k3(2) keeps_trans by blast
  then have "keeps ?ps {fd} os os3" by (rule keeps_mono) (auto intro: wf)
  then have "keeps ?ps {fd} os os'" unfolding made(5) by (rule keeps_trans) (simp add: keeps_close)
  then have "keeps ?ps {} os os'" by (rule keeps_mono) (use f(4) wf in auto)
  then show ?thesis using keeps_drop_path [OF _ f(6)] wf_close [OF k3(1)] made(5) by blast
qed


section \<open>Reading an envelope\<close>

text \<open>\<open>mms_queue_readenvelope\<close> in two steps, between which other processes can run: the file is opened,
  then locked, checked and read.\<close>

definition queue_open :: "string \<Rightarrow> string \<Rightarrow> os \<Rightarrow> (nat option \<times> os) option" where
  "queue_open qf dir os =
     map_option (\<lambda>(subdir, realqf). sys_open (take 128 dir @ ''/'' @ subdir @ realqf) os) (get_subdir qf)"

definition queue_lock_read ::
  "gwlib \<Rightarrow> string \<Rightarrow> string \<Rightarrow> bool \<Rightarrow> nat \<Rightarrow> os \<Rightarrow> (MmsEnvelope option \<times> os) option" where
  "queue_lock_read G qf dir shouldblock fd os =
     (case get_subdir qf of
        None \<Rightarrow> None
      | Some (subdir, realqf) \<Rightarrow>
          let fname = take 128 dir @ ''/'' @ subdir @ realqf in
          case mm_lockfile fd fname shouldblock os of
            (None, os2) \<Rightarrow> None
          | (Some False, os2) \<Rightarrow> Some (None, unlock_and_close fd os2)
          | (Some True, os2) \<Rightarrow>
              let (e, okfile) = read_lines G (gw_get_lines G (case read_file fname os2 of Some d \<Rightarrow> d | None \<Rightarrow> []))
                                  (blank_envelope G (os_now os2) qf realqf subdir dir fd)
              in if okfile then Some (Some e, os2) else Some (None, unlock_and_close fd os2))"

lemma readenvelope_steps:
  "mms_queue_readenvelope G qf dir b os =
     (case queue_open qf dir os of
        None \<Rightarrow> None
      | Some (None, os1) \<Rightarrow> Some (None, os1)
      | Some (Some fd, os1) \<Rightarrow> queue_lock_read G qf dir b fd os1)"
  by (cases "get_subdir qf")
    (auto simp: mms_queue_readenvelope_def queue_open_def queue_lock_read_def Let_def
      split: prod.split option.split bool.split)

text \<open>Names that the queue runner reads.\<close>

definition qf_ok :: "string \<Rightarrow> string \<Rightarrow> bool" where
  "qf_ok dir qf =
     (length dir < 128 \<and>
      (case get_subdir qf of
         None \<Rightarrow> False
       | Some (s, n) \<Rightarrow> take 1 n = ''q'' \<and> CHR ''/'' \<notin> set n \<and> length dir + 1 + length s + length n \<le> 254))"

lemma get_subdir_bounds:
  assumes "get_subdir qf = Some (s, n)"
  shows "length s < 64" and "length n < 128" and "s = [] \<or> last s = CHR ''/''"
  using assms
  by (auto simp: get_subdir_def replace_char_def split: option.splits prod.splits if_splits)

lemma read_line_place:
  "q_name (fst (read_line G l e)) = q_name e \<and> q_dir (fst (read_line G l e)) = q_dir e \<and>
   q_subdir (fst (read_line G l e)) = q_subdir e \<and> q_fd (fst (read_line G l e)) = q_fd e"
  by (simp add: read_line_def Let_def split: list.split option.split)

lemma read_lines_place:
  "q_name (fst (read_lines G ls e)) = q_name e \<and> q_dir (fst (read_lines G ls e)) = q_dir e \<and>
   q_subdir (fst (read_lines G ls e)) = q_subdir e \<and> q_fd (fst (read_lines G ls e)) = q_fd e"
proof (induction ls arbitrary: e)
  case (Cons l ls)
  then show ?case using read_line_place [of G l e] by (auto simp: Let_def split: prod.splits)
qed simp

lemma queue_open_facts:
  assumes wf: "os_wf os" and o: "queue_open qf dir os = Some (x, os')"
  shows "os_wf os' \<and> keeps {} {} os os' \<and>
    (case x of None \<Rightarrow> True | Some fd \<Rightarrow> os_next os \<le> fd \<and> os_fds os' fd \<noteq> None)"
proof -
  obtain p where p: "sys_open p os = (x, os')" using o by (auto simp: queue_open_def)
  then have "case x of None \<Rightarrow> True | Some fd \<Rightarrow> os_next os \<le> fd \<and> os_fds os' fd \<noteq> None"
    by (auto simp: sys_open_def sys_fault_def new_fd_def Let_def split: option.splits if_splits)
  then show ?thesis using wf_open [OF wf, of p] keeps_open [OF wf, of "{}" "{}" p] p by simp
qed

lemma queue_lock_read_facts:
  assumes wf: "os_wf os" and q: "qf_ok dir qf" and fd: "os_fds os fd \<noteq> None"
    and r: "queue_lock_read G qf dir b fd os = Some (x, os')"
  shows "os_wf os' \<and> keeps {} {fd} os os' \<and>
    (case x of None \<Rightarrow> True
     | Some e \<Rightarrow> holds e os' \<and> place_ok e \<and> q_fd e = fd \<and>
         (\<exists>s n. get_subdir qf = Some (s, n) \<and> q_path e (q_name e) = dir @ ''/'' @ s @ n))"
proof -
  obtain s n where sn: "get_subdir qf = Some (s, n)" using r by (auto simp: queue_lock_read_def split: option.splits)
  note bounds = get_subdir_bounds [OF sn]
  have q': "length dir < 128" "take 1 n = ''q''" "CHR ''/'' \<notin> set n" "length dir + 1 + length s + length n \<le> 254"
    using q sn by (simp_all add: qf_ok_def)
  define p where "p = dir @ ''/'' @ s @ n"
  have dir: "take 128 dir = dir" using q' by simp
  obtain l os2 where l: "mm_lockfile fd p b os = (l, os2)" by fastforce
  have 2: "os_wf os2" "keeps {} {fd} os os2"
    using wf_mm_lockfile [OF wf, of fd p b] keeps_mm_lockfile [of "{}" "{fd}" os fd p b] l by simp_all
  then have 3: "os_wf (sys_close fd os2)" "keeps {} {fd} os (sys_close fd os2)"
    using wf_close keeps_trans keeps_close [of fd "{fd}"] by blast+
  show ?thesis
  proof (cases "l = Some True \<and> x \<noteq> None")
    case False
    then have "x = None \<and> (os' = sys_close fd os2)"
      using r l unfolding queue_lock_read_def sn p_def
      by (auto simp: dir unlock_and_close_def split: option.splits bool.splits if_splits prod.splits)
    then show ?thesis using 3 by simp
  next
    case True
    then obtain e where e: "x = Some e" "os' = os2" and
      rd: "e = fst (read_lines G (gw_get_lines G (case read_file p os2 of Some d \<Rightarrow> d | None \<Rightarrow> []))
                                  (blank_envelope G (os_now os2) qf n s dir fd))"
      using r l unfolding queue_lock_read_def sn p_def
      by (auto simp: dir unlock_and_close_def split: option.splits bool.splits if_splits prod.splits)
    have pl: "q_name e = n" "q_dir e = dir" "q_subdir e = s" "q_fd e = fd"
      using bounds q' unfolding rd by (simp_all add: read_lines_place blank_envelope_def strncpy_def)
    then have path: "q_path e (q_name e) = p" by (simp add: q_path_def p_def)
    obtain i where i: "os_fds os fd = Some i" using fd by auto
    have "os_fds os2 fd = Some i \<and> os_files os2 p = Some i \<and> os_locks os2 i = Some fd"
      using l True i
      by (auto simp: mm_lockfile_def lockfile_def check_lock_def split: option.splits if_splits lock_result.splits prod.splits)
    then have "holds e os2" by (simp add: holds_def path [unfolded pl(1)] pl)
    moreover have "place_ok e" using bounds(3) q' by (simp add: place_ok_def pl q_path_def)
    ultimately show ?thesis using 2 e pl sn path by (simp add: p_def)
  qed
qed

end
