(* ===== verification/QueueStore.thy ===== *)
theory QueueStore
  imports QueueFrames
begin

text \<open>
  What the file-based queue promises its users: updates replace a queue file as a whole or leave it
  alone, whoever holds a message is alone with it, and what was written is read back. The clients' view
  of the store is the locale \<open>queue_store\<close>.
\<close>

section \<open>Processes on one queue\<close>

text \<open>Any number of threads and processes work on the queue directory. Each is idle, has opened a
  queue file whose lock it waits for or tries to get, or works on a message.\<close>

datatype queue_user = Idle | Opened nat string | Working MmsEnvelope

type_synonym queue_system = "os \<times> (nat \<Rightarrow> queue_user)"

text \<open>The steps of the user \<open>u\<close>. The envelope may be changed at will before it is written back, but for
  the fields that say where it belongs. A wait for a lock is a missing step.\<close>

inductive queue_step :: "gwlib \<Rightarrow> string \<Rightarrow> nat \<Rightarrow> queue_system \<Rightarrow> queue_system \<Rightarrow> bool"
  for G :: gwlib and dir :: string and u :: nat where
  open_file: "\<lbrakk> us u = Idle; qf_ok dir qf; queue_open qf dir os = Some (Some fd, os') \<rbrakk>
    \<Longrightarrow> queue_step G dir u (os, us) (os', us(u := Opened fd qf))"
| open_failed: "\<lbrakk> us u = Idle; qf_ok dir qf; queue_open qf dir os = Some (None, os') \<rbrakk>
    \<Longrightarrow> queue_step G dir u (os, us) (os', us)"
| lock_read: "\<lbrakk> us u = Opened fd qf; qf_ok dir qf; queue_lock_read G qf dir b fd os = Some (Some e, os') \<rbrakk>
    \<Longrightarrow> queue_step G dir u (os, us) (os', us(u := Working e))"
| lock_failed: "\<lbrakk> us u = Opened fd qf; qf_ok dir qf; queue_lock_read G qf dir b fd os = Some (None, os') \<rbrakk>
    \<Longrightarrow> queue_step G dir u (os, us) (os', us(u := Idle))"
| update: "\<lbrakk> us u = Working e; mms_queue_update (with_place e2 e) os = (r, Some e', os') \<rbrakk>
    \<Longrightarrow> queue_step G dir u (os, us) (os', us(u := Working e'))"
| complete: "\<lbrakk> us u = Working e; mms_queue_update (with_place e2 e) os = (r, None, os') \<rbrakk>
    \<Longrightarrow> queue_step G dir u (os, us) (os', us(u := Idle))"
| replace_data: "\<lbrakk> us u = Working e; mms_queue_replacedata G e m os = Some (r, os') \<rbrakk>
    \<Longrightarrow> queue_step G dir u (os, us) (os', us)"
| let_go: "us u = Working e
    \<Longrightarrow> queue_step G dir u (os, us) (free_envelope e False os, us(u := Idle))"
| add: "\<lbrakk> us u = Idle; mms_queue_add G a m dir ect os = Some (res, ect', os') \<rbrakk>
    \<Longrightarrow> queue_step G dir u (os, us) (os', us)"

inductive queue_reachable :: "gwlib \<Rightarrow> string \<Rightarrow> queue_system \<Rightarrow> bool" for G :: gwlib and dir :: string where
  start: "os_wf os \<Longrightarrow> queue_reachable G dir (os, \<lambda>u. Idle)"
| step: "queue_reachable G dir s \<Longrightarrow> queue_step G dir u s s' \<Longrightarrow> queue_reachable G dir s'"

inductive_cases queue_stepE: "queue_step G dir u (os, us) s'"

fun user_fd :: "queue_user \<Rightarrow> nat option" where
  "user_fd Idle = None"
| "user_fd (Opened fd qf) = Some fd"
| "user_fd (Working e) = Some (q_fd e)"

definition user_ok :: "os \<Rightarrow> queue_user \<Rightarrow> bool" where
  "user_ok os x =
     (case x of
        Idle \<Rightarrow> True
      | Opened fd qf \<Rightarrow> os_fds os fd \<noteq> None
      | Working e \<Rightarrow> holds e os \<and> place_ok e)"

definition queue_inv :: "queue_system \<Rightarrow> bool" where
  "queue_inv s =
     (case s of (os, us) \<Rightarrow> os_wf os \<and> (\<forall>u. user_ok os (us u)) \<and>
        (\<forall>u v fd. user_fd (us u) = Some fd \<longrightarrow> user_fd (us v) = Some fd \<longrightarrow> u = v))"


lemma queue_invD:
  assumes "queue_inv (os, us)"
  shows "os_wf os" and "user_ok os (us u)"
    and "user_fd (us u) = Some fd \<Longrightarrow> user_fd (us v) = Some fd \<Longrightarrow> u = v"
    and "user_fd (us u) = Some fd \<Longrightarrow> fd < os_next os"
    and "us u = Working e \<Longrightarrow> holds e os" and "us u = Working e \<Longrightarrow> place_ok e"
proof -
  show wf: "os_wf os" and ok: "user_ok os (us u)" for u using assms by (auto simp: queue_inv_def)
  show "user_fd (us u) = Some fd \<Longrightarrow> user_fd (us v) = Some fd \<Longrightarrow> u = v"
    using assms by (auto simp: queue_inv_def)
  show "us u = Working e \<Longrightarrow> holds e os" and "us u = Working e \<Longrightarrow> place_ok e"
    using ok [of u] by (simp_all add: user_ok_def)
  show "user_fd (us u) = Some fd \<Longrightarrow> fd < os_next os"
    using ok [of u] os_wfD(2) [OF wf] by (cases "us u") (auto simp: user_ok_def elim!: holdsE)
qed

text \<open>Two users do not work on the same message.\<close>

lemma queue_exclusive:
  assumes inv: "queue_inv (os, us)" and e: "us u = Working e" "us v = Working e'"
    and same: "q_path e (q_name e) = q_path e' (q_name e')"
  shows "u = v"
proof -
  have "q_fd e = q_fd e'"
    using queue_invD(5) [OF inv e(1)] queue_invD(5) [OF inv e(2)] same by (auto elim!: holdsE)
  then show ?thesis using queue_invD(3) [OF inv, of u "q_fd e" v] e by simp
qed

text \<open>A step by one user, seen by the others.\<close>

definition step_frame :: "nat \<Rightarrow> queue_system \<Rightarrow> queue_system \<Rightarrow> bool" where
  "step_frame u s s' =
     (case (s, s') of ((os, us), (os', us')) \<Rightarrow>
        \<exists>ps fds x. us' = us(u := x) \<and> os_wf os' \<and> keeps ps fds os os' \<and>
          (\<forall>p \<in> ps. ctl_path p \<longrightarrow> (\<exists>e. us u = Working e \<and> p = q_path e (q_name e))) \<and>
          (\<forall>fd \<in> fds. user_fd (us u) = Some fd) \<and> user_ok os' x \<and>
          (\<forall>fd. user_fd x = Some fd \<longrightarrow> user_fd (us u) = Some fd \<or> os_next os \<le> fd))"

lemma step_frameI:
  assumes "os_wf os'" and "keeps ps fds os os'" and "user_ok os' x"
    and "\<And>p. p \<in> ps \<Longrightarrow> ctl_path p \<Longrightarrow> \<exists>e. us u = Working e \<and> p = q_path e (q_name e)"
    and "\<And>fd. fd \<in> fds \<Longrightarrow> user_fd (us u) = Some fd"
    and "\<And>fd. user_fd x = Some fd \<Longrightarrow> user_fd (us u) = Some fd \<or> os_next os \<le> fd"
  shows "step_frame u (os, us) (os', us(u := x))"
  unfolding step_frame_def using assms
  by (auto intro!: exI [of _ ps] exI [of _ fds] exI [of _ x])

lemma step_frame_same:
  assumes "os_wf os'" and "keeps ps {} os os'" and "\<And>p. p \<in> ps \<Longrightarrow> \<not> ctl_path p" and "user_ok os' (us u)"
  shows "step_frame u (os, us) (os', us)"
  using step_frameI [of os' ps "{}" os "us u" us u] assms by auto

lemma step_frame_others:
  assumes inv: "queue_inv (os, us)" and f: "step_frame u (os, us) (os', us')" and v: "v \<noteq> u"
  shows "us' v = us v" and "user_ok os' (us v)"
    and "us v = Working e \<Longrightarrow> read_file (q_path e (q_name e)) os' = read_file (q_path e (q_name e)) os"
proof -
  obtain ps fds where k: "keeps ps fds os os'" "us' v = us v"
    and ps: "\<And>p. p \<in> ps \<Longrightarrow> ctl_path p \<Longrightarrow> \<exists>e. us u = Working e \<and> p = q_path e (q_name e)"
    and fds: "\<And>fd. fd \<in> fds \<Longrightarrow> user_fd (us u) = Some fd"
    using f v by (auto simp: step_frame_def)
  show "us' v = us v" by fact
  have fd: "fd \<notin> fds" if "user_fd (us v) = Some fd" for fd
    using fds queue_invD(3) [OF inv that] v by blast
  have e: "holds e os' \<and> read_file (q_path e (q_name e)) os' = read_file (q_path e (q_name e)) os"
    if "us v = Working e" for e
  proof -
    have "q_path e (q_name e) \<notin> ps"
      using ps place_okD(1) [OF queue_invD(6) [OF inv that]] queue_exclusive [OF inv that] v by blast
    then show ?thesis using keeps_holds [OF k(1) queue_invD(5) [OF inv that]] fd that by simp
  qed
  then show "us v = Working e \<Longrightarrow> read_file (q_path e (q_name e)) os' = read_file (q_path e (q_name e)) os"
    by blast
  show "user_ok os' (us v)"
  proof (cases "us v")
    case (Opened d qf)
    then show ?thesis
      using queue_invD(2) [OF inv, of v] keepsD(3) [OF k(1) fd] by (auto simp: user_ok_def)
  next
    case (Working e')
    then show ?thesis using e queue_invD(6) [OF inv] by (simp add: user_ok_def)
  qed (simp add: user_ok_def)
qed

lemma step_frame_inv:
  assumes inv: "queue_inv (os, us)" and f: "step_frame u (os, us) (os', us')"
  shows "queue_inv (os', us')"
proof -
  obtain x where x: "us' = us(u := x)" "os_wf os'" "user_ok os' x"
    and fd: "\<And>fd. user_fd x = Some fd \<Longrightarrow> user_fd (us u) = Some fd \<or> os_next os \<le> fd"
    using f unfolding step_frame_def prod.case by blast
  have "user_ok os' (us' v)" for v
    using step_frame_others [OF inv f, of v] x by (cases "v = u") auto
  moreover have "v = w" if "user_fd (us' v) = Some d" "user_fd (us' w) = Some d" for v w d
  proof -
    have new: "user_fd (us z) \<noteq> Some d" if "z \<noteq> u" "user_fd x = Some d" for z
      using fd [OF that(2)] queue_invD(3) [OF inv, of u d z] queue_invD(4) [OF inv, of z d] that(1) by fastforce
    then show ?thesis
      using that queue_invD(3) [OF inv, of v d w] by (auto simp: x(1) split: if_splits)
  qed
  ultimately show ?thesis using x(2) by (auto simp: queue_inv_def)
qed


lemma with_place_fields [simp]:
  "q_path (with_place e2 e) = q_path e" "q_name (with_place e2 e) = q_name e" "q_fd (with_place e2 e) = q_fd e"
  "place_ok (with_place e2 e) = place_ok e" "holds (with_place e2 e) = holds e" "own_paths (with_place e2 e) = own_paths e"
proof -
  have "q_path (with_place e2 e) n = q_path e n" for n by (simp add: with_place_def q_path_def)
  moreover have "q_name (with_place e2 e) = q_name e" "q_fd (with_place e2 e) = q_fd e" "q_subdir (with_place e2 e) = q_subdir e"
    by (simp_all add: with_place_def)
  ultimately show "q_path (with_place e2 e) = q_path e" "q_name (with_place e2 e) = q_name e" "q_fd (with_place e2 e) = q_fd e"
    "place_ok (with_place e2 e) = place_ok e" "holds (with_place e2 e) = holds e" "own_paths (with_place e2 e) = own_paths e"
    by (auto simp: place_ok_def holds_def own_paths_def fun_eq_iff split: option.splits)
qed

lemma queue_step_frame:
  assumes inv: "queue_inv (os, us)" and s: "queue_step G dir u (os, us) s'"
  shows "step_frame u (os, us) s'"
proof -
  note wf = queue_invD(1) [OF inv]
  have own: "\<exists>e'. us u = Working e' \<and> p = q_path e' (q_name e')"
    if "us u = Working e" "p \<in> own_paths e" "ctl_path p" for p e
    using that by (auto simp: own_paths_def)
  have upd: "step_frame u (os, us) (os', us(u := (case eo of None \<Rightarrow> Idle | Some e' \<Rightarrow> Working e')))"
    if e: "us u = Working e" and w: "mms_queue_update (with_place e2 e) os = (r, eo, os')" for e e2 r eo os'
  proof -
    have h: "place_ok (with_place e2 e)" "holds (with_place e2 e) os" using queue_invD(5,6) [OF inv e] by simp_all
    note k = update_keeps [OF wf h w]
    show ?thesis
      by (rule step_frameI [OF k(1,2)]) (use own e k(3) in \<open>auto simp: user_ok_def split: option.splits\<close>)
  qed
  from s show ?thesis
  proof (cases rule: queue_step.cases)
    case (open_file qf fd os')
    then show ?thesis
      using queue_open_facts [OF wf, of qf dir] by (auto intro!: step_frameI simp: user_ok_def)
  next
    case (open_failed qf os')
    then show ?thesis
      using queue_open_facts [OF wf, of qf dir] by (auto intro!: step_frame_same simp: user_ok_def)
  next
    case (lock_read fd qf b e os')
    then have "us u = Opened fd qf" "os_fds os fd \<noteq> None"
      using queue_invD(2) [OF inv, of u] by (simp_all add: user_ok_def)
    then show ?thesis
      using lock_read queue_lock_read_facts [OF wf, of dir qf fd G b] by (auto intro!: step_frameI simp: user_ok_def)
  next
    case (lock_failed fd qf b os')
    then have "us u = Opened fd qf" "os_fds os fd \<noteq> None"
      using queue_invD(2) [OF inv, of u] by (simp_all add: user_ok_def)
    then show ?thesis
      using lock_failed queue_lock_read_facts [OF wf, of dir qf fd G b] by (auto intro!: step_frameI simp: user_ok_def)
  next
    case (update e e2 r e' os')
    then show ?thesis using upd by fastforce
  next
    case (complete e e2 r os')
    then show ?thesis using upd by fastforce
  next
    case (replace_data e m r os')
    then have e: "us u = Working e" by simp
    have k: "os_wf os'" "keeps {p. \<not> ctl_path p} {} os os'"
      using replacedata_keeps [OF wf queue_invD(6) [OF inv e], of G m r] replace_data by simp_all
    have "user_ok os' (us u)"
      using keeps_holds(1) [OF k(2) queue_invD(5) [OF inv e]] place_okD(1) queue_invD(6) [OF inv e]
      by (simp add: user_ok_def e)
    then show ?thesis using step_frame_same [OF k] replace_data by simp
  next
    case (let_go e)
    then show ?thesis
      using free_envelope_keeps(1,3) [OF wf, of e] queue_invD(6) [OF inv, of u e]
      by (auto intro!: step_frameI simp: user_ok_def)
  next
    case (add a m ect res ect' os')
    then show ?thesis
      using add_keeps [OF wf, of G a m dir ect] by (auto intro!: step_frame_same simp: user_ok_def)
  qed
qed

lemma queue_reachable_inv: "queue_reachable G dir s \<Longrightarrow> queue_inv s"
proof (induction rule: queue_reachable.induct)
  case (start os)
  then show ?case by (simp add: queue_inv_def user_ok_def)
next
  case (step s u s')
  then show ?case
    using step_frame_inv queue_step_frame by (metis surj_pair)
qed

text \<open>C1: In every state that any interleaving of the queue's users reaches, a message is worked on by at
  most one of them, who has the lock of its control file; and no step of another user (opening,
  locking, updating, replacing data, letting go, adding) changes that file.\<close>

theorem message_has_one_worker:
  assumes "queue_reachable G dir (os, us)" and "us u = Working e"
  shows "(\<forall>v e'. us v = Working e' \<and> q_path e' (q_name e') = q_path e (q_name e) \<longrightarrow> v = u) \<and>
    holds e os \<and>
    (\<forall>v s'. v \<noteq> u \<and> queue_step G dir v (os, us) s' \<longrightarrow>
       snd s' u = Working e \<and> read_file (q_path e (q_name e)) (fst s') = read_file (q_path e (q_name e)) os)"
proof -
  have inv: "queue_inv (os, us)" by (rule queue_reachable_inv [OF assms(1)])
  have "snd s' u = Working e \<and> read_file (q_path e (q_name e)) (fst s') = read_file (q_path e (q_name e)) os"
    if "v \<noteq> u" "queue_step G dir v (os, us) s'" for v s'
  proof -
    obtain os' us' where s': "s' = (os', us')" by fastforce
    show ?thesis
      using step_frame_others(1,3) [OF inv queue_step_frame [OF inv that(2), unfolded s'], of u] that(1) assms(2) s'
      by simp
  qed
  then show ?thesis using queue_exclusive [OF inv _ assms(2)] queue_invD(5) [OF inv assms(2)] by blast
qed


section \<open>Updates\<close>

text \<open>Reading a message that nobody works on.\<close>

lemma read_free:
  assumes wf: "os_wf os" and qf: "get_subdir qf = Some (s, n)" and dir: "length dir < 128"
    and i: "os_files os (dir @ ''/'' @ s @ n) = Some i" "os_locks os i = None" and ok: "\<not> os_fault os (os_tick os)"
    and rd: "read_lines G (gw_get_lines G (os_data os i)) (blank_envelope G (os_now os) qf n s dir (os_next os)) = (e, okfile)"
  shows "\<exists>os'. mms_queue_readenvelope G qf dir b os = Some (if okfile then Some e else None, os')"
proof -
  let ?p = "dir @ ''/'' @ s @ n"
  let ?os1 = "os\<lparr>os_tick := os_tick os + 1, os_fds := (os_fds os)(os_next os \<mapsto> i),
                os_off := (os_off os)(os_next os := 0), os_next := os_next os + 1\<rparr>"
  let ?os2 = "?os1\<lparr>os_locks := (os_locks os)(i \<mapsto> os_next os)\<rparr>"
  have path: "take 128 dir @ ''/'' @ s @ n = ?p" using dir by simp
  have "sys_open ?p os = (Some (os_next os), ?os1)"
    using i(1) ok by (simp add: sys_open_def sys_fault_def new_fd_def)
  moreover have "mm_lockfile (os_next os) ?p b ?os1 = (Some True, ?os2)"
    using i by (simp add: mm_lockfile_def lockfile_def check_lock_def)
  moreover have "read_file ?p ?os2 = Some (os_data os i)" using i(1) by (simp add: read_file_def)
  ultimately show ?thesis
    unfolding mms_queue_readenvelope_def qf option.case prod.case path Let_def using rd by simp
qed

text \<open>Letting go of a message.\<close>

lemma let_go_fields:
  "os_files (free_envelope e False os) = os_files os" "os_data (free_envelope e False os) = os_data os"
  "os_tick (free_envelope e False os) = os_tick os" "os_fault (free_envelope e False os) = os_fault os"
  "os_next (free_envelope e False os) = os_next os" "os_now (free_envelope e False os) = os_now os"
  by (simp_all add: free_envelope_def unlock_and_close_def sys_close_def)

lemma let_go_lock:
  assumes "holds e os" and "os_files os (q_path e (q_name e)) = Some i"
  shows "os_locks (free_envelope e False os) i = None"
  using assms by (auto elim!: holdsE simp: free_envelope_def unlock_and_close_def sys_close_def)

lemma update_processing:
  assumes "0 < e_expiryt e" and "\<exists>x \<in> set (e_to e). process x" and "mms_queue_update e os = (r, eo, os')"
  shows "\<exists>e'. eo = Some e' \<and> writeenvelope e False os = (r, e', os')"
proof (cases "writeenvelope e False os")
  case (fields r1 e1 os1)
  have "\<not> e_expiryt e \<le> 0" using assms(1) by simp
  then have "mms_queue_update e os = (r1, Some e1, os1)"
    unfolding mms_queue_update_def Let_def using assms(2) fields by simp
  then show ?thesis using assms(3) fields by simp
qed


text \<open>C5: After a successful update and release, reading the message by its queue name gives the envelope
  as it was written, in its place.\<close>

theorem update_then_read:
  assumes "gwlib_api G" and "envelope_ok G e" and "os_wf os" and "holds e os"
    and "0 < e_expiryt e" and "\<exists>x \<in> set (e_to e). process x"
    and "length (file_text e) \<le> os_space os" and "mms_queue_update e os = (0, Some e', os')"
    and "get_subdir qf = Some (q_subdir e, q_name e)" and "length (q_dir e) < 128"
    and "\<not> os_fault os' (os_tick os')"
  shows "\<exists>os''. mms_queue_readenvelope G qf (q_dir e) b (free_envelope e' False os') =
    Some (Some (with_place e (blank_envelope G (os_now os') qf (q_name e) (q_subdir e) (q_dir e) (os_next os'))), os'')"
proof -
  have w: "writeenvelope e False os = (0, e', os')" using update_processing assms(5,6,8) by blast
  from writeenvelope_update [OF assms(3,4) w]
  have s: "e' = e\<lparr>q_fd := q_fd e'\<rparr>" "holds e' os'" "os_wf os'"
    "read_file (q_path e (q_name e)) os' = Some (file_text e)" using assms(7) by auto
  have path: "q_path e' (q_name e') = q_path e (q_name e)" by (subst s(1), simp)+
  then obtain i where i: "os_files os' (q_path e (q_name e)) = Some i" "os_data os' i = file_text e"
    using s(4) by (auto simp: read_file_def)
  let ?os = "free_envelope e' False os'"
  have "os_wf ?os" using s(3) by (simp add: free_envelope_def unlock_and_close_def wf_close)
  moreover have "os_locks ?os i = None" using let_go_lock [OF s(2)] i(1) path by simp
  moreover have "read_lines G (gw_get_lines G (os_data ?os i))
      (blank_envelope G (os_now ?os) qf (q_name e) (q_subdir e) (q_dir e) (os_next ?os)) =
    (with_place e (blank_envelope G (os_now os') qf (q_name e) (q_subdir e) (q_dir e) (os_next os')), True)"
    using read_file_text [OF assms(1,2)] i(2) by (simp add: let_go_fields)
  ultimately show ?thesis
    using read_free [of ?os qf "q_subdir e" "q_name e" "q_dir e" i] assms(9-11) i(1)
    by (fastforce simp: let_go_fields q_path_def)
qed

text \<open>On a full disk an update is reported as successful, but the control file is left empty and no
  reader accepts it: the message is lost.\<close>

theorem update_full_disk_loses_message:
  assumes "gwlib_api G" and "os_wf os" and "holds e os"
    and "0 < e_expiryt e" and "\<exists>x \<in> set (e_to e). process x"
    and "os_space os = 0" and "mms_queue_update e os = (0, Some e', os')"
    and "get_subdir qf = Some (q_subdir e, q_name e)" and "length (q_dir e) < 128"
  shows "read_file (q_path e (q_name e)) os' = Some [] \<and>
    (\<exists>os''. mms_queue_readenvelope G qf (q_dir e) b (free_envelope e' False os') = Some (None, os''))"
proof -
  have w: "writeenvelope e False os = (0, e', os')" using update_processing assms(4,5,7) by blast
  from writeenvelope_update [OF assms(2,3) w]
  have s: "e' = e\<lparr>q_fd := q_fd e'\<rparr>" "holds e' os'" "os_wf os'"
    "read_file (q_path e (q_name e)) os' = Some []" using assms(6) by auto
  have path: "q_path e' (q_name e') = q_path e (q_name e)" by (subst s(1), simp)+
  then obtain i where i: "os_files os' (q_path e (q_name e)) = Some i" "os_data os' i = []"
    using s(4) by (auto simp: read_file_def)
  let ?os = "free_envelope e' False os'"
  have "os_wf ?os" using s(3) by (simp add: free_envelope_def unlock_and_close_def wf_close)
  moreover have "os_locks ?os i = None" using let_go_lock [OF s(2)] i(1) path by simp
  moreover have "gw_get_lines G [] = []"
    using gwlib_api.get_lines_concat [OF assms(1), of "[]"] by simp
  ultimately have "\<exists>os''. mms_queue_readenvelope G qf (q_dir e) b ?os = Some (None, os'')"
    if "\<not> os_fault ?os (os_tick ?os)"
    using read_free [of ?os qf "q_subdir e" "q_name e" "q_dir e" i G _ False b] assms(8,9) i that
    by (simp add: let_go_fields q_path_def)
  moreover have "\<exists>os''. mms_queue_readenvelope G qf (q_dir e) b ?os = Some (None, os'')"
    if "os_fault ?os (os_tick ?os)"
    unfolding readenvelope_steps queue_open_def using assms(8) that
    by (simp add: sys_open_def sys_fault_def split: option.split)
  ultimately show ?thesis using s(4) by blast
qed


section \<open>Adding a message\<close>

lemma queue_id:
  assumes s: "subdir_ok s" and n: "CHR ''-'' \<notin> set n" "CHR ''/'' \<notin> set n" "length n < 128"
  shows "get_subdir (xmake_qf n s) = Some (s, n)"
proof (cases s rule: rev_cases)
  case Nil
  then show ?thesis using n by (simp add: xmake_qf_def get_subdir_def replace_char_id strrchr_split_None)
next
  case (snoc s' c)
  then have c: "c = CHR ''/''" "CHR ''-'' \<notin> set s'" "length s' < 5" using s by (auto simp: subdir_ok_def)
  have "xmake_qf n s = replace_char CHR ''/'' CHR ''-'' s' @ CHR ''-'' # n"
    using replace_char_id [OF n(2), of "CHR ''-''"] by (simp add: xmake_qf_def snoc c(1)) (simp add: replace_char_def)
  moreover have "replace_char CHR ''-'' CHR ''/'' (replace_char CHR ''/'' CHR ''-'' s') = s'"
    using c(2) by (induction s') (auto simp: replace_char_def)
  moreover have "length (replace_char CHR ''/'' CHR ''-'' s') = length s'" by (simp add: replace_char_def)
  ultimately show ?thesis
    using n c by (simp add: get_subdir_def strrchr_split_append snoc) (simp add: replace_char_def)
qed

lemma writemmsdata_ok:
  assumes wf: "os_wf os" and w: "writemmsdata ms df subdir dir os = (r, os')" and r: "\<not> r < 0"
  shows "\<exists>old. read_file (dir @ ''/'' @ subdir @ df) os' = Some (ms @ old)"
proof -
  let ?p = "dir @ ''/'' @ subdir @ df"
  obtain fo os1 where c: "sys_creat ?p os = (fo, os1)" by fastforce
  then obtain fd where fo: "fo = Some fd"
    using w r by (cases fo) (auto simp: writemmsdata_def)
  note c' = c [unfolded fo]
  obtain j where j: "os_files os1 ?p = Some j" "os_fds os1 fd = Some j"
    using creat_Some(2,3) [OF wf c'] by auto
  have off: "os_off os1 fd = 0"
    using c' by (auto simp: sys_creat_def sys_fault_def new_fd_def new_file_fields Let_def split: if_splits option.splits)
  obtain b os2 where s: "sys_write fd ms os1 = (b, os2)" by fastforce
  then have b: b and os': "os' = sys_close fd os2"
    using w r c' by (cases b; auto simp: writemmsdata_def)+
  then have "os_data os2 j = ms @ drop (length ms) (os_data os1 j)" "os_files os2 ?p = Some j"
    using s j off by (auto simp: sys_write_def Let_def)
  then show ?thesis unfolding os' by (auto simp: read_file_def sys_close_def)
qed

text \<open>The control file of an added message, whether or not its data could be written.\<close>

lemma add_control_file:
  assumes wf: "os_wf os" and dir: "length dir < 64"
    and mk: "mkqf dir ect os = (Some (fd, n, s), ect', os1)"
    and w: "writemmsdata ms (''d'' @ drop 1 n) s dir (put_lines fd (envelope_lines e) os1) = (r, os3)"
  shows "os_wf (sys_close fd os3)" and "get_subdir (xmake_qf n s) = Some (s, n)"
    and "\<exists>i. os_files (sys_close fd os3) (dir @ ''/'' @ s @ n) = Some i \<and> os_locks (sys_close fd os3) i = None \<and>
          os_data (sys_close fd os3) i = take (os_space os) (file_text e)"
proof -
  let ?p = "dir @ ''/'' @ s @ n" and ?d = "dir @ ''/'' @ s @ ''d'' @ drop 1 n"
  let ?os2 = "put_lines fd (envelope_lines e) os1"
  have f: "os_wf os1" "subdir_ok s" "made_file ?p fd os1" "os_space os1 = os_space os"
    and "\<exists>pid ec r. n = mkqf_name (os_now os) pid ec r"
    using mkqf_facts [OF wf mk] dir by auto
  moreover have "length (mkqf_name a b c d) < 128" for a b c d
    by (rule less_trans [OF mkqf_name_ok(4)]) simp
  ultimately have n: "CHR ''-'' \<notin> set n" "CHR ''/'' \<notin> set n" "length n < 128" "take 1 n = ''q''"
    using mkqf_name_ok(2,3,5) by auto
  show "get_subdir (xmake_qf n s) = Some (s, n)" by (rule queue_id [OF f(2) n(1-3)])
  obtain i where i: "os_files os1 ?p = Some i" "os_fds os1 fd = Some i" "os_locks os1 i = Some fd"
    "os_data os1 i = []" "os_off os1 fd = length (os_data os1 i)"
    using f(3) by (auto simp: made_file_def)
  have 2: "os_files ?os2 ?p = Some i" "os_fds ?os2 fd = Some i" "os_locks ?os2 i = Some fd"
    "os_data ?os2 i = take (os_space os) (file_text e)"
    unfolding put_lines_text [OF i(2,5)] using i f(4) by (simp_all add: file_text_lines)
  have wf2: "os_wf ?os2" by (rule wf_put_lines [OF f(1)])
  have "?p \<noteq> ?d" using n(4) by (cases n) auto
  then have k: "os_wf os3" "keeps {?d} {} ?os2 os3" and p: "?p \<notin> {?d}"
    using writemmsdata_keeps [OF wf2 w, of "{?d}"] by simp_all
  then have "os_files os3 ?p = Some i" "os_fds os3 fd = Some i" "os_locks os3 i = Some fd"
    "os_data os3 i = take (os_space os) (file_text e)"
    using keepsD(1-4) [OF k(2)] 2 by (metis empty_iff)+
  then show "\<exists>i. os_files (sys_close fd os3) ?p = Some i \<and> os_locks (sys_close fd os3) i = None \<and>
      os_data (sys_close fd os3) i = take (os_space os) (file_text e)"
    by (auto simp: sys_close_def)
  show "os_wf (sys_close fd os3)" by (rule wf_close [OF k(1)])
qed

lemma file_text_place: "file_text (e\<lparr>q_name := a, q_subdir := b, q_dir := c, q_fd := d\<rparr>) = file_text e"
  by (simp add: file_text_def envelope_lines_def)

lemma created_msg:
  assumes "mms_queue_create_envelope G now a (Some m) q = Some (e, ms)" shows "ms \<noteq> None"
  using assms
  by (auto simp: mms_queue_create_envelope_def envelope_of_msg_def Let_def split: option.splits prod.splits)

lemma read_added:
  assumes G: "gwlib_api G" and wf: "os_wf os" and qf: "get_subdir qf = Some (s, n)" and dir: "length dir < 64"
    and i: "os_files os (dir @ ''/'' @ s @ n) = Some i" "os_locks os i = None" "os_data os i = take k (file_text e)"
    and ok: "envelope_ok G e" "length (file_text e) \<le> k" "\<not> os_fault os (os_tick os)"
  shows "\<exists>os'. mms_queue_readenvelope G qf dir b os =
    Some (Some (with_place e (blank_envelope G (os_now os) qf n s dir (os_next os))), os')"
proof -
  have "read_lines G (gw_get_lines G (os_data os i)) (blank_envelope G (os_now os) qf n s dir (os_next os)) =
      (with_place e (blank_envelope G (os_now os) qf n s dir (os_next os)), True)"
    using read_file_text [OF G ok(1)] ok(2) by (simp add: i(3))
  then show ?thesis using read_free [OF wf qf, of dir i] dir i ok(3) by fastforce
qed

text \<open>C4: A message that was added can be read back by the identifier \<open>mms_queue_add\<close> returned: the
  envelope is the one made of the arguments, and the data file starts with the binary message.\<close>

theorem add_then_read:
  assumes "gwlib_api G" and "os_wf os" and "length dir < 64"
    and "mms_queue_add G a m dir ect os = Some (Some qf, ect', os')"
  shows "\<exists>e ms s n old. mms_queue_create_envelope G (os_now os) a (Some m) (Some qf) = Some (e, Some ms) \<and>
    get_subdir qf = Some (s, n) \<and> read_file (dir @ ''/'' @ s @ ''d'' @ drop 1 n) os' = Some (ms @ old) \<and>
    (envelope_ok G e \<and> length (file_text e) \<le> os_space os \<and> \<not> os_fault os' (os_tick os') \<longrightarrow>
      (\<exists>os''. mms_queue_readenvelope G qf dir b os' =
        Some (Some (with_place e (blank_envelope G (os_now os') qf n s dir (os_next os'))), os'')))"
  using assms(2,4)
proof (cases rule: add_cases)
  case (made fd n s os1 e0 ms e r os3)
  obtain b where ms: "ms = Some b" using created_msg [OF made(2)] by auto
  have r: "\<not> r < 0" "qf = xmake_qf n s" using made(6) by (auto split: if_splits)
  note w = made(4) [unfolded ms option.case]
  note ctl = add_control_file [OF assms(2,3) made(1) w]
  have wf1: "os_wf os1" and now: "os_now os1 = os_now os" using mkqf_facts [OF assms(2) made(1)] by simp_all
  obtain old where old: "read_file (dir @ ''/'' @ s @ ''d'' @ drop 1 n) os3 = Some (b @ old)"
    using writemmsdata_ok [OF wf_put_lines [OF wf1] w r(1)] by auto
  have data: "read_file (dir @ ''/'' @ s @ ''d'' @ drop 1 n) os' = Some (b @ old)"
    using old unfolding made(5) by (simp add: read_file_def sys_close_def)
  obtain i where i: "os_files os' (dir @ ''/'' @ s @ n) = Some i" "os_locks os' i = None"
    "os_data os' i = take (os_space os) (file_text e)"
    using ctl(3) unfolding made(5) by blast
  note rd = read_added [OF assms(1) ctl(1,2) assms(3) i(1,2) [unfolded made(5)], of "os_space os" e0,
      folded made(5) r(2)]
  have "os_data os' i = take (os_space os) (file_text e0)" using i(3) by (simp add: made(3) file_text_place)
  then show ?thesis using made(2) [unfolded now] ms r(2) ctl(2) data rd by blast
qed simp

text \<open>When the data of a message cannot be written, \<open>mms_queue_add\<close> reports failure but leaves the
  control file it has written, and a reader takes the message for queued.\<close>

theorem failed_add_stays_queued:
  assumes "gwlib_api G" and "os_wf os" and "length dir < 64"
    and "mkqf dir ect os = (Some (fd, n, s), ect', os1)"
    and "mms_queue_add G a m dir ect os = Some (None, ect', os')"
  shows "\<exists>e. mms_queue_create_envelope G (os_now os) a (Some m) (Some (xmake_qf n s)) = Some e \<and>
    read_file (dir @ ''/'' @ s @ n) os' = Some (take (os_space os) (file_text (fst e))) \<and>
    (envelope_ok G (fst e) \<and> length (file_text (fst e)) \<le> os_space os \<and> \<not> os_fault os' (os_tick os') \<longrightarrow>
      (\<exists>os''. mms_queue_readenvelope G (xmake_qf n s) dir b os' =
        Some (Some (with_place (fst e) (blank_envelope G (os_now os') (xmake_qf n s) n s dir (os_next os'))), os'')))"
  using assms(2,5)
proof (cases rule: add_cases)
  case (no_file os2)
  then show ?thesis using assms(4) by simp
next
  case (made fd' n' s' os1' e0 ms e r os3)
  then have same: "fd' = fd" "n' = n" "s' = s" "os1' = os1" using assms(4) by simp_all
  obtain b where ms: "ms = Some b" using created_msg [OF made(2)] by auto
  note w = made(4) [unfolded ms option.case same]
  note ctl = add_control_file [OF assms(2-4) w]
  obtain i where i: "os_files os' (dir @ ''/'' @ s @ n) = Some i" "os_locks os' i = None"
    "os_data os' i = take (os_space os) (file_text e)"
    using ctl(3) unfolding made(5) same by blast
  have data: "os_data os' i = take (os_space os) (file_text e0)" using i(3) by (simp add: made(3) file_text_place)
  note rd = read_added [OF assms(1) ctl(1,2) assms(3) i(1,2) [unfolded made(5) same], of "os_space os" e0,
      folded made(5) [unfolded same]]
  have "read_file (dir @ ''/'' @ s @ n) os' = Some (take (os_space os) (file_text e0))"
    using i(1) data by (simp add: read_file_def)
  moreover have "os_now os1 = os_now os" using mkqf_facts [OF assms(2,4)] by simp
  ultimately show ?thesis using made(2) rd data unfolding same by (intro exI [of _ "(e0, ms)"]) auto
qed


section \<open>Queue runs\<close>

lemma pick_thread_steps:
  assumes "i < length ths" and "pick_thread k i ths e = (q, i', ths')"
  shows "i' < length ths \<and>
    (if q then \<exists>j l. j < length ths \<and> ths ! j = Some l \<and> ths' = ths[j := Some (l @ [e])]
     else ths' = ths \<and> (\<forall>m < k. ths ! ((i + m) mod length ths) = None))"
  using assms
proof (induction k arbitrary: i)
  case 0
  then show ?case by simp
next
  case (Suc k)
  let ?i = "(i + 1) mod length ths"
  show ?case
  proof (cases "ths ! i")
    case (Some l)
    have "0 < length ths" using Suc.prems(1) by linarith
    then show ?thesis using Suc.prems Some mod_less_divisor [of "length ths" "Suc i"] by (auto simp: Let_def)
  next
    case None
    have "0 < length ths" using Suc.prems(1) by linarith
    then have i: "?i < length ths" by (rule mod_less_divisor)
    have p: "pick_thread k ?i ths e = (q, i', ths')" using Suc.prems None by (simp add: Let_def)
    have "ths ! ((i + m) mod length ths) = None" if "\<forall>m < k. ths ! ((?i + m) mod length ths) = None" "m < Suc k" for m
    proof (cases m)
      case 0
      then show ?thesis using None Suc.prems(1) by simp
    next
      case (Suc m')
      then have "ths ! ((?i + m') mod length ths) = None" using that by simp
      then show ?thesis by (simp add: Suc mod_simps)
    qed
    then show ?thesis using Suc.IH [OF i p] by auto
  qed
qed

lemma pick_thread_all:
  assumes "i < length ths" and "pick_thread (length ths) i ths e = (False, i', ths')"
  shows "\<forall>x \<in> set ths. x = None"
proof -
  have n: "\<forall>m < length ths. ths ! ((i + m) mod length ths) = None" using pick_thread_steps [OF assms] by simp
  have "ths ! j = None" if j: "j < length ths" for j
  proof -
    let ?m = "(j + (length ths - i)) mod length ths"
    have "(i + ?m) mod length ths = j" using assms(1) j by (simp add: mod_simps)
    moreover have "?m < length ths" using assms(1) by (intro mod_less_divisor) auto
    ultimately show ?thesis using n by metis
  qed
  then show ?thesis by (metis in_set_conv_nth)
qed

text \<open>The clock stands still while a directory is read.\<close>

lemma now_frame:
  "os_now (snd (sys_open p os)) = os_now os" "os_now (snd (mm_lockfile fd p b os)) = os_now os"
  "os_now (sys_close fd os) = os_now os" "os_now (sys_unlink p os) = os_now os"
  by (auto simp: sys_open_def sys_fault_def new_fd_def Let_def mm_lockfile_def lockfile_def sys_close_def sys_unlink_def
      split: option.splits prod.splits lock_result.splits)

lemma now_readenvelope:
  assumes "mms_queue_readenvelope G qf dir b os = Some (x, os')" shows "os_now os' = os_now os"
proof -
  obtain s n where sn: "get_subdir qf = Some (s, n)" using assms by (auto simp: mms_queue_readenvelope_def split: option.splits)
  let ?p = "take 128 dir @ ''/'' @ s @ n"
  obtain fo os1 where 1: "sys_open ?p os = (fo, os1)" by fastforce
  show ?thesis
  proof (cases fo)
    case None
    then show ?thesis using assms now_frame(1) [of ?p os] 1 by (simp add: mms_queue_readenvelope_def sn Let_def)
  next
    case (Some fd)
    obtain l os2 where 2: "mm_lockfile fd ?p b os1 = (l, os2)" by fastforce
    have "os' = os2 \<or> os' = sys_close fd os2"
      using assms 1 2 Some
      by (auto simp: mms_queue_readenvelope_def sn Let_def unlock_and_close_def split: option.splits bool.splits prod.splits if_splits)
    then show ?thesis
      using now_frame(1) [of ?p os, unfolded 1 snd_conv] now_frame(2) [of fd ?p b os1, unfolded 2 snd_conv]
      by (auto simp: now_frame)
  qed
qed

text \<open>The lists of the sender threads after a directory was run: what was appended is due.\<close>

definition due_added :: "int \<Rightarrow> MmsEnvelope list option \<Rightarrow> MmsEnvelope list option \<Rightarrow> bool" where
  "due_added now x y =
     (case (x, y) of
        (None, None) \<Rightarrow> True
      | (Some l, Some l') \<Rightarrow> (\<exists>new. l' = l @ new \<and> (\<forall>e \<in> set new. e_sendt e \<le> now))
      | _ \<Rightarrow> False)"

lemma due_added_refl: "due_added now x x"
  by (cases x) (auto simp: due_added_def)

lemma due_added_trans: "due_added now x y \<Longrightarrow> due_added now y z \<Longrightarrow> due_added now x z"
  by (auto simp: due_added_def split: option.splits)

lemma list_all2_due_trans:
  "list_all2 (due_added now) xs ys \<Longrightarrow> list_all2 (due_added now) ys zs \<Longrightarrow> list_all2 (due_added now) xs zs"
  by (rule list_all2_trans [where ?P1.0 = "due_added now" and ?P2.0 = "due_added now"]) (auto intro: due_added_trans)

text \<open>C38: A run over a directory gives a sender thread only messages that are due; it quits exactly when
  a due message finds no sender thread alive, so with a thread alive no entry stops the run.\<close>

theorem run_queues_due_messages:
  assumes "i < length ths" and "run_entries G topdir dir names ths i stack os = Some (ret, ths', i', stack', os')"
  shows "list_all2 (due_added (os_now os)) ths ths' \<and> (ret = 0 \<or> ret = -2) \<and>
    (ret = -2 \<longrightarrow> (\<forall>x \<in> set ths. x = None)) \<and> (\<exists>new. stack' = stack @ new) \<and> i' < length ths'"
  using assms
proof (induction names arbitrary: ths i stack os)
  case Nil
  then show ?case by (auto intro: list_all2_refl due_added_refl)
next
  case (Cons d ds)
  let ?x = "topdir @ ''/'' @ dir @ d"
  show ?case
  proof (cases "os_files os ?x \<noteq> None \<and> is_queue_file d")
    case False
    then show ?thesis
      using Cons.prems Cons.IH [of i ths stack os] Cons.IH [of i ths "stack @ [dir @ d @ ''/'']" os]
      by (auto simp: Let_def split: if_splits)
  next
    case True
    obtain x os1 where x: "mms_queue_readenvelope G (xmake_qf d dir) topdir False os = Some (x, os1)"
      using Cons.prems(2) True by (auto simp: Let_def split: option.splits)
    have now: "os_now os1 = os_now os" by (rule now_readenvelope [OF x])
    show ?thesis
    proof (cases x)
      case None
      then show ?thesis using Cons.prems x True Cons.IH [of i ths stack os1] now by (simp add: Let_def)
    next
      case (Some e)
      have free: "os_now (free_envelope e False os1) = os_now os" by (simp add: let_go_fields now)
      show ?thesis
      proof (cases "e_sendt e \<le> os_now os1")
        case False
        then show ?thesis
          using Cons.prems x True Some Cons.IH [of i ths stack "free_envelope e False os1"] free now by (simp add: Let_def)
      next
        case due: True
        obtain q i1 ths1 where p: "pick_thread (length ths) i ths e = (q, i1, ths1)" by (metis surj_pair)
        note steps = pick_thread_steps [OF Cons.prems(1) p]
        show ?thesis
        proof (cases q)
          case False
          then show ?thesis
            using Cons.prems x True Some due p steps pick_thread_all [OF Cons.prems(1)] now
            by (auto simp: Let_def intro: list_all2_refl due_added_refl)
        next
          case q: True
          then obtain j l where j: "j < length ths" "ths ! j = Some l" "ths1 = ths[j := Some (l @ [e])]" using steps by auto
          have "list_all2 (due_added (os_now os)) ths ths1"
            using j due now by (auto simp: list_all2_conv_all_nth nth_list_update due_added_refl) (simp add: due_added_def)
          moreover have "\<not> (\<forall>x \<in> set ths1. x = None)" using j by (auto simp: set_update_memI intro!: bexI [of _ "Some (l @ [e])"])
          moreover have "run_entries G topdir dir ds ths1 i1 stack os1 = Some (ret, ths', i', stack', os')"
            using Cons.prems(2) x True Some due p q now by (simp add: Let_def)
          ultimately show ?thesis
            using Cons.IH [of i1 ths1 stack os1] steps j now list_all2_due_trans by auto
        qed
      qed
    qed
  qed
qed

section \<open>The store as its clients see it\<close>

text \<open>A client that works on a message writes a series of contents for it; \<open>put c h\<close> is the handle \<open>h\<close>
  with the content \<open>c\<close>. The series stops when the store says that the message is gone.\<close>

fun run_updates :: "('h \<Rightarrow> 's \<Rightarrow> int \<times> 'h option \<times> 's) \<Rightarrow> ('c \<Rightarrow> 'h \<Rightarrow> 'h) \<Rightarrow> 'c list \<Rightarrow> 'h \<Rightarrow> 's \<Rightarrow>
    int list \<times> 'h option \<times> 's" where
  "run_updates upd put [] h s = ([], Some h, s)"
| "run_updates upd put (c # cs) h s =
     (case upd (put c h) s of
        (r, None, s') \<Rightarrow> ([r], None, s')
      | (r, Some h', s') \<Rightarrow> (case run_updates upd put cs h' s' of (rs, ho, s'') \<Rightarrow> (r # rs, ho, s'')))"

text \<open>The abstract store of one message: a register that the writes with result 0 set.\<close>

fun register :: "('c \<Rightarrow> 't) \<Rightarrow> 't option \<Rightarrow> (int \<times> 'c) list \<Rightarrow> 't option" where
  "register shown x [] = x"
| "register shown x ((r, c) # l) = register shown (if r = 0 then Some (shown c) else x) l"

locale queue_store =
  fixes inv :: "'s \<Rightarrow> bool" and held :: "'h \<Rightarrow> 's \<Rightarrow> bool" and place :: "'h \<Rightarrow> 'p"
    and stored :: "'p \<Rightarrow> 's \<Rightarrow> 't option" and shown :: "'c \<Rightarrow> 't" and left :: "'c \<Rightarrow> bool"
    and need :: "'c \<Rightarrow> nat" and room :: "'s \<Rightarrow> nat"
    and put :: "'c \<Rightarrow> 'h \<Rightarrow> 'h" and upd :: "'h \<Rightarrow> 's \<Rightarrow> int \<times> 'h option \<times> 's"
  assumes upd_left:
    "\<lbrakk> inv s; held h s; left c; need c \<le> room s; upd (put c h) s = (r, ho, s') \<rbrakk> \<Longrightarrow>
     \<exists>h'. ho = Some h' \<and> inv s' \<and> held h' s' \<and> place h' = place h \<and> room s \<le> room s' + need c \<and>
          (r = 0 \<and> stored (place h) s' = Some (shown c) \<or> r = -1 \<and> stored (place h) s' = stored (place h) s)"
begin

lemma run_is_register:
  assumes "inv s" and "held h s" and "list_all left cs" and "sum_list (map need cs) \<le> room s"
    and "run_updates upd put cs h s = (rs, ho, s')"
  shows "\<exists>h'. ho = Some h' \<and> inv s' \<and> held h' s' \<and> place h' = place h \<and> length rs = length cs \<and>
    set rs \<subseteq> {0, -1} \<and> stored (place h) s' = register shown (stored (place h) s) (zip rs cs)"
  using assms
proof (induction cs arbitrary: h s rs)
  case Nil
  then show ?case by auto
next
  case (Cons c cs)
  obtain r h1 s1 where u: "upd (put c h) s = (r, h1, s1)" by (metis surj_pair)
  have "need c \<le> room s" "left c" using Cons.prems by simp_all
  from upd_left [OF Cons.prems(1,2) this(2,1) u] obtain h' where
    h': "h1 = Some h'" "inv s1" "held h' s1" "place h' = place h" "room s \<le> room s1 + need c" and
    r: "r = 0 \<and> stored (place h) s1 = Some (shown c) \<or> r = -1 \<and> stored (place h) s1 = stored (place h) s"
    by auto
  obtain rs1 where rs: "run_updates upd put cs h' s1 = (rs1, ho, s')" "rs = r # rs1"
    using Cons.prems(5) u h'(1) by (auto split: prod.splits)
  have "sum_list (map need cs) \<le> room s1" "list_all left cs" using Cons.prems h'(5) by simp_all
  from Cons.IH [OF h'(2,3) this(2,1) rs(1)] show ?case using r h'(4) by (auto simp: rs(2))
qed

end

interpretation file_queue: queue_store
  os_wf "\<lambda>e os. holds e os \<and> place_ok e" "\<lambda>e. q_path e (q_name e)" read_file file_text
  "\<lambda>c. 0 < e_expiryt c \<and> (\<exists>x \<in> set (e_to c). process x)" "\<lambda>c. length (file_text c)" os_space
  with_place mms_queue_update
proof
  fix os os' :: os and h c :: MmsEnvelope and r :: int and ho :: "MmsEnvelope option"
  assume wf: "os_wf os" and h: "holds h os \<and> place_ok h"
    and c: "0 < e_expiryt c \<and> (\<exists>x \<in> set (e_to c). process x)" and room: "length (file_text c) \<le> os_space os"
    and u: "mms_queue_update (with_place c h) os = (r, ho, os')"
  let ?e = "with_place c h"
  have e: "holds ?e os" "place_ok ?e" using h by simp_all
  have e: "0 < e_expiryt ?e" "\<exists>x \<in> set (e_to ?e). process x" "holds ?e os" "place_ok ?e" "file_text ?e = file_text c"
    using c e by (simp_all add: with_place_def file_text_def envelope_lines_def)
  obtain e' where e': "ho = Some e'" "writeenvelope ?e False os = (r, e', os')"
    using update_processing [OF e(1,2) u] by blast
  note k = update_keeps(3) [OF wf e(4,3) u e'(1)]
  from writeenvelope_update [OF wf e(3) e'(2)] show "\<exists>h'. ho = Some h' \<and> os_wf os' \<and> (holds h' os' \<and> place_ok h') \<and>
      q_path h' (q_name h') = q_path h (q_name h) \<and> os_space os \<le> os_space os' + length (file_text c) \<and>
      (r = 0 \<and> read_file (q_path h (q_name h)) os' = Some (file_text c) \<or>
       r = -1 \<and> read_file (q_path h (q_name h)) os' = read_file (q_path h (q_name h)) os)"
  proof (elim conjE disjE)
    assume "keeps {} {} os os'" "r = -1" "os_space os - length (file_text ?e) \<le> os_space os'" "os_wf os'"
    then show ?thesis using e' k e(5) keeps_holds(2) [OF \<open>keeps {} {} os os'\<close> e(3)] by auto
  qed (use e' k e(5) room in auto)
qed



section \<open>Instances\<close>

text \<open>When no call fails and the disk has room, updates and additions succeed.\<close>

lemma writeenvelope_succeeds:
  assumes wf: "os_wf os" and h: "holds e os" and ok: "\<forall>n. \<not> os_fault os n"
    and new: "os_files os (temp_name e (os_rand os (os_rpos os))) = None"
    and dir: "parent_dir (temp_name e (os_rand os (os_rpos os))) \<in> set (os_dirs os)"
  shows "fst (writeenvelope e False os) = 0"
proof -
  let ?T = "temp_name e (os_rand os (os_rpos os))"
  let ?os1 = "os\<lparr>os_rpos := os_rpos os + 1\<rparr>"
  have r: "sys_random os = (os_rand os (os_rpos os), ?os1)" by (simp add: sys_random_def)
  obtain fd os2 where c: "sys_creat_excl ?T ?os1 = (Some fd, os2)"
    using new dir ok by (simp add: sys_creat_excl_def sys_fault_def new_file_fields)
  have wf1: "os_wf ?os1" using wf by (simp add: os_wf_def)
  note lk = lock_created [OF wf1 c, of False]
  let ?os3 = "os2\<lparr>os_locks := (os_locks os2)(os_next ?os1 \<mapsto> fd)\<rparr>"
  let ?os4 = "put_lines fd (envelope_lines e) ?os3"
  have fd: "os_fds ?os3 fd = Some (os_next os)" "os_off ?os3 fd = length (os_data ?os3 (os_next os))"
    using creat_excl_Some(2) [OF c] by simp_all
  have "os_files ?os4 ?T = Some (os_next os)" "\<not> os_fault ?os4 (os_tick ?os4)"
    unfolding put_lines_text [OF fd] using creat_excl_Some(2) [OF c] ok by simp_all
  then have "fst (sys_rename ?T (q_path e (q_name e)) ?os4)" by (simp add: sys_rename_def sys_fault_def)
  then show ?thesis
    using r c lk by (auto simp: writeenvelope_def temp_name_def Let_def split: prod.splits bool.splits)
qed

lemma add_result:
  assumes "mkqf dir ect os = (Some (fd, n, s), ect', os1)"
    and "mms_queue_create_envelope G (os_now os1) a (Some m) (Some (xmake_qf n s)) = Some (e0, Some ms)"
    and "writemmsdata ms (''d'' @ drop 1 n) s dir (put_lines fd (envelope_lines e0) os1) = (r, os3)"
  shows "mms_queue_add G a m dir ect os = Some (if r < 0 then None else Some (xmake_qf n s), ect', sys_close fd os3)"
proof -
  have "envelope_lines (e0\<lparr>q_name := a, q_subdir := b, q_dir := c, q_fd := d\<rparr>) = envelope_lines e0" for a b c d
    by (simp add: envelope_lines_def)
  then show ?thesis
    using assms by (simp add: mms_queue_add_def writeenvelope_def free_envelope_def unlock_and_close_def Let_def split: if_split)
qed

lemma writemmsdata_result:
  assumes "\<not> os_fault os (os_tick os)" and "parent_dir (dir @ ''/'' @ subdir @ df) \<in> set (os_dirs os)"
    and "os_files os (dir @ ''/'' @ subdir @ df) = None"
  shows "fst (writemmsdata ms df subdir dir os) = (if length ms \<le> os_space os then 0 else -1)"
  using assms
  by (simp add: writemmsdata_def sys_creat_def sys_fault_def new_file_fields sys_write_def Let_def)

lemma fault_frame:
  "os_fault (snd (sys_random os)) = os_fault os" "os_fault (snd (sys_creat_excl p os)) = os_fault os"
  "os_fault (snd (sys_creat p os)) = os_fault os"
  "os_fault (snd (mm_lockfile fd p b os)) = os_fault os" "os_fault (snd (sys_rename p q os)) = os_fault os"
  "os_fault (sys_close fd os) = os_fault os" "os_fault (unlock_and_close fd os) = os_fault os"
  "os_fault (sys_unlink p os) = os_fault os" "os_fault (snd (sys_open p os)) = os_fault os"
  by (auto simp: sys_random_def sys_creat_excl_def sys_creat_def sys_fault_def new_file_fields new_fd_def Let_def mm_lockfile_def
      lockfile_def sys_rename_def sys_close_def unlock_and_close_def sys_unlink_def sys_open_def
      split: option.splits prod.splits lock_result.splits)

lemma fault_put_lines: "os_fault (put_lines fd ls os) = os_fault os"
  by (induction ls arbitrary: os) (simp_all add: put_lines_def putline_def write_frame)

lemma fault_writeenvelope:
  assumes "writeenvelope e False os = (r, e', os')" shows "os_fault os' = os_fault os"
proof -
  obtain r1 os1 where 1: "sys_random os = (r1, os1)" by fastforce
  obtain fo os2 where 2: "sys_creat_excl (temp_name e r1) os1 = (fo, os2)" by fastforce
  note f = fault_frame(1) [of os, unfolded 1 snd_conv] fault_frame(2) [of "temp_name e r1" os1, unfolded 2 snd_conv]
  show ?thesis
  proof (cases fo)
    case None
    then show ?thesis using assms 1 2 f by (simp add: writeenvelope_def temp_name_def)
  next
    case (Some fd)
    obtain l os3 where 3: "mm_lockfile fd (temp_name e r1) False os2 = (l, os3)" by fastforce
    obtain b os5 where 4: "sys_rename (temp_name e r1) (q_path e (q_name e)) (put_lines fd (envelope_lines e) os3) = (b, os5)"
      by fastforce
    note f = f fault_frame(4) [of fd "temp_name e r1" False os2, unfolded 3 snd_conv]
      fault_frame(5) [of "temp_name e r1" "q_path e (q_name e)" "put_lines fd (envelope_lines e) os3", unfolded 4 snd_conv]
    have "os' \<in> {os3, sys_close fd os5, unlock_and_close (q_fd e) os5}"
      using assms 1 2 3 4 Some
      by (auto simp: writeenvelope_def temp_name_def Let_def split: option.splits bool.splits)
    then show ?thesis using f by (auto simp: fault_frame fault_put_lines)
  qed
qed

text \<open>A directory \<open>d\<close> with one queue file, empty, and its worker.\<close>

definition ex_envelope :: MmsEnvelope where
  "ex_envelope = (blank_envelope gwlib_ref 0 ''qf1'' ''qf1'' [] ''d'' 1)
     \<lparr>e_msgtype := 6, e_expiryt := 9, e_to := [\<lparr>rcpt = ''a@b'', process = True\<rparr>]\<rparr>"

definition ex_os :: "nat \<Rightarrow> os" where
  "ex_os space =
     \<lparr> os_files = [''d/qf1'' \<mapsto> 0], os_data = (\<lambda>i. []), os_fds = [1 \<mapsto> 0], os_off = (\<lambda>fd. 0), os_locks = [0 \<mapsto> 1],
       os_dirs = [''d''], os_next = 2, os_space = space, os_fault = (\<lambda>n. False), os_tick = 0, os_now = 0, os_pid = 0,
       os_rand = (\<lambda>n. 0), os_rpos = 0 \<rparr>"

definition ex_msg :: MmsMsg where
  "ex_msg = \<lparr> m_message_type = 6, m_msgId = None,
     m_headers = [(''X-Mms-Message-Type'', ''m-delivery-ind''), (''Message-ID'', ''1'')],
     m_enc = None, m_ismultipart = False, m_body = Body_null \<rparr>"

lemma ex_wf: "os_wf (ex_os k)"
  by (auto simp: os_wf_def ex_os_def split: if_splits)

lemma ex_path: "q_path ex_envelope (q_name ex_envelope) = ''d/qf1''"
  by (simp add: ex_envelope_def blank_envelope_def q_path_def strncpy_def)

lemma ex_holds: "holds ex_envelope (ex_os k)"
  by (simp add: holds_def ex_path ex_os_def) (simp add: ex_envelope_def blank_envelope_def)

lemma ex_place: "place_ok ex_envelope"
  unfolding place_ok_def ex_path by (simp add: ex_envelope_def blank_envelope_def strncpy_def)

lemma show_no_newline: "CHR 0x0A \<notin> set (show_int i)" "CHR 0x0D \<notin> set (show_int i)"
proof -
  have "\<not> isdigit CHR 0x0A" "\<not> isdigit CHR 0x0D" by (simp_all add: isdigit_def)
  then have "CHR 0x0A \<notin> set (show_nat n)" "CHR 0x0D \<notin> set (show_nat n)" for n using show_nat_digits by metis+
  then show "CHR 0x0A \<notin> set (show_int i)" "CHR 0x0D \<notin> set (show_int i)" by (simp_all add: show_int_def)
qed

lemma show_small: "show_nat 0 = ''0''" "show_nat (Suc 0) = ''1''" "show_int 0 = ''0''" "show_int 9 = ''9''"
  by code_simp+

lemma ex_temp: "temp_name ex_envelope 0 = ''d/tf1.0''"
  by (simp add: temp_name_def q_path_def ex_envelope_def blank_envelope_def strncpy_def show_small)

lemma parent_dir_slash: "CHR ''/'' \<notin> set n \<Longrightarrow> parent_dir (d @ CHR ''/'' # n) = d"
  by (simp add: parent_dir_def strrchr_split_append)

lemma ex_update: "\<exists>e' os'. mms_queue_update ex_envelope (ex_os k) = (0, Some e', os')"
proof -
  have "fst (writeenvelope ex_envelope False (ex_os k)) = 0"
    using parent_dir_slash [of "''tf1.0''" "''d''"]
    by (intro writeenvelope_succeeds [OF ex_wf ex_holds]) (simp_all add: ex_os_def ex_temp)
  then obtain e' os' where "writeenvelope ex_envelope False (ex_os k) = (0, e', os')"
    by (metis prod.collapse)
  moreover have "0 < e_expiryt ex_envelope" "\<exists>x \<in> set (e_to ex_envelope). process x"
    by (simp_all add: ex_envelope_def blank_envelope_def DEFAULT_EXPIRE_def)
  moreover obtain r eo os'' where "mms_queue_update ex_envelope (ex_os k) = (r, eo, os'')" by (metis surj_pair)
  ultimately show ?thesis using update_processing by fastforce
qed

lemma ex_address: "mms_validate_address gwlib_ref (Some ''a@b'') = 0"
  by code_simp

lemma ex_type: "mms_message_type_to_cstr 6 = Some ''m-delivery-ind''"
  by code_simp

lemma ex_lines: "envelope_lines ex_envelope = [''Tm-delivery-ind'', ''Ra@b'', ''C0'', ''X9'', ''S0'', ''.'']"
  by (simp add: envelope_lines_def ex_envelope_def blank_envelope_def one_line_def opt_line_def time_line_def if_line_def
      rcpt_lines_def header_lines_def show_small ex_type)

lemma ex_ok: "envelope_ok gwlib_ref ex_envelope"
  unfolding envelope_ok_def ex_lines
  by (simp add: ex_envelope_def blank_envelope_def ex_address ex_type)

lemma ex_mkqf:
  "\<exists>fd os1. mkqf ''d'' 0 (ex_os k) = (Some (fd, ''qf0.1.x0.0'', []), 1, os1) \<and> os_fault os1 = (\<lambda>n. False) \<and>
     os_dirs os1 = [''d''] \<and> os_files os1 ''d/df0.1.x0.0'' = None"
proof -
  have "mkqf_subdir ''d'' (ex_os k) = (Some ([], 0), (ex_os k)\<lparr>os_rpos := 1\<rparr>)"
    by (simp add: mkqf_subdir_def sys_random_def ex_os_def)
  moreover have "\<exists>fd os1. mkqf_try (Suc 10) ''d'' [] 0 ((ex_os k)\<lparr>os_rpos := 1\<rparr>) = (Some (fd, ''qf0.1.x0.0''), 1, os1) \<and>
     os_fault os1 = (\<lambda>n. False) \<and> os_dirs os1 = [''d''] \<and> os_files os1 ''d/df0.1.x0.0'' = None"
    using parent_dir_slash [of "''qf0.1.x0.0''" "''d''"]
    by (subst mkqf_try.simps(2)) (simp add: sys_random_def ex_os_def show_small sys_creat_excl_def sys_fault_def
        new_file_fields mm_lockfile_def lockfile_def check_lock_def Let_def)
  ultimately show ?thesis by (auto simp: mkqf_def MAXTRIES_def strncpy_def)
qed

lemma ex_binary: "\<exists>ms m. mms_tobinary gwlib_ref ex_msg = Some (ms, m) \<and> ms \<noteq> []"
proof -
  have "encode_msgheaders gwlib_ref (m_headers ex_msg) \<noteq> None" by code_simp
  then obtain s h where e: "encode_msgheaders gwlib_ref (m_headers ex_msg) = Some (s, h)" by auto
  moreover have "gw_pack_short_integer gwlib_ref 12 \<noteq> []" by code_simp
  ultimately show ?thesis by (auto simp: mms_tobinary_def encode_msgheaders_def pack_short_integer_def Let_def split: option.splits)
qed


definition ex_args :: envelope_args where
  "ex_args =
     \<lparr> a_from = None, a_to = [], a_subject = None, a_fromproxy = None, a_viaproxy = None, a_senddate = 0,
       a_expirydate = 9, a_token = None, a_vaspid = None, a_vasid = None, a_url1 = None, a_url2 = None,
       a_hdrs = [], a_dlr = False, a_src_interface = [], a_mmscname = None \<rparr>"

lemma ex_created:
  "\<exists>e ms. mms_queue_create_envelope gwlib_ref 0 ex_args (Some ex_msg) (Some q) = Some (e, Some ms) \<and> ms \<noteq> [] \<and>
     envelope_ok gwlib_ref e"
proof -
  obtain ms m where b: "mms_tobinary gwlib_ref ex_msg = Some (ms, m)" "ms \<noteq> []" using ex_binary by blast
  have i: "mms_get_header_value gwlib_ref ex_msg ''Message-ID'' = Some ''1''" by code_simp
  have c: "mms_get_header_value gwlib_ref m ''X-Mms-Message-Class'' = None"
  proof -
    have "map_option (\<lambda>(s, h). gw_header_value gwlib_ref h ''X-Mms-Message-Class'') (encode_msgheaders gwlib_ref (m_headers ex_msg)) = Some None"
      by code_simp
    then show ?thesis using b(1) by (auto simp: mms_tobinary_def mms_get_header_value_def)
  qed
  obtain e where e: "mms_queue_create_envelope gwlib_ref 0 ex_args (Some ex_msg) (Some q) = Some (e, Some ms)"
    and "envelope_lines e = [''Tm-delivery-ind'', ''I1'', ''C0'', ''X9'', CHR ''S'' # show_int (int (length ms)), ''.'']"
    and "e_to e = []" "e_hdrs e = []" "e_from e = None" "e_msgtype e = 6" "e_src_interface e = []" "e_expiryt e \<noteq> 0" "e_amt e = 0"
    using b i c by (simp add: mms_queue_create_envelope_def envelope_of_msg_def ex_args_def ex_msg_def
      clean_recipients_def copy_and_clean_address_def envelope_lines_def one_line_def opt_line_def time_line_def if_line_def
      rcpt_lines_def header_lines_def show_small ex_type strncpy_def)
  then show ?thesis using b e by (auto simp: envelope_ok_def ex_type show_no_newline)
qed

lemma ex_qf: "get_subdir ''qf1'' = Some ([], ''qf1'')" "get_subdir ''qf0.1.x0.0'' = Some ([], ''qf0.1.x0.0'')"
  "qf_ok ''d'' ''qf1''" "xmake_qf ''qf0.1.x0.0'' [] = ''qf0.1.x0.0''"
  by (simp_all add: get_subdir_def strrchr_split_None qf_ok_def xmake_qf_def replace_char_def)

lemma read_reachable:
  assumes "os_wf os" and "qf_ok dir qf" and "mms_queue_readenvelope G qf dir b os = Some (Some e, os')"
  shows "queue_reachable G dir (os', (\<lambda>u. Idle)(0 := Working e))"
proof -
  obtain fd os1 where o: "queue_open qf dir os = Some (Some fd, os1)" "queue_lock_read G qf dir b fd os1 = Some (Some e, os')"
    using assms(3) by (auto simp: readenvelope_steps split: option.splits prod.splits)
  have "queue_reachable G dir (os1, (\<lambda>u. Idle)(0 := Opened fd qf))"
    by (rule queue_reachable.step [OF queue_reachable.start [OF assms(1)] queue_step.open_file]) (use assms(2) o(1) in simp_all)
  moreover have "queue_step G dir 0 (os1, (\<lambda>u. Idle)(0 := Opened fd qf)) (os', ((\<lambda>u. Idle)(0 := Opened fd qf))(0 := Working e))"
    by (rule queue_step.lock_read [OF _ assms(2) o(2)]) simp
  ultimately show ?thesis using queue_reachable.step by fastforce
qed

definition ex_free :: os where
  "ex_free = (ex_os 0)\<lparr>os_data := (\<lambda>i. file_text ex_envelope), os_fds := Map.empty, os_locks := Map.empty\<rparr>"

lemma ex_free_wf: "os_wf ex_free"
  by (auto simp: os_wf_def ex_free_def ex_os_def split: if_splits)

lemma ex_read:
  "\<exists>e os'. mms_queue_readenvelope gwlib_ref ''qf1'' ''d'' False ex_free = Some (Some e, os') \<and> e_sendt e = 0"
proof -
  have "e_sendt (with_place ex_envelope p) = 0" for p by (simp add: with_place_def ex_envelope_def blank_envelope_def)
  then show ?thesis
    using read_added [OF gwlib_ref_api ex_free_wf ex_qf(1), of "''d''" 0 "length (file_text ex_envelope)" ex_envelope False] ex_ok
    by (fastforce simp: ex_free_def ex_os_def)
qed

lemma message_has_one_worker_witness:
  "\<exists>os us e. queue_reachable gwlib_ref ''d'' (os, us) \<and> us 0 = Working e \<and> holds e os \<and>
     (\<forall>v e'. us v = Working e' \<and> q_path e' (q_name e') = q_path e (q_name e) \<longrightarrow> v = 0)"
proof -
  obtain e os' where "mms_queue_readenvelope gwlib_ref ''qf1'' ''d'' False ex_free = Some (Some e, os')"
    using ex_read by blast
  from read_reachable [OF ex_free_wf ex_qf(3) this]
  have r: "queue_reachable gwlib_ref ''d'' (os', (\<lambda>u. Idle)(0 := Working e))" .
  have "((\<lambda>u. Idle)(0 := Working e)) 0 = Working e" by simp
  note w = this message_has_one_worker [OF r this]
  show ?thesis
    by (rule exI [of _ os'], rule exI [of _ "(\<lambda>u. Idle)(0 := Working e)"], rule exI [of _ e]) (use r w in blast)
qed

lemma run_queues_due_messages_witness:
  "\<exists>ths' e i' stack' os'. run_entries gwlib_ref ''d'' [] [''qf1''] [None, Some []] 0 [] ex_free =
       Some (0, [None, Some [e]], i', stack', os') \<and>
     list_all2 (due_added (os_now ex_free)) [None, Some []] [None, Some [e]]"
proof -
  obtain e os' where e: "mms_queue_readenvelope gwlib_ref ''qf1'' ''d'' False ex_free = Some (Some e, os')" "e_sendt e = 0"
    using ex_read by blast
  have q: "xmake_qf ''qf1'' [] = ''qf1''" "is_queue_file ''qf1''" "os_files ex_free ''d/qf1'' = Some 0"
      "os_now ex_free = 0"
    by (simp_all add: xmake_qf_def replace_char_def is_queue_file_def ex_free_def ex_os_def)
  have now: "os_now os' = 0" using now_readenvelope [OF e(1)] by (simp add: ex_free_def ex_os_def)
  have "pick_thread (length [None, Some []]) 0 [None, Some []] e = (True, 0, [None, Some [e]])"
    by (simp add: numeral_2_eq_2 [symmetric]) (simp add: eval_nat_numeral)
  then have r: "run_entries gwlib_ref ''d'' [] [''qf1''] [None, Some []] 0 [] ex_free = Some (0, [None, Some [e]], 0, [], os')"
    using e q now by (simp add: Let_def)
  have "0 < length [None, Some [] :: MmsEnvelope list option]" by simp
  from run_queues_due_messages [OF this r] r show ?thesis by auto
qed

lemma ex_left: "0 < e_expiryt ex_envelope" "\<exists>x \<in> set (e_to ex_envelope). process x"
  "get_subdir ''qf1'' = Some (q_subdir ex_envelope, q_name ex_envelope)" "length (q_dir ex_envelope) < 128"
  by (simp_all add: ex_envelope_def blank_envelope_def strncpy_def ex_qf)


lemma update_then_read_witness:
  "\<exists>k e' os' e os''. mms_queue_update ex_envelope (ex_os k) = (0, Some e', os') \<and>
     mms_queue_readenvelope gwlib_ref ''qf1'' ''d'' False (free_envelope e' False os') = Some (Some e, os'') \<and>
     e_to e = [\<lparr>rcpt = ''a@b'', process = True\<rparr>]"
proof -
  let ?k = "length (file_text ex_envelope)"
  obtain e' os' where u: "mms_queue_update ex_envelope (ex_os ?k) = (0, Some e', os')" using ex_update by blast
  then have "os_fault os' = os_fault (ex_os ?k)"
    using update_processing [OF ex_left(1,2)] fault_writeenvelope by blast
  then have f: "\<not> os_fault os' (os_tick os')" by (simp add: ex_os_def)
  have k: "?k \<le> os_space (ex_os ?k)" by (simp add: ex_os_def)
  have d: "q_dir ex_envelope = ''d''" "e_to (with_place ex_envelope p) = [\<lparr>rcpt = ''a@b'', process = True\<rparr>]" for p
    by (simp_all add: ex_envelope_def blank_envelope_def strncpy_def with_place_def)
  obtain os'' where "mms_queue_readenvelope gwlib_ref ''qf1'' ''d'' False (free_envelope e' False os') =
      Some (Some (with_place ex_envelope (blank_envelope gwlib_ref (os_now os') ''qf1''
        (q_name ex_envelope) (q_subdir ex_envelope) ''d'' (os_next os'))), os'')"
    using update_then_read [OF gwlib_ref_api ex_ok ex_wf ex_holds ex_left(1,2) k u ex_left(3,4) f, of False]
    unfolding d(1) by blast
  then show ?thesis using u d(2) by blast
qed

lemma update_full_disk_loses_message_witness:
  "\<exists>e' os' os''. mms_queue_update ex_envelope (ex_os 0) = (0, Some e', os') \<and> read_file ''d/qf1'' os' = Some [] \<and>
     mms_queue_readenvelope gwlib_ref ''qf1'' ''d'' False (free_envelope e' False os') = Some (None, os'')"
proof -
  obtain e' os' where u: "mms_queue_update ex_envelope (ex_os 0) = (0, Some e', os')" using ex_update by blast
  have "os_space (ex_os 0) = 0" "q_dir ex_envelope = ''d''"
    by (simp_all add: ex_os_def ex_envelope_def blank_envelope_def strncpy_def)
  from update_full_disk_loses_message [OF gwlib_ref_api ex_wf ex_holds ex_left(1,2) this(1) u ex_left(3,4), of False] u this(2)
  show ?thesis by (auto simp: ex_path)
qed



text \<open>Adding \<open>ex_msg\<close>: the data is written when there is room.\<close>

lemma ex_add:
  assumes "mms_queue_create_envelope gwlib_ref 0 ex_args (Some ex_msg) (Some ''qf0.1.x0.0'') = Some (e, Some ms)"
  shows "\<exists>os'. mms_queue_add gwlib_ref ex_args ex_msg ''d'' 0 (ex_os k) =
      Some (if length ms \<le> k - length (file_text e) then Some ''qf0.1.x0.0'' else None, 1, os') \<and> os_fault os' = (\<lambda>n. False)"
proof -
  obtain fd os1 where mk: "mkqf ''d'' 0 (ex_os k) = (Some (fd, ''qf0.1.x0.0'', []), 1, os1)"
    and os1: "os_fault os1 = (\<lambda>n. False)" "os_dirs os1 = [''d'']" "os_files os1 ''d/df0.1.x0.0'' = None"
    using ex_mkqf by blast
  have f: "os_space os1 = k" "os_now os1 = 0" "made_file ''d/qf0.1.x0.0'' fd os1"
    using mkqf_facts [OF ex_wf mk] by (simp_all add: ex_os_def)
  then obtain i where i: "os_fds os1 fd = Some i" "os_off os1 fd = length (os_data os1 i)"
    by (auto simp: made_file_def)
  let ?os2 = "put_lines fd (envelope_lines e) os1"
  have 2: "os_fault ?os2 = (\<lambda>n. False)" "os_dirs ?os2 = [''d'']" "os_files ?os2 ''d/df0.1.x0.0'' = None"
    "os_space ?os2 = k - length (file_text e)"
    unfolding put_lines_text [OF i] by (simp_all add: os1 f file_text_lines)
  obtain r os3 where w: "writemmsdata ms ''df0.1.x0.0'' [] ''d'' ?os2 = (r, os3)" by fastforce
  have r: "r = (if length ms \<le> k - length (file_text e) then 0 else -1)"
    using writemmsdata_result [of ?os2 "''d''" "[]" "''df0.1.x0.0''" ms] parent_dir_slash [of "''df0.1.x0.0''" "''d''"] w 2
    by simp
  have "os_fault os3 = (\<lambda>n. False)"
  proof -
    obtain fo os4 where c: "sys_creat ''d/df0.1.x0.0'' ?os2 = (fo, os4)" by fastforce
    have "os_fault os4 = (\<lambda>n. False)" using fault_frame(3) [of "''d/df0.1.x0.0''" ?os2] c 2(1) by simp
    moreover obtain b os5 where "sys_write (the fo) ms os4 = (b, os5)" "os_fault os5 = os_fault os4"
      using write_frame(6) [of "the fo" ms os4] by (metis prod.collapse)
    ultimately show ?thesis
      using w c by (cases fo; cases b) (auto simp: writemmsdata_def Let_def fault_frame)
  qed
  then show ?thesis
    using add_result [OF mk, of gwlib_ref ex_args ex_msg e ms r os3] assms w r ex_qf(4) f(2)
    by (auto simp: fault_frame)
qed

lemma add_then_read_witness:
  "\<exists>k qf os' e os''. mms_queue_add gwlib_ref ex_args ex_msg ''d'' 0 (ex_os k) = Some (Some qf, 1, os') \<and>
     mms_queue_readenvelope gwlib_ref qf ''d'' False os' = Some (Some e, os'')"
proof -
  obtain e ms where e: "mms_queue_create_envelope gwlib_ref 0 ex_args (Some ex_msg) (Some ''qf0.1.x0.0'') = Some (e, Some ms)"
    "envelope_ok gwlib_ref e" using ex_created by blast
  let ?k = "length (file_text e) + length ms"
  obtain os' where a: "mms_queue_add gwlib_ref ex_args ex_msg ''d'' 0 (ex_os ?k) = Some (Some ''qf0.1.x0.0'', 1, os')"
    and f: "os_fault os' = (\<lambda>n. False)" using ex_add [OF e(1), of ?k] by auto
  have dir: "length ''d'' < 64" by simp
  have "os_now (ex_os ?k) = 0" "os_space (ex_os ?k) = ?k" by (simp_all add: ex_os_def)
  with add_then_read [OF gwlib_ref_api ex_wf dir a, of False] e f
  obtain e' os'' where "mms_queue_readenvelope gwlib_ref ''qf0.1.x0.0'' ''d'' False os' = Some (Some e', os'')" by auto
  with a show ?thesis by blast
qed

lemma failed_add_stays_queued_witness:
  "\<exists>k os' e os''. mms_queue_add gwlib_ref ex_args ex_msg ''d'' 0 (ex_os k) = Some (None, 1, os') \<and>
     mms_queue_readenvelope gwlib_ref ''qf0.1.x0.0'' ''d'' False os' = Some (Some e, os'')"
proof -
  obtain e ms where e: "mms_queue_create_envelope gwlib_ref 0 ex_args (Some ex_msg) (Some ''qf0.1.x0.0'') = Some (e, Some ms)"
    "envelope_ok gwlib_ref e" "ms \<noteq> []" using ex_created by blast
  let ?k = "length (file_text e)"
  obtain os' where a: "mms_queue_add gwlib_ref ex_args ex_msg ''d'' 0 (ex_os ?k) = Some (None, 1, os')"
    and f: "os_fault os' = (\<lambda>n. False)" using ex_add [OF e(1), of ?k] e(3) by auto
  obtain fd os1 where mk: "mkqf ''d'' 0 (ex_os ?k) = (Some (fd, ''qf0.1.x0.0'', []), 1, os1)" using ex_mkqf by blast
  have dir: "length ''d'' < 64" by simp
  have "os_now (ex_os ?k) = 0" "os_space (ex_os ?k) = ?k" by (simp_all add: ex_os_def)
  with failed_add_stays_queued [OF gwlib_ref_api ex_wf dir mk a, of False] e f
  obtain e' os'' where "mms_queue_readenvelope gwlib_ref ''qf0.1.x0.0'' ''d'' False os' = Some (Some e', os'')"
    by (auto simp: ex_qf(4))
  with a show ?thesis by blast
qed

end
