(* ===== verification/MmsDecode.thy ===== *)
theory MmsDecode
  imports MmsMsg "HOL-Library.Monad_Syntax"
begin

text \<open>
  Decoding of MMS messages, \<open>mms_frombinary_ex\<close> and \<open>mms_frommime\<close> of \<open>mmlib/mms_msg.c\<close>. The parser of
  the WAP library works on a context with a position, a stack of limits and an error flag; its source is not
  in the repository, so its operations are the fields of the record \<open>wsp\<close> on contexts of any type. \<open>None\<close> stands for a
  panic and for a loop that never ends.
\<close>

section \<open>The parser of the WAP library\<close>

text \<open>\<open>WSP_FIELD_VALUE_NONE\<close> and so on.\<close>

datatype field_value = FV_NONE | FV_NUL_STRING | FV_ENCODED | FV_DATA

record 'c wsp =
  wp_field_value :: "'c \<Rightarrow> (field_value \<times> int) \<times> 'c"          \<comment> \<open>\<open>wsp_field_value\<close>\<close>
  wp_secondary_field_value :: "'c \<Rightarrow> 'c"                      \<comment> \<open>\<open>wsp_secondary_field_value\<close>\<close>
  wp_error :: "'c \<Rightarrow> bool"                                   \<comment> \<open>\<open>parse_error\<close>\<close>
  wp_left :: "'c \<Rightarrow> nat"                                     \<comment> \<open>\<open>parse_octets_left\<close>\<close>
  wp_get_char :: "'c \<Rightarrow> int \<times> 'c"                            \<comment> \<open>\<open>parse_get_char\<close>\<close>
  wp_skip_back :: "'c \<Rightarrow> 'c"                                 \<comment> \<open>\<open>parse_skip\<close> by -1\<close>
  wp_skip_to_limit :: "'c \<Rightarrow> 'c"                             \<comment> \<open>\<open>parse_skip_to_limit\<close>\<close>
  wp_pop_limit :: "'c \<Rightarrow> 'c"                                 \<comment> \<open>\<open>parse_pop_limit\<close>\<close>
  wp_nul_string :: "'c \<Rightarrow> octstr option \<times> 'c"                \<comment> \<open>\<open>parse_get_nul_string\<close>\<close>
  wp_rest :: "'c \<Rightarrow> octstr"                                   \<comment> \<open>\<open>parse_get_rest\<close>\<close>
  wp_integer_value :: "'c \<Rightarrow> octstr option \<times> 'c"             \<comment> \<open>\<open>wsp_unpack_integer_value\<close>\<close>
  wp_date_value :: "'c \<Rightarrow> octstr option \<times> 'c"                \<comment> \<open>\<open>wsp_unpack_date_value\<close>\<close>
  wp_version_value :: "int \<Rightarrow> octstr option"                 \<comment> \<open>\<open>wsp_unpack_version_value\<close>\<close>
  wp_accept_general_form :: "'c \<Rightarrow> octstr option \<times> 'c"       \<comment> \<open>\<open>wsp_unpack_accept_general_form\<close>\<close>
  wp_content_type_to_cstr :: "int \<Rightarrow> octstr option"          \<comment> \<open>\<open>wsp_content_type_to_cstr\<close>, \<open>_to_string\<close>\<close>
  wp_app_header :: "headers \<Rightarrow> 'c \<Rightarrow> headers \<times> 'c"           \<comment> \<open>\<open>wsp_unpack_app_header\<close>\<close>
  wp_context_create :: "octstr \<Rightarrow> 'c"                        \<comment> \<open>\<open>parse_context_create\<close>\<close>

section \<open>Values of fields\<close>

text \<open>A text that was decoded: none, the constant \<open>octstr_imm\<close> of an empty text, which must not be changed, or a
  new one.\<close>

datatype dec_string = No_string | Imm_string | New_string octstr

definition new_string :: "octstr option \<Rightarrow> dec_string" where
  "new_string so = (case so of None \<Rightarrow> No_string | Some s \<Rightarrow> New_string s)"

definition dec_octstr :: "dec_string \<Rightarrow> octstr option" where
  "dec_octstr d = (case d of No_string \<Rightarrow> None | Imm_string \<Rightarrow> Some [] | New_string s \<Rightarrow> Some s)"

text \<open>The field value is read here unless it is passed; the character set is skipped. The bytes of a value that was
  read here end at a limit of its own.\<close>

definition decode_encoded_string_value :: "'c wsp \<Rightarrow> field_value option \<Rightarrow> 'c \<Rightarrow> dec_string \<times> 'c" where
  "decode_encoded_string_value W ret c =
     (let (ret2, c1) = (case ret of None \<Rightarrow> (case wp_field_value W c of ((fv, _), c') \<Rightarrow> (fv, c')) | Some fv \<Rightarrow> (fv, c)) in
      if ret2 = FV_DATA
      then let (s, c2) = wp_nul_string W (wp_secondary_field_value W c1)
           in (new_string s, if ret = None then wp_pop_limit W (wp_skip_to_limit W c2) else c2)
      else if ret2 \<noteq> FV_NUL_STRING then (Imm_string, c1)
      else let (s, c2) = wp_nul_string W c1 in (new_string s, c2))"

text \<open>An address is fixed up in place.\<close>

definition fixup_decoded :: "gwlib \<Rightarrow> octstr option \<Rightarrow> octstr list \<Rightarrow> dec_string \<Rightarrow> octstr option option" where
  "fixup_decoded G unified_prefix strip_prefixes d =
     (case d of
        No_string \<Rightarrow> Some None
      | Imm_string \<Rightarrow> None
      | New_string s \<Rightarrow> Some (mms_fixup_address G (Some s) unified_prefix strip_prefixes True))"

text \<open>\<open>octstr_append\<close> to a text that may be missing; a missing text appends nothing.\<close>

definition append_to :: "octstr option \<Rightarrow> octstr option \<Rightarrow> octstr option" where
  "append_to d t = (case d of None \<Rightarrow> None | Some s \<Rightarrow> Some (s @ (case t of Some x \<Rightarrow> x | None \<Rightarrow> [])))"

definition with_top_bit :: "int \<Rightarrow> int" where
  "with_top_bit v = or v 128"

text \<open>What the decoding of a value yields: the decoded text and the constant text, and the context.\<close>

type_synonym 'c field_result = "((octstr option \<times> octstr option) \<times> 'c) option"

definition text_value :: "'c wsp \<Rightarrow> field_value \<Rightarrow> octstr option \<Rightarrow> 'c \<Rightarrow> octstr option \<times> 'c" where
  "text_value W ret decoded c =
     (if ret = FV_DATA then case decode_encoded_string_value W (Some ret) c of (d, c') \<Rightarrow> (dec_octstr d, c')
      else (decoded, c))"

definition address_value ::
  "gwlib \<Rightarrow> 'c wsp \<Rightarrow> octstr option \<Rightarrow> octstr list \<Rightarrow> field_value \<Rightarrow> octstr option \<Rightarrow> 'c \<Rightarrow> 'c field_result" where
  "address_value G W up sp ret decoded c =
     (let (d, c') = text_value W ret decoded c
      in Some ((case d of None \<Rightarrow> None | Some s \<Rightarrow> mms_fixup_address G (Some s) up sp True, None), c'))"

text \<open>A response text is preceded by a counter in the answer to a deletion.\<close>

definition response_text_value :: "'c wsp \<Rightarrow> int \<Rightarrow> field_value \<Rightarrow> octstr option \<Rightarrow> 'c \<Rightarrow> octstr option \<times> 'c" where
  "response_text_value W msgtype ret decoded c =
     (if msgtype = MMS_MSGTYPE_MBOX_DELETE_REQ \<and> ret = FV_DATA
      then
        let (d, c1) = wp_integer_value W c; ((ret2, _), c2) = wp_field_value W c1;
            (d', c3) = (if d = None then (None, c2)
                        else case decode_encoded_string_value W (Some ret2) c2 of (t, c') \<Rightarrow> (append_to d (dec_octstr t), c'))
        in (d', if ret2 = FV_DATA then wp_pop_limit W (wp_skip_to_limit W c3) else c3)
      else text_value W ret decoded c)"

text \<open>The value that is returned for a field: the inner token of such an answer replaces the outer one.\<close>

definition returned_value :: "'c wsp \<Rightarrow> int \<Rightarrow> int \<Rightarrow> field_value \<Rightarrow> int \<Rightarrow> 'c \<Rightarrow> int" where
  "returned_value W msgtype field_type ret val c =
     (if field_type = MMS_HEADER_RESPONSE_TEXT \<and> msgtype = MMS_MSGTYPE_MBOX_DELETE_REQ \<and> ret = FV_DATA
      then snd (fst (wp_field_value W (snd (wp_integer_value W c)))) else val)"

definition content_location_value :: "'c wsp \<Rightarrow> field_value \<Rightarrow> octstr option \<Rightarrow> 'c \<Rightarrow> octstr option \<times> 'c" where
  "content_location_value W ret decoded c =
     (if ret = FV_DATA
      then let (d, c1) = wp_integer_value W c; (t, c2) = wp_nul_string W c1 in (append_to d t, c2)
      else (decoded, c))"

definition response_status_value ::
  "'c wsp \<Rightarrow> field_value \<Rightarrow> int \<Rightarrow> octstr option \<Rightarrow> 'c \<Rightarrow> (octstr option \<times> octstr option) \<times> 'c" where
  "response_status_value W ret val decoded c =
     (if ret = FV_DATA
      then
        let (d, c1) = wp_integer_value W c; ((_, v), c2) = wp_field_value W c1;
            x = mms_response_status_to_cstr (with_top_bit v)
        in ((if x = None then d else append_to d x, None), c2)
      else ((decoded, mms_response_status_to_cstr (with_top_bit val)), c))"

text \<open>Absolute and relative times; the relative one is parsed as a number, which a missing text has not.\<close>

definition time_value ::
  "gwlib \<Rightarrow> 'c wsp \<Rightarrow> int \<Rightarrow> field_value \<Rightarrow> octstr option \<Rightarrow> 'c \<Rightarrow> (octstr option \<times> 'c) option" where
  "time_value G W tnow ret decoded c =
     (if ret \<noteq> FV_DATA then Some (decoded, c)
      else
        let (n, c1) = wp_get_char W c in
        if n = 0x80 then Some (wp_date_value W c1)
        else if n = 0x81
        then case wp_integer_value W c1 of
               (None, _) \<Rightarrow> None
             | (Some s, c2) \<Rightarrow>
                 Some (Some (gw_date_format_http G (tnow + (case gw_parse_long G s 0 10 of (i, l) \<Rightarrow> if i < 0 then 0 else l))), c2)
        else Some (Some (gw_date_format_http G tnow), c1))"

definition from_value ::
  "gwlib \<Rightarrow> 'c wsp \<Rightarrow> octstr option \<Rightarrow> octstr list \<Rightarrow> octstr option \<Rightarrow> field_value \<Rightarrow> octstr option \<Rightarrow> 'c \<Rightarrow>
   (octstr option \<times> 'c) option" where
  "from_value G W up sp xfrom ret decoded c =
     (if ret \<noteq> FV_DATA then Some (decoded, c)
      else
        let (n, c1) = wp_get_char W c;
            (d, c2) = (if n = 0x80 then decode_encoded_string_value W None c1 else (new_string xfrom, c1))
        in map_option (\<lambda>s. (s, c2)) (fixup_decoded G up sp d))"

definition previously_sent_value :: "'c wsp \<Rightarrow> int \<Rightarrow> field_value \<Rightarrow> octstr option \<Rightarrow> 'c \<Rightarrow> octstr option \<times> 'c" where
  "previously_sent_value W field_type ret decoded c =
     (if ret \<noteq> FV_DATA then (decoded, c)
      else
        let (d, c1) = wp_integer_value W c;
            (t, c2) = (if field_type = MMS_HEADER_PREVIOUSLY_SENT_BY
                       then case decode_encoded_string_value W None c1 of (x, c') \<Rightarrow> (dec_octstr x, c')
                       else wp_date_value W c1)
        in (append_to d t, c2))"

text \<open>One parameter of an element descriptor, when its name and its value can be read.\<close>

definition element_param :: "'c wsp \<Rightarrow> 'c \<Rightarrow> headers \<times> 'c" where
  "element_param W c =
     (let ((r, v), c1) = wp_field_value W c;
          (pname, c2) = (if r = FV_ENCODED then (Some (number_to_string (with_top_bit v) descriptor_params_table), c1)
                         else if r = FV_NUL_STRING then wp_nul_string W c1 else (None, c1))
      in case pname of
           None \<Rightarrow> ([], c2)
         | Some p \<Rightarrow>
             let ((r2, v2), c3) = wp_field_value W c2;
                 (pval, c4) = (if r2 = FV_ENCODED then (wp_content_type_to_cstr W v2, c3)
                               else if r2 = FV_NUL_STRING then wp_nul_string W c3 else (None, c3))
             in (case pval of None \<Rightarrow> [] | Some x \<Rightarrow> [(p, x)], c4))"

partial_function (option) element_params :: "'c wsp \<Rightarrow> headers \<Rightarrow> 'c \<Rightarrow> (headers \<times> 'c) option" where
  "element_params W ps c =
     (if wp_left W c = 0 then Some (ps, c)
      else element_params W (ps @ fst (element_param W c)) (snd (element_param W c)))"

definition element_descriptor_value ::
  "gwlib \<Rightarrow> 'c wsp \<Rightarrow> field_value \<Rightarrow> octstr option \<Rightarrow> 'c \<Rightarrow> (octstr option \<times> 'c) option" where
  "element_descriptor_value G W ret decoded c =
     (if ret \<noteq> FV_DATA then Some (decoded, c)
      else
        let (cr, c1) = wp_nul_string W c in do {
          (ps, c2) \<leftarrow> element_params W [] c1;
          let s = make_value_parameters ps;
          Some (Some ((case cr of Some x \<Rightarrow> x | None \<Rightarrow> ''(null)'') @ (if s \<noteq> [] then ''; '' else []) @ s), c2) })"

definition mbox_totals_value :: "'c wsp \<Rightarrow> field_value \<Rightarrow> octstr option \<Rightarrow> 'c \<Rightarrow> octstr option \<times> 'c" where
  "mbox_totals_value W ret decoded c =
     (if ret \<noteq> FV_DATA then (decoded, c)
      else let (n, c1) = wp_get_char W c; (d, c2) = wp_integer_value W c1
           in (append_to d (Some ('' '' @ (if n = 0x80 then ''msgs'' else ''bytes''))), c2))"

definition mm_flags_value :: "'c wsp \<Rightarrow> field_value \<Rightarrow> octstr option \<Rightarrow> 'c \<Rightarrow> octstr option \<times> 'c" where
  "mm_flags_value W ret decoded c =
     (if ret \<noteq> FV_DATA then (decoded, c)
      else
        let (n, c1) = wp_get_char W c; (p, c2) = decode_encoded_string_value W None c1
        in (Some ((if n = 0x80 then ''+'' else if n = 0x81 then ''-'' else ''/'') @
                  (case dec_octstr p of Some x \<Rightarrow> x | None \<Rightarrow> ''(null)'')), c2))"

section \<open>Headers\<close>

text \<open>What a decoding is given: the parser, how phone numbers are made uniform, the sender who is filled in and the
  clock.\<close>

record 'c dec_env =
  de_wsp :: "'c wsp"
  de_unified_prefix :: "octstr option"
  de_strip_prefixes :: "octstr list"
  de_from :: "octstr option"
  de_now :: int

text \<open>The tables of the fields whose value is one of a table; the codes of some have the top bit set.\<close>

definition coded_value :: "int \<Rightarrow> int \<Rightarrow> octstr option" where
  "coded_value field_type val =
     (if field_type \<in> {MMS_HEADER_DELIVERY_REPORT, MMS_HEADER_REPORT_ALLOWED, MMS_HEADER_READ_REPORT,
                        MMS_HEADER_DISTRIBUTION_INDICATOR, MMS_HEADER_QUOTAS, MMS_HEADER_STORE,
                        MMS_HEADER_STORED, MMS_HEADER_TOTALS} then mms_reports_to_cstr val
      else if field_type = MMS_HEADER_MESSAGE_TYPE then mms_message_type_to_cstr val
      else if field_type = MMS_HEADER_PRIORITY then mms_priority_to_cstr val
      else if field_type = MMS_HEADER_READ_STATUS then mms_read_status_to_cstr val
      else if field_type = MMS_HEADER_REPLY_CHARGING then mms_reply_charging_to_cstr val
      else if field_type = MMS_HEADER_RETRIEVE_STATUS then mms_retrieve_status_to_cstr (with_top_bit val)
      else if field_type = MMS_HEADER_STATUS then mms_status_to_cstr val
      else if field_type = MMS_HEADER_SENDER_VISIBILITY then mms_visibility_to_cstr val
      else if field_type = MMS_HEADER_ATTRIBUTES then mms_header_to_cstr val
      else if field_type = MMS_HEADER_MM_STATE then mms_mm_state_to_cstr val
      else if field_type = MMS_HEADER_STORE_STATUS then mms_store_status_to_cstr (with_top_bit val)
      else None)"

definition unpack_value ::
  "gwlib \<Rightarrow> 'c dec_env \<Rightarrow> int \<Rightarrow> int \<Rightarrow> field_value \<Rightarrow> int \<Rightarrow> octstr option \<Rightarrow> 'c \<Rightarrow> 'c field_result" where
  "unpack_value G E msgtype field_type ret val decoded c =
     (let W = de_wsp E; up = de_unified_prefix E; sp = de_strip_prefixes E;
          plain = (\<lambda>(d, c'). ((d, None), c')) in
      if field_type \<in> {MMS_HEADER_TO, MMS_HEADER_CC, MMS_HEADER_BCC} then address_value G W up sp ret decoded c
      else if field_type \<in> {MMS_HEADER_SUBJECT, MMS_HEADER_RETRIEVE_TEXT, MMS_HEADER_STORE_STATUS_TEXT}
      then Some (plain (text_value W ret decoded c))
      else if field_type = MMS_HEADER_RESPONSE_TEXT then Some (plain (response_text_value W msgtype ret decoded c))
      else if field_type = MMS_HEADER_CONTENT_LOCATION then Some (plain (content_location_value W ret decoded c))
      else if field_type = MMS_HEADER_MMS_VERSION
      then Some (plain (if ret = FV_ENCODED then wp_version_value W val else decoded, c))
      else if field_type = MMS_HEADER_RESPONSE_STATUS then Some (response_status_value W ret val decoded c)
      else if field_type = MMS_HEADER_MESSAGE_CLASS
      then Some ((decoded, if ret \<noteq> FV_NUL_STRING then mms_message_class_to_cstr val else None), c)
      else if field_type = MMS_HEADER_DATE then Some (plain (wp_date_value W (wp_skip_back W c)))
      else if field_type \<in> {MMS_HEADER_MESSAGE_SIZE, MMS_HEADER_REPLY_CHARGING_SIZE, MMS_HEADER_START,
                             MMS_HEADER_LIMIT, MMS_HEADER_MESSAGE_COUNT}
      then Some (plain (wp_integer_value W (wp_skip_back W c)))
      else if field_type = MMS_HEADER_CONTENT_TYPE
      then Some (if ret = FV_ENCODED then ((decoded, wp_content_type_to_cstr W val), c)
                 else if ret = FV_DATA then plain (wp_accept_general_form W c) else ((decoded, None), c))
      else if field_type \<in> {MMS_HEADER_DELIVERY_TIME, MMS_HEADER_EXPIRY, MMS_HEADER_REPLY_CHARGING_DEADLINE}
      then map_option plain (time_value G W (de_now E) ret decoded c)
      else if field_type = MMS_HEADER_FROM then map_option plain (from_value G W up sp (de_from E) ret decoded c)
      else if field_type \<in> {MMS_HEADER_PREVIOUSLY_SENT_BY, MMS_HEADER_PREVIOUSLY_SENT_DATE}
      then Some (plain (previously_sent_value W field_type ret decoded c))
      else if field_type = MMS_HEADER_ELEMENT_DESCRIPTOR
      then map_option plain (element_descriptor_value G W ret decoded c)
      else if field_type \<in> {MMS_HEADER_MBOX_TOTALS, MMS_HEADER_MBOX_QUOTAS}
      then Some (plain (mbox_totals_value W ret decoded c))
      else if field_type = MMS_HEADER_MM_FLAGS then Some (plain (mm_flags_value W ret decoded c))
      else Some ((decoded, coded_value field_type val), c))"

text \<open>The result is -2 when a header cannot be decoded, and otherwise the first token of the value; the
  header is added to the list.\<close>

definition mms_unpack_well_known_field ::
  "gwlib \<Rightarrow> 'c dec_env \<Rightarrow> int \<Rightarrow> int \<Rightarrow> headers \<Rightarrow> 'c \<Rightarrow> (int \<times> headers \<times> 'c) option" where
  "mms_unpack_well_known_field G E field_type msgtype unpacked c =
     (let W = de_wsp E; ((ret, val), c1) = wp_field_value W c in
      if wp_error W c1 then Some (-2, unpacked, wp_skip_to_limit W c1)
      else
        let (decoded, c2) = (if ret = FV_NUL_STRING then wp_nul_string W c1 else (None, c1)) in do {
          ((d, ch), c3) \<leftarrow> unpack_value G E msgtype field_type ret val decoded c2;
          let c4 = (if ret = FV_DATA then wp_pop_limit W (wp_skip_to_limit W c3) else c3);
          let v = (case ch of Some x \<Rightarrow> Some x | None \<Rightarrow> d);
          Some (case (v, mms_header_to_cstr field_type) of
                  (Some x, Some hname) \<Rightarrow> (returned_value W msgtype field_type ret val c2, unpacked @ [(hname, x)], c4)
                | _ \<Rightarrow> (-2, unpacked, c4)) })"

text \<open>One header: whether the list ends here, the message type, the headers and the context.\<close>

definition decode_header ::
  "gwlib \<Rightarrow> 'c dec_env \<Rightarrow> bool \<Rightarrow> int \<Rightarrow> headers \<Rightarrow> 'c \<Rightarrow> (bool \<times> int \<times> headers \<times> 'c) option" where
  "decode_header G E stop_on_ctype msgtype hdrs c =
     (let W = de_wsp E; (byte, c1) = wp_get_char W c in do {
        (val, hdrs', c2) \<leftarrow>
          (if byte \<ge> 0x80 then mms_unpack_well_known_field G E (byte mod 128) msgtype hdrs c1
           else if byte \<ge> 0 then (case wp_app_header W hdrs (wp_skip_back W c1) of (h, c') \<Rightarrow> Some (0, h, c'))
           else Some (0, hdrs, c1));
        Some (val < -1 \<or> byte mod 128 = MMS_HEADER_CONTENT_TYPE \<and> stop_on_ctype,
              if byte mod 128 = MMS_HEADER_MESSAGE_TYPE then val else msgtype, hdrs', c2) })"

partial_function (option) decode_msgheaders ::
  "gwlib \<Rightarrow> 'c dec_env \<Rightarrow> bool \<Rightarrow> int \<Rightarrow> headers \<Rightarrow> 'c \<Rightarrow> (headers \<times> 'c) option" where
  "decode_msgheaders G E stop_on_ctype msgtype hdrs c =
     (if wp_left (de_wsp E) c = 0 \<or> wp_error (de_wsp E) c then Some (hdrs, c)
      else Option.bind (decode_header G E stop_on_ctype msgtype hdrs c)
        (\<lambda>r. if fst r then Some (snd (snd r))
             else decode_msgheaders G E stop_on_ctype (fst (snd r)) (fst (snd (snd r))) (snd (snd (snd r)))))"

section \<open>Messages\<close>

definition decode_msgbody :: "gwlib \<Rightarrow> bool \<Rightarrow> nat \<Rightarrow> octstr \<Rightarrow> msg_body option option" where
  "decode_msgbody G ismultipart fuel rest =
     (if ismultipart
      then case decode_multipart G fuel rest of
             Decoded l \<Rightarrow> Some (Some (Body_l l)) | Parse_error \<Rightarrow> Some None | Out_of_fuel \<Rightarrow> None
      else Some (Some (Body_s rest)))"

text \<open>\<open>Some None\<close> is the null pointer, the result for a message that has no type or cannot be decoded.
  Multipart bodies are nested less deeply than the message has bytes.\<close>

definition mms_frombinary_ex :: "gwlib \<Rightarrow> 'c dec_env \<Rightarrow> octstr \<Rightarrow> MmsMsg option option" where
  "mms_frombinary_ex G E msg = do {
     (hdrs, c) \<leftarrow> decode_msgheaders G E True 0 [] (wp_context_create (de_wsp E) msg);
     let ismultipart = (case gw_header_value G hdrs ''Content-Type'' of
                          Some s \<Rightarrow> gw_search G s ''application/vnd.wap.multipart'' 0 = 0 | None \<Rightarrow> False);
     case gw_header_value G hdrs ''X-Mms-Message-Type'' of
       None \<Rightarrow> Some None
     | Some ty \<Rightarrow> do {
         body \<leftarrow> decode_msgbody G ismultipart (Suc (length msg)) (wp_rest (de_wsp E) c);
         Some (map_option (\<lambda>b.
           fixup_msg G (de_now E)
             \<lparr>m_message_type = mms_string_to_message_type G ty, m_msgId = gw_header_value G hdrs ''Message-ID'',
              m_headers = hdrs, m_enc = Some 0, m_ismultipart = ismultipart, m_body = b\<rparr> (de_from E)) body) } }"

section \<open>Messages of mails\<close>

definition fixup_date :: "gwlib \<Rightarrow> (octstr \<Rightarrow> octstr) \<Rightarrow> octstr \<Rightarrow> headers \<Rightarrow> headers" where
  "fixup_date G gmt hname headers =
     (case gw_header_value G headers hname of
        None \<Rightarrow> headers
      | Some s \<Rightarrow> gw_header_remove_all G headers hname @ [(hname, gmt s)])"

text \<open>The identifier without angle brackets and quotes; deleting the last byte of a text
  that has become empty is an error.\<close>

definition plain_message_id :: "octstr \<Rightarrow> octstr option" where
  "plain_message_id s0 =
     (let s = filter (\<lambda>c. c \<noteq> CHR ''<'' \<and> c \<noteq> CHR ''>'') s0 in
      if octstr_get_char s 0 \<noteq> Some CHR 0x22 then Some s
      else if length s = 1 then None else Some (butlast (tl s)))"

definition mm4_message_type :: "gwlib \<Rightarrow> headers \<Rightarrow> (int \<times> headers) option" where
  "mm4_message_type G h =
     (let dflt = Some (MMS_MSGTYPE_SEND_REQ, gw_header_remove_all G h ''X-Mms-Message-Type'' @
                         [(''X-Mms-Message-Type'', case mms_message_type_to_cstr MMS_MSGTYPE_SEND_REQ of Some t \<Rightarrow> t | None \<Rightarrow> [])])
      in case gw_header_value G h ''X-Mms-Message-Type'' of
           None \<Rightarrow> dflt
         | Some s \<Rightarrow>
             if gw_compare G s ''MM4_forward.REQ'' = 0 then dflt
             else let t = mms_string_to_message_type G s in if t < 0 then None else Some (t, h))"

text \<open>\<open>gmt\<close> is what \<open>strptime\<close>, \<open>mktime\<close>, \<open>gmtime\<close> and \<open>asctime\<close> make of a date.\<close>

definition mms_frommime ::
  "gwlib \<Rightarrow> int \<Rightarrow> (octstr \<Rightarrow> octstr) \<Rightarrow> mime \<Rightarrow> MmsMsg option option" where
  "mms_frommime G tnow gmt mime =
     (let mx = unbase64_mimeparts G (unpack_mimeheaders G (unconvert_mime_msg G mime));
          h0 = mime_headers mx; multipart = (mime_parts mx \<noteq> []);
          body = (if multipart then Body_l (mime_parts mx)
                  else case mime_body mx of Some s \<Rightarrow> Body_s s | None \<Rightarrow> Body_null) in do {
        (msgid, h1) \<leftarrow>
          (case gw_header_value G h0 ''Message-ID'' of
             None \<Rightarrow> Some (None, h0)
           | Some s \<Rightarrow> map_option (\<lambda>i. (Some i, gw_header_remove_all G h0 ''Message-ID'' @ [(''Message-ID'', i)])) (plain_message_id s));
        Some (map_option (\<lambda>(ty, h2).
          let h3 = add_if_missing G ''X-Mms-MMS-Version'' MMS_DEFAULT_VERSION h2;
              h4 = fold (fixup_date G gmt) [''Date'', ''X-Mms-Expiry'', ''X-Mms-Delivery-Time'',
                     ''X-Mms-Previously-Sent-Date'', ''X-Mms-Reply-Charging-Deadline''] h3
          in fixup_msg G tnow
               \<lparr>m_message_type = ty, m_msgId = msgid, m_headers = filter (\<lambda>(n, _). mms_is_token n) h4, m_enc = Some 0,
                m_ismultipart = multipart, m_body = body\<rparr> (Some ''anon@unknown'')) (mm4_message_type G h1)) })"

end
