(* ===== verification/MmsCfg.thy ===== *)
theory MmsCfg
  imports Posix
begin

text \<open>
  The configuration file, \<open>mmlib/mms_cfg.c\<close> with the groups and fields of \<open>mms_cfg.def\<close>: the reader,
  the look-up of groups and fields and the conversions; the core settings and the loading of plug-ins,
  of \<open>mms_util.c\<close>. The result \<open>None\<close> stands for \<open>panic\<close> and failed assertions.
\<close>

section \<open>Groups and fields\<close>

text \<open>\<open>mms_cfg.def\<close>: the fields of each group, and whether it may appear more than once.\<close>

definition config_source_fields :: "octstr list" where
  "config_source_fields = [''config-library'', ''config-library-init-param'']"

definition core_fields :: "octstr list" where
  "core_fields = [''log-file'', ''log-level'', ''access-log'', ''http-proxy-host'', ''http-proxy-port'', 
     ''http-proxy-exceptions'', ''http-proxy-username'', ''http-proxy-password'', 
     ''ssl-client-certkey-file'', ''ssl-server-cert-file'', ''ssl-server-key-file'', 
     ''ssl-trusted-ca-file'', ''http-interface-name'']"

definition mbuni_fields :: "octstr list" where
  "mbuni_fields = [''name'', ''hostname'', ''host-alias'', ''local-prefixes'', ''storage-directory'', 
     ''queue-manager-module'', ''queue-module-init-data'', ''max-send-threads'', ''send-mail-prog'', 
     ''unified-prefix'', ''strip-prefixes'', ''maximum-send-attempts'', 
     ''mm1-maximum-notify-attempts'', ''mmsbox-maximum-request-attempts'', 
     ''default-message-expiry'', ''max-message-expiry'', ''queue-run-interval'', 
     ''mm1-queue-run-interval'', ''send-attempt-back-off'', ''sendsms-url'', ''sendsms-username'', 
     ''sendsms-password'', ''sendsms-global-sender'', ''mms-port'', ''mm7-port'', ''allow-ip'', 
     ''deny-ip'', ''email2mms-relay-hosts'', ''billing-module-parameters'', ''billing-library'', 
     ''resolver-module-parameters'', ''resolver-library'', ''detokenizer-module-parameters'', 
     ''detokenizer-library'', ''prov-server-notify-script'', ''prov-server-sub-status-script'', 
     ''notify-unprovisioned'', ''mms-notify-text'', ''mms-notify-unprovisioned-text'', 
     ''mms-to-email-txt'', ''mms-to-email-html'', ''mms-to-email-default-subject'', 
     ''mms-message-too-large-txt'', ''mms-client-msisdn-header'', ''mms-client-ip-header'', 
     ''allow-ip-type'', ''optimize-notification-size'', ''content-adaptation'', 
     ''send-dlr-on-fetch'', ''sendmms-port'', ''sendmms-port-ssl'', ''mmsbox-mt-filter-library'', 
     ''mmsbox-mt-always-multipart'', ''mmsbox-admin-port'', ''mmsc-admin-port'', ''admin-port-ssl'', 
     ''admin-password'', ''admin-allow-ip'', ''admin-deny-ip'', ''event-logger-module'', 
     ''event-logger-module-parameters'', ''mm5-module'', ''mm5-module-parameters'', 
     ''mmsbox-cdr-module'', ''mmsbox-cdr-module-parameters'', ''mmsc-services'']"

definition mmsproxy_fields :: "octstr list" where
  "mmsproxy_fields = [''name'', ''host'', ''allowed-prefix'', ''denied-prefix'', ''send-mail-prog'', 
     ''confirmed-delivery'', ''unified-prefix'', ''strip-prefixes'']"

definition mms_vasp_fields :: "octstr list" where
  "mms_vasp_fields = [''vasp-id'', ''type'', ''mm7-version'', ''mm7-soap-xmlns'', ''use-mm7-soap-namespace-prefix'', 
     ''short-code'', ''short-codes'', ''vasp-username'', ''vasp-password'', ''vasp-url'', 
     ''mms-to-email-handler'', ''mms-to-local-copy-handler'', ''send-uaprof'', ''throughput'']"

definition send_mms_user_fields :: "octstr list" where
  "send_mms_user_fields = [''username'', ''password'', ''faked-sender'', ''delivery-report-url'', ''read-report-url'', 
     ''mmsc'']"

definition mmsc_fields :: "octstr list" where
  "mmsc_fields = [''id'', ''group-id'', ''vasp-id'', ''mmsc-url'', ''incoming-username'', ''incoming-password'', 
     ''incoming-port'', ''allow-ip'', ''deny-ip'', ''allowed-prefix'', ''denied-prefix'', 
     ''denied-sender-prefix'', ''allowed-sender-prefix'', ''incoming-port-ssl'', ''max-throughput'', 
     ''type'', ''mm7-version'', ''mm7-soap-xmlns'', ''use-mm7-soap-namespace-prefix'', 
     ''mm7-mt-filter-params'', ''reroute'', ''reroute-mmsc-id'', ''reroute-add-sender-to-subject'', 
     ''mmsc-library'', ''custom-settings'', ''no-sender-address'', ''default-vasid'']"

definition mms_service_fields :: "octstr list" where
  "mms_service_fields = [''name'', ''get-url'', ''post-url'', ''exec'', ''file'', ''text'', ''faked-sender'', 
     ''catch-all'', ''omit-empty'', ''suppress-reply'', ''accept-x-mbuni-headers'', 
     ''pass-thro-headers'', ''assume-plain-text'', ''accepted-mmscs'', ''denied-mmscs'', 
     ''denied-receiver-prefix'', ''allowed-receiver-prefix'', ''keyword'', ''aliases'', 
     ''http-post-parameters'', ''service-code'', ''extra-reply-content-header'']"

definition cfg_groups :: "(octstr \<times> bool \<times> octstr list) list" where
  "cfg_groups = [
     (''config-source'', False, config_source_fields),
     (''core'', False, core_fields),
     (''mbuni'', False, mbuni_fields),
     (''mmsproxy'', True, mmsproxy_fields),
     (''mms-vasp'', True, mms_vasp_fields),
     (''send-mms-user'', True, send_mms_user_fields),
     (''mmsc'', True, mmsc_fields),
     (''mms-service'', True, mms_service_fields)]"

text \<open>1 for a group that may appear many times, 0 for one that may not, -1 for an unknown group.\<close>

definition is_multigroup :: "gwlib \<Rightarrow> octstr \<Rightarrow> int" where
  "is_multigroup G grpname =
     (case List.find (\<lambda>(n, _, _). gw_case_compare G grpname n = 0) cfg_groups of
        None \<Rightarrow> -1 | Some (_, multi, _) \<Rightarrow> if multi then 1 else 0)"

definition valid_in_group :: "gwlib \<Rightarrow> octstr \<Rightarrow> octstr \<Rightarrow> bool" where
  "valid_in_group G grp field =
     (case List.find (\<lambda>(n, _, _). gw_case_compare G grp n = 0) cfg_groups of
        None \<Rightarrow> False
      | Some (_, _, fs) \<Rightarrow> List.find (\<lambda>f. gw_case_compare G field f = 0) fs \<noteq> None)"

record mCfgGrp =
  g_name :: octstr
  g_fields :: "(octstr \<times> octstr) list"

text \<open>The functions of another source of configuration, which \<open>config-source\<close> names.\<close>

record mCfgImpFuncs =
  cfg_get_single :: "octstr \<Rightarrow> mCfgGrp option"
  get_multi :: "octstr \<Rightarrow> mCfgGrp list"
  get_multi_by_field :: "octstr \<Rightarrow> octstr \<Rightarrow> octstr \<Rightarrow> mCfgGrp option"
  cfg_get :: "mCfgGrp \<Rightarrow> octstr \<Rightarrow> octstr option"
  get_grp_name :: "mCfgGrp \<Rightarrow> octstr"

text \<open>The groups in the order of the file. The dictionary of the code has the group of a name, or the
  list of them; its keys are compared byte by byte.\<close>

record mCfg =
  cfg_grps :: "mCfgGrp list"
  xcfg :: "mCfgImpFuncs option"

section \<open>Reading the file\<close>

text \<open>The escapes of a quoted value; a last backslash has no byte after it to append.\<close>

fun unescape_value :: "octstr \<Rightarrow> octstr option" where
  "unescape_value [] = Some []"
| "unescape_value (c # s) =
     (if c \<noteq> CHR 0x5C then map_option ((#) c) (unescape_value s)
      else case s of
             [] \<Rightarrow> None
           | d # s' \<Rightarrow> map_option ((#) (if d = CHR ''n'' then CHR 0x0A else if d = CHR ''t'' then CHR 0x09 else d))
                        (unescape_value s'))"

text \<open>The value that is a single quote is deleted beyond its end.\<close>

definition fixup_value :: "gwlib \<Rightarrow> octstr \<Rightarrow> octstr option" where
  "fixup_value G v =
     (let value = gw_strip_blanks G v in
      if octstr_get_char value 0 \<noteq> Some CHR 0x22 then Some value
      else let tmp = octstr_delete value 0 1 in
           if tmp = [] then None else unescape_value (octstr_delete tmp (length tmp - 1) 1))"

definition dict_get :: "(octstr \<times> 'a) list \<Rightarrow> octstr \<Rightarrow> 'a option" where
  "dict_get d k = map_of d k"

text \<open>An unexpected or duplicate field is skipped.\<close>

definition check_and_add_field :: "gwlib \<Rightarrow> mCfgGrp \<Rightarrow> octstr \<Rightarrow> octstr \<Rightarrow> mCfgGrp" where
  "check_and_add_field G grp field value =
     (if \<not> valid_in_group G (g_name grp) field then grp
      else if dict_get (g_fields grp) field \<noteq> None then grp
      else grp\<lparr>g_fields := g_fields grp @ [(field, value)]\<rparr>)"

definition has_group :: "mCfgGrp list \<Rightarrow> octstr \<Rightarrow> bool" where
  "has_group gs name = (\<exists>g \<in> set gs. g_name g = name)"

text \<open>One line: the groups so far, whether the last one is open for fields (\<open>grp\<close> is not \<open>NULL\<close>), and
  whether the lines of an unknown group are being skipped.\<close>

type_synonym cfg_state = "mCfgGrp list \<times> bool \<times> bool"

definition cfg_line :: "gwlib \<Rightarrow> octstr \<Rightarrow> cfg_state \<Rightarrow> cfg_state option" where
  "cfg_line G line st =
     (let (gs, grp, skip) = st;
          current = gw_strip_blanks G line;
          pos = octstr_search_char current CHR ''='' 0 in
      if current = [] then Some (gs, False, False)
      else if skip \<or> octstr_get_char current 0 = Some CHR ''#'' then Some st
      else if pos > 0
      then
        let field = gw_strip_blanks G (octstr_copy current 0 (nat pos)) in
        case fixup_value G (octstr_copy current (nat pos + 1) (length current)) of
          None \<Rightarrow> None
        | Some value \<Rightarrow>
            if gw_case_compare G field ''group'' = 0
            then
              if grp then None
              else if is_multigroup G value < 0 then Some (gs, False, True)
              else if is_multigroup G value = 0 \<and> has_group gs value then None
              else Some (gs @ [\<lparr>g_name = value, g_fields = []\<rparr>], True, False)
            else if grp
            then Some (butlast gs @ [check_and_add_field G (last gs) field value], True, False)
            else None
      else None)"

fun cfg_lines :: "gwlib \<Rightarrow> octstr list \<Rightarrow> cfg_state \<Rightarrow> cfg_state option" where
  "cfg_lines G [] st = Some st"
| "cfg_lines G (l # ls) st = (case cfg_line G l st of None \<Rightarrow> None | Some st' \<Rightarrow> cfg_lines G ls st')"

section \<open>Look-up\<close>

definition mms_cfg_get_single :: "gwlib \<Rightarrow> mCfg \<Rightarrow> octstr \<Rightarrow> mCfgGrp option option" where
  "mms_cfg_get_single G cfg name =
     (if is_multigroup G name \<noteq> 0 then None
      else Some (case xcfg cfg of
                   None \<Rightarrow> List.find (\<lambda>g. g_name g = name) (cfg_grps cfg)
                 | Some x \<Rightarrow> cfg_get_single x name))"

definition mms_cfg_get_multi :: "gwlib \<Rightarrow> mCfg \<Rightarrow> octstr \<Rightarrow> mCfgGrp list option" where
  "mms_cfg_get_multi G cfg name =
     (if is_multigroup G name \<noteq> 1 then None
      else Some (case xcfg cfg of
                   None \<Rightarrow> filter (\<lambda>g. g_name g = name) (cfg_grps cfg)
                 | Some x \<Rightarrow> get_multi x name))"

definition mms_get_multi_by_field ::
  "gwlib \<Rightarrow> mCfg \<Rightarrow> octstr \<Rightarrow> octstr \<Rightarrow> octstr \<Rightarrow> mCfgGrp option option" where
  "mms_get_multi_by_field G cfg name field value =
     (if is_multigroup G name \<noteq> 1 \<or> \<not> valid_in_group G name field then None
      else Some (case xcfg cfg of
                   None \<Rightarrow> List.find (\<lambda>g. case dict_get (g_fields g) field of
                                          None \<Rightarrow> False | Some v \<Rightarrow> gw_compare G v value = 0)
                             (filter (\<lambda>g. g_name g = name) (cfg_grps cfg))
                 | Some x \<Rightarrow> get_multi_by_field x name field value))"

definition mms_cfg_get :: "gwlib \<Rightarrow> mCfg \<Rightarrow> mCfgGrp \<Rightarrow> octstr \<Rightarrow> octstr option option" where
  "mms_cfg_get G cfg grp name =
     (let grp_name = (case xcfg cfg of Some x \<Rightarrow> get_grp_name x grp | None \<Rightarrow> g_name grp) in
      if \<not> valid_in_group G grp_name name then None
      else case xcfg cfg of
             None \<Rightarrow> Some (dict_get (g_fields grp) name)
           | Some x \<Rightarrow> (case cfg_get x grp name of
                          None \<Rightarrow> Some None
                        | Some val \<Rightarrow> map_option Some (fixup_value G val)))"

text \<open>Status and value; the value stands for the variable, which is only set when the field is there.\<close>

definition mms_cfg_get_int :: "gwlib \<Rightarrow> mCfg \<Rightarrow> mCfgGrp \<Rightarrow> octstr \<Rightarrow> int \<Rightarrow> (int \<times> int) option" where
  "mms_cfg_get_int G cfg grp name n =
     map_option (\<lambda>v. case v of
         None \<Rightarrow> (-1, n)
       | Some val \<Rightarrow> let (ret, k) = gw_parse_long G val 0 0 in (if ret = -1 then (-1, n) else (0, k)))
       (mms_cfg_get G cfg grp name)"

definition mms_cfg_get_bool :: "gwlib \<Rightarrow> mCfg \<Rightarrow> mCfgGrp \<Rightarrow> octstr \<Rightarrow> bool \<Rightarrow> (int \<times> bool) option" where
  "mms_cfg_get_bool G cfg grp name b =
     map_option (\<lambda>v. case v of
         None \<Rightarrow> (-1, b)
       | Some val \<Rightarrow>
           if gw_case_compare G val ''yes'' = 0 \<or> gw_case_compare G val ''true'' = 0 \<or>
              gw_case_compare G val ''1'' = 0 then (0, True)
           else if gw_case_compare G val ''no'' = 0 \<or> gw_case_compare G val ''false'' = 0 \<or>
              gw_case_compare G val ''0'' = 0 then (0, False)
           else (-1, b))
       (mms_cfg_get G cfg grp name)"

definition mms_cfg_get_list :: "gwlib \<Rightarrow> mCfg \<Rightarrow> mCfgGrp \<Rightarrow> octstr \<Rightarrow> octstr list option option" where
  "mms_cfg_get_list G cfg grp name = map_option (map_option (gw_split_words G)) (mms_cfg_get G cfg grp name)"

definition mms_cfg_getx :: "gwlib \<Rightarrow> mCfg \<Rightarrow> mCfgGrp \<Rightarrow> octstr \<Rightarrow> octstr option" where
  "mms_cfg_getx G cfg grp item =
     map_option (\<lambda>v. case v of Some s \<Rightarrow> s | None \<Rightarrow> []) (mms_cfg_get G cfg grp item)"

text \<open>A plug-in by its field; \<open>dlsym\<close> opens a library and finds the symbol.\<close>

definition mms_load_module ::
  "gwlib \<Rightarrow> (octstr \<Rightarrow> string \<Rightarrow> 'm option) \<Rightarrow> mCfg \<Rightarrow> mCfgGrp \<Rightarrow> octstr \<Rightarrow> string \<Rightarrow> 'm option \<Rightarrow> 'm option option" where
  "mms_load_module G dlsym cfg grp config_key symbolname shell_builtin =
     (case mms_cfg_get G cfg grp config_key of
        None \<Rightarrow> None
      | Some None \<Rightarrow> Some None
      | Some (Some s) \<Rightarrow>
          if gw_case_search G s ''builtin:shell'' 0 \<ge> 0 then Some shell_builtin
          else map_option Some (dlsym s symbolname))"

text \<open>The inner \<open>None\<close> is the result \<open>NULL\<close>: no file, or no use of the configuration source it names.
  \<open>dlsym\<close> is the loader and \<open>read\<close> the reader of such a source.\<close>

definition mms_cfg_read ::
  "gwlib \<Rightarrow> (octstr \<Rightarrow> string \<Rightarrow> 'm option) \<Rightarrow> ('m \<Rightarrow> octstr option \<Rightarrow> mCfgImpFuncs option) \<Rightarrow> string \<Rightarrow> os \<Rightarrow>
   mCfg option option" where
  "mms_cfg_read G dlsym read file os =
     (case read_file file os of
        None \<Rightarrow> Some None
      | Some sf \<Rightarrow>
          case cfg_lines G (gw_split G sf [CHR 0x0A]) ([], False, False) of
            None \<Rightarrow> None
          | Some (gs, _, _) \<Rightarrow>
              let cfg = \<lparr>cfg_grps = gs, xcfg = None\<rparr> in
              case mms_cfg_get_single G cfg ''config-source'' of
                None \<Rightarrow> None
              | Some None \<Rightarrow> Some (Some cfg)
              | Some (Some grp) \<Rightarrow>
                  case (mms_cfg_get G cfg grp ''config-library-init-param'',
                        mms_load_module G dlsym cfg grp ''config-library'' ''cfg_funcs'' None) of
                    (Some init, Some (Some m)) \<Rightarrow>
                      (case read m init of
                         None \<Rightarrow> Some None
                       | Some x \<Rightarrow> Some (Some (cfg\<lparr>xcfg := Some x\<rparr>)))
                  | (Some _, Some None) \<Rightarrow> Some None
                  | _ \<Rightarrow> None)"

section \<open>Core settings\<close>

text \<open>The library calls that \<open>mms_load_core_settings\<close> makes, in order.\<close>

datatype core_call =
    Log_open octstr int
  | Alog_open octstr
  | Set_interface octstr
  | Use_proxy octstr int "octstr list option" "octstr option" "octstr option" "octstr option"
  | Use_client_certkey octstr
  | Use_server_certkey octstr octstr
  | Use_trusted_ca "octstr option"

definition core_logs :: "gwlib \<Rightarrow> mCfg \<Rightarrow> mCfgGrp \<Rightarrow> core_call list option" where
  "core_logs G cfg cgrp =
     (case (mms_cfg_get G cfg cgrp ''log-file'', mms_cfg_get_int G cfg cgrp ''log-level'' 0,
            mms_cfg_get G cfg cgrp ''access-log'', mms_cfg_get G cfg cgrp ''http-interface-name'') of
        (Some log, Some (_, loglevel), Some alog, Some our_interface) \<Rightarrow>
          Some ((case log of Some f \<Rightarrow> [Log_open f loglevel] | None \<Rightarrow> []) @
                (case alog of Some f \<Rightarrow> [Alog_open f] | None \<Rightarrow> []) @
                (case our_interface of Some f \<Rightarrow> [Set_interface f] | None \<Rightarrow> []))
      | _ \<Rightarrow> None)"

definition core_proxy :: "gwlib \<Rightarrow> mCfg \<Rightarrow> mCfgGrp \<Rightarrow> core_call list option" where
  "core_proxy G cfg cgrp =
     (case mms_cfg_get G cfg cgrp ''http-proxy-host'' of
        None \<Rightarrow> None
      | Some None \<Rightarrow> Some []
      | Some (Some http_proxy_host) \<Rightarrow>
          case (mms_cfg_get G cfg cgrp ''http-proxy-username'', mms_cfg_get G cfg cgrp ''http-proxy-password'',
                mms_cfg_get_list G cfg cgrp ''http-proxy-exceptions'',
                mms_cfg_get G cfg cgrp ''http-proxy-exceptions-regex'',
                mms_cfg_get_int G cfg cgrp ''http-proxy-port'' (-1)) of
            (Some username, Some password, Some exceptions, Some except_regex, Some (_, port)) \<Rightarrow>
              Some (if port > 0
                    then [Use_proxy http_proxy_host port exceptions username password except_regex] else [])
          | _ \<Rightarrow> None)"

definition core_ssl :: "gwlib \<Rightarrow> mCfg \<Rightarrow> mCfgGrp \<Rightarrow> core_call list option" where
  "core_ssl G cfg cgrp =
     (case (mms_cfg_get G cfg cgrp ''ssl-client-certkey-file'', mms_cfg_get G cfg cgrp ''ssl-server-cert-file'',
            mms_cfg_get G cfg cgrp ''ssl-server-key-file'', mms_cfg_get G cfg cgrp ''ssl-trusted-ca-file'') of
        (Some client, Some cert, Some key, Some ca) \<Rightarrow>
          Some ((case client of Some f \<Rightarrow> [Use_client_certkey f] | None \<Rightarrow> []) @
                (case (cert, key) of (Some c, Some k) \<Rightarrow> [Use_server_certkey c k] | _ \<Rightarrow> []) @
                [Use_trusted_ca ca])
      | _ \<Rightarrow> None)"

text \<open>\<open>ssl\<close> is \<open>HAVE_LIBSSL\<close>.\<close>

definition mms_load_core_settings :: "gwlib \<Rightarrow> bool \<Rightarrow> mCfg \<Rightarrow> mCfgGrp option \<Rightarrow> core_call list option" where
  "mms_load_core_settings G ssl cfg cgrp =
     (case cgrp of
        None \<Rightarrow> None
      | Some grp \<Rightarrow>
          case (core_logs G cfg grp, core_proxy G cfg grp, if ssl then core_ssl G cfg grp else Some []) of
            (Some a, Some b, Some c) \<Rightarrow> Some (a @ b @ c)
          | _ \<Rightarrow> None)"

section \<open>Group and field names\<close>

lemma fields_lower: "list_all (\<lambda>(n, _, fs). list_all (\<lambda>f. ci f = f) (n # fs)) cfg_groups"
  by (simp add: cfg_groups_def config_source_fields_def core_fields_def mbuni_fields_def mmsproxy_fields_def
      mms_vasp_fields_def send_mms_user_fields_def mmsc_fields_def mms_service_fields_def ci_def)

lemma group_names_distinct: "distinct (map fst cfg_groups)"
  by (simp add: cfg_groups_def)

lemma find_by_ci:
  assumes "distinct (map fst xs)" and "list_all (\<lambda>(n, _). ci n = n) xs" and "(n, y) \<in> set xs"
  shows "List.find (\<lambda>(n', _). ci n = ci n') xs = Some (n, y)"
  using assms
proof (induction xs)
  case (Cons x xs)
  obtain n' y' where x: "x = (n', y')" by force
  show ?case
  proof (cases "n = n'")
    case True
    with Cons.prems x have "y = y'" by (auto simp: image_iff)
    with True x show ?thesis by simp
  next
    case False
    with Cons.prems x have "(n, y) \<in> set xs" by auto
    then have "ci n = n" using Cons.prems(2) by (auto simp: list_all_iff)
    then have "ci n \<noteq> ci n'" using False Cons.prems(2) x by simp
    with Cons x \<open>(n, y) \<in> set xs\<close> show ?thesis by simp
  qed
qed simp

lemma find_group:
  assumes "gwlib_api G" and "(n, m, fs) \<in> set cfg_groups"
  shows "List.find (\<lambda>(n', _, _). gw_case_compare G n n' = 0) cfg_groups = Some (n, m, fs)"
proof -
  have "list_all (\<lambda>(n, _). ci n = n) cfg_groups"
    using fields_lower by (auto simp: list_all_iff)
  from find_by_ci [OF group_names_distinct this assms(2)] show ?thesis
    by (simp add: gwlib_api.case_compare [OF assms(1)] case_prod_unfold)
qed

lemma is_multigroup_known:
  assumes "gwlib_api G" and "(n, m, fs) \<in> set cfg_groups"
  shows "is_multigroup G n = (if m then 1 else 0)"
  by (simp add: is_multigroup_def find_group [OF assms])

lemma valid_in_known_group:
  assumes "gwlib_api G" and "(n, m, fs) \<in> set cfg_groups"
  shows "valid_in_group G n f \<longleftrightarrow> ci f \<in> set fs"
proof -
  have "list_all (\<lambda>f. ci f = f) fs" using fields_lower assms(2) by (auto simp: list_all_iff)
  then have "List.find (\<lambda>x. gw_case_compare G f x = 0) fs \<noteq> None \<longleftrightarrow> ci f \<in> set fs"
    by (auto simp: find_None_iff gwlib_api.case_compare [OF assms(1)] list_all_iff)
  then show ?thesis by (simp add: valid_in_group_def find_group [OF assms])
qed

lemma is_multigroup_cases: "is_multigroup G n \<in> {-1, 0, 1}"
  by (auto simp: is_multigroup_def split: option.split)

section \<open>What a configuration holds\<close>

text \<open>Every group is known, its fields are expected in it and set once, and only groups that may be
  repeated are.\<close>

definition group_typed :: "gwlib \<Rightarrow> mCfgGrp \<Rightarrow> bool" where
  "group_typed G g = (is_multigroup G (g_name g) \<ge> 0 \<and> distinct (map fst (g_fields g)) \<and>
     list_all (\<lambda>(f, _). valid_in_group G (g_name g) f) (g_fields g))"

definition cfg_typed :: "gwlib \<Rightarrow> mCfgGrp list \<Rightarrow> bool" where
  "cfg_typed G gs = (list_all (group_typed G) gs \<and>
     distinct (map g_name (filter (\<lambda>g. is_multigroup G (g_name g) = 0) gs)))"

lemma check_and_add_typed:
  "group_typed G g \<Longrightarrow> group_typed G (check_and_add_field G g f v) \<and> g_name (check_and_add_field G g f v) = g_name g"
  by (auto simp: check_and_add_field_def group_typed_def dict_get_def map_of_eq_None_iff)

lemma cfg_line_typed:
  assumes "cfg_line G l (gs, opn, skip) = Some (gs', opn', skip')" and "cfg_typed G gs" and "opn \<longrightarrow> gs \<noteq> []"
  shows "cfg_typed G gs' \<and> (opn' \<longrightarrow> gs' \<noteq> [])"
proof -
  have new: "cfg_typed G (gs @ [\<lparr>g_name = v, g_fields = []\<rparr>])"
    if "\<not> is_multigroup G v < 0" and "\<not> (is_multigroup G v = 0 \<and> has_group gs v)" for v
    using assms(2) that by (auto simp: cfg_typed_def group_typed_def has_group_def)
  have add: "cfg_typed G (butlast gs @ [check_and_add_field G (last gs) f v])" if "gs \<noteq> []" for f v
  proof -
    have g: "cfg_typed G (butlast gs @ [last gs])" using that assms(2) by simp
    then have "group_typed G (last gs)" by (simp add: cfg_typed_def)
    from check_and_add_typed [OF this] g show ?thesis
      by (auto simp: cfg_typed_def)
  qed
  show ?thesis
    using assms new add by (auto simp: cfg_line_def Let_def split: if_splits option.splits)
qed

lemma cfg_lines_typed:
  "cfg_lines G ls (gs, opn, skip) = Some (gs', opn', skip') \<Longrightarrow> cfg_typed G gs \<Longrightarrow> (opn \<longrightarrow> gs \<noteq> []) \<Longrightarrow>
   cfg_typed G gs'"
proof (induction ls arbitrary: gs opn skip)
  case (Cons l ls)
  then show ?case
    using cfg_line_typed [of G l gs opn skip] by (auto split: option.splits)
qed simp

lemma mms_cfg_read_groups:
  assumes "mms_cfg_read G dlsym read file os = Some (Some cfg)"
  shows "\<exists>sf b c. read_file file os = Some sf \<and>
    cfg_lines G (gw_split G sf [CHR 0x0A]) ([], False, False) = Some (cfg_grps cfg, b, c)"
  using assms by (auto simp: mms_cfg_read_def Let_def split: option.splits)

text \<open>C12: Whatever the file contains, the configuration that is read has only known groups, in each
  only fields that are expected there and each at most once, and no repeated group that may appear
  only once; so each look-up of such a group has one answer.\<close>

theorem cfg_read_typed:
  assumes "mms_cfg_read G dlsym read file os = Some (Some cfg)"
  shows "cfg_typed G (cfg_grps cfg)"
proof -
  from mms_cfg_read_groups [OF assms] obtain sf b c where
    "cfg_lines G (gw_split G sf [CHR 0x0A]) ([], False, False) = Some (cfg_grps cfg, b, c)" by blast
  then show ?thesis by (rule cfg_lines_typed) (simp_all add: cfg_typed_def)
qed

section \<open>Writing a configuration\<close>

text \<open>The text of a configuration: per group an empty line, the group line and a line per field, with
  every value quoted.\<close>

definition escape_value :: "octstr \<Rightarrow> octstr" where
  "escape_value v =
     concat (map (\<lambda>c. if c = CHR 0x22 \<or> c = CHR 0x5C then [CHR 0x5C, c]
                      else if c = CHR 0x0A then [CHR 0x5C, CHR ''n'']
                      else if c = CHR 0x09 then [CHR 0x5C, CHR ''t''] else [c]) v)"

definition field_line :: "octstr \<times> octstr \<Rightarrow> octstr" where
  "field_line fv = fst fv @ CHR ''='' # CHR 0x22 # escape_value (snd fv) @ [CHR 0x22]"

definition group_lines :: "mCfgGrp \<Rightarrow> octstr list" where
  "group_lines g = [] # (''group='' @ g_name g) # map field_line (g_fields g)"

fun join_lines :: "octstr list \<Rightarrow> octstr" where
  "join_lines [] = []"
| "join_lines [l] = l"
| "join_lines (l # ls) = l @ CHR 0x0A # join_lines ls"

definition cfg_text :: "mCfgGrp list \<Rightarrow> octstr" where
  "cfg_text gs = join_lines (concat (map group_lines gs))"

definition group_ok :: "mCfgGrp \<Rightarrow> bool" where
  "group_ok g =
     (case map_of cfg_groups (g_name g) of
        None \<Rightarrow> False
      | Some (_, fs) \<Rightarrow> distinct (map fst (g_fields g)) \<and> list_all (\<lambda>(f, _). f \<in> set fs) (g_fields g))"

definition single_group :: "octstr \<Rightarrow> bool" where
  "single_group n = (case map_of cfg_groups n of Some (False, _) \<Rightarrow> True | _ \<Rightarrow> False)"

definition cfg_ok :: "mCfgGrp list \<Rightarrow> bool" where
  "cfg_ok gs = (list_all group_ok gs \<and> distinct (filter single_group (map g_name gs)))"

text \<open>The characters of group and field names.\<close>

definition name_char :: "char \<Rightarrow> bool" where
  "name_char c = (c = CHR ''-'' \<or> isdigit c \<or> (97 \<le> (of_char c :: nat) \<and> (of_char c :: nat) \<le> 122))"


lemma names_ok:
  "list_all (\<lambda>(n, _, fs). ''group'' \<notin> set fs \<and> list_all (\<lambda>f. f \<noteq> [] \<and> list_all name_char f) (n # fs)) cfg_groups"
  by (simp add: cfg_groups_def config_source_fields_def core_fields_def mbuni_fields_def mmsproxy_fields_def
      mms_vasp_fields_def send_mms_user_fields_def mmsc_fields_def mms_service_fields_def name_char_def isdigit_def)

lemma name_char_facts: "name_char c \<Longrightarrow> \<not> isspace c \<and> c \<noteq> CHR ''='' \<and> c \<noteq> CHR ''#'' \<and> c \<noteq> CHR 0x22 \<and> c \<noteq> CHR 0x0A"
  by (auto simp: name_char_def isspace_def isdigit_def Let_def)

lemma unescape_value_escape: "unescape_value (escape_value v) = Some v"
  by (induction v) (auto simp: escape_value_def)

lemma escape_no_newline: "CHR 0x0A \<notin> set (escape_value v)"
  by (auto simp: escape_value_def split: if_splits)

context gwlib_api
begin

lemma fixup_quoted: "fixup_value G (CHR 0x22 # escape_value v @ [CHR 0x22]) = Some v"
proof -
  have "strip_ws (CHR 0x22 # escape_value v @ [CHR 0x22]) = CHR 0x22 # escape_value v @ [CHR 0x22]"
    by (rule strip_ws_id) (simp add: isspace_def)
  then show ?thesis
    by (simp add: fixup_value_def strip_blanks octstr_get_char_def octstr_delete_def unescape_value_escape)
qed

lemma fixup_name: "s \<noteq> [] \<Longrightarrow> list_all name_char s \<Longrightarrow> fixup_value G s = Some s"
proof -
  assume s: "s \<noteq> []" "list_all name_char s"
  then obtain c t where ct: "s = c # t" by (cases s) auto
  have "\<not> isspace (hd s)" "\<not> isspace (last s)" "c \<noteq> CHR 0x22"
    using s ct name_char_facts hd_in_set [of s] last_in_set [of s] by (auto simp: list_all_iff)
  moreover from this have "strip_ws s = s" by (intro strip_ws_id) simp
  ultimately show ?thesis using ct by (simp add: fixup_value_def strip_blanks octstr_get_char_def)
qed

text \<open>What one line of the form \<open>name=value\<close> does.\<close>

lemma cfg_line_field:
  assumes f: "f \<noteq> []" "list_all name_char f" and v: "v \<noteq> []" "\<not> isspace (last v)"
  shows "cfg_line G (f @ CHR ''='' # v) (gs, grp, False) =
    (case fixup_value G v of
       None \<Rightarrow> None
     | Some value \<Rightarrow>
         if gw_case_compare G f ''group'' = 0
         then if grp then None
              else if is_multigroup G value < 0 then Some (gs, False, True)
              else if is_multigroup G value = 0 \<and> has_group gs value then None
              else Some (gs @ [\<lparr>g_name = value, g_fields = []\<rparr>], True, False)
         else if grp then Some (butlast gs @ [check_and_add_field G (last gs) f value], True, False)
         else None)"
proof -
  let ?l = "f @ CHR ''='' # v"
  obtain c t where ct: "f = c # t" using f(1) by (cases f) auto
  have nc: "name_char x" if "x \<in> set f" for x using that f(2) by (simp add: list_all_iff)
  have "strip_ws ?l = ?l"
    using f(1) v nc name_char_facts hd_in_set [of f] by (intro strip_ws_id) (auto simp: ct)
  moreover have sf: "strip_ws f = f"
    using nc name_char_facts hd_in_set [OF f(1)] last_in_set [OF f(1)] by (intro strip_ws_id) auto
  moreover have "octstr_search_char ?l CHR ''='' 0 = int (length f)"
    by (rule octstr_search_char_split) (use nc name_char_facts in blast)
  moreover have "octstr_get_char ?l 0 = Some c" "c \<noteq> CHR ''#''"
    using ct nc name_char_facts [of c] by (auto simp: octstr_get_char_def)
  ultimately show ?thesis
    using f(1) by (simp add: cfg_line_def strip_blanks octstr_copy_def)
qed

end

lemma cfg_lines_append:
  "cfg_lines G (a @ b) st = (case cfg_lines G a st of None \<Rightarrow> None | Some st' \<Rightarrow> cfg_lines G b st')"
  by (induction a arbitrary: st) (auto split: option.splits)

lemma split_at_join:
  assumes "ls \<noteq> []" and "\<forall>l \<in> set ls. c \<notin> set l" and "c = CHR 0x0A"
  shows "split_at c [] (join_lines ls) = ls"
proof -
  have one: "split_at c acc (l @ c # t) = (acc @ l) # split_at c [] t" if "c \<notin> set l" for acc l t
    using that by (induction l arbitrary: acc) auto
  have last_one: "split_at c acc l = [acc @ l]" if "c \<notin> set l" for acc l
    using that by (induction l arbitrary: acc) auto
  show ?thesis
    using assms(1,2)
    by (induction ls rule: join_lines.induct) (simp_all add: one last_one assms(3) [symmetric])
qed

lemma join_lines_last:
  assumes "ls \<noteq> []" and "last ls \<noteq> []"
  shows "join_lines ls \<noteq> [] \<and> last (join_lines ls) = last (last ls)"
  using assms by (induction ls rule: join_lines.induct) auto

text \<open>The lines of a group that is well-formed.\<close>

lemma group_okD:
  assumes "group_ok g"
  obtains m fs where "(g_name g, m, fs) \<in> set cfg_groups" "distinct (map fst (g_fields g))"
    "\<forall>(f, v) \<in> set (g_fields g). f \<in> set fs" "single_group (g_name g) = (\<not> m)"
proof -
  obtain m fs where "map_of cfg_groups (g_name g) = Some (m, fs)"
    using assms by (auto simp: group_ok_def split: option.splits)
  with assms show thesis
    by (intro that [of m fs]) (auto simp: group_ok_def single_group_def list_all_iff dest: map_of_SomeD)
qed

lemma known_name:
  assumes "(n, m, fs) \<in> set cfg_groups"
  shows "n \<noteq> [] \<and> list_all name_char n"
    and "f \<in> set fs \<Longrightarrow> f \<noteq> [] \<and> list_all name_char f \<and> ci f = f \<and> f \<noteq> ''group''"
  using assms names_ok fields_lower by (auto simp: list_all_iff)

lemma ci_group: "ci ''group'' = ''group''"
  by (simp add: ci_def)

context gwlib_api
begin

lemma cfg_fields:
  assumes known: "(n, m, fs) \<in> set cfg_groups"
    and "\<forall>(f, v) \<in> set fvs. f \<in> set fs" and "distinct (map fst (old @ fvs))"
  shows "cfg_lines G (map field_line fvs) (gs @ [\<lparr>g_name = n, g_fields = old\<rparr>], True, False) =
    Some (gs @ [\<lparr>g_name = n, g_fields = old @ fvs\<rparr>], True, False)"
  using assms(2,3)
proof (induction fvs arbitrary: old)
  case (Cons fv fvs)
  obtain f v where fv: "fv = (f, v)" by force
  then have f: "f \<in> set fs" using Cons.prems(1) by auto
  note kn = known_name(2) [OF known f]
  have "field_line fv = f @ CHR ''='' # (CHR 0x22 # escape_value v @ [CHR 0x22])"
    by (simp add: field_line_def fv)
  moreover have "\<not> isspace (last (CHR 0x22 # escape_value v @ [CHR 0x22]))" by (simp add: isspace_def)
  moreover have "gw_case_compare G f ''group'' \<noteq> 0" using kn ci_group by (simp add: case_compare)
  moreover have "check_and_add_field G \<lparr>g_name = n, g_fields = old\<rparr> f v = \<lparr>g_name = n, g_fields = old @ [(f, v)]\<rparr>"
    using valid_in_known_group [OF gwlib_api_axioms known] kn f Cons.prems(2)
    by (auto simp: check_and_add_field_def dict_get_def fv map_of_eq_None_iff)
  ultimately have "cfg_line G (field_line fv) (gs @ [\<lparr>g_name = n, g_fields = old\<rparr>], True, False) =
      Some (gs @ [\<lparr>g_name = n, g_fields = old @ [(f, v)]\<rparr>], True, False)"
    using kn by (simp add: cfg_line_field fixup_quoted)
  with Cons.IH [of "old @ [(f, v)]"] Cons.prems show ?case by (simp add: fv)
qed simp

lemma cfg_group:
  assumes g: "group_ok g" and new: "single_group (g_name g) \<longrightarrow> \<not> has_group gs (g_name g)"
  shows "cfg_lines G (group_lines g) (gs, opn, skip) = Some (gs @ [g], True, False)"
proof -
  from g obtain m fs where k: "(g_name g, m, fs) \<in> set cfg_groups" "distinct (map fst (g_fields g))"
    "\<forall>(f, v) \<in> set (g_fields g). f \<in> set fs" "single_group (g_name g) = (\<not> m)" by (rule group_okD)
  note kn = known_name(1) [OF k(1)]
  have blank: "cfg_line G [] (gs, opn, skip) = Some (gs, False, False)"
    by (simp add: cfg_line_def strip_blanks strip_ws_def)
  have l: "\<not> isspace (last (g_name g))"
    using kn name_char_facts last_in_set [of "g_name g"] by (auto simp: list_all_iff)
  have "cfg_line G (''group'' @ CHR ''='' # g_name g) (gs, False, False) =
      Some (gs @ [\<lparr>g_name = g_name g, g_fields = []\<rparr>], True, False)"
    using cfg_line_field [of "''group''" "g_name g" gs False] kn l new k(4)
      is_multigroup_known [OF gwlib_api_axioms k(1)]
    by (auto simp: fixup_name case_compare name_char_def)
  moreover have "gs @ [\<lparr>g_name = g_name g, g_fields = g_fields g\<rparr>] = gs @ [g]" by simp
  ultimately show ?thesis
    using cfg_fields [OF k(1), of "g_fields g" "[]" gs] k(2,3) blank
    by (simp add: group_lines_def)
qed

lemma cfg_groups_read:
  assumes "list_all group_ok gs" and "distinct (filter single_group (map g_name (old @ gs)))"
    and "gs \<noteq> []"
  shows "cfg_lines G (concat (map group_lines gs)) (old, opn, skip) = Some (old @ gs, True, False)"
  using assms
proof (induction gs arbitrary: old opn skip)
  case (Cons g gs)
  have "single_group (g_name g) \<longrightarrow> \<not> has_group old (g_name g)"
    using Cons.prems(2) by (auto simp: has_group_def)
  with Cons.prems(1) have "cfg_lines G (group_lines g) (old, opn, skip) = Some (old @ [g], True, False)"
    by (intro cfg_group) simp_all
  moreover have "list_all group_ok gs" "distinct (filter single_group (map g_name ((old @ [g]) @ gs)))"
    using Cons.prems(1,2) by simp_all
  note IH = Cons.IH [OF this, of True False]
  ultimately show ?case using IH by (cases "gs = []") (simp_all add: cfg_lines_append)
qed simp

lemma cfg_text_lines:
  assumes "list_all group_ok gs" and "gs \<noteq> []"
  shows "gw_split G (cfg_text gs) [CHR 0x0A] = concat (map group_lines gs)"
proof -
  let ?ls = "concat (map group_lines gs)"
  have ne: "?ls \<noteq> []" using assms(2) by (cases gs) (simp_all add: group_lines_def)
  have clean: "CHR 0x0A \<notin> set l" if "l \<in> set (group_lines g)" "g \<in> set gs" for l g
  proof -
    from assms(1) that(2) have "group_ok g" by (simp add: list_all_iff)
    then obtain m fs where k: "(g_name g, m, fs) \<in> set cfg_groups"
      "\<forall>(f, v) \<in> set (g_fields g). f \<in> set fs" by (rule group_okD)
    have nn: "CHR 0x0A \<notin> set s" if "list_all name_char s" for s
      using that name_char_facts by (auto simp: list_all_iff)
    show ?thesis
      using that(1) known_name(1) [OF k(1)] known_name(2) [OF k(1)] k(2) nn escape_no_newline
      by (fastforce simp: group_lines_def field_line_def)
  qed
  then have "split_at CHR 0x0A [] (join_lines ?ls) = ?ls"
    using ne by (intro split_at_join) auto
  moreover have "last ?ls \<noteq> [] \<and> last (last ?ls) \<noteq> CHR 0x0A"
  proof -
    obtain g gs' where gs: "gs = gs' @ [g]" using assms(2) by (metis append_butlast_last_id)
    then have "last ?ls \<in> set (group_lines g)" "last ?ls \<noteq> []"
      by (auto simp: group_lines_def field_line_def last_map)
    with clean [of "last ?ls" g] gs show ?thesis using last_in_set by fastforce
  qed
  ultimately show ?thesis
    using join_lines_last [OF ne] split by (simp add: cfg_text_def)
qed

end

text \<open>C9: A configuration written as text, with any bytes in the values, is read back as the same
  groups with the same fields in the same order.\<close>

theorem cfg_roundtrip:
  assumes "gwlib_api G" and "cfg_ok gs" and "gs \<noteq> []" and "\<not> has_group gs ''config-source''"
    and "read_file file os = Some (cfg_text gs)"
  shows "mms_cfg_read G dlsym read file os = Some (Some \<lparr>cfg_grps = gs, xcfg = None\<rparr>)"
proof -
  have "(''config-source'', False, config_source_fields) \<in> set cfg_groups" by (simp add: cfg_groups_def)
  then have "is_multigroup G ''config-source'' = 0" using is_multigroup_known [OF assms(1)] by fastforce
  moreover have "List.find (\<lambda>g. g_name g = ''config-source'') gs = None"
    using assms(4) by (auto simp: has_group_def find_None_iff)
  ultimately show ?thesis
    using gwlib_api.cfg_groups_read [OF assms(1), of gs "[]"] assms(2,3,5)
    by (simp add: mms_cfg_read_def gwlib_api.cfg_text_lines [OF assms(1)] cfg_ok_def mms_cfg_get_single_def)
qed

section \<open>Core settings\<close>

lemma core_group: "(''core'', False, core_fields) \<in> set cfg_groups"
  by (simp add: cfg_groups_def)

lemma core_get:
  assumes "gwlib_api G" and "g_name grp = ''core''" and "xcfg cfg = None"
  shows "ci f = f \<Longrightarrow> mms_cfg_get G cfg grp f =
    (if f \<in> set core_fields then Some (map_of (g_fields grp) f) else None)"
  using assms valid_in_known_group [OF assms(1) core_group]
  by (simp add: mms_cfg_get_def dict_get_def)

lemma core_names:
  "list_all (\<lambda>f. ci f = f) [''http-proxy-host'', ''http-proxy-username'', ''http-proxy-password'',
     ''http-proxy-exceptions'', ''http-proxy-exceptions-regex'', ''http-proxy-port'', ''log-file'', ''log-level'',
     ''access-log'', ''http-interface-name'', ''ssl-client-certkey-file'', ''ssl-server-cert-file'',
     ''ssl-server-key-file'', ''ssl-trusted-ca-file'']"
  by (simp add: ci_def)

text \<open>The core settings are loaded from any \<open>core\<close> group unless it sets \<open>http-proxy-host\<close>: then the
  program panics, whatever else is set, because the field \<open>http-proxy-exceptions-regex\<close> that it asks
  for is not in the table of fields.\<close>

theorem http_proxy_panics:
  assumes "gwlib_api G" and "g_name grp = ''core''" and "xcfg cfg = None"
  shows "mms_load_core_settings G ssl cfg (Some grp) = None \<longleftrightarrow>
    map_of (g_fields grp) ''http-proxy-host'' \<noteq> None"
proof -
  have n: "ci f = f" if "f \<in> set [''http-proxy-host'', ''http-proxy-username'', ''http-proxy-password'',
     ''http-proxy-exceptions'', ''http-proxy-exceptions-regex'', ''http-proxy-port'', ''log-file'', ''log-level'',
     ''access-log'', ''http-interface-name'', ''ssl-client-certkey-file'', ''ssl-server-cert-file'',
     ''ssl-server-key-file'', ''ssl-trusted-ca-file'']" for f
    using core_names that unfolding list_all_iff by blast
  note get = core_get [OF assms n]
  have "core_logs G cfg grp \<noteq> None" "core_ssl G cfg grp \<noteq> None"
    by (auto simp: core_logs_def core_ssl_def mms_cfg_get_int_def get core_fields_def split: option.split prod.split)
  moreover have "core_proxy G cfg grp = None \<longleftrightarrow> map_of (g_fields grp) ''http-proxy-host'' \<noteq> None"
    by (auto simp: core_proxy_def mms_cfg_get_list_def mms_cfg_get_int_def get core_fields_def split: option.split prod.split)
  ultimately show ?thesis
    by (auto simp: mms_load_core_settings_def split: option.split)
qed

text \<open>Names are looked up byte by byte but accepted in any case: a group or field that is written with
  a capital letter is accepted and never found.\<close>

lemma capital_name_lost:
  assumes "gwlib_api G"
  shows "cfg_lines G [''group = CORE'', ''Log-File = x''] ([], False, False) =
      Some ([\<lparr>g_name = ''CORE'', g_fields = [(''Log-File'', ''x'')]\<rparr>], True, False)"
    and "mms_cfg_get_single G \<lparr>cfg_grps = [\<lparr>g_name = ''CORE'', g_fields = fs\<rparr>], xcfg = None\<rparr> ''core'' = Some None"
    and "mms_cfg_get G c \<lparr>g_name = ''core'', g_fields = [(''Log-File'', ''x'')]\<rparr> ''log-file'' = Some None \<or> xcfg c \<noteq> None"
proof -
  have find: "List.find (\<lambda>(n', _, _). gw_case_compare G ''CORE'' n' = 0) cfg_groups =
    List.find (\<lambda>(n', _, _). gw_case_compare G ''core'' n' = 0) cfg_groups"
    by (simp add: gwlib_api.case_compare [OF assms] ci_def)
  have m: "is_multigroup G ''CORE'' = 0" "is_multigroup G ''core'' = 0"
    using is_multigroup_known [OF assms core_group] find by (simp_all add: is_multigroup_def)
  have v: "valid_in_group G ''CORE'' ''Log-File''" "valid_in_group G ''core'' ''log-file''"
    using valid_in_known_group [OF assms core_group] find
    by (simp_all add: valid_in_group_def ci_def core_fields_def)
  show "cfg_lines G [''group = CORE'', ''Log-File = x''] ([], False, False) =
      Some ([\<lparr>g_name = ''CORE'', g_fields = [(''Log-File'', ''x'')]\<rparr>], True, False)"
    using m v
    by (simp add: cfg_line_def gwlib_api.strip_blanks [OF assms] gwlib_api.case_compare [OF assms]
        strip_ws_def isspace_def octstr_search_char_def octstr_get_char_def octstr_copy_def
        fixup_value_def has_group_def check_and_add_field_def dict_get_def ci_def)
  show "mms_cfg_get_single G \<lparr>cfg_grps = [\<lparr>g_name = ''CORE'', g_fields = fs\<rparr>], xcfg = None\<rparr> ''core'' = Some None"
    using m by (simp add: mms_cfg_get_single_def)
  show "mms_cfg_get G c \<lparr>g_name = ''core'', g_fields = [(''Log-File'', ''x'')]\<rparr> ''log-file'' = Some None \<or> xcfg c \<noteq> None"
    using v by (cases "xcfg c") (simp_all add: mms_cfg_get_def dict_get_def)
qed

section \<open>Instances\<close>

definition ex_cfg :: "mCfgGrp list" where
  "ex_cfg = [\<lparr>g_name = ''core'', g_fields = [(''log-file'', ''a\"b'')]\<rparr>, \<lparr>g_name = ''mmsproxy'', g_fields = []\<rparr>]"

definition ex_cfg_os :: os where
  "ex_cfg_os = \<lparr>os_files = [''c'' \<mapsto> 1], os_data = (\<lambda>_. cfg_text ex_cfg), os_fds = Map.empty, os_off = (\<lambda>_. 0),
     os_locks = Map.empty, os_dirs = [], os_next = 2, os_space = 0, os_fault = (\<lambda>_. False), os_tick = 0,
     os_now = 0, os_pid = 0, os_rand = (\<lambda>_. 0), os_rpos = 0\<rparr>"

lemma ex_cfg_ok: "cfg_ok ex_cfg" "ex_cfg \<noteq> []" "\<not> has_group ex_cfg ''config-source''"
  by (simp_all add: cfg_ok_def ex_cfg_def group_ok_def single_group_def cfg_groups_def core_fields_def has_group_def)

lemma ex_cfg_file: "read_file ''c'' ex_cfg_os = Some (cfg_text ex_cfg)"
  by (simp add: read_file_def ex_cfg_os_def)

lemma cfg_roundtrip_witness:
  "mms_cfg_read gwlib_ref (\<lambda>_ _. None :: unit option) (\<lambda>_ _. None) ''c'' ex_cfg_os =
     Some (Some \<lparr>cfg_grps = ex_cfg, xcfg = None\<rparr>)"
  by (rule cfg_roundtrip [OF gwlib_ref_api ex_cfg_ok ex_cfg_file])

lemma ex_cfg_lines:
  "cfg_lines gwlib_ref (gw_split gwlib_ref (cfg_text ex_cfg) [CHR 0x0A]) ([], False, False) = Some (ex_cfg, True, False)"
  using ref.cfg_groups_read [of ex_cfg "[]"] ex_cfg_ok by (simp add: ref.cfg_text_lines cfg_ok_def)

lemma cfg_read_typed_witness: "cfg_typed gwlib_ref ex_cfg"
proof -
  have "mms_cfg_get_single gwlib_ref \<lparr>cfg_grps = ex_cfg, xcfg = None\<rparr> ''config-source'' = Some None"
    using is_multigroup_known [OF gwlib_ref_api, of "''config-source''" False config_source_fields]
    by (simp add: mms_cfg_get_single_def ex_cfg_def cfg_groups_def)
  then have "mms_cfg_read gwlib_ref (\<lambda>_ _. None :: unit option) (\<lambda>_ _. None) ''c'' ex_cfg_os =
      Some (Some \<lparr>cfg_grps = ex_cfg, xcfg = None\<rparr>)"
    using ex_cfg_file ex_cfg_lines by (simp add: mms_cfg_read_def)
  from cfg_read_typed [OF this] show ?thesis by simp
qed

lemma http_proxy_panics_witness:
  "mms_load_core_settings gwlib_ref True \<lparr>cfg_grps = [], xcfg = None\<rparr>
     (Some \<lparr>g_name = ''core'', g_fields = [(''http-proxy-host'', ''h'')]\<rparr>) = None"
  by (subst http_proxy_panics [OF gwlib_ref_api]) simp_all

end
