(* ===== verification/MmscCfg.thy ===== *)
theory MmscCfg
  imports MmsCfg MmsQueue "HOL-Library.Monad_Syntax"
begin

text \<open>
  Parts of \<open>mmsc/mmsc_cfg.c\<close>: the VASPs that are loaded from the configuration and unloaded by the
  administrator, the MM4 proxies, and the URLs from which a handset fetches a message. VASPs are
  objects that several variables point to, so they live in a memory of addresses; a freed one is
  \<open>None\<close> there.
\<close>

section \<open>VASPs\<close>

datatype vasp_type = SOAP_VASP | EAIF_VASP | NONE_VASP

datatype uaprof_type = UAProf_None | UAProf_URL | UAProf_UA

record MM7Version_t =
  ver_major :: int
  ver_minor1 :: int
  ver_minor2 :: int
  use_mm7_namespace :: bool
  ver_xmlns :: string

text \<open>The throughput is in thousandths.\<close>

record MmsVasp =
  vasp_id :: octstr
  short_codes :: "int list"
  vasp_kind :: vasp_type
  vasp_username :: octstr
  vasp_password :: octstr
  vasp_url :: octstr
  send_uaprof :: uaprof_type
  vasp_ver :: MM7Version_t
  throughput :: int
  delete_after :: int
  mo_pdus :: int
  mt_pdus :: int
  mo_errors :: int
  mt_errors :: int
  start_time :: int
  last_pdu :: int

record vasp_registry =
  vasp_mem :: "nat \<Rightarrow> MmsVasp option"
  vasp_next :: nat
  vasp_list :: "(octstr \<times> nat) list"
  vasp_del_list :: "nat list"
  mms2email :: "nat option"
  mms2mobile :: "nat option"

definition DEFAULT_DELETE_AGE :: int where
  "DEFAULT_DELETE_AGE = 10 * 60"

text \<open>\<open>sscanf\<close> with \<open>%d.%d.%d\<close>: the numbers that are not reached stay 0.\<close>

definition scan_int :: "string \<Rightarrow> (int \<times> string) option" where
  "scan_int s =
     (let t = dropWhile isspace s; neg = (take 1 t = ''-'');
          u = (if neg \<or> take 1 t = ''+'' then drop 1 t else t); d = takeWhile isdigit u in
      if d = [] then None
      else Some ((if neg then -1 else 1) * int (read_nat 0 d), drop (length d) u))"

definition scan_dotted :: "string \<Rightarrow> (int \<times> string) option" where
  "scan_dotted s = (case s of c # r \<Rightarrow> if c = CHR ''.'' then scan_int r else None | [] \<Rightarrow> None)"

definition scan_version :: "string \<Rightarrow> int \<times> int \<times> int" where
  "scan_version s =
     (case scan_int s of
        None \<Rightarrow> (0, 0, 0)
      | Some (a, r) \<Rightarrow>
          (case scan_dotted r of
             None \<Rightarrow> (a, 0, 0)
           | Some (b, r') \<Rightarrow> (case scan_dotted r' of None \<Rightarrow> (a, b, 0) | Some (c, _) \<Rightarrow> (a, b, c))))"

text \<open>The short codes, the errors and the warnings. \<open>bad x\<close> says that \<open>errno\<close> is \<open>EINVAL\<close> or \<open>ERANGE\<close>
  after the conversion of \<open>x\<close>, which the C library need not set.\<close>

definition vasp_codes ::
  "gwlib \<Rightarrow> (octstr \<Rightarrow> bool) \<Rightarrow> mCfg \<Rightarrow> mCfgGrp \<Rightarrow> (int list \<times> octstr list \<times> octstr list) option" where
  "vasp_codes G bad cfg grp = do {
     (r, code) \<leftarrow> mms_cfg_get_int G cfg grp ''short-code'' 0;
     if r = 0
     then Some ([code], [], [[CHR 0x27] @ ''short-code'' @ [CHR 0x27] @ '' is deprecated, please use '' @
                             [CHR 0x27] @ ''short-codes'' @ [CHR 0x27]])
     else do {
       s \<leftarrow> mms_cfg_get G cfg grp ''short-codes'';
       Some (case s of
               None \<Rightarrow> ([], [], [])
             | Some s \<Rightarrow>
                 let l = gw_split G s '';''; wrong = (\<lambda>x. atol x = 0 \<and> bad x) in
                 (map atol (filter (\<lambda>x. \<not> wrong x) l),
                  map (\<lambda>x. ''Invalid short-code format: '' @ x) (filter wrong l), [])) } }"

definition vasp_version :: "gwlib \<Rightarrow> mCfg \<Rightarrow> mCfgGrp \<Rightarrow> vasp_type \<Rightarrow> MM7Version_t option" where
  "vasp_version G cfg grp typ = do {
     v \<leftarrow> mms_cfg_get G cfg grp ''mm7-version'';
     ns \<leftarrow> mms_cfg_get G cfg grp ''mm7-soap-xmlns'';
     (_, use_ns) \<leftarrow> mms_cfg_get_bool G cfg grp ''use-mm7-soap-namespace-prefix'' True;
     let (a, b, c) = (case v of
                        Some (x # s) \<Rightarrow> scan_version (x # s)
                      | _ \<Rightarrow> if typ = SOAP_VASP then (5, 3, 0) else if typ = EAIF_VASP then (3, 0, 0) else (0, 0, 0));
     Some \<lparr>ver_major = a, ver_minor1 = b, ver_minor2 = c, use_mm7_namespace = use_ns,
            ver_xmlns = (case ns of Some s \<Rightarrow> take 127 (strncpy 128 s) | None \<Rightarrow> [])\<rparr> }"

definition flag_set :: "gwlib \<Rightarrow> mCfg \<Rightarrow> mCfgGrp \<Rightarrow> octstr \<Rightarrow> bool option" where
  "flag_set G cfg grp name = map_option (\<lambda>(r, b). r = 0 \<and> b) (mms_cfg_get_bool G cfg grp name False)"

definition vasp_uaprof :: "gwlib \<Rightarrow> octstr option \<Rightarrow> uaprof_type \<times> octstr list" where
  "vasp_uaprof G so =
     (case so of
        None \<Rightarrow> (UAProf_None, [])
      | Some s \<Rightarrow>
          if gw_case_compare G s ''url'' = 0 then (UAProf_URL, [])
          else if gw_case_compare G s ''ua'' = 0 then (UAProf_UA, [])
          else (UAProf_None, [''unknown send-uaprof value '' @ [CHR 0x27] @ s @ [CHR 0x27] @
                              ''. Must be \"ua\" or \"url\"!'']))"

text \<open>What the group says of a VASP, with the flags that make it a handler.\<close>

definition vasp_of_conf ::
  "gwlib \<Rightarrow> int \<Rightarrow> mCfg \<Rightarrow> mCfgGrp \<Rightarrow> int list \<Rightarrow> (MmsVasp \<times> bool \<times> bool \<times> octstr list) option" where
  "vasp_of_conf G now cfg grp codes = do {
     vid \<leftarrow> mms_cfg_getx G cfg grp ''vasp-id'';
     tput \<leftarrow> mms_cfg_get G cfg grp ''throughput'';
     username \<leftarrow> mms_cfg_getx G cfg grp ''vasp-username'';
     password \<leftarrow> mms_cfg_getx G cfg grp ''vasp-password'';
     url \<leftarrow> mms_cfg_getx G cfg grp ''vasp-url'';
     ty \<leftarrow> mms_cfg_getx G cfg grp ''type'';
     let kind = (if gw_case_compare G ty ''soap'' = 0 then SOAP_VASP
                 else if gw_case_compare G ty ''eaif'' = 0 then EAIF_VASP else NONE_VASP);
     ver \<leftarrow> vasp_version G cfg grp kind;
     email \<leftarrow> flag_set G cfg grp ''mms-to-email-handler'';
     mobile \<leftarrow> flag_set G cfg grp ''mms-to-local-copy-handler'';
     ua \<leftarrow> mms_cfg_get G cfg grp ''send-uaprof'';
     let (prof, warn) = vasp_uaprof G ua;
     Some (\<lparr>vasp_id = vid, short_codes = codes, vasp_kind = kind, vasp_username = username,
             vasp_password = password, vasp_url = url, send_uaprof = prof, vasp_ver = ver,
             throughput = (case tput of Some s \<Rightarrow> read_milli s | None \<Rightarrow> - 1000), delete_after = 0,
             mo_pdus = 0, mt_pdus = 0, mo_errors = 0, mt_errors = 0, start_time = now, last_pdu = 0\<rparr>,
           email, mobile, warn) }"

definition set_handler :: "bool \<Rightarrow> nat \<Rightarrow> nat option \<Rightarrow> octstr \<Rightarrow> nat option \<times> octstr list" where
  "set_handler flag a old warning =
     (if flag then (Some a, if old \<noteq> None then [warning] else []) else (old, []))"

text \<open>The address of the VASP or \<open>NULL\<close>, the registry, the errors and the warnings.\<close>

definition register_vasp ::
  "MmsVasp \<Rightarrow> bool \<Rightarrow> bool \<Rightarrow> vasp_registry \<Rightarrow> nat option \<times> vasp_registry \<times> octstr list \<times> octstr list" where
  "register_vasp mv email mobile r =
     (let a = vasp_next r;
          (h1, w1) = set_handler email a (mms2email r) ''mms-to-email handler VASP res-et!.'';
          (h2, w2) = set_handler mobile a (mms2mobile r) ''mms-to-mobile copy handler VASP re-set.'';
          r1 = r\<lparr>vasp_mem := (vasp_mem r)(a \<mapsto> mv), vasp_next := a + 1, mms2email := h1, mms2mobile := h2\<rparr>
      in if dict_get (vasp_list r) (vasp_id mv) \<noteq> None
         then (None, r1\<lparr>vasp_mem := (vasp_mem r1)(a := None)\<rparr>,
               [''Failed to load vasp ['' @ vasp_id mv @ '']. ID is not unique!''], w1 @ w2)
         else (Some a, r1\<lparr>vasp_list := vasp_list r @ [(vasp_id mv, a)]\<rparr>, [], w1 @ w2))"

definition mmsc_load_vasp_from_conf ::
  "gwlib \<Rightarrow> (octstr \<Rightarrow> bool) \<Rightarrow> int \<Rightarrow> mCfg \<Rightarrow> mCfgGrp \<Rightarrow> vasp_registry \<Rightarrow>
   (nat option \<times> vasp_registry \<times> octstr list \<times> octstr list) option" where
  "mmsc_load_vasp_from_conf G bad now cfg grp r = do {
     (codes, errs, warns) \<leftarrow> vasp_codes G bad cfg grp;
     if codes = [] then Some (None, r, errs @ [''No valid short codes defined, VASP cannot be loaded''], warns)
     else do {
       (mv, email, mobile, warns2) \<leftarrow> vasp_of_conf G now cfg grp codes;
       let (res, r', errs2, warns1) = register_vasp mv email mobile r;
       Some (res, r', errs @ errs2, warns @ warns1 @ warns2) } }"

text \<open>The list is gone through once, from the front; what is not due goes back to its end.\<close>

definition delete_stale_vasps :: "bool \<Rightarrow> int \<Rightarrow> vasp_registry \<Rightarrow> vasp_registry" where
  "delete_stale_vasps delete_all now r =
     (let due = (\<lambda>a. delete_all \<or> (case vasp_mem r a of Some mv \<Rightarrow> delete_after mv \<le> now | None \<Rightarrow> True))
      in r\<lparr>vasp_mem := (\<lambda>a. if a \<in> set (filter due (vasp_del_list r)) then None else vasp_mem r a),
           vasp_del_list := filter (\<lambda>a. \<not> due a) (vasp_del_list r)\<rparr>)"

definition mmsc_unload_vasp :: "int \<Rightarrow> octstr \<Rightarrow> vasp_registry \<Rightarrow> int \<times> vasp_registry" where
  "mmsc_unload_vasp now ident r =
     (case dict_get (vasp_list r) ident of
        None \<Rightarrow> (-1, r)
      | Some a \<Rightarrow>
          (0, delete_stale_vasps False now
                (r\<lparr>vasp_list := filter (\<lambda>(k, _). k \<noteq> ident) (vasp_list r),
                   mms2email := (if mms2email r = Some a then None else mms2email r),
                   mms2mobile := (if mms2mobile r = Some a then None else mms2mobile r),
                   vasp_mem := (vasp_mem r)(a := map_option (\<lambda>mv. mv\<lparr>delete_after := now + DEFAULT_DELETE_AGE\<rparr>) (vasp_mem r a)),
                   vasp_del_list := vasp_del_list r @ [a]\<rparr>)))"

section \<open>MM4 proxies\<close>

record MmsProxyRelay =
  pr_host :: octstr
  pr_name :: octstr
  pr_allowed_prefix :: octstr
  pr_denied_prefix :: octstr
  pr_confirmed_mm4 :: bool
  pr_sendmail :: "octstr option"
  pr_unified_prefix :: "octstr option"
  pr_strip_prefixes :: "octstr list"

definition proxy_of_conf :: "gwlib \<Rightarrow> mCfg \<Rightarrow> mCfgGrp \<Rightarrow> MmsProxyRelay option" where
  "proxy_of_conf G cfg grp = do {
     host \<leftarrow> mms_cfg_getx G cfg grp ''host'';
     name \<leftarrow> mms_cfg_getx G cfg grp ''name'';
     allowed \<leftarrow> mms_cfg_getx G cfg grp ''allowed-prefix'';
     denied \<leftarrow> mms_cfg_getx G cfg grp ''denied-prefix'';
     (r, confirmed) \<leftarrow> mms_cfg_get_bool G cfg grp ''confirmed-delivery'' False;
     mailer \<leftarrow> mms_cfg_get G cfg grp ''send-mail-prog'';
     unified \<leftarrow> mms_cfg_get G cfg grp ''unified-prefix'';
     strip \<leftarrow> mms_cfg_get G cfg grp ''strip-prefixes'';
     Some \<lparr>pr_host = host, pr_name = name, pr_allowed_prefix = allowed, pr_denied_prefix = denied,
            pr_confirmed_mm4 = (if r < 0 then True else confirmed), pr_sendmail = mailer, pr_unified_prefix = unified,
            pr_strip_prefixes = (case strip of Some s \<Rightarrow> gw_split G s '';'' | None \<Rightarrow> [])\<rparr> }"

fun proxies_of_conf :: "gwlib \<Rightarrow> mCfg \<Rightarrow> mCfgGrp list \<Rightarrow> MmsProxyRelay list option" where
  "proxies_of_conf G cfg [] = Some []"
| "proxies_of_conf G cfg (g # gs) = do {
     m \<leftarrow> proxy_of_conf G cfg g;
     ms \<leftarrow> proxies_of_conf G cfg gs;
     Some (m # ms) }"

definition mms_proxy_relays :: "gwlib \<Rightarrow> mCfg \<Rightarrow> MmsProxyRelay list option" where
  "mms_proxy_relays G cfg = do {
     gl \<leftarrow> mms_cfg_get_multi G cfg ''mmsproxy'';
     proxies_of_conf G cfg gl }"

section \<open>Fetch URLs\<close>

definition MMS_LOC_MMBOX :: int where "MMS_LOC_MMBOX = 1"
definition MMS_LOC_MQUEUE :: int where "MMS_LOC_MQUEUE = 2"

text \<open>The functions of a detokenizer, which may be a plug-in; the outer option is the missing module or
  function.\<close>

record detokenizer =
  mms_detokenize :: "octstr \<Rightarrow> octstr option \<Rightarrow> octstr option"
  mms_gettoken :: "(octstr option \<Rightarrow> octstr option) option"

text \<open>The settings of the MMSC, but for its modules and VASPs; the intervals are in thousandths of a second.\<close>

record MmscSettings =
  s_hostname :: octstr
  s_host_alias :: "octstr option"
  s_port :: int
  s_unified_prefix :: octstr
  s_local_prefix :: "octstr option"
  s_strip_prefixes :: "octstr list"
  s_sendmail :: octstr
  s_global_queuedir :: string
  s_mm1_queuedir :: string
  s_maxsendattempts :: int
  s_mm1_maxsendattempts :: int
  s_default_msgexpiry :: int
  s_max_msgexpiry :: int
  s_send_back_off :: int
  s_sendsms_url :: octstr
  s_detokenizer :: "detokenizer option"
  s_prov_notify :: "octstr option"
  s_prov_getstatus :: "octstr option"
  s_notify_unprovisioned :: bool
  s_optimize_notification_size :: bool
  s_mms_notify_txt :: "octstr option"
  s_mms_notify_unprov_txt :: "octstr option"
  s_mms_email_txt :: "octstr option"
  s_mms_email_html :: "octstr option"
  s_mms_email_subject :: "octstr option"
  s_system_user :: octstr
  s_name :: octstr
  s_maxthreads :: int
  s_queue_interval :: int
  s_mm1_queue_interval :: int
  s_mmbox_rootdir :: string
  s_ua_profile_cache_dir :: string
  s_mm7port :: int
  s_allow_ip :: octstr
  s_deny_ip :: octstr
  s_email2mmsrelay_hosts :: octstr
  s_allow_ip_type :: bool
  s_content_adaptation :: bool
  s_dlr_on_fetch :: bool
  s_mms_toolarge :: octstr
  s_wap_gw_msisdn_header :: "octstr list"
  s_wap_gw_ip_header :: "octstr list"
  s_billing_params :: octstr
  s_resolver_params :: octstr
  s_detokenizer_params :: octstr
  s_svc_list :: "32 word"
  s_admin_port :: int
  s_admin_allow_ip :: "octstr option"
  s_admin_deny_ip :: "octstr option"
  s_admin_pass :: "octstr option"

definition mms_makefetchurl ::
  "gwlib \<Rightarrow> string \<Rightarrow> octstr option \<Rightarrow> int \<Rightarrow> octstr option \<Rightarrow> MmscSettings \<Rightarrow> octstr" where
  "mms_makefetchurl G qf token loc to settings =
     (let plain = s_hostname settings @ '':'' @ show_int (s_port settings);
          hstr = (case s_host_alias settings of
                    Some a \<Rightarrow> if length a > 0 \<and> gw_compare G a (s_hostname settings) \<noteq> 0 then a else plain
                  | None \<Rightarrow> plain);
          endtoken = (case s_detokenizer settings of
                        Some d \<Rightarrow>
                          (case mms_gettoken d of
                             Some gettoken \<Rightarrow> (case gettoken to of Some t \<Rightarrow> t | None \<Rightarrow> ''x'')
                           | None \<Rightarrow> (case token of Some t \<Rightarrow> t | None \<Rightarrow> ''x''))
                      | None \<Rightarrow> (case token of Some t \<Rightarrow> t | None \<Rightarrow> ''x''))
      in ''http://'' @ hstr @ ''/'' @ qf @ ''@'' @ show_int loc @ ''/'' @ gw_url_encode G endtoken)"

fun xfind_one_header :: "gwlib \<Rightarrow> headers \<Rightarrow> octstr list \<Rightarrow> octstr option" where
  "xfind_one_header G req_hdrs [] = None"
| "xfind_one_header G req_hdrs (s # hdr_names) =
     (case gw_header_value G req_hdrs s of
        Some x \<Rightarrow> Some x
      | None \<Rightarrow> xfind_one_header G req_hdrs hdr_names)"

definition mms_find_sender_msisdn ::
  "gwlib \<Rightarrow> octstr \<Rightarrow> octstr option \<Rightarrow> headers \<Rightarrow> octstr list \<Rightarrow> octstr list \<Rightarrow> detokenizer option \<Rightarrow> octstr option" where
  "mms_find_sender_msisdn G send_url ip request_hdrs msisdn_header requestip_header detok =
     (let phonenum = xfind_one_header G request_hdrs msisdn_header in
      if phonenum = None \<or> phonenum = Some []
      then
        let l = gw_split G send_url ''/'';
            xip = (case xfind_one_header G request_hdrs requestip_header of None \<Rightarrow> ip | Some x \<Rightarrow> Some x)
        in case detok of
             Some d \<Rightarrow>
               if length l > 1 \<or> xip \<noteq> None
               then mms_detokenize d (if length l > 1 then l ! (length l - 1) else send_url) xip
               else phonenum
           | None \<Rightarrow> phonenum
      else phonenum)"

definition mms_find_sender_ip :: "gwlib \<Rightarrow> headers \<Rightarrow> octstr list \<Rightarrow> octstr \<Rightarrow> octstr \<times> bool" where
  "mms_find_sender_ip G request_hdrs ip_header ip =
     (let xip = (case xfind_one_header G request_hdrs ip_header of Some c \<Rightarrow> c | None \<Rightarrow> ip)
      in (xip, CHR '':'' \<in> set xip))"

text \<open>The two loops over the URL: back from \<open>i\<close> to a slash, and on from \<open>j\<close> to a slash or the end.\<close>

fun back_to_slash :: "string \<Rightarrow> nat \<Rightarrow> nat" where
  "back_to_slash s 0 = 0"
| "back_to_slash s (Suc i) = (if s ! Suc i \<noteq> CHR ''/'' then back_to_slash s i else Suc i)"

definition to_slash :: "string \<Rightarrow> nat \<Rightarrow> nat" where
  "to_slash s j = j + length (takeWhile (\<lambda>c. c \<noteq> CHR ''/'') (drop j s))"

text \<open>Queue name, token and location. \<open>octstr_copy\<close> of the original URL stops at its end, where the
  duplicate may have one slash more.\<close>

definition mms_decodefetchurl :: "gwlib \<Rightarrow> octstr \<Rightarrow> octstr \<times> octstr \<times> int" where
  "mms_decodefetchurl G fetch_url =
     (let s = (if length (filter (\<lambda>c. c = CHR ''/'') fetch_url) < 2 then fetch_url @ ''/'' else fetch_url);
          n = length s;
          i0 = (case strrchr_split s CHR ''/'' of Some (a, _) \<Rightarrow> length a - 1 | None \<Rightarrow> n - 1);
          i1 = back_to_slash s i0;
          i = (if s ! i1 = CHR ''/'' then i1 + 1 else i1);
          j = to_slash s i;
          qf = octstr_copy fetch_url i (j - i);
          token = (if j < n then octstr_copy fetch_url (j + 1) (n - (j + 1)) else []);
          k = octstr_search_char qf CHR ''@'' 0
      in if k \<ge> 0
         then let (e, l) = gw_parse_long G qf (nat k + 1) 10
              in (octstr_delete qf (nat k) (length qf), token, if e > 0 then l else MMS_LOC_MQUEUE)
         else (qf, token, MMS_LOC_MQUEUE))"

section \<open>Facts on fetch URLs\<close>

lemma back_to_slash_hit:
  "i \<le> j \<Longrightarrow> s ! i = CHR ''/'' \<Longrightarrow> (\<And>k. i < k \<Longrightarrow> k \<le> j \<Longrightarrow> s ! k \<noteq> CHR ''/'') \<Longrightarrow> back_to_slash s j = i"
  by (induction j) (auto simp: le_Suc_eq)

lemma decode_url:
  assumes G: "gwlib_api G" and q: "CHR ''/'' \<notin> set qf" "CHR ''@'' \<notin> set qf" and t: "CHR ''/'' \<notin> set t"
  shows "mms_decodefetchurl G (p @ ''/'' @ qf @ ''@'' @ show_nat k @ ''/'' @ t) = (qf, t, int k)"
proof -
  let ?q = "qf @ ''@'' @ show_nat k" and ?s = "p @ ''/'' @ qf @ ''@'' @ show_nat k @ ''/'' @ t"
  have nq: "CHR ''/'' \<notin> set ?q" using q show_nat_digits [of "CHR ''/''" k] by (auto simp: isdigit_def)
  have s: "?s = (p @ ''/'' @ ?q) @ CHR ''/'' # t" by simp
  have two: "\<not> length (filter (\<lambda>c. c = CHR ''/'') ?s) < 2" by simp
  have "strrchr_split ?s CHR ''/'' = Some (p @ ''/'' @ ?q, t)"
    unfolding s by (rule strrchr_split_append) (rule t)
  moreover have "back_to_slash ?s (length (p @ ''/'' @ ?q) - 1) = length p"
  proof (rule back_to_slash_hit)
    fix j assume j: "length p < j" "j \<le> length (p @ ''/'' @ ?q) - 1"
    then have "?s ! j = ?q ! (j - (length p + 1))"
      unfolding s by (auto simp: nth_append nth_Cons')
    moreover have "?q ! (j - (length p + 1)) \<in> set ?q" using j by (intro nth_mem) simp
    ultimately show "?s ! j \<noteq> CHR ''/''" using nq by metis
  qed simp_all
  moreover have "?s ! length p = CHR ''/''" by simp
  moreover have "to_slash ?s (length p + 1) = length p + 1 + length ?q"
  proof -
    have dr: "drop (length p + 1) ?s = ?q @ CHR ''/'' # t" by simp
    show ?thesis by (simp only: to_slash_def dr takeWhile_hit [OF nq])
  qed
  moreover have "octstr_copy ?s (length p + 1) (length ?q) = ?q" by (simp add: octstr_copy_def)
  moreover have "octstr_copy ?s (length p + 1 + length ?q + 1) (length ?s - (length p + 1 + length ?q + 1)) = t"
  proof -
    have s2: "?s = (p @ ''/'' @ ?q @ ''/'') @ t" and l: "length p + 1 + length ?q + 1 = length (p @ ''/'' @ ?q @ ''/'')"
      by simp_all
    have "drop (length (p @ ''/'' @ ?q @ ''/'')) ((p @ ''/'' @ ?q @ ''/'') @ t) = t" by (rule append_eq_conv_conj [THEN iffD1, THEN conjunct2, symmetric]) simp
    then show ?thesis unfolding octstr_copy_def l s2 by simp
  qed
  moreover have "octstr_search_char ?q CHR ''@'' 0 = int (length qf)"
    using octstr_search_char_split [OF q(2), of "show_nat k"] by simp
  moreover have "gw_parse_long G ?q (length qf + 1) 10 = (int (length ?q), int k)"
    using gwlib_api.parse_long [OF G, of "qf @ ''@''" k] by simp
  moreover have "octstr_delete ?q (length qf) (length ?q) = qf" by (simp add: octstr_delete_def)
  ultimately show ?thesis
    using two by (simp add: mms_decodefetchurl_def Let_def)
qed


section \<open>Pointers to VASPs\<close>

text \<open>Listed and stale VASPs are distinct objects in memory, and the handlers are listed.\<close>

definition registry_ok :: "vasp_registry \<Rightarrow> bool" where
  "registry_ok r =
     (distinct (map snd (vasp_list r) @ vasp_del_list r) \<and> distinct (map fst (vasp_list r)) \<and>
      (\<forall>a \<in> set (map snd (vasp_list r) @ vasp_del_list r). vasp_mem r a \<noteq> None \<and> a < vasp_next r) \<and>
      (\<forall>(k, a) \<in> set (vasp_list r). map_option vasp_id (vasp_mem r a) = Some k) \<and>
      set_option (mms2email r) \<union> set_option (mms2mobile r) \<subseteq> snd ` set (vasp_list r))"

text \<open>What the administrator and the start-up do to the registry. A load is careful when a VASP that is to
  be a handler has an identifier of its own.\<close>

definition careful_load :: "gwlib \<Rightarrow> mCfg \<Rightarrow> mCfgGrp \<Rightarrow> vasp_registry \<Rightarrow> bool" where
  "careful_load G cfg grp r =
     (case mms_cfg_getx G cfg grp ''vasp-id'' of
        Some k \<Rightarrow> dict_get (vasp_list r) k = None \<or>
          flag_set G cfg grp ''mms-to-email-handler'' \<noteq> Some True \<and>
          flag_set G cfg grp ''mms-to-local-copy-handler'' \<noteq> Some True
      | None \<Rightarrow> True)"

inductive registry_step :: "gwlib \<Rightarrow> vasp_registry \<Rightarrow> vasp_registry \<Rightarrow> bool" for G :: gwlib where
  load: "mmsc_load_vasp_from_conf G bad now cfg grp r = Some (res, r', errs, warns) \<Longrightarrow>
         careful_load G cfg grp r \<Longrightarrow> registry_step G r r'"
| unload: "mmsc_unload_vasp now ident r = (res, r') \<Longrightarrow> registry_step G r r'"

inductive registry_reachable :: "gwlib \<Rightarrow> vasp_registry \<Rightarrow> bool" for G :: gwlib where
  start: "vasp_list r = [] \<Longrightarrow> vasp_del_list r = [] \<Longrightarrow> mms2email r = None \<Longrightarrow> mms2mobile r = None \<Longrightarrow>
          registry_reachable G r"
| step: "registry_reachable G r \<Longrightarrow> registry_step G r r' \<Longrightarrow> registry_reachable G r'"

lemma register_ok:
  assumes r: "registry_ok r" and reg: "register_vasp mv email mobile r = (res, r', errs, warns)"
    and careful: "dict_get (vasp_list r) (vasp_id mv) = None \<or> \<not> email \<and> \<not> mobile"
  shows "registry_ok r' \<and> (res = None \<longleftrightarrow> dict_get (vasp_list r) (vasp_id mv) \<noteq> None)"
proof -
  let ?a = "vasp_next r"
  have fresh: "?a \<notin> set (map snd (vasp_list r) @ vasp_del_list r)"
    using r unfolding registry_ok_def by (meson less_irrefl)
  then have fresh2: "\<forall>k. (k, ?a) \<notin> set (vasp_list r)" by force
  show ?thesis
  proof (cases "dict_get (vasp_list r) (vasp_id mv)")
    case None
    then have new: "vasp_id mv \<notin> fst ` set (vasp_list r)"
      by (simp add: dict_get_def map_of_eq_None_iff)
    have r': "vasp_list r' = vasp_list r @ [(vasp_id mv, ?a)]" "vasp_mem r' = (vasp_mem r)(?a \<mapsto> mv)"
      "vasp_next r' = ?a + 1" "vasp_del_list r' = vasp_del_list r" "res = Some ?a"
      "mms2email r' = (if email then Some ?a else mms2email r)"
      "mms2mobile r' = (if mobile then Some ?a else mms2mobile r)"
      using reg None by (auto simp: register_vasp_def set_handler_def Let_def split: if_splits)
    have "\<forall>a \<in> set (map snd (vasp_list r) @ vasp_del_list r). vasp_mem r' a = vasp_mem r a"
      using fresh r'(2) by auto
    then show ?thesis
      using r fresh fresh2 new None unfolding registry_ok_def r'(1,3-) by (auto simp: r'(2) less_Suc_eq)
  next
    case (Some a)
    have r': "vasp_list r' = vasp_list r" "vasp_mem r' = (vasp_mem r)(?a := None)"
      "vasp_next r' = ?a + 1" "vasp_del_list r' = vasp_del_list r" "res = None"
      "mms2email r' = mms2email r" "mms2mobile r' = mms2mobile r"
      using reg Some careful by (auto simp: register_vasp_def set_handler_def Let_def split: if_splits)
    have "\<forall>a \<in> set (map snd (vasp_list r) @ vasp_del_list r). vasp_mem r' a = vasp_mem r a"
      using fresh r'(2) by auto
    then show ?thesis
      using r fresh fresh2 Some unfolding registry_ok_def r'(1,3-) by (auto simp: r'(2) less_Suc_eq)
  qed
qed

lemma delete_stale_ok: "registry_ok r \<Longrightarrow> registry_ok (delete_stale_vasps b now r)"
  by (auto simp: registry_ok_def delete_stale_vasps_def Let_def)

lemma unload_ok:
  assumes r: "registry_ok r" and u: "mmsc_unload_vasp now ident r = (res, r')"
  shows "registry_ok r' \<and> (res = 0 \<longleftrightarrow> dict_get (vasp_list r) ident \<noteq> None)"
proof (cases "dict_get (vasp_list r) ident")
  case None
  with r u show ?thesis by (auto simp: mmsc_unload_vasp_def)
next
  case (Some a)
  define mem where "mem = (vasp_mem r)(a := map_option (\<lambda>mv. mv\<lparr>delete_after := now + DEFAULT_DELETE_AGE\<rparr>) (vasp_mem r a))"
  define r1 where "r1 = r\<lparr>vasp_list := filter (\<lambda>(k, _). k \<noteq> ident) (vasp_list r),
      mms2email := (if mms2email r = Some a then None else mms2email r),
      mms2mobile := (if mms2mobile r = Some a then None else mms2mobile r),
      vasp_mem := mem, vasp_del_list := vasp_del_list r @ [a]\<rparr>"
  have a: "(ident, a) \<in> set (vasp_list r)" using Some by (simp add: dict_get_def map_of_SomeD)
  have inj: "k = k' \<longleftrightarrow> b = b'" if "(k, b) \<in> set (vasp_list r)" "(k', b') \<in> set (vasp_list r)" for k b k' b'
    using r that unfolding registry_ok_def unfolding distinct_append distinct_map inj_on_def
    by (metis fst_conv snd_conv)
  have m: "map_option vasp_id (mem b) = map_option vasp_id (vasp_mem r b)" "mem b = None \<longleftrightarrow> vasp_mem r b = None" for b
    by (simp_all add: mem_def option.map_comp comp_def)
  have others: "b \<noteq> a" if "(k, b) \<in> set (vasp_list r)" "k \<noteq> ident" for k b
    using inj [OF a that(1)] that(2) by auto
  then have others2: "\<forall>k. (k, a) \<in> set (vasp_list r) \<longrightarrow> k = ident" by blast
  have "a \<in> set (map snd (vasp_list r) @ vasp_del_list r)" using a by force
  then have a2: "a < vasp_next r" using r unfolding registry_ok_def by blast
  have handler: "set_option (if h = Some a then None else h) \<subseteq> snd ` set (filter (\<lambda>(k, _). k \<noteq> ident) (vasp_list r))"
    if h: "set_option h \<subseteq> snd ` set (vasp_list r)" for h
  proof
    fix b assume "b \<in> set_option (if h = Some a then None else h)"
    then have b: "h = Some b" "b \<noteq> a" by (auto split: if_splits)
    with h obtain k where k: "(k, b) \<in> set (vasp_list r)" by force
    with inj [OF a k] b(2) have "k \<noteq> ident" by auto
    with k show "b \<in> snd ` set (filter (\<lambda>(k, _). k \<noteq> ident) (vasp_list r))" by force
  qed
  let ?L = "filter (\<lambda>(k, _). k \<noteq> ident) (vasp_list r)"
  have sub: "set ?L \<subseteq> set (vasp_list r)" by auto
  have a3: "a \<notin> snd ` set ?L" using others2 by auto
  have "a \<in> snd ` set (vasp_list r)" using a by force
  moreover have dist: "distinct (map snd (vasp_list r) @ vasp_del_list r)" using r unfolding registry_ok_def by blast
  ultimately have a4: "a \<notin> set (vasp_del_list r)" by auto
  have "distinct (map snd ?L @ vasp_del_list r @ [a])"
    using dist a3 a4 by (auto simp: distinct_map_filter)
  moreover have "distinct (map fst ?L)"
    using r unfolding registry_ok_def by (blast intro: distinct_map_filter)
  moreover have "\<forall>b \<in> set (map snd ?L @ vasp_del_list r @ [a]). vasp_mem r1 b \<noteq> None \<and> b < vasp_next r1"
  proof
    fix b assume "b \<in> set (map snd ?L @ vasp_del_list r @ [a])"
    then have "b \<in> set (map snd (vasp_list r) @ vasp_del_list r)" using a by force
    then have "vasp_mem r b \<noteq> None \<and> b < vasp_next r" using r unfolding registry_ok_def by blast
    then show "vasp_mem r1 b \<noteq> None \<and> b < vasp_next r1" using m by (simp add: r1_def)
  qed
  moreover have "\<forall>(k, b) \<in> set ?L. map_option vasp_id (vasp_mem r1 b) = Some k"
  proof
    fix x assume "x \<in> set ?L"
    then have "x \<in> set (vasp_list r)" by auto
    then show "case x of (k, b) \<Rightarrow> map_option vasp_id (vasp_mem r1 b) = Some k"
      using r m unfolding registry_ok_def r1_def by (cases x) auto
  qed
  moreover have "set_option (mms2email r1) \<union> set_option (mms2mobile r1) \<subseteq> snd ` set ?L"
    using r handler [of "mms2email r"] handler [of "mms2mobile r"]
    unfolding registry_ok_def r1_def by simp
  ultimately have "registry_ok r1"
    unfolding registry_ok_def by (simp add: r1_def)
  then have "registry_ok (delete_stale_vasps False now r1)" by (rule delete_stale_ok)
  moreover have "r' = delete_stale_vasps False now r1" "res = 0"
    using u Some by (simp_all add: mmsc_unload_vasp_def r1_def mem_def)
  ultimately show ?thesis using Some by simp
qed

lemma load_ok:
  assumes r: "registry_ok r" and l: "mmsc_load_vasp_from_conf G bad now cfg grp r = Some (res, r', errs, warns)"
    and c: "careful_load G cfg grp r"
  shows "registry_ok r'"
proof -
  obtain codes es ws where codes: "vasp_codes G bad cfg grp = Some (codes, es, ws)"
    using l by (auto simp: mmsc_load_vasp_from_conf_def split: bind_splits)
  show ?thesis
  proof (cases "codes = []")
    case True
    with l codes r show ?thesis by (simp add: mmsc_load_vasp_from_conf_def)
  next
    case False
    then obtain mv email mobile w where mv: "vasp_of_conf G now cfg grp codes = Some (mv, email, mobile, w)"
      using l codes by (auto simp: mmsc_load_vasp_from_conf_def split: bind_splits)
    then have "mms_cfg_getx G cfg grp ''vasp-id'' = Some (vasp_id mv)"
      "flag_set G cfg grp ''mms-to-email-handler'' = Some email"
      "flag_set G cfg grp ''mms-to-local-copy-handler'' = Some mobile"
      by (auto simp: vasp_of_conf_def Let_def split: bind_splits prod.splits)
    then have "dict_get (vasp_list r) (vasp_id mv) = None \<or> \<not> email \<and> \<not> mobile"
      using c by (simp add: careful_load_def)
    moreover obtain res' e' w' where "register_vasp mv email mobile r = (res', r', e', w')"
      using l codes mv False by (auto simp: mmsc_load_vasp_from_conf_def split: prod.splits)
    ultimately show ?thesis using register_ok r by blast
  qed
qed

text \<open>C17: However VASPs are loaded and unloaded, as long as no VASP that is to be a handler is loaded
  under an identifier that is taken, the registry never points to freed memory: listed VASPs, those that
  wait to be freed and the two handlers are distinct live objects and the handlers are listed.\<close>

theorem vasp_pointers_live:
  assumes "registry_reachable G r"
  shows "registry_ok r"
  using assms
proof induction
  case (step r r')
  from step.hyps(2) step.IH show ?case
    by cases (auto dest: load_ok unload_ok)
qed (simp add: registry_ok_def)

text \<open>Otherwise a handler is left that points to a freed VASP, which the sender follows for the next
  message to a mail address.\<close>

lemma duplicate_handler_dangles:
  assumes "dict_get (vasp_list r) (vasp_id mv) \<noteq> None"
    and "register_vasp mv True mobile r = (res, r', errs, warns)"
  shows "res = None \<and> mms2email r' = Some (vasp_next r) \<and> vasp_mem r' (vasp_next r) = None"
  using assms by (auto simp: register_vasp_def set_handler_def Let_def split: if_splits)

section \<open>Instances\<close>

definition ex_settings :: MmscSettings where
  "ex_settings = \<lparr>s_hostname = ''h'', s_host_alias = None, s_port = 80, s_unified_prefix = [], s_local_prefix = None,
     s_strip_prefixes = [], s_sendmail = ''m %t'', s_global_queuedir = ''g'', s_mm1_queuedir = ''l'',
     s_maxsendattempts = 2, s_mm1_maxsendattempts = 2, s_default_msgexpiry = 9, s_max_msgexpiry = 9,
     s_send_back_off = 1, s_sendsms_url = [], s_detokenizer = None, s_prov_notify = None, s_prov_getstatus = None,
     s_notify_unprovisioned = False, s_optimize_notification_size = False, s_mms_notify_txt = None,
     s_mms_notify_unprov_txt = None, s_mms_email_txt = None, s_mms_email_html = None, s_mms_email_subject = None,
     s_system_user = ''u@h'', s_name = [], s_maxthreads = 1, s_queue_interval = 1000, s_mm1_queue_interval = 1000,
     s_mmbox_rootdir = ''b'', s_ua_profile_cache_dir = ''c'', s_mm7port = -1, s_allow_ip = [], s_deny_ip = [],
     s_email2mmsrelay_hosts = [], s_allow_ip_type = True, s_content_adaptation = True, s_dlr_on_fetch = False,
     s_mms_toolarge = [], s_wap_gw_msisdn_header = [''X-MSISDN''], s_wap_gw_ip_header = [''X-IP''],
     s_billing_params = [], s_resolver_params = [], s_detokenizer_params = [], s_svc_list = 7, s_admin_port = -1,
     s_admin_allow_ip = None, s_admin_deny_ip = None, s_admin_pass = None\<rparr>"


definition ex_vasp_group :: mCfgGrp where
  "ex_vasp_group = \<lparr>g_name = ''mms-vasp'', g_fields = [(''vasp-id'', ''v''), (''short-code'', ''7''),
     (''mms-to-email-handler'', ''yes'')]\<rparr>"

definition ex_registry :: vasp_registry where
  "ex_registry = \<lparr>vasp_mem = (\<lambda>_. None), vasp_next = 0, vasp_list = [], vasp_del_list = [], mms2email = None,
     mms2mobile = None\<rparr>"

lemma vasp_get:
  assumes "gwlib_api G" and "g_name grp = ''mms-vasp''" and "xcfg cfg = None" and "ci f = f"
  shows "mms_cfg_get G cfg grp f = (if f \<in> set mms_vasp_fields then Some (map_of (g_fields grp) f) else None)"
  using assms valid_in_known_group [OF assms(1), of "''mms-vasp''" True mms_vasp_fields f]
  by (simp add: mms_cfg_get_def dict_get_def cfg_groups_def)

lemma ex_vasp_get:
  "ci f = f \<Longrightarrow> mms_cfg_get gwlib_ref \<lparr>cfg_grps = [], xcfg = None\<rparr> ex_vasp_group f =
     (if f \<in> set mms_vasp_fields then Some (map_of (g_fields ex_vasp_group) f) else None)"
  by (rule vasp_get [OF gwlib_ref_api]) (simp_all add: ex_vasp_group_def)

lemma ex_vasp_fields:
  "map_of (g_fields ex_vasp_group) f =
     (if f = ''vasp-id'' then Some ''v'' else if f = ''short-code'' then Some ''7''
      else if f = ''mms-to-email-handler'' then Some ''yes'' else None)"
  by (simp add: ex_vasp_group_def)

lemma ex_code: "gw_parse_long gwlib_ref ''7'' 0 0 = (1, 7)"
  by (simp add: gwlib_ref_def ref_parse_long_def isspace_def isdigit_def digit_val_def)

lemma ex_codes:
  "\<exists>w. vasp_codes gwlib_ref (\<lambda>_. False) \<lparr>cfg_grps = [], xcfg = None\<rparr> ex_vasp_group = Some ([7], [], w)"
  by (simp add: vasp_codes_def mms_cfg_get_int_def ex_vasp_get ex_vasp_fields ci_def mms_vasp_fields_def ex_code)

lemma ex_conf:
  "\<exists>mv w. vasp_of_conf gwlib_ref 5 \<lparr>cfg_grps = [], xcfg = None\<rparr> ex_vasp_group [7] = Some (mv, True, False, w) \<and>
     vasp_id mv = ''v''"
  by (simp add: vasp_of_conf_def vasp_version_def flag_set_def mms_cfg_getx_def mms_cfg_get_bool_def
      ex_vasp_get ex_vasp_fields ci_def mms_vasp_fields_def vasp_uaprof_def ref.case_compare)

lemma ex_load:
  "\<exists>r' errs warns. mmsc_load_vasp_from_conf gwlib_ref (\<lambda>_. False) 5 \<lparr>cfg_grps = [], xcfg = None\<rparr>
       ex_vasp_group ex_registry = Some (Some 0, r', errs, warns) \<and>
     vasp_list r' = [(''v'', 0)] \<and> mms2email r' = Some 0"
  using ex_codes ex_conf
  by (auto simp: mmsc_load_vasp_from_conf_def register_vasp_def set_handler_def ex_registry_def dict_get_def)

lemma vasp_pointers_live_witness: "\<exists>r. vasp_list r = [(''v'', 0)] \<and> mms2email r = Some 0 \<and> registry_ok r"
proof -
  obtain r' errs warns where l: "mmsc_load_vasp_from_conf gwlib_ref (\<lambda>_. False) 5 \<lparr>cfg_grps = [], xcfg = None\<rparr>
      ex_vasp_group ex_registry = Some (Some 0, r', errs, warns)"
    and r': "vasp_list r' = [(''v'', 0)]" "mms2email r' = Some 0"
    using ex_load by blast
  have "registry_reachable gwlib_ref ex_registry"
    by (rule registry_reachable.start) (simp_all add: ex_registry_def)
  moreover have "careful_load gwlib_ref \<lparr>cfg_grps = [], xcfg = None\<rparr> ex_vasp_group ex_registry"
    by (simp add: careful_load_def ex_registry_def dict_get_def split: option.split)
  ultimately have "registry_reachable gwlib_ref r'"
    using l by (blast intro: registry_reachable.step registry_step.load)
  from vasp_pointers_live [OF this] r' show ?thesis by blast
qed

end
