(* ===== verification/World.thy ===== *)
theory World
  imports MmscCfg
begin

text \<open>
  What lies outside the MMSC processes, as the senders and handlers use it: the clock, the random
  number generator, commands run through a shell, HTTP requests to other servers and the access log;
  and the queue module, which the code calls through a table of functions. All of it acts on one state
  \<open>'s\<close>, the rest of the world, that is passed along; \<open>None\<close> stands for a panic.
\<close>

section \<open>Calls to the outside\<close>

datatype popen_result = Popen_failed | Print_failed | Exited int

record log_entry =
  l_msg :: octstr
  l_from :: "octstr option"
  l_to :: "octstr list"
  l_size :: int
  l_msgid :: "octstr option"
  l_acct :: "octstr option"
  l_proxy :: "octstr option"
  l_interface :: octstr
  l_ua :: "octstr option"
  l_mmbox :: "octstr option"

text \<open>\<open>x_popen_read\<close> runs a command and gives all that it writes, or \<open>None\<close> when it cannot be run;
  \<open>x_system\<close> gives the wait status, negative when it cannot be run; \<open>x_udp\<close> sends a packet to an address and port, unless there is
  no socket; \<open>x_errno\<close> gives \<open>errno\<close> and its text.\<close>

record 's env =
  x_time :: "'s \<Rightarrow> int \<times> 's"
  x_random :: "'s \<Rightarrow> nat \<times> 's"
  x_popen :: "octstr \<Rightarrow> octstr \<Rightarrow> 's \<Rightarrow> popen_result \<times> 's"
  x_popen_read :: "octstr \<Rightarrow> 's \<Rightarrow> octstr option \<times> 's"
  x_system :: "octstr \<Rightarrow> 's \<Rightarrow> int \<times> 's"
  x_fetch :: "octstr \<Rightarrow> headers \<Rightarrow> octstr option \<Rightarrow> 's \<Rightarrow> (int \<times> headers \<times> octstr) \<times> 's"
  x_udp :: "octstr \<Rightarrow> int \<Rightarrow> octstr \<Rightarrow> 's \<Rightarrow> bool \<times> 's"
  x_log :: "log_entry \<Rightarrow> 's \<Rightarrow> 's"
  x_errno :: "'s \<Rightarrow> int \<times> octstr"

text \<open>\<open>fgets\<close> with a buffer of \<open>n + 1\<close> bytes, when there is something to read.\<close>

definition first_line :: "nat \<Rightarrow> octstr \<Rightarrow> octstr" where
  "first_line n s =
     (let p = takeWhile (\<lambda>c. c \<noteq> CHR 0x0A) s in take n (if length p < length s then p @ [CHR 0x0A] else p))"

lemma first_line_pos: "s \<noteq> [] \<Longrightarrow> 0 < n \<Longrightarrow> 0 < length (first_line n s)"
  by (cases s) (auto simp: first_line_def Let_def)

text \<open>The exit status of a wait status.\<close>

definition WEXITSTATUS :: "int \<Rightarrow> int" where
  "WEXITSTATUS x = (x div 256) mod 256"

text \<open>\<open>mms_log\<close>: phone numbers are written without their type.\<close>

definition strip_plmn :: "gwlib \<Rightarrow> octstr \<Rightarrow> octstr" where
  "strip_plmn G a =
     (let j = gw_case_search G a ''/TYPE=PLMN'' 0 in if j \<ge> 0 then octstr_delete a (nat j) (length a) else a)"

definition mms_log ::
  "gwlib \<Rightarrow> 's env \<Rightarrow> octstr \<Rightarrow> octstr option \<Rightarrow> octstr list \<Rightarrow> int \<Rightarrow> octstr option \<Rightarrow> octstr option \<Rightarrow>
   octstr option \<Rightarrow> octstr \<Rightarrow> octstr option \<Rightarrow> octstr option \<Rightarrow> 's \<Rightarrow> 's" where
  "mms_log G X logmsg from to msize msgid acct viaproxy interf ua mmboxloc =
     x_log X \<lparr>l_msg = logmsg, l_from = map_option (strip_plmn G) from, l_to = map (strip_plmn G) to, l_size = msize,
              l_msgid = msgid, l_acct = acct, l_proxy = viaproxy, l_interface = interf, l_ua = ua, l_mmbox = mmboxloc\<rparr>"

definition mms_log2 ::
  "gwlib \<Rightarrow> 's env \<Rightarrow> octstr \<Rightarrow> octstr option \<Rightarrow> octstr option \<Rightarrow> int \<Rightarrow> octstr option \<Rightarrow> octstr option \<Rightarrow>
   octstr option \<Rightarrow> octstr \<Rightarrow> octstr option \<Rightarrow> octstr option \<Rightarrow> 's \<Rightarrow> 's" where
  "mms_log2 G X logmsg from to msize msgid acct viaproxy interf ua mmboxloc =
     mms_log G X logmsg from (case to of Some t \<Rightarrow> [t] | None \<Rightarrow> []) msize msgid acct viaproxy interf ua mmboxloc"

section \<open>The queue module\<close>

text \<open>The part of \<open>MmsQueueHandlerFuncs\<close> that the senders use.\<close>

record 's qfs =
  qfs_add :: "envelope_args \<Rightarrow> MmsMsg \<Rightarrow> string \<Rightarrow> 's \<Rightarrow> (octstr option \<times> 's) option"
  qfs_update :: "MmsEnvelope \<Rightarrow> 's \<Rightarrow> int \<times> MmsEnvelope option \<times> 's"
  qfs_getdata :: "MmsEnvelope \<Rightarrow> 's \<Rightarrow> MmsMsg option"
  qfs_replacedata :: "MmsEnvelope \<Rightarrow> MmsMsg \<Rightarrow> 's \<Rightarrow> (int \<times> 's) option"
  qfs_free_env :: "MmsEnvelope \<Rightarrow> 's \<Rightarrow> 's"

text \<open>What a sender may change of an envelope is kept by an update, up to the handle of the module and
  the expiry that it fills in.\<close>

definition same_message :: "MmsEnvelope \<Rightarrow> MmsEnvelope \<Rightarrow> bool" where
  "same_message e e' = (\<exists>fd t. e' = e\<lparr>q_fd := fd, e_expiryt := t\<rparr> \<and> (0 < e_expiryt e \<longrightarrow> t = e_expiryt e))"

locale queue_module =
  fixes Q :: "'s qfs"
  assumes update_settled: "(\<forall>t \<in> set (e_to e). \<not> process t) \<Longrightarrow> \<exists>s'. qfs_update Q e s = (1, None, s')"
    and update_pending: "t \<in> set (e_to e) \<Longrightarrow> process t \<Longrightarrow>
      \<exists>r e' s'. qfs_update Q e s = (r, Some e', s') \<and> r \<noteq> 1 \<and> same_message e e'"
begin

text \<open>An update says 1 exactly when no recipient is left, and then the envelope is gone.\<close>

lemma update_cases:
  obtains (gone) s' where "qfs_update Q e s = (1, None, s')" and "\<forall>t \<in> set (e_to e). \<not> process t"
  | (kept) r e' s' where "qfs_update Q e s = (r, Some e', s')" and "r \<noteq> 1" and "same_message e e'"
      and "\<exists>t \<in> set (e_to e). process t"
  using update_settled [of e s] update_pending [of _ e s] by blast

end

text \<open>The file queue: its state is the counter of \<open>mkqf\<close> and the operating system.\<close>

definition file_qfs :: "gwlib \<Rightarrow> (octstr \<Rightarrow> MmsMsg option) \<Rightarrow> (nat \<times> os) qfs" where
  "file_qfs G frombinary = \<lparr>
     qfs_add = (\<lambda>a m dir (ect, os). map_option (\<lambda>(r, ect', os'). (r, (ect', os'))) (mms_queue_add G a m dir ect os)),
     qfs_update = (\<lambda>e (ect, os). let (r, e', os') = mms_queue_update e os in (r, e', (ect, os'))),
     qfs_getdata = (\<lambda>e (ect, os). mms_queue_getdata frombinary e os),
     qfs_replacedata = (\<lambda>e m (ect, os). map_option (\<lambda>(r, os'). (r, (ect, os'))) (mms_queue_replacedata G e m os)),
     qfs_free_env = (\<lambda>e (ect, os). (ect, free_envelope e False os))\<rparr>"

lemma writeenvelope_result:
  assumes "writeenvelope e False os = (r, e', os')"
  shows "(r = 0 \<or> r = -1) \<and> e' = e\<lparr>q_fd := q_fd e'\<rparr>"
  using assms by (auto simp: writeenvelope_def Let_def split: prod.splits option.splits if_splits bool.splits)

lemma file_update:
  "qfs_update (file_qfs G fb) e s = (let (r, e', os') = mms_queue_update e (snd s) in (r, e', (fst s, os')))"
  by (cases s) (simp add: file_qfs_def)

interpretation file_module: queue_module "file_qfs G frombinary"
proof unfold_locales
  fix e :: MmsEnvelope and s :: "nat \<times> os"
  assume "\<forall>t \<in> set (e_to e). \<not> process t"
  then show "\<exists>s'. qfs_update (file_qfs G frombinary) e s = (1, None, s')"
    by (auto simp: file_update mms_queue_update_def Let_def)
next
  fix t and e :: MmsEnvelope and s :: "nat \<times> os"
  assume t: "t \<in> set (e_to e)" "process t"
  define e1 where "e1 = (if e_expiryt e \<le> 0 then e\<lparr>e_expiryt := os_now (snd s) + DEFAULT_EXPIRE\<rparr> else e)"
  have "e_to e1 = e_to e" by (simp add: e1_def)
  obtain r e' os' where w: "writeenvelope e1 False (snd s) = (r, e', os')" by (metis prod_cases3)
  have "mms_queue_update e (snd s) = (r, Some e', os')"
    using t w \<open>e_to e1 = e_to e\<close> by (auto simp: mms_queue_update_def e1_def [symmetric] Let_def)
  moreover have "same_message e e'"
  proof -
    obtain fd where fd: "e' = e1\<lparr>q_fd := fd\<rparr>" using writeenvelope_result [OF w] by blast
    then have "e' = e\<lparr>q_fd := fd, e_expiryt := e_expiryt e1\<rparr>" by (simp add: e1_def)
    moreover have "0 < e_expiryt e \<longrightarrow> e_expiryt e1 = e_expiryt e" by (simp add: e1_def)
    ultimately show ?thesis unfolding same_message_def by blast
  qed
  ultimately show "\<exists>r e' s'. qfs_update (file_qfs G frombinary) e s = (r, Some e', s') \<and> r \<noteq> 1 \<and> same_message e e'"
    using writeenvelope_result [OF w] by (auto simp: file_update)
qed

end
