(* ===== verification/MmsEmail.thy ===== *)
theory MmsEmail
  imports World
begin

text \<open>
  Sending a message by mail, \<open>send2email\<close> and \<open>mms_sendtoemail\<close> of \<open>mmlib/mms_util.c\<close>: to a mail
  recipient, reformatted, or to another MMSC over the MM4 interface. \<open>fmt\<close> is \<open>format_special\<close>, the
  content adapter of \<open>mms_uaprof.c\<close>. Results carry the status, the error text and the world.
\<close>

definition MMS_SEND_OK :: int where "MMS_SEND_OK = 0"
definition MMS_SEND_QUEUED :: int where "MMS_SEND_QUEUED = 1"
definition MMS_SEND_ERROR_TRANSIENT :: int where "MMS_SEND_ERROR_TRANSIENT = -1"
definition MMS_SEND_ERROR_FATAL :: int where "MMS_SEND_ERROR_FATAL = -2"

lemmas send_codes = MMS_SEND_OK_def MMS_SEND_QUEUED_def MMS_SEND_ERROR_TRANSIENT_def MMS_SEND_ERROR_FATAL_def

text \<open>The \<open>%\<close> letters of a mail command; the code panics on one whose value is \<open>NULL\<close>.\<close>

fun mail_letters :: "string \<Rightarrow> char list" where
  "mail_letters [] = []"
| "mail_letters [c] = []"
| "mail_letters (c # d # r) = (if c \<noteq> CHR ''%'' then mail_letters (d # r) else d # mail_letters r)"

definition or_empty :: "octstr option \<Rightarrow> octstr" where
  "or_empty so = (case so of Some s \<Rightarrow> s | None \<Rightarrow> [])"

text \<open>The value of \<open>%S\<close> for \<open>NULL\<close>.\<close>

definition show_octstr :: "octstr option \<Rightarrow> octstr" where
  "show_octstr so = (case so of Some s \<Rightarrow> s | None \<Rightarrow> ''(null)'')"

definition errno_text :: "'s env \<Rightarrow> 's \<Rightarrow> octstr" where
  "errno_text X s = (case x_errno X s of (n, t) \<Rightarrow> show_int n @ '': '' @ t)"

type_synonym 's sent = "(int \<times> octstr option \<times> 's) option"

definition send2email ::
  "gwlib \<Rightarrow> 's env \<Rightarrow> octstr \<Rightarrow> octstr \<Rightarrow> octstr option \<Rightarrow> octstr option \<Rightarrow> mime \<Rightarrow> bool \<Rightarrow> string \<Rightarrow> octstr \<Rightarrow>
   's \<Rightarrow> 's sent" where
  "send2email G X to from subject msgid m append_hostname sendmail_cmd myhostname w =
     (if subject = None \<and> CHR ''s'' \<in> set (mail_letters sendmail_cmd) \<or>
         msgid = None \<and> CHR ''m'' \<in> set (mail_letters sendmail_cmd)
      then None
      else
        let headers = email_headers G (mime_headers m) append_hostname myhostname;
            body = gw_mime_to_octstr G (Mime headers (mime_parts m) (mime_body m));
            cmd = mail_command G to from (or_empty subject) (or_empty msgid) append_hostname myhostname sendmail_cmd;
            (res, w1) = x_popen X cmd body w
        in case res of
             Popen_failed \<Rightarrow> Some (MMS_SEND_ERROR_TRANSIENT, Some (''popen failed for '' @ cmd @ '': '' @ errno_text X w1), w1)
           | Print_failed \<Rightarrow> Some (MMS_SEND_ERROR_TRANSIENT, Some (''send email failed in octstr_print '' @ errno_text X w1), w1)
           | Exited ret \<Rightarrow>
               if ret \<noteq> 0
               then Some (MMS_SEND_ERROR_TRANSIENT,
                      Some (''Send email command returned non-zero '' @ show_int ret @ '': errno='' @ snd (x_errno X w1)), w1)
               else Some (MMS_SEND_QUEUED, None, w1))"

text \<open>Quoted unless it starts with a quote.\<close>

definition quote_unless_quoted :: "octstr \<Rightarrow> octstr" where
  "quote_unless_quoted s = (if octstr_get_char s 0 = Some CHR 0x22 then s else CHR 0x22 # s @ [CHR 0x22])"

text \<open>The headers for a mail recipient: what is removed from the message, and what is added.\<close>

definition mm3_headers :: "octstr option \<Rightarrow> octstr \<Rightarrow> octstr \<Rightarrow> octstr option \<Rightarrow> headers" where
  "mm3_headers subject from to msgid =
     [(''Subject'', case subject of Some s \<Rightarrow> s | None \<Rightarrow> ''MMS Message''), (''From'', from), (''To'', to),
      (''Message-ID'', or_empty msgid), (''MIME-Version'', ''1.0'')]"

text \<open>The MM4 request that carries a message of this type, the message headers that are left and the
  headers that are added before those all requests have.\<close>

definition mm4_request :: "gwlib \<Rightarrow> int \<Rightarrow> octstr \<Rightarrow> headers \<Rightarrow> (octstr \<times> headers \<times> headers) option" where
  "mm4_request G mtype to headers =
     (if mtype = MMS_MSGTYPE_SEND_REQ \<or> mtype = MMS_MSGTYPE_RETRIEVE_CONF
      then Some (''MM4_forward.REQ'', headers, [])
      else if mtype = MMS_MSGTYPE_DELIVERY_IND
      then Some (''MM4_delivery_report.REQ'', gw_header_remove_all G headers ''X-Mms-Status'',
             [(''To'', to), (''X-Mms-MM-Status-Code'',
                case gw_header_value G headers ''X-Mms-Status'' of Some s \<Rightarrow> s | None \<Rightarrow> ''Unrecognised'')])
      else if mtype = MMS_MSGTYPE_READ_REC_IND
      then Some (''MM4_read_reply_report.REQ'', headers, [(''To'', to)])
      else None)"

definition mm4_message_ids :: "gwlib \<Rightarrow> octstr option \<Rightarrow> headers \<Rightarrow> headers \<times> headers" where
  "mm4_message_ids G msgid headers =
     (let own = (case msgid of Some i \<Rightarrow> [(''X-Mms-Message-ID'', quote_unless_quoted i)] | None \<Rightarrow> [])
      in case gw_header_value G headers ''Message-ID'' of
           Some y \<Rightarrow> (gw_header_remove_all G headers ''Message-ID'',
                      own @ [(''Message-ID'', if octstr_get_char y 0 \<noteq> Some CHR ''<'' then CHR ''<'' # y @ ''>'' else y)])
         | None \<Rightarrow> (headers, own))"

text \<open>\<open>None\<close> is a message type that has no MM4 request.\<close>

definition mm4_headers ::
  "gwlib \<Rightarrow> int \<Rightarrow> octstr \<Rightarrow> octstr \<Rightarrow> octstr option \<Rightarrow> bool \<Rightarrow> octstr option \<Rightarrow> octstr \<Rightarrow> headers \<Rightarrow>
   (headers \<times> headers) option" where
  "mm4_headers G mtype from to msgid dlr transid myhostname headers =
     (let (h1, ids) = mm4_message_ids G msgid headers in
      case mm4_request G mtype to (gw_header_remove_all G h1 ''X-Mms-Message-Type'') of
        None \<Rightarrow> None
      | Some (x, h2, added) \<Rightarrow>
          Some (h2, ids @
            [(''X-Mms-3GPP-MMS-Version'', ''5.5.0''), (''X-Mms-Originator-System'', ''system-user@'' @ myhostname)] @
            added @
            [(''X-Mms-Message-Type'', x), (''X-Mms-Ack-Request'', if dlr then ''Yes'' else ''No''), (''Sender'', from),
             (''X-Mms-Transaction-ID'', case transid of Some t \<Rightarrow> quote_unless_quoted t
                                        | None \<Rightarrow> CHR 0x22 # ''x'' @ [CHR 0x22])]))"

definition mms_sendtoemail ::
  "gwlib \<Rightarrow> 's env \<Rightarrow> (mime \<Rightarrow> bool \<Rightarrow> octstr option \<Rightarrow> octstr option \<Rightarrow> 's \<Rightarrow> mime \<times> 's) \<Rightarrow> octstr \<Rightarrow> octstr \<Rightarrow>
   octstr option \<Rightarrow> octstr option \<Rightarrow> MmsMsg option \<Rightarrow> bool \<Rightarrow> string \<Rightarrow> octstr \<Rightarrow> bool \<Rightarrow> bool \<Rightarrow> octstr option \<Rightarrow>
   octstr option \<Rightarrow> bool \<Rightarrow> octstr option \<Rightarrow> headers \<Rightarrow> 's \<Rightarrow> 's sent" where
  "mms_sendtoemail G X fmt from to subject msgid mo dlr sendmail_cmd myhostname trans_msg trans_smil txt html
     mm4 transid extra_headers w =
     (case mo of
        None \<Rightarrow> None
      | Some msg \<Rightarrow>
          if octstr_search_char to CHR ''@'' 0 < 0
          then Some (MMS_SEND_ERROR_FATAL, Some (''Invalid email address '' @ to @ ''!''), w)
          else
            let (m0, w1) = (if trans_msg then fmt (mms_tomime G msg False) trans_smil txt html w
                            else (mms_tomime G msg False, w));
                m = base64_mimeparts G m0 False;
                newhdrs = gw_header_combine G [] extra_headers;
                headers = mime_headers m
            in if \<not> mm4
               then
                 let old = gw_header_remove_all G (gw_header_remove_all G headers ''From'') ''To'';
                     hs = gw_header_combine G old (newhdrs @ mm3_headers subject from to msgid)
                 in send2email G X to from subject msgid (Mime hs (mime_parts m) (mime_body m)) True sendmail_cmd
                      myhostname w1
               else
                 case mm4_headers G (m_message_type msg) from to msgid dlr transid myhostname headers of
                   None \<Rightarrow> Some (MMS_SEND_ERROR_FATAL,
                             Some (''Invalid message type '' @ show_octstr (mms_message_type_to_cstr (m_message_type msg)) @
                                   '' on MM4 outgoing interface!''), w1)
                 | Some (old, added) \<Rightarrow>
                     send2email G X to from subject msgid
                       (Mime (gw_header_combine G old (newhdrs @ added)) (mime_parts m) (mime_body m))
                       False sendmail_cmd myhostname w1)"

end
