(* ===== verification/MmsMm7soap.thy ===== *)
theory MmsMm7soap
  imports MmsDecode MmsEmail
begin

text \<open>
  MM7 messages, \<open>mmlib/mms_mm7soap.c\<close>: a SOAP message is a list of headers, made of the elements of an XML document, and
  a MIME entity. Reading and writing of the document, and the conversion between SOAP and MMS messages. The XML parser
  (libxml) and some functions of gwlib on dates and entities are arguments. \<open>None\<close> stands for a failed assertion.
\<close>

section \<open>Documents\<close>

datatype xml = Element string "(string \<times> string) list" "xml list" | Text string | Comment string

text \<open>The nodes of a document, the first part of a multipart entity or the one that its parameter names, the body of an
  entity, the headers and the text of an entity, times in ISO format, and the dates of \<open>mms_frommime\<close>.\<close>

record soap_lib =
  so_xml :: "octstr \<Rightarrow> xml list option"
  so_start :: "mime \<Rightarrow> mime option"
  so_body :: "mime \<Rightarrow> octstr option"
  so_print :: "mime \<Rightarrow> headers \<times> octstr"
  so_parse_iso :: "octstr \<Rightarrow> int option"
  so_show_iso :: "int \<Rightarrow> octstr"
  so_gmt :: "octstr \<Rightarrow> octstr"

definition node_content :: "xml \<Rightarrow> string" where
  "node_content n = (case n of Element _ _ (Text s # _) \<Rightarrow> s | Element _ _ (Comment s # _) \<Rightarrow> s | Element _ _ _ \<Rightarrow> [] | Text s \<Rightarrow> s | Comment s \<Rightarrow> s)"

definition is_element :: "xml \<Rightarrow> bool" where
  "is_element n = (case n of Element _ _ _ \<Rightarrow> True | _ \<Rightarrow> False)"

definition has_node_children :: "xml \<Rightarrow> bool" where
  "has_node_children n = (case n of Element _ _ kids \<Rightarrow> list_ex is_element kids | _ \<Rightarrow> False)"

section \<open>Times\<close>

definition unit_seconds :: "bool \<Rightarrow> char \<Rightarrow> int" where
  "unit_seconds secs c =
     (if c = CHR ''Y'' then 31557600
      else if c = CHR ''M'' then if secs then 60 else 30 * 24 * 3600
      else if c = CHR ''D'' then 24 * 3600
      else if c = CHR ''H'' then 3600
      else if c = CHR ''S'' then 1
      else 0)"

text \<open>A number and its unit at position \<open>i\<close>; each round consumes a byte, so the length of the text is fuel enough.\<close>

fun parse_interval :: "gwlib \<Rightarrow> nat \<Rightarrow> octstr \<Rightarrow> nat \<Rightarrow> bool \<Rightarrow> int \<Rightarrow> int" where
  "parse_interval G 0 p i secs t = t"
| "parse_interval G (Suc k) p i secs t =
     (if length p \<le> i then t
      else
        let at_T = (p ! i = CHR ''T''); secs' = (secs \<or> at_T); (e, n) = gw_parse_long G p (if at_T then i + 1 else i) 10 in
        if e < 0 then t
        else parse_interval G k p (nat e + 1) secs'
               (t + (case octstr_get_char p e of Some c \<Rightarrow> unit_seconds secs' c * n | None \<Rightarrow> 0)))"

definition parse_time :: "gwlib \<Rightarrow> soap_lib \<Rightarrow> int \<Rightarrow> string \<Rightarrow> int" where
  "parse_time G L tnow s =
     (let p = gw_strip_blanks G s in
      if take 1 s \<noteq> ''P'' then (case so_parse_iso L p of Some t \<Rightarrow> t | None \<Rightarrow> tnow)
      else parse_interval G (length p) p 1 False tnow)"

section \<open>Tags\<close>

abbreviation (input) MM7_TAG_Bcc :: int where "MM7_TAG_Bcc \<equiv> 0"
abbreviation (input) MM7_TAG_CancelReq :: int where "MM7_TAG_CancelReq \<equiv> 1"
abbreviation (input) MM7_TAG_CancelRsp :: int where "MM7_TAG_CancelRsp \<equiv> 2"
abbreviation (input) MM7_TAG_Cc :: int where "MM7_TAG_Cc \<equiv> 3"
abbreviation (input) MM7_TAG_Content :: int where "MM7_TAG_Content \<equiv> 5"
abbreviation (input) MM7_TAG_Date :: int where "MM7_TAG_Date \<equiv> 6"
abbreviation (input) MM7_TAG_DeliverReq :: int where "MM7_TAG_DeliverReq \<equiv> 7"
abbreviation (input) MM7_TAG_DeliverRsp :: int where "MM7_TAG_DeliverRsp \<equiv> 8"
abbreviation (input) MM7_TAG_DeliveryReportReq :: int where "MM7_TAG_DeliveryReportReq \<equiv> 9"
abbreviation (input) MM7_TAG_DeliveryReportRsp :: int where "MM7_TAG_DeliveryReportRsp \<equiv> 10"
abbreviation (input) MM7_TAG_EarliestDeliveryTime :: int where "MM7_TAG_EarliestDeliveryTime \<equiv> 12"
abbreviation (input) MM7_TAG_ExpiryDate :: int where "MM7_TAG_ExpiryDate \<equiv> 13"
abbreviation (input) MM7_TAG_MM7Version :: int where "MM7_TAG_MM7Version \<equiv> 15"
abbreviation (input) MM7_TAG_Number :: int where "MM7_TAG_Number \<equiv> 20"
abbreviation (input) MM7_TAG_RFC2822Address :: int where "MM7_TAG_RFC2822Address \<equiv> 22"
abbreviation (input) MM7_TAG_RSErrorRsp :: int where "MM7_TAG_RSErrorRsp \<equiv> 23"
abbreviation (input) MM7_TAG_ReadReplyReq :: int where "MM7_TAG_ReadReplyReq \<equiv> 24"
abbreviation (input) MM7_TAG_ReadReplyRsp :: int where "MM7_TAG_ReadReplyRsp \<equiv> 25"
abbreviation (input) MM7_TAG_Recipient :: int where "MM7_TAG_Recipient \<equiv> 26"
abbreviation (input) MM7_TAG_Recipients :: int where "MM7_TAG_Recipients \<equiv> 27"
abbreviation (input) MM7_TAG_ReplaceReq :: int where "MM7_TAG_ReplaceReq \<equiv> 28"
abbreviation (input) MM7_TAG_ReplaceRsp :: int where "MM7_TAG_ReplaceRsp \<equiv> 29"
abbreviation (input) MM7_TAG_ReplyCharging :: int where "MM7_TAG_ReplyCharging \<equiv> 30"
abbreviation (input) MM7_TAG_Sender :: int where "MM7_TAG_Sender \<equiv> 32"
abbreviation (input) MM7_TAG_SenderAddress :: int where "MM7_TAG_SenderAddress \<equiv> 33"
abbreviation (input) MM7_TAG_SenderIdentification :: int where "MM7_TAG_SenderIdentification \<equiv> 34"
abbreviation (input) MM7_TAG_ShortCode :: int where "MM7_TAG_ShortCode \<equiv> 36"
abbreviation (input) MM7_TAG_Status :: int where "MM7_TAG_Status \<equiv> 37"
abbreviation (input) MM7_TAG_StatusCode :: int where "MM7_TAG_StatusCode \<equiv> 38"
abbreviation (input) MM7_TAG_StatusText :: int where "MM7_TAG_StatusText \<equiv> 39"
abbreviation (input) MM7_TAG_SubmitReq :: int where "MM7_TAG_SubmitReq \<equiv> 41"
abbreviation (input) MM7_TAG_SubmitRsp :: int where "MM7_TAG_SubmitRsp \<equiv> 42"
abbreviation (input) MM7_TAG_TimeStamp :: int where "MM7_TAG_TimeStamp \<equiv> 43"
abbreviation (input) MM7_TAG_To :: int where "MM7_TAG_To \<equiv> 44"
abbreviation (input) MM7_TAG_TransactionID :: int where "MM7_TAG_TransactionID \<equiv> 45"
abbreviation (input) MM7_TAG_VASID :: int where "MM7_TAG_VASID \<equiv> 46"
abbreviation (input) MM7_TAG_VASPErrorRsp :: int where "MM7_TAG_VASPErrorRsp \<equiv> 47"
abbreviation (input) MM7_TAG_VASPID :: int where "MM7_TAG_VASPID \<equiv> 48"
abbreviation (input) MM7_TAG_Fault :: int where "MM7_TAG_Fault \<equiv> 49"
abbreviation (input) MM7_TAG_Details :: int where "MM7_TAG_Details \<equiv> 50"
abbreviation (input) MM7_TAG_faultcode :: int where "MM7_TAG_faultcode \<equiv> 51"
abbreviation (input) MM7_TAG_faultstring :: int where "MM7_TAG_faultstring \<equiv> 52"
abbreviation (input) MM7_TAG_MessageType :: int where "MM7_TAG_MessageType \<equiv> 53"
abbreviation (input) MM7_TAG_replyChargingSize :: int where "MM7_TAG_replyChargingSize \<equiv> 54"
abbreviation (input) MM7_TAG_replyDeadline :: int where "MM7_TAG_replyDeadline \<equiv> 55"
abbreviation (input) MM7_TAG_allowAdaptations :: int where "MM7_TAG_allowAdaptations \<equiv> 57"
abbreviation (input) MM7_TAG_UACapabilities :: int where "MM7_TAG_UACapabilities \<equiv> 59"

text \<open>The elements that name the type of the message.\<close>

definition message_tags :: "int list" where
  "message_tags = [MM7_TAG_CancelReq, MM7_TAG_CancelRsp, MM7_TAG_DeliverReq, MM7_TAG_DeliverRsp, MM7_TAG_DeliveryReportReq,
     MM7_TAG_DeliveryReportRsp, MM7_TAG_RSErrorRsp, MM7_TAG_ReadReplyReq, MM7_TAG_ReadReplyRsp, MM7_TAG_ReplaceReq,
     MM7_TAG_ReplaceRsp, MM7_TAG_SubmitReq, MM7_TAG_SubmitRsp, MM7_TAG_VASPErrorRsp]"

section \<open>Status codes\<close>

definition MM7_SOAP_STATUS_OK :: "int \<Rightarrow> bool" where
  "MM7_SOAP_STATUS_OK e = (1000 \<le> e \<and> e < 2000)"

definition MM7_SOAP_FORMAT_CORRUPT :: int where "MM7_SOAP_FORMAT_CORRUPT = 2007"
definition MM7_SOAP_UNSUPPORTED_OPERATION :: int where "MM7_SOAP_UNSUPPORTED_OPERATION = 4003"

section \<open>Reading a document\<close>

record MSoapMsg_t =
  envelope :: headers
  soap_msg :: "mime option"

text \<open>An address is marked with a minus when it is only to be displayed.\<close>

definition marked :: "(string \<times> string) list \<Rightarrow> octstr \<Rightarrow> octstr" where
  "marked props value =
     (if (case map_of props ''displayOnly'' of Some s \<Rightarrow> ci s = ''true'' | None \<Rightarrow> False) then ''- '' else ''+ '') @ value"

definition opt_header :: "octstr \<Rightarrow> octstr option \<Rightarrow> headers" where
  "opt_header n v = (case v of Some x \<Rightarrow> [(n, x)] | None \<Rightarrow> [])"

text \<open>What an element stands for: the name and value of a header, other headers made of its attributes, and the tag that
  numbers and addresses belong to from then on.\<close>

definition node_header ::
  "gwlib \<Rightarrow> soap_lib \<Rightarrow> int \<Rightarrow> int \<Rightarrow> string \<Rightarrow> (string \<times> string) list \<Rightarrow> xml list \<Rightarrow> int \<Rightarrow>
   octstr option \<times> octstr \<times> headers \<times> int" where
  "node_header G L tnow tag name props kids sigparent =
     (let node = Element name props kids; nvalue = node_content node; prop = map_of props;
          http_time = (\<lambda>s. gw_date_format_http G (parse_time G L tnow s)) in
      if tag \<in> set message_tags
      then (Some ''MessageType'', case mms_mm7tag_to_cstr tag of Some s \<Rightarrow> s | None \<Rightarrow> nvalue, [], sigparent)
      else if tag = MM7_TAG_SenderIdentification \<or> tag = MM7_TAG_Recipients then (None, nvalue, [], sigparent)
      else if tag = MM7_TAG_Recipient then (Some name, nvalue, [], MM7_TAG_To)
      else if tag \<in> {MM7_TAG_To, MM7_TAG_Cc, MM7_TAG_Bcc, MM7_TAG_Sender, MM7_TAG_SenderAddress}
      then if has_node_children node then (None, nvalue, [], tag) else (Some name, marked props nvalue, [], sigparent)
      else if tag = MM7_TAG_Content
      then (Some name, case prop ''href'' of Some s \<Rightarrow> s | None \<Rightarrow> nvalue,
            opt_header ''allowAdaptations'' (prop ''allowAdaptations''), sigparent)
      else if tag = MM7_TAG_ShortCode \<or> tag = MM7_TAG_Number
      then (mms_mm7tag_to_cstr sigparent, marked props (nvalue @ ''/TYPE=PLMN''), [], sigparent)
      else if tag = MM7_TAG_RFC2822Address then (mms_mm7tag_to_cstr sigparent, marked props nvalue, [], sigparent)
      else if tag \<in> {MM7_TAG_EarliestDeliveryTime, MM7_TAG_ExpiryDate, MM7_TAG_TimeStamp, MM7_TAG_Date}
      then (Some name, http_time nvalue, [], sigparent)
      else if tag = MM7_TAG_ReplyCharging
      then (Some name, ''Requested'',
            opt_header ''replyChargingSize'' (prop ''replyChargingSize'') @
            opt_header ''replyDeadline'' (map_option http_time (prop ''replyDeadline'')), sigparent)
      else if tag = MM7_TAG_UACapabilities
      then (Some name,
            (case prop ''UAProf'' of Some s \<Rightarrow> s | None \<Rightarrow> ''none'') @
            (case prop ''TimeStamp'' of Some s \<Rightarrow> '','' @ show_int (parse_time G L tnow s) | None \<Rightarrow> []), [], sigparent)
      else (Some name, nvalue, [], sigparent))"

definition parse_header ::
  "gwlib \<Rightarrow> soap_lib \<Rightarrow> int \<Rightarrow> string \<Rightarrow> (string \<times> string) list \<Rightarrow> xml list \<Rightarrow> headers \<Rightarrow> int \<Rightarrow> headers \<times> int" where
  "parse_header G L tnow name props kids hs sigparent =
     (let tag = mms_string_to_mm7tag G name; (hname, value, extra, sig') = node_header G L tnow tag name props kids sigparent
      in (hs @ extra @ (case hname of Some n \<Rightarrow> if tag \<ge> 0 then [(n, gw_strip_blanks G value)] else [] | None \<Rightarrow> []), sig'))"

fun parse_headers :: "gwlib \<Rightarrow> soap_lib \<Rightarrow> int \<Rightarrow> xml list \<Rightarrow> headers \<Rightarrow> int \<Rightarrow> headers" where
  "parse_headers G L tnow [] hs sigparent = hs"
| "parse_headers G L tnow (Text s # xs) hs sigparent = parse_headers G L tnow xs hs sigparent"
| "parse_headers G L tnow (Comment s # xs) hs sigparent = parse_headers G L tnow xs hs sigparent"
| "parse_headers G L tnow (Element name props kids # xs) hs sigparent =
     (let (hs1, sig1) = parse_header G L tnow name props kids hs sigparent
      in parse_headers G L tnow xs (parse_headers G L tnow kids hs1 sig1) sig1)"

text \<open>\<open>strncmp\<close> finds no difference; a negative length is a very large one.\<close>

definition strncmp_eq :: "int \<Rightarrow> string \<Rightarrow> string \<Rightarrow> bool" where
  "strncmp_eq n a b = (if n < 0 then a = b else take (nat n) a = take (nat n) b)"

text \<open>The part that the content element refers to; without such an element the first that is not XML.\<close>

definition content_matches :: "gwlib \<Rightarrow> octstr \<Rightarrow> mime \<Rightarrow> bool" where
  "content_matches G cloc x =
     (let loc = (if gw_case_search G cloc ''cid:'' 0 = 0 then drop 4 cloc else cloc) in
      case gw_header_value G (mime_headers x) ''Content-ID'' of
        None \<Rightarrow> False
      | Some y \<Rightarrow>
          let angle = (octstr_get_char y 0 = Some CHR ''<'') in
          strncmp_eq (if angle then int (length y) - 2 else int (length y)) loc (if angle then drop 1 y else y) \<or>
          gw_compare G y cloc = 0)"

definition soap_content :: "gwlib \<Rightarrow> headers \<Rightarrow> mime list \<Rightarrow> mime option" where
  "soap_content G h parts =
     (case gw_header_value G h ''Content'' of
        Some cloc \<Rightarrow> List.find (content_matches G cloc) parts
      | None \<Rightarrow>
          List.find (\<lambda>x. gw_case_compare G (fst (snd (get_content_type G (mime_headers x)))) ''text/xml'' \<noteq> 0) parts)"

definition mm7_parse_soap :: "gwlib \<Rightarrow> soap_lib \<Rightarrow> int \<Rightarrow> headers \<Rightarrow> octstr \<Rightarrow> MSoapMsg_t option" where
  "mm7_parse_soap G L tnow headers body =
     (let mime = gw_http_to_mime G headers body in do {
        text \<leftarrow> so_body L (case so_start L mime of Some s \<Rightarrow> s | None \<Rightarrow> mime);
        nodes \<leftarrow> so_xml L (gw_strip_blanks G text);
        let h = parse_headers G L tnow nodes [] (-1);
        Some \<lparr>envelope = h, soap_msg = soap_content G h (mime_parts mime)\<rparr> })"

section \<open>Writing a document\<close>

text \<open>Nothing that is put between the tags is escaped.\<close>

definition tagged :: "octstr \<Rightarrow> octstr \<Rightarrow> octstr \<Rightarrow> octstr" where
  "tagged prefix name s = ''<'' @ prefix @ name @ ''>'' @ s @ ''</'' @ prefix @ name @ ''>'' @ [CHR 0x0A]"

definition opened :: "octstr \<Rightarrow> octstr \<Rightarrow> octstr" where
  "opened prefix name = ''<'' @ prefix @ name @ ''>'' @ [CHR 0x0A]"

definition closed :: "octstr \<Rightarrow> octstr \<Rightarrow> octstr" where
  "closed prefix name = ''</'' @ prefix @ name @ ''>'' @ [CHR 0x0A]"

definition opt_tagged :: "octstr \<Rightarrow> octstr \<Rightarrow> octstr option \<Rightarrow> octstr" where
  "opt_tagged prefix name v = (case v of Some s \<Rightarrow> tagged prefix name s | None \<Rightarrow> [])"

text \<open>An address without its mark, in an element that names its kind; the length that is copied must not be negative.\<close>

definition append_address :: "gwlib \<Rightarrow> octstr \<Rightarrow> octstr \<Rightarrow> bool \<Rightarrow> octstr option" where
  "append_address G v prefix add_type =
     (let y = (if octstr_get_char v 0 = Some CHR ''-'' then '' displayOnly='' @ [CHR 0x22] @ ''true'' @ [CHR 0x22] else []);
          j = gw_case_search G v ''/TYPE=PLMN'' 0; plmn = (j \<ge> 0 \<and> octstr_search_char v CHR ''@'' 0 < 0);
          z = (if plmn then octstr_copy v 2 (nat (j - 2)) else octstr_copy v 2 (length v));
          typ = (if plmn then if length z \<le> 6 then ''ShortCode'' else ''Number'' else ''RFC2822Address'') in
      if plmn \<and> j < 2 then None
      else Some (if add_type
                 then ''<'' @ prefix @ typ @ y @ ''>'' @ gw_strip_blanks G z @ ''</'' @ prefix @ typ @ ''>'' @ [CHR 0x0A]
                 else gw_strip_blanks G z))"

text \<open>The addresses of one header; \<open>x\<close> is the name of the element that is open, empty when none is.\<close>

fun rcpt_items :: "gwlib \<Rightarrow> octstr \<Rightarrow> octstr \<Rightarrow> headers \<Rightarrow> octstr option" where
  "rcpt_items G prefix x [] = Some (if x \<noteq> [] then closed prefix x else [])"
| "rcpt_items G prefix x ((h, v) # hs) = do {
     a \<leftarrow> append_address G v prefix True;
     r \<leftarrow> rcpt_items G prefix (if gw_compare G h x \<noteq> 0 then h else x) hs;
     Some ((if gw_compare G h x \<noteq> 0 then (if x \<noteq> [] then closed prefix x else []) @ opened prefix h else []) @ a @ r) }"

definition output_rcpt :: "gwlib \<Rightarrow> octstr \<Rightarrow> headers \<Rightarrow> octstr \<Rightarrow> octstr option" where
  "output_rcpt G hdr hdrs prefix = rcpt_items G prefix [] (gw_header_find_all G hdrs hdr)"

definition ver_compare :: "MM7Version_t \<Rightarrow> int \<times> int \<times> int \<Rightarrow> int" where
  "ver_compare v w = (case w of (a, b, c) \<Rightarrow> (ver_major v - a) * 1000 + (ver_minor1 v - b) * 100 + (ver_minor2 v - c))"

definition soap_prefix :: "MM7Version_t \<Rightarrow> octstr" where
  "soap_prefix ver = (if use_mm7_namespace ver then ''mm7:'' else [])"

definition soap_xmlns :: "MM7Version_t \<Rightarrow> octstr" where
  "soap_xmlns ver =
     '' xmlns'' @ (if use_mm7_namespace ver then '':mm7'' else []) @ ''='' @ [CHR 0x22] @
     (if ver_xmlns ver \<noteq> [] then ver_xmlns ver
      else ''http://www.3gpp.org/ftp/Specs/archive/23_series/23.140/schema/REL-5-MM7-1-0'') @ [CHR 0x22]"

definition typed_addresses :: "MM7Version_t \<Rightarrow> bool" where
  "typed_addresses ver = (ver_compare ver (5, 1, 0) > 0)"

definition sender_identification :: "gwlib \<Rightarrow> MM7Version_t \<Rightarrow> headers \<Rightarrow> octstr option" where
  "sender_identification G ver hdrs =
     (let pre = soap_prefix ver; p = gw_header_value G hdrs ''VASPID''; q = gw_header_value G hdrs ''VASID'';
          r = gw_header_value G hdrs ''SenderAddress'' in
      if p = None \<and> q = None \<and> r = None then Some []
      else do {
        a \<leftarrow> (case r of Some v \<Rightarrow> append_address G v pre (typed_addresses ver) | None \<Rightarrow> Some []);
        Some (opened pre ''SenderIdentification'' @ opt_tagged pre ''VASPID'' p @ opt_tagged pre ''VASID'' q @
              (if a \<noteq> [] then tagged pre ''SenderAddress'' a else []) @ closed pre ''SenderIdentification'') })"

definition soap_recipients :: "gwlib \<Rightarrow> MM7Version_t \<Rightarrow> int \<Rightarrow> headers \<Rightarrow> octstr option" where
  "soap_recipients G ver mtag hdrs =
     (let pre = soap_prefix ver in
      if mtag = MM7_TAG_SubmitReq \<or> mtag = MM7_TAG_DeliverReq
      then do {
        a \<leftarrow> output_rcpt G ''To'' hdrs pre; b \<leftarrow> output_rcpt G ''Cc'' hdrs pre; c \<leftarrow> output_rcpt G ''Bcc'' hdrs pre;
        Some (if a @ b @ c \<noteq> [] then tagged pre ''Recipients'' (CHR 0x0A # a @ b @ c) else []) }
      else
        case gw_header_value G hdrs ''To'' of
          Some q \<Rightarrow> map_option (\<lambda>a. tagged pre ''Recipient'' (CHR 0x0A # a)) (append_address G q pre True)
        | None \<Rightarrow> Some [])"

text \<open>The headers that have been written already, or are written with another one.\<close>

definition skipped_tags :: "int list" where
  "skipped_tags = [MM7_TAG_MessageType, MM7_TAG_To, MM7_TAG_Cc, MM7_TAG_Bcc, MM7_TAG_Fault, MM7_TAG_faultstring, MM7_TAG_faultcode,
     MM7_TAG_VASID, MM7_TAG_VASPID, MM7_TAG_MM7Version, MM7_TAG_replyChargingSize, MM7_TAG_replyDeadline, MM7_TAG_TransactionID,
     MM7_TAG_StatusCode, MM7_TAG_StatusText, MM7_TAG_Details, MM7_TAG_SenderAddress, MM7_TAG_allowAdaptations]"

definition attribute :: "octstr \<Rightarrow> octstr option \<Rightarrow> octstr" where
  "attribute name v = (case v of Some s \<Rightarrow> '' '' @ name @ ''='' @ [CHR 0x22] @ s @ [CHR 0x22] | None \<Rightarrow> [])"

definition soap_header :: "gwlib \<Rightarrow> soap_lib \<Rightarrow> int \<Rightarrow> MM7Version_t \<Rightarrow> headers \<Rightarrow> octstr \<times> octstr \<Rightarrow> octstr option" where
  "soap_header G L tnow ver hdrs hv =
     (let (h, v) = hv; pre = soap_prefix ver; tag = mms_string_to_mm7tag G h; find = gw_header_value G hdrs in
      if tag \<in> set skipped_tags then Some []
      else if tag = MM7_TAG_Sender
      then map_option (\<lambda>a. if a \<noteq> [] then tagged pre ''Sender'' a else []) (append_address G v pre (typed_addresses ver))
      else if tag = MM7_TAG_Content
      then Some (''<'' @ pre @ ''Content'' @ attribute ''href'' (Some v) @ attribute ''allowAdaptations'' (find ''allowAdaptations'') @
                 ''/>'' @ [CHR 0x0A])
      else if tag = MM7_TAG_ReplyCharging
      then Some (''<'' @ pre @ ''ReplyCharging'' @ attribute ''replyChargingSize'' (find ''replyChargingSize'') @
                 attribute ''replyDeadline'' (find ''replyDeadline'') @ ''/>'' @ [CHR 0x0A])
      else if tag \<in> {MM7_TAG_EarliestDeliveryTime, MM7_TAG_ExpiryDate, MM7_TAG_TimeStamp, MM7_TAG_Date}
      then Some (tagged pre h (so_show_iso L (gw_date_parse_http G v)))
      else if tag = MM7_TAG_Status
      then Some (opened pre ''Status'' @ opt_tagged pre ''StatusCode'' (find ''StatusCode'') @
                 opt_tagged pre ''StatusText'' (find ''StatusText'') @ opt_tagged pre ''Details'' (find ''Details'') @ closed pre ''Status'')
      else if tag = MM7_TAG_UACapabilities
      then (case strrchr_split v CHR '','' of
              Some (a, b) \<Rightarrow>
                Some (''<'' @ pre @ h @ attribute ''TimeStamp'' (Some (so_show_iso L (atol b))) @ attribute ''UAProf'' (Some a) @ ''/>'' @ [CHR 0x0A])
            | None \<Rightarrow>
                Some (''<'' @ pre @ h @ attribute ''TimeStamp'' (Some (so_show_iso L tnow)) @ attribute ''UAProf'' (Some v) @ ''/>'' @ [CHR 0x0A]))
      else Some (tagged pre h v))"

fun soap_headers :: "gwlib \<Rightarrow> soap_lib \<Rightarrow> int \<Rightarrow> MM7Version_t \<Rightarrow> headers \<Rightarrow> headers \<Rightarrow> octstr option" where
  "soap_headers G L tnow ver hdrs [] = Some []"
| "soap_headers G L tnow ver hdrs (hv # hs) = do {
     a \<leftarrow> soap_header G L tnow ver hdrs hv; b \<leftarrow> soap_headers G L tnow ver hdrs hs; Some (a @ b) }"

definition soap_fault :: "gwlib \<Rightarrow> headers \<Rightarrow> octstr \<times> octstr" where
  "soap_fault G hdrs =
     (if gw_header_value G hdrs ''Fault'' = None then ([], [])
      else (opened ''SOAP-ENV:'' ''Fault'' @ opt_tagged [] ''faultcode'' (gw_header_value G hdrs ''faultcode'') @
            opt_tagged [] ''faultstring'' (gw_header_value G hdrs ''faultstring'') @ opened [] ''detail'',
            closed [] ''detail'' @ closed ''SOAP-ENV:'' ''Fault''))"

definition headers_to_soapxml :: "gwlib \<Rightarrow> soap_lib \<Rightarrow> int \<Rightarrow> headers \<Rightarrow> MM7Version_t \<Rightarrow> octstr option" where
  "headers_to_soapxml G L tnow hdrs ver = do {
     mtype \<leftarrow> gw_header_value G hdrs ''MessageType'';
     let pre = soap_prefix ver;
     ident \<leftarrow> sender_identification G ver hdrs;
     rcpts \<leftarrow> soap_recipients G ver (mms_string_to_mm7tag G mtype) hdrs;
     rest \<leftarrow> soap_headers G L tnow ver hdrs hdrs;
     Some (''<?xml version='' @ [CHR 0x27] @ ''1.0'' @ [CHR 0x27] @ '' encoding='' @ [CHR 0x27] @ ''UTF-8'' @ [CHR 0x27] @ ''?>'' @ [CHR 0x0A] @
       ''<SOAP-ENV:Envelope xmlns:SOAP-ENV='' @ [CHR 0x22] @ ''http://schemas.xmlsoap.org/soap/envelope/'' @ [CHR 0x22] @ ''>'' @ [CHR 0x0A] @
       opened ''SOAP-ENV:'' ''Header'' @
       ''<'' @ pre @ ''TransactionID'' @ soap_xmlns ver @ '' SOAP-ENV:mustUnderstand='' @ [CHR 0x22] @ ''1'' @ [CHR 0x22] @ ''>'' @
       (case gw_header_value G hdrs ''TransactionID'' of Some t \<Rightarrow> t | None \<Rightarrow> ''none'') @ closed pre ''TransactionID'' @
       closed ''SOAP-ENV:'' ''Header'' @ opened ''SOAP-ENV:'' ''Body'' @ fst (soap_fault G hdrs) @
       ''<'' @ pre @ mtype @ soap_xmlns ver @ ''>'' @ [CHR 0x0A] @
       (case gw_header_value G hdrs ''MM7Version'' of
          Some p \<Rightarrow> tagged pre ''MM7Version'' p
        | None \<Rightarrow> tagged pre ''MM7Version'' (show_int (ver_major ver) @ ''.'' @ show_int (ver_minor1 ver) @ ''.'' @ show_int (ver_minor2 ver))) @
       ident @ rcpts @ rest @ closed pre mtype @ snd (soap_fault G hdrs) @ closed ''SOAP-ENV:'' ''Body'' @ closed ''SOAP-ENV:'' ''Envelope'') }"

text \<open>The names of content and envelope are made of the clock and of random numbers.\<close>

definition random_name :: "int \<Rightarrow> nat \<times> nat \<times> nat \<Rightarrow> octstr" where
  "random_name tnow r =
     (case r of (a, b, c) \<Rightarrow> show_int tnow @ ''.'' @ show_nat a @ ''.'' @ [char_of (65 + b mod 26), char_of (97 + c mod 26)] @ ''.msg'')"

definition mm7_soapmsg_to_httpmsg ::
  "gwlib \<Rightarrow> soap_lib \<Rightarrow> int \<Rightarrow> nat \<times> nat \<times> nat \<Rightarrow> nat \<times> nat \<times> nat \<Rightarrow> MSoapMsg_t \<Rightarrow> MM7Version_t \<Rightarrow> (headers \<times> octstr) option" where
  "mm7_soapmsg_to_httpmsg G L tnow r r' m ver =
     (let action = (''SOAPAction'', [CHR 0x22, CHR 0x22]) in
      case soap_msg m of
        Some c \<Rightarrow> do {
          let cid = ''c'' @ random_name tnow r;
          let envloc = ''<s'' @ random_name tnow r' @ ''>'';
          let c' = Mime (gw_header_remove_all G (mime_headers c) ''Content-ID'' @ [(''Content-ID'', ''<'' @ cid @ ''>'')]) (mime_parts c) (mime_body c);
          s \<leftarrow> headers_to_soapxml G L tnow (gw_header_remove_all G (envelope m) ''Content'' @ [(''Content'', ''cid:'' @ cid)]) ver;
          let xml = Mime [(''Content-Type'', ''text/xml''), (''Content-ID'', envloc)] [] (Some s);
          let ctype = ''multipart/related; type='' @ [CHR 0x22] @ ''text/xml'' @ [CHR 0x22] @ ''; start='' @ [CHR 0x22] @ envloc @ [CHR 0x22];
          Some (so_print L (Mime [(''Content-Type'', ctype), action] [xml, c'] None)) }
      | None \<Rightarrow>
          map_option (\<lambda>s. so_print L (Mime [(''Content-Type'', ''text/xml''), action] [] (Some s))) (headers_to_soapxml G L tnow (envelope m) ver))"

text \<open>The same with the clock and the random numbers of the outside.\<close>

definition soap_to_http ::
  "gwlib \<Rightarrow> 's env \<Rightarrow> soap_lib \<Rightarrow> MSoapMsg_t \<Rightarrow> MM7Version_t \<Rightarrow> 's \<Rightarrow> ((headers \<times> octstr) \<times> 's) option" where
  "soap_to_http G X L m ver w =
     (let (t, w) = x_time X w; (a1, w) = x_random X w; (b1, w) = x_random X w; (c1, w) = x_random X w;
          (a2, w) = x_random X w; (b2, w) = x_random X w; (c2, w) = x_random X w
      in map_option (\<lambda>r. (r, w)) (mm7_soapmsg_to_httpmsg G L t (a1, b1, c1) (a2, b2, c2) m ver))"

section \<open>SOAP and MMS messages\<close>

definition mm7_msgtype :: "gwlib \<Rightarrow> MSoapMsg_t \<Rightarrow> int" where
  "mm7_msgtype G m = (case gw_header_value G (envelope m) ''MessageType'' of None \<Rightarrow> -1 | Some t \<Rightarrow> mms_string_to_mm7tag G t)"

text \<open>An address to send to, without its mark.\<close>

definition unmarked :: "octstr \<Rightarrow> octstr option" where
  "unmarked v = (if octstr_get_char v 0 = Some CHR ''+'' then Some (drop 2 v) else None)"

definition get_rcptvalues :: "gwlib \<Rightarrow> headers \<Rightarrow> octstr \<Rightarrow> octstr list" where
  "get_rcptvalues G headers hname = List.map_filter (\<lambda>h. unmarked (snd h)) (gw_header_find_all G headers hname)"

record mm7_envelope =
  mv_sender :: "octstr option"
  mv_to :: "octstr list"
  mv_subject :: "octstr option"
  mv_vasid :: "octstr option"
  mv_expiry :: int
  mv_delivery :: int
  mv_uaprof :: "octstr option"
  mv_uaprof_tstamp :: int

definition mm7_get_envelope :: "gwlib \<Rightarrow> MSoapMsg_t \<Rightarrow> mm7_envelope" where
  "mm7_get_envelope G m =
     (let find = gw_header_value G (envelope m);
          date = (\<lambda>n. case find n of Some s \<Rightarrow> gw_date_parse_http G s | None \<Rightarrow> -1);
          ua = map_option (\<lambda>s. case strrchr_split s CHR '','' of Some (a, b) \<Rightarrow> (a, atol b) | None \<Rightarrow> (s, -1)) (find ''UACapabilities'')
      in \<lparr>mv_sender = Option.bind (case find ''SenderAddress'' of Some s \<Rightarrow> Some s | None \<Rightarrow> find ''Sender'') unmarked,
          mv_to = concat (map (get_rcptvalues G (envelope m)) [''To'', ''Cc'', ''Bcc'']), mv_subject = find ''Subject'',
          mv_vasid = find ''VASID'', mv_expiry = date ''ExpiryDate'', mv_delivery = date ''EarliestDeliveryTime'',
          mv_uaprof = map_option fst ua, mv_uaprof_tstamp = (case ua of Some (a, b) \<Rightarrow> b | None \<Rightarrow> -1)\<rparr>)"

text \<open>The headers of an MMS message that are taken from the envelope; a yes or no that has no name is a null pointer,
  which a header cannot be made of.\<close>

definition copy_if :: "gwlib \<Rightarrow> headers \<Rightarrow> octstr \<Rightarrow> (octstr \<Rightarrow> bool) \<Rightarrow> octstr \<Rightarrow> MmsMsg \<Rightarrow> MmsMsg" where
  "copy_if G env name ok name' m =
     (case gw_header_value G env name of Some s \<Rightarrow> if ok s then mms_replace_header_value G m name' s else m | None \<Rightarrow> m)"

definition copy_flag :: "gwlib \<Rightarrow> headers \<Rightarrow> octstr \<Rightarrow> octstr \<Rightarrow> MmsMsg \<Rightarrow> MmsMsg option" where
  "copy_flag G env name name' m =
     (case gw_header_value G env name of
        None \<Rightarrow> Some m
      | Some s \<Rightarrow>
          let x = mms_string_to_boolean_flag G s in
          if x < 0 then Some m else map_option (mms_replace_header_value G m name') (mms_reports_to_cstr x))"

definition content_to_mmsmsg :: "gwlib \<Rightarrow> headers \<Rightarrow> octstr option \<Rightarrow> MmsMsg \<Rightarrow> MmsMsg option" where
  "content_to_mmsmsg G env sender m0 =
     (let m1 = mms_remove_headers G m0 ''Content-ID'';
          m2 = (case sender of Some f \<Rightarrow> mms_replace_header_value G m1 ''From'' f | None \<Rightarrow> m1);
          m3 = copy_if G env ''MessageClass'' (\<lambda>s. mms_string_to_message_class G s \<ge> 0) ''X-Mms-Message-Class'' m2;
          m4 = copy_if G env ''Priority'' (\<lambda>s. mms_string_to_priority G s \<ge> 0) ''X-Mms-Priority'' m3 in do {
        m5 \<leftarrow> copy_flag G env ''DeliveryReport'' ''X-Mms-Delivery-Report'' m4;
        m6 \<leftarrow> copy_flag G env ''ReadReply'' ''X-Mms-Read-Report'' m5;
        let m7 = fold (\<lambda>(a, b) x. copy_if G env a (\<lambda>s. True) b x)
              [(''TimeStamp'', ''Date''), (''ExpiryDate'', ''X-Mms-Expiry''), (''Subject'', ''Subject''), (''MessageID'', ''Message-ID'')] m6;
        Some (mms_replace_header_values G (mms_replace_header_values G m7 ''To'' (get_rcptvalues G env ''To'')) ''Cc''
                (get_rcptvalues G env ''Cc'')) })"

text \<open>\<open>Some None\<close> is the null pointer.\<close>

definition report_to_mmsmsg :: "gwlib \<Rightarrow> int \<Rightarrow> headers \<Rightarrow> octstr option \<Rightarrow> int \<Rightarrow> MmsMsg option" where
  "report_to_mmsmsg G tnow env sender msgtype =
     (let find = gw_header_value G env; msgid = Some (case find ''MessageID'' of Some s \<Rightarrow> s | None \<Rightarrow> ''0000'');
          p = Option.bind (find ''To'') unmarked; f = Option.bind (find ''From'') unmarked;
          t = (case find ''Date'' of Some q \<Rightarrow> gw_date_parse_http G q | None \<Rightarrow> tnow); r = find ''MMStatus'' in
      case (p, r) of
        (Some to, _) \<Rightarrow>
          if msgtype = MM7_TAG_DeliveryReportReq
          then Some (mms_deliveryreport G msgid sender (Some to) t
                 (case r of Some s \<Rightarrow> if mms_string_to_status G s \<ge> 0 then s else ''Indeterminate'' | None \<Rightarrow> ''Indeterminate''))
          else (case (f, r) of
                  (Some from, Some s) \<Rightarrow> if mms_string_to_read_status G s \<ge> 0 then Some (mms_readreport G msgid from to t s) else None
                | _ \<Rightarrow> None)
      | _ \<Rightarrow> None)"

definition mm7_soap_to_mmsmsg :: "gwlib \<Rightarrow> soap_lib \<Rightarrow> int \<Rightarrow> MSoapMsg_t \<Rightarrow> octstr option \<Rightarrow> MmsMsg option option" where
  "mm7_soap_to_mmsmsg G L tnow m sender =
     (let msgtype = mm7_msgtype G m in
      if msgtype \<in> {MM7_TAG_DeliverReq, MM7_TAG_SubmitReq, MM7_TAG_ReplaceReq}
      then (case soap_msg m of
              None \<Rightarrow> Some None
            | Some mime \<Rightarrow> do {
                mo \<leftarrow> mms_frommime G tnow (so_gmt L) mime;
                case mo of None \<Rightarrow> Some None | Some msg \<Rightarrow> map_option Some (content_to_mmsmsg G (envelope m) sender msg) })
      else if msgtype \<in> {MM7_TAG_DeliveryReportReq, MM7_TAG_ReadReplyReq}
      then Some (report_to_mmsmsg G tnow (envelope m) sender msgtype)
      else Some None)"

definition mm7_soap_create :: "int \<Rightarrow> octstr option \<Rightarrow> MSoapMsg_t option" where
  "mm7_soap_create msgtype otransid =
     map_option (\<lambda>t. \<lparr>envelope = [(''MessageType'', t), (''TransactionID'', case otransid of Some i \<Rightarrow> i | None \<Rightarrow> ''0000'')], soap_msg = None\<rparr>)
       (mms_mm7tag_to_cstr msgtype)"

text \<open>What the conversion of an MMS message is given besides the message.\<close>

record soap_args =
  sa_from :: "octstr option"
  sa_to :: "octstr list"
  sa_transid :: "octstr option"
  sa_srvcode :: "octstr option"
  sa_linkedid :: "octstr option"
  sa_clientside :: bool
  sa_vaspid :: "octstr option"
  sa_vasid :: "octstr option"
  sa_uaprof :: "octstr option"
  sa_uaprof_tstamp :: int
  sa_hdrs :: headers

definition uaprof_value :: "soap_args \<Rightarrow> octstr option" where
  "uaprof_value a = map_option (\<lambda>u. u @ '','' @ show_int (sa_uaprof_tstamp a)) (sa_uaprof a)"

definition true_if :: "gwlib \<Rightarrow> octstr \<Rightarrow> octstr \<Rightarrow> octstr" where
  "true_if G v s = (if gw_case_compare G s v = 0 then ''true'' else ''false'')"

text \<open>The envelope of a message that is submitted (by a client) or delivered, in the order of its headers.\<close>

definition request_envelope :: "gwlib \<Rightarrow> MmsMsg \<Rightarrow> soap_args \<Rightarrow> headers" where
  "request_envelope G msg a =
     (let client = sa_clientside a; find = mms_get_header_value G msg; hfind = gw_header_value G (sa_hdrs a) in
      map (\<lambda>t. (''To'', ''+ '' @ t)) (sa_to a) @
      opt_header (if client then ''ServiceCode'' else ''MMSRelayServerID'') (sa_srvcode a) @
      opt_header ''LinkedID'' (sa_linkedid a) @
      opt_header (if client then ''SenderAddress'' else ''Sender'') (map_option (\<lambda>f. ''+ '' @ f) (sa_from a)) @
      (if client
       then opt_header ''VASPID'' (sa_vaspid a) @ opt_header ''VASID'' (sa_vasid a) @
            opt_header ''MessageClass'' (find ''X-Mms-Message-Class'') @
            opt_header ''allowAdaptations'' (map_option (true_if G ''true'') (find ''X-Mms-Allow-Adaptations'')) @
            opt_header ''DistributionIndicator'' (map_option (true_if G ''true'') (hfind ''X-Mbuni-DistributionIndicator'')) @
            opt_header ''ChargedParty'' (hfind ''X-Mbuni-Charged-Party'')
       else opt_header ''UACapabilities'' (uaprof_value a)) @
      opt_header ''TimeStamp'' (find ''Date'') @
      (if client
       then opt_header ''ExpiryDate'' (find ''X-Mms-Expiry'') @
            opt_header ''DeliveryReport'' (map_option (true_if G ''Yes'') (find ''X-Mms-Delivery-Report'')) @
            opt_header ''ReadReply'' (map_option (true_if G ''Yes'') (find ''X-Mms-Read-Report''))
       else []) @
      opt_header ''Priority'' (find ''X-Mms-Priority'') @ opt_header ''Subject'' (find ''Subject''))"

text \<open>The envelope of a report.\<close>

definition report_envelope :: "gwlib \<Rightarrow> MmsMsg \<Rightarrow> soap_args \<Rightarrow> bool \<Rightarrow> headers" where
  "report_envelope G msg a read_report =
     (let find = mms_get_header_value G msg in
      opt_header ''Sender'' (map_option (\<lambda>f. ''+ '' @ f) (sa_from a)) @
      (case sa_to a of t # _ \<Rightarrow> [(''To'', ''+ '' @ t)] | [] \<Rightarrow> []) @
      [(''MessageID'', case find ''Message-ID'' of Some i \<Rightarrow> i | None \<Rightarrow> show_octstr (sa_transid a))] @
      opt_header (if read_report then ''TimeStamp'' else ''Date'') (find ''Date'') @
      opt_header ''MMStatus'' (find (if read_report then ''X-Mms-Read-Status'' else ''X-Mms-Status'')) @
      (if read_report then [] else opt_header ''UACapabilities'' (uaprof_value a)))"

definition mm7_mmsmsg_to_soap :: "gwlib \<Rightarrow> MmsMsg \<Rightarrow> soap_args \<Rightarrow> MSoapMsg_t option option" where
  "mm7_mmsmsg_to_soap G msg a =
     (let mtype = m_message_type msg in
      if mtype = MMS_MSGTYPE_SEND_REQ \<or> mtype = MMS_MSGTYPE_RETRIEVE_CONF
      then map_option (\<lambda>m. Some (m\<lparr>envelope := envelope m @ request_envelope G msg a,
               soap_msg := Some (strip_non_essential_headers G (mms_tomime G msg True))\<rparr>))
             (mm7_soap_create (if sa_clientside a then MM7_TAG_SubmitReq else MM7_TAG_DeliverReq) (sa_transid a))
      else if mtype = MMS_MSGTYPE_READ_ORIG_IND \<or> mtype = MMS_MSGTYPE_DELIVERY_IND
      then
        let read_report = (mtype = MMS_MSGTYPE_READ_ORIG_IND)
        in map_option (\<lambda>m. Some (m\<lparr>envelope := envelope m @ report_envelope G msg a read_report\<rparr>))
             (mm7_soap_create (if read_report then MM7_TAG_ReadReplyReq else MM7_TAG_DeliveryReportReq) (sa_transid a))
      else Some None)"

definition mm7_make_resp :: "gwlib \<Rightarrow> MSoapMsg_t option \<Rightarrow> int \<Rightarrow> octstr option \<Rightarrow> bool \<Rightarrow> MSoapMsg_t option" where
  "mm7_make_resp G mreq status msgid isclientside =
     (let mtype = (case mreq of Some m \<Rightarrow> mm7_msgtype G m | None \<Rightarrow> -1); ok = MM7_SOAP_STATUS_OK status;
          transid = Option.bind mreq (\<lambda>m. gw_header_value G (envelope m) ''TransactionID'') in
      map_option (\<lambda>m. m\<lparr>envelope := envelope m @
          [(''Status'', []), (''StatusCode'', show_int status),
           (''StatusText'', case mms_soap_status_to_cstr status of Some s \<Rightarrow> s | None \<Rightarrow> ''Error'')] @
          (if mtype = MM7_TAG_SubmitReq then opt_header ''MessageID'' msgid else []) @
          (if ok then [] else [(''Fault'', []), (''faultcode'', ''SOAP-ENV:Server''), (''faultstring'', ''Server error'')])\<rparr>)
        (mm7_soap_create
           (if \<not> ok \<or> mtype < 0 then if isclientside then MM7_TAG_VASPErrorRsp else MM7_TAG_RSErrorRsp else mtype + 1) transid))"

definition mm7_soap_header_value :: "gwlib \<Rightarrow> MSoapMsg_t \<Rightarrow> octstr \<Rightarrow> octstr option" where
  "mm7_soap_header_value G m header = gw_header_value G (envelope m) header"

end
