(* ===== verification/MmsSender.thy ===== *)
theory MmsSender
  imports MmsMm7soap
begin

text \<open>
  The global queue runner, \<open>mmsc/mmsglobalsender.c\<close>: what happens to a message of the global queue in
  one attempt. Each recipient that is left is a mail address, a phone number (of a VASP, of a local
  handset or of another MMSC) or an IP address; the envelope is written after each of them.
\<close>

section \<open>Interfaces\<close>

text \<open>Call detail records, \<open>mms_billing.c\<close>: each text in a buffer of \<open>CBUFSIZE\<close> bytes.\<close>

definition CBUFSIZE :: nat where "CBUFSIZE = 256"

record MmsCdrStruct =
  cdr_sdate :: int
  cdr_from :: string
  cdr_to :: string
  cdr_msgid :: string
  cdr_vaspid :: string
  cdr_src_interface :: string
  cdr_dst_interface :: string
  cdr_msg_size :: int

definition make_cdr_struct ::
  "int \<Rightarrow> string option \<Rightarrow> string option \<Rightarrow> string option \<Rightarrow> string option \<Rightarrow> string option \<Rightarrow> string option \<Rightarrow>
   int \<Rightarrow> MmsCdrStruct" where
  "make_cdr_struct sdate from to msgid vaspid src_int dst_int msg_size =
     \<lparr>cdr_sdate = sdate, cdr_from = strncpy CBUFSIZE (or_empty from), cdr_to = strncpy CBUFSIZE (or_empty to),
      cdr_msgid = strncpy CBUFSIZE (or_empty msgid), cdr_vaspid = strncpy CBUFSIZE (or_empty vaspid),
      cdr_src_interface = strncpy CBUFSIZE (case src_int of Some s \<Rightarrow> s | None \<Rightarrow> ''MM2''),
      cdr_dst_interface = strncpy CBUFSIZE (case dst_int of Some s \<Rightarrow> s | None \<Rightarrow> ''MM2''),
      cdr_msg_size = msg_size\<rparr>"

text \<open>What the runner is given: the outside, the queue module, the content adapter, the billing and
  resolver modules, the libraries of the SOAP coder, the settings and the MM4 proxies.\<close>

record 's sender =
  sd_env :: "'s env"
  sd_q :: "'s qfs"
  sd_fmt :: "mime \<Rightarrow> bool \<Rightarrow> octstr option \<Rightarrow> octstr option \<Rightarrow> 's \<Rightarrow> mime \<times> 's"
  sd_billmsg :: "octstr option \<Rightarrow> octstr list \<Rightarrow> int \<Rightarrow> octstr option \<Rightarrow> octstr option \<Rightarrow> 's \<Rightarrow> int \<times> 's"
  sd_resolve :: "octstr \<Rightarrow> string \<Rightarrow> octstr option \<Rightarrow> 's \<Rightarrow> octstr option \<times> 's"
  sd_soap :: soap_lib
  sd_settings :: MmscSettings
  sd_proxies :: "MmsProxyRelay list"

text \<open>The state: the outside, the VASPs and the records produced for the CDR thread.\<close>

record 's node =
  nd_w :: 's
  nd_vasps :: vasp_registry
  nd_cdrs :: "MmsCdrStruct list"

section \<open>VASPs\<close>

datatype http_class = HTTP_PROVISIONAL | HTTP_SUCCESSFUL | HTTP_REDIRECTION | HTTP_CLIENT_ERROR | HTTP_SERVER_ERROR | HTTP_UNKNOWN

definition http_status_class :: "int \<Rightarrow> http_class" where
  "http_status_class code =
     (if 100 \<le> code \<and> code < 200 then HTTP_PROVISIONAL
      else if 200 \<le> code \<and> code < 300 then HTTP_SUCCESSFUL
      else if 300 \<le> code \<and> code < 400 then HTTP_REDIRECTION
      else if 400 \<le> code \<and> code < 500 then HTTP_CLIENT_ERROR
      else if 500 \<le> code \<and> code < 600 then HTTP_SERVER_ERROR
      else HTTP_UNKNOWN)"

text \<open>A short code is a \<open>long\<close> that is passed as an \<open>int\<close>.\<close>

definition match_short_codes :: "gwlib \<Rightarrow> octstr \<Rightarrow> int list \<Rightarrow> bool" where
  "match_short_codes G phonenum codes =
     (List.find (\<lambda>c. gw_compare G phonenum (show_int (sint (word_of_int c :: 32 word))) = 0) codes \<noteq> None)"

text \<open>The result of a request: status, error text, whether the connection failed, the message (which is
  made a send request before it is sent) and the outside.\<close>

type_synonym 's vasp_sent = "(int \<times> octstr option \<times> bool \<times> MmsMsg \<times> 's) option"

definition contact_error :: "octstr \<Rightarrow> int \<Rightarrow> octstr" where
  "contact_error url hstatus =
     ''Failed to contact VASP[url='' @ url @ ''] => HTTP returned status = '' @ show_int hstatus @ ''!''"

definition mm7eaif_send ::
  "gwlib \<Rightarrow> 's env \<Rightarrow> MmsVasp \<Rightarrow> octstr option \<Rightarrow> octstr \<Rightarrow> octstr option \<Rightarrow> MmsMsg \<Rightarrow> 's \<Rightarrow> 's vasp_sent" where
  "mm7eaif_send G X vasp from to msgid m0 w =
     (let mtype = m_message_type m0;
          multimedia = (mtype = MMS_MSGTYPE_SEND_REQ \<or> mtype = MMS_MSGTYPE_RETRIEVE_CONF);
          msgtype = (if multimedia then ''MultiMediaMessage''
                     else if mtype = MMS_MSGTYPE_DELIVERY_IND then ''DeliveryReport'' else ''ReadReply'');
          rh = [(''X-NOKIA-MMSC-To'', to), (''X-NOKIA-MMSC-From'', show_octstr from)] @
               (case msgid of Some i \<Rightarrow> [(''X-NOKIA-MMSC-Message-Id'', i)] | None \<Rightarrow> []) @
               [(''X-NOKIA-MMSC-Version'', show_int (ver_major (vasp_ver vasp)) @ ''.'' @ show_int (ver_minor1 (vasp_ver vasp))),
                (''X-NOKIA-MMSC-Message-Type'', msgtype), (''Content-Type'', ''application/vnd.wap.mms-message'')]
      in do {
        m1 \<leftarrow> (if multimedia then mms_make_sendreq G m0 else Some m0);
        (body, m2) \<leftarrow> mms_tobinary G m1;
        let ((hstatus, _, _), w1) = x_fetch X (vasp_url vasp) rh (Some body) w;
        let err = (if http_status_class hstatus \<noteq> HTTP_SUCCESSFUL then Some (contact_error (vasp_url vasp) hstatus) else None);
        let ret = (if hstatus < 0 then MMS_SEND_ERROR_TRANSIENT
                   else if http_status_class hstatus = HTTP_CLIENT_ERROR then MMS_SEND_ERROR_TRANSIENT
                   else if http_status_class hstatus = HTTP_SERVER_ERROR then MMS_SEND_ERROR_FATAL
                   else MMS_SEND_OK);
        Some (ret, err, hstatus < 0, m2, w1) })"

text \<open>The coding of the request never fails with an error that the code could report.\<close>

definition mm7soap_send ::
  "gwlib \<Rightarrow> 's env \<Rightarrow> soap_lib \<Rightarrow> octstr option \<Rightarrow> MmsVasp \<Rightarrow> octstr option \<Rightarrow> octstr \<Rightarrow> octstr option \<Rightarrow> headers \<Rightarrow>
   MmsMsg \<Rightarrow> 's \<Rightarrow> (int \<times> octstr option \<times> bool \<times> 's) option" where
  "mm7soap_send G X L host_alias vasp from to msgid qh m w =
     (let failed = (\<lambda>err conn w. Some (MMS_SEND_ERROR_TRANSIENT, Some err, conn, w));
          mtype = show_octstr (mms_message_type_to_cstr (m_message_type m));
          uaprof = (case send_uaprof vasp of
                      UAProf_URL \<Rightarrow> gw_header_value G qh ''X-Mbuni-Profile-Url''
                    | UAProf_UA \<Rightarrow> gw_header_value G qh ''X-Mbuni-User-Agent''
                    | UAProf_None \<Rightarrow> None);
          tstamp = (case gw_header_value G qh ''X-Mbuni-Timestamp'' of Some s \<Rightarrow> atol s | None \<Rightarrow> 0);
          args = \<lparr>sa_from = from, sa_to = [to], sa_transid = msgid, sa_srvcode = host_alias, sa_linkedid = msgid,
                  sa_clientside = False, sa_vaspid = None, sa_vasid = None, sa_uaprof = uaprof, sa_uaprof_tstamp = tstamp,
                  sa_hdrs = []\<rparr>
      in do {
        req \<leftarrow> mm7_mmsmsg_to_soap G m args;
        case req of
          None \<Rightarrow> failed (''Failed to convert Msg['' @ mtype @ ''] 2 SOAP message!'') False w
        | Some mreq \<Rightarrow> do {
            ((rh, body), w1) \<leftarrow> soap_to_http G X L mreq (vasp_ver vasp) w;
            let ((hstatus, ph, rbody), w2) = x_fetch X (vasp_url vasp) rh (Some body) w1; conn = (hstatus < 0);
                (tnow, w3) = x_time X w2 in
            if http_status_class hstatus \<noteq> HTTP_SUCCESSFUL
            then failed (contact_error (vasp_url vasp) hstatus) conn w2
            else
              case mm7_parse_soap G L tnow ph rbody of
                None \<Rightarrow> failed (''Failed to parse VASP[url='' @ vasp_url vasp @ '', id='' @ vasp_id vasp @ '']  response!'') conn w3
              | Some mresp \<Rightarrow>
                  let tstatus = (case mm7_soap_header_value G mresp ''StatusCode'' of
                                   Some s \<Rightarrow> atol s | None \<Rightarrow> MM7_SOAP_FORMAT_CORRUPT)
                  in if \<not> MM7_SOAP_STATUS_OK tstatus
                     then Some (MMS_SEND_ERROR_FATAL,
                           Some (''Failed to deliver to VASP[url='' @ vasp_url vasp @ '', id='' @ vasp_id vasp @
                                 ''], status=['' @ show_int tstatus @ ''=>'' @
                                 show_octstr (mms_soap_status_to_cstr tstatus) @ '']!''), conn, w3)
                     else Some (MMS_SEND_OK, None, conn, w3) } })"

text \<open>A request to the VASP at an address: the request and its statistics.\<close>

type_synonym 's vasp_result = "(int \<times> octstr option \<times> MmsMsg option \<times> 's node) option"

definition count_pdu :: "bool \<Rightarrow> bool \<Rightarrow> int \<Rightarrow> MmsVasp \<Rightarrow> MmsVasp" where
  "count_pdu failed conn_err now v =
     (let v1 = (if failed then v\<lparr>mt_errors := mt_errors v + 1\<rparr> else v)
      in if conn_err then v1 else v1\<lparr>mt_pdus := mt_pdus v1 + 1, last_pdu := now\<rparr>)"

definition vasp_request ::
  "gwlib \<Rightarrow> 's sender \<Rightarrow> MmsVasp \<Rightarrow> octstr option \<Rightarrow> octstr \<Rightarrow> octstr option \<Rightarrow> headers \<Rightarrow> MmsMsg option \<Rightarrow>
   's \<Rightarrow> (int \<times> octstr option \<times> bool \<times> MmsMsg option \<times> 's) option" where
  "vasp_request G D v from to msgid qh mo w =
     (case mo of
        None \<Rightarrow> Some (MMS_SEND_ERROR_FATAL,
                  Some (''GlobalSend: Failed to send to '' @ to @ '', Message format is corrupt!''), False, None, w)
      | Some m \<Rightarrow>
          (case vasp_kind v of
             SOAP_VASP \<Rightarrow>
               map_option (\<lambda>(ret, err, conn, w1). (ret, err, conn, Some m, w1))
                 (mm7soap_send G (sd_env D) (sd_soap D) (s_host_alias (sd_settings D)) v from to msgid qh m w)
           | EAIF_VASP \<Rightarrow>
               map_option (\<lambda>(ret, err, conn, m', w1). (ret, err, conn, Some m', w1))
                 (mm7eaif_send G (sd_env D) v from to msgid m w)
           | NONE_VASP \<Rightarrow> Some (MMS_SEND_ERROR_FATAL, None, False, Some m, w)))"

definition mms_sendtovasp ::
  "gwlib \<Rightarrow> 's sender \<Rightarrow> nat \<Rightarrow> octstr option \<Rightarrow> octstr \<Rightarrow> octstr option \<Rightarrow> headers \<Rightarrow> MmsMsg option \<Rightarrow>
   's node \<Rightarrow> 's vasp_result" where
  "mms_sendtovasp G D a from to msgid qh mo st = do {
     v \<leftarrow> vasp_mem (nd_vasps st) a;
     (ret, err, conn, mo', w1) \<leftarrow> vasp_request G D v from to msgid qh mo (nd_w st);
     let (now, w2) = (if conn then (0, w1) else x_time (sd_env D) w1);
     Some (ret, err, mo',
       st\<lparr>nd_w := w2,
          nd_vasps := (nd_vasps st)\<lparr>vasp_mem := (vasp_mem (nd_vasps st))(a \<mapsto> count_pdu (ret < 0) conn now v)\<rparr>\<rparr>) }"

text \<open>The VASPs in the order of the list; the code goes through the keys of a dictionary.\<close>

definition vasp_with :: "(MmsVasp \<Rightarrow> bool) \<Rightarrow> vasp_registry \<Rightarrow> nat option" where
  "vasp_with P r =
     map_option snd (List.find (\<lambda>(k, a). case vasp_mem r a of Some v \<Rightarrow> P v | None \<Rightarrow> False) (vasp_list r))"

section \<open>Mobiles and other MMSCs\<close>

definition plain_args :: envelope_args where
  "plain_args = \<lparr>a_from = None, a_to = [], a_subject = None, a_fromproxy = None, a_viaproxy = None, a_senddate = 0,
     a_expirydate = 0, a_token = None, a_vaspid = None, a_vasid = None, a_url1 = None, a_url2 = None, a_hdrs = [],
     a_dlr = False, a_src_interface = ''MM2'', a_mmscname = None\<rparr>"

text \<open>The name of the directory is copied into 256 bytes, and the token has a random number.\<close>

definition mms_sendtomobile ::
  "'s sender \<Rightarrow> octstr option \<Rightarrow> octstr \<Rightarrow> octstr option \<Rightarrow> octstr option \<Rightarrow> int \<Rightarrow> MmsMsg option \<Rightarrow> bool \<Rightarrow>
   's node \<Rightarrow> (int \<times> octstr option \<times> 's node) option" where
  "mms_sendtomobile D from to subject fromproxy expires mo dlr st =
     (let (r, w1) = x_random (sd_env D) (nd_w st); token = ''wx'' @ show_nat (r mod 100) in
      case mo of
        None \<Rightarrow> Some (MMS_SEND_ERROR_FATAL,
                  Some (''GlobalSend: Failed to send to '' @ to @ '', Message format is corrupt!''), st\<lparr>nd_w := w1\<rparr>)
      | Some m \<Rightarrow>
          map_option (\<lambda>(ret, w2). (if ret = None then MMS_SEND_ERROR_TRANSIENT else MMS_SEND_OK, None, st\<lparr>nd_w := w2\<rparr>))
            (qfs_add (sd_q D)
               (plain_args\<lparr>a_from := from, a_to := [Some to], a_subject := subject, a_fromproxy := fromproxy,
                           a_expirydate := expires, a_token := Some token, a_dlr := dlr,
                           a_mmscname := s_host_alias (sd_settings D)\<rparr>)
               m (strncpy 256 (s_mm1_queuedir (sd_settings D))) w1))"

text \<open>The address with the host name is made for the log only.\<close>

definition mms_sendtoproxy ::
  "gwlib \<Rightarrow> 's sender \<Rightarrow> octstr \<Rightarrow> octstr \<Rightarrow> octstr option \<Rightarrow> octstr \<Rightarrow> octstr \<Rightarrow> octstr option \<Rightarrow> MmsMsg option \<Rightarrow>
   bool \<Rightarrow> octstr option \<Rightarrow> headers \<Rightarrow> 's node \<Rightarrow> (int \<times> octstr option \<times> 's node) option" where
  "mms_sendtoproxy G D from to subject proxy transid msgid mo dlr proxy_sendmail_cmd extra_headers st =
     (let S = sd_settings D in
      if octstr_search_char to CHR ''@'' 0 \<ge> 0
      then Some (MMS_SEND_ERROR_FATAL,
             Some (''Bad recipient address sent to  MM4 interface, addresss  is '' @ to @ ''!''), st)
      else if mo = None
      then Some (MMS_SEND_ERROR_FATAL,
             Some (''GlobalSend: Failed to send to '' @ to @ '', Message format is corrupt!''), st)
      else
        let pto = to @ ''@'' @ proxy;
            pfrom = (if octstr_search_char from CHR ''@'' 0 < 0 then from @ ''@'' @ s_hostname S else from)
        in map_option (\<lambda>(x0, err, w1).
             let x = (if x0 = MMS_SEND_QUEUED \<and> \<not> dlr then MMS_SEND_OK else x0);
                 w2 = (if x \<ge> 0
                       then mms_log2 G (sd_env D) (if x = MMS_SEND_OK then ''Sent'' else ''Queued'') (Some from) (Some pto)
                              (-1) msgid None (Some proxy) ''MM4'' None None w1
                       else w1)
             in (x, err, st\<lparr>nd_w := w2\<rparr>))
           (mms_sendtoemail G (sd_env D) (sd_fmt D) from pto
              (case subject of Some s \<Rightarrow> Some s | None \<Rightarrow> s_mms_email_subject S) msgid mo dlr
              (case proxy_sendmail_cmd of Some c \<Rightarrow> c | None \<Rightarrow> take 255 (s_sendmail S))
              (s_hostname S) False False None None True (Some (to @ ''-'' @ transid)) extra_headers (nd_w st)))"

section \<open>One recipient\<close>

text \<open>What the runner makes of the address of a recipient.\<close>

datatype rcpt_class = Mail | Phone octstr | Ip | Unsupported

definition has_type :: "int \<Rightarrow> nat \<Rightarrow> octstr \<Rightarrow> bool" where
  "has_type pos n a = (pos > 0 \<and> pos + int n = int (length a))"

definition rcpt_class :: "gwlib \<Rightarrow> octstr \<Rightarrow> rcpt_class" where
  "rcpt_class G to =
     (let j = gw_case_search G to ''/TYPE=PLMN'' 0; k = gw_case_search G to ''/TYPE=IPv'' 0 in
      if octstr_search_char to CHR ''@'' 0 > 0 then Mail
      else if has_type j 10 to then Phone (octstr_copy to 0 (nat j))
      else if has_type k 10 to then Ip
      else Unsupported)"

text \<open>Status, error text, the interface used, the message and the state.\<close>

type_synonym 's delivery = "(int \<times> octstr option \<times> octstr \<times> MmsMsg option \<times> 's node) option"

definition mail_from :: "gwlib \<Rightarrow> octstr \<Rightarrow> octstr \<Rightarrow> octstr" where
  "mail_from G hostname from =
     (let j = gw_case_search G from ''/TYPE=PLMN'' 0; k = gw_case_search G from ''/TYPE=IPv'' 0;
          p = (if has_type j 10 from then octstr_copy from 0 (nat j)
               else if has_type k 10 from then octstr_copy from 0 (nat k) else from)
      in if octstr_search_char from CHR ''@'' 0 < 0 then p @ ''@'' @ hostname else p)"

definition mail_handler :: "MmsEnvelope \<Rightarrow> vasp_registry \<Rightarrow> nat option option" where
  "mail_handler e r =
     (case mms2email r of
        None \<Rightarrow> Some None
      | Some a \<Rightarrow>
          (case vasp_mem r a of
             None \<Rightarrow> None
           | Some v \<Rightarrow> Some (if e_src_interface e = ''MM7'' \<and> e_vaspid e = Some (vasp_id v) then None else Some a)))"

definition deliver_mail ::
  "gwlib \<Rightarrow> 's sender \<Rightarrow> MmsEnvelope \<Rightarrow> octstr \<Rightarrow> MmsMsg option \<Rightarrow> 's node \<Rightarrow> 's delivery" where
  "deliver_mail G D e to mo st = do {
     from \<leftarrow> e_from e;
     handler \<leftarrow> mail_handler e (nd_vasps st);
     let S = sd_settings D;
     (res, err, mo', st1) \<leftarrow>
       (case handler of
          Some a \<Rightarrow> mms_sendtovasp G D a (e_from e) to (e_msgId e) (e_hdrs e) mo st
        | None \<Rightarrow>
            map_option (\<lambda>(res, err, w). (res, err, mo, st\<lparr>nd_w := w\<rparr>))
              (mms_sendtoemail G (sd_env D) (sd_fmt D) (mail_from G (s_hostname S) from) to
                 (case e_subject e of Some s \<Rightarrow> Some s | None \<Rightarrow> s_mms_email_subject S) (e_msgId e) mo False
                 (take 255 (s_sendmail S)) (s_hostname S) True True (s_mms_email_txt S) (s_mms_email_html S) False
                 (Some (e_xqfname e)) (e_hdrs e) (nd_w st)));
     let res' = (if res = MMS_SEND_QUEUED then MMS_SEND_OK else res);
     let st2 = (if res' = MMS_SEND_OK
                then st1\<lparr>nd_w := mms_log2 G (sd_env D) ''Sent'' (e_from e) (Some to) (-1) (e_msgId e) None None ''MM3'' None None (nd_w st1)\<rparr>
                else st1);
     Some (res', err, ''MM3'', mo', st2) }"

text \<open>The copy of a message for a local handset that goes to a VASP; its status is only logged, its
  error text stays.\<close>

definition local_copy ::
  "gwlib \<Rightarrow> 's sender \<Rightarrow> MmsEnvelope \<Rightarrow> octstr \<Rightarrow> MmsMsg option \<Rightarrow> 's node \<Rightarrow>
   (octstr option \<times> MmsMsg option \<times> 's node) option" where
  "local_copy G D e to mo st =
     (case mms2mobile (nd_vasps st) of
        Some a \<Rightarrow>
          if e_msgtype e = MMS_MSGTYPE_SEND_REQ
          then map_option (\<lambda>(res, err, mo', st'). (err, mo', st'))
                 (mms_sendtovasp G D a (e_from e) to (e_msgId e) (e_hdrs e) mo st)
          else Some (None, mo, st)
      | None \<Rightarrow> Some (None, mo, st))"

definition deliver_local ::
  "gwlib \<Rightarrow> 's sender \<Rightarrow> MmsEnvelope \<Rightarrow> octstr \<Rightarrow> MmsMsg option \<Rightarrow> 's node \<Rightarrow> 's delivery" where
  "deliver_local G D e to mo st = do {
     (err0, mo1, st1) \<leftarrow> local_copy G D e to mo st;
     (res, err, st2) \<leftarrow> mms_sendtomobile D (e_from e) to (e_subject e) (e_fromproxy e) (e_expiryt e) mo1 (e_dlr e) st1;
     Some (res, if err = None then err0 else err, ''MM1'', mo1, st2) }"

definition deliver_proxy ::
  "gwlib \<Rightarrow> 's sender \<Rightarrow> MmsEnvelope \<Rightarrow> octstr \<Rightarrow> MmsProxyRelay \<Rightarrow> MmsMsg option \<Rightarrow> 's node \<Rightarrow> 's delivery" where
  "deliver_proxy G D e to mp mo st = do {
     let transid = fst (mms_maketransid 0 0 0 0 (Some (e_xqfname e)) (show_octstr (s_host_alias (sd_settings D))));
     let from0 = (case e_from e of Some f \<Rightarrow> f | None \<Rightarrow> ''anon@anon'');
     xfrom \<leftarrow> mms_fixup_address G (Some from0) (pr_unified_prefix mp) (pr_strip_prefixes mp) True;
     xto \<leftarrow> mms_fixup_address G (Some to) (pr_unified_prefix mp) (pr_strip_prefixes mp) True;
     (res, err, st1) \<leftarrow> mms_sendtoproxy G D xfrom xto (e_subject e) (pr_host mp) transid (e_msgId e) mo
                           (pr_confirmed_mm4 mp) (pr_sendmail mp) (e_hdrs e) st;
     Some (res, err, ''MM4'', mo, st1) }"

definition deliver_vasp ::
  "gwlib \<Rightarrow> 's sender \<Rightarrow> MmsEnvelope \<Rightarrow> octstr \<Rightarrow> nat \<Rightarrow> MmsMsg option \<Rightarrow> 's node \<Rightarrow> 's delivery" where
  "deliver_vasp G D e to a mo st =
     map_option (\<lambda>(res, err, mo', st'). (res, err, ''MM7'', mo', st'))
       (mms_sendtovasp G D a (e_from e) to (e_msgId e) (e_hdrs e) mo st)"

definition no_route :: "octstr \<Rightarrow> MmsMsg option \<Rightarrow> 's node \<Rightarrow> 's delivery" where
  "no_route to mo st =
     Some (MMS_SEND_ERROR_FATAL, Some (''MMSC error: Don'' @ [CHR 0x27] @ ''t know how to deliver to '' @ to @ '' !''), ''NONE'', mo, st)"

definition deliver_phone ::
  "gwlib \<Rightarrow> 's sender \<Rightarrow> MmsEnvelope \<Rightarrow> octstr \<Rightarrow> octstr \<Rightarrow> MmsMsg option \<Rightarrow> 's node \<Rightarrow> 's delivery" where
  "deliver_phone G D e to phone mo st =
     (let S = sd_settings D in
      case vasp_with (\<lambda>v. match_short_codes G phone (short_codes v)) (nd_vasps st) of
        Some a \<Rightarrow> deliver_vasp G D e to a mo st
      | None \<Rightarrow> do {
          number \<leftarrow> mms_normalize_phonenum G (Some phone) (Some (s_unified_prefix S)) (s_strip_prefixes S);
          let (mmsc, w1) = sd_resolve D number (e_src_interface e) (e_vaspid e) (nd_w st);
          let st1 = st\<lparr>nd_w := w1\<rparr>;
          case mmsc of
            None \<Rightarrow> no_route to mo st1
          | Some h \<Rightarrow>
              if gw_compare G h (s_hostname S) = 0 then deliver_local G D e to mo st1
              else
                case List.find (\<lambda>mp. gw_compare G (pr_host mp) h = 0) (sd_proxies D) of
                  Some mp \<Rightarrow> deliver_proxy G D e to mp mo st1
                | None \<Rightarrow>
                    (case vasp_with (\<lambda>v. gw_compare G (vasp_id v) h = 0) (nd_vasps st1) of
                       Some a \<Rightarrow> deliver_vasp G D e to a mo st1
                     | None \<Rightarrow> no_route to mo st1) })"

section \<open>One attempt\<close>

definition expired :: "MmsEnvelope \<Rightarrow> int \<Rightarrow> bool" where
  "expired e now = (e_expiryt e \<noteq> 0 \<and> e_expiryt e < now)"

definition attempt_rcpt ::
  "gwlib \<Rightarrow> 's sender \<Rightarrow> MmsEnvelope \<Rightarrow> octstr \<Rightarrow> int \<Rightarrow> MmsMsg option \<Rightarrow> 's node \<Rightarrow> 's delivery" where
  "attempt_rcpt G D e to tnow mo st =
     (let most = s_maxsendattempts (sd_settings D) in
      if expired e tnow
      then Some (MMS_SEND_ERROR_FATAL, Some (''MMSC error: Message expired while sending to '' @ to @ ''!''), ''NONE'', mo, st)
      else if e_attempts e \<ge> most
      then Some (MMS_SEND_ERROR_FATAL,
             Some (''MMSC error: Failed to deliver to '' @ to @ '' after '' @ show_int (e_attempts e) @
                   '' attempts. (max attempts allowed is '' @ show_int most @ '')!''), ''NONE'', mo, st)
      else
        case rcpt_class G to of
          Mail \<Rightarrow> deliver_mail G D e to mo st
        | Ip \<Rightarrow> deliver_local G D e to mo st
        | Phone num \<Rightarrow> deliver_phone G D e to num mo st
        | Unsupported \<Rightarrow>
            Some (MMS_SEND_ERROR_FATAL, Some (''MMSC error: Unsupported recipient type '' @ to), ''NONE'', mo, st))"

definition report_status :: "MmsEnvelope \<Rightarrow> int \<Rightarrow> int \<Rightarrow> octstr" where
  "report_status e tnow res =
     (if res = MMS_SEND_QUEUED then ''Forwarded'' else if expired e tnow then ''Expired'' else ''Rejected'')"

text \<open>A delivery report is queued for every result but success.\<close>

definition queue_report ::
  "gwlib \<Rightarrow> 's sender \<Rightarrow> MmsEnvelope \<Rightarrow> octstr \<Rightarrow> int \<Rightarrow> int \<Rightarrow> octstr option \<Rightarrow> 's node \<Rightarrow> 's node option" where
  "queue_report G D e to tnow res err st =
     (if res = MMS_SEND_OK \<or> \<not> e_dlr e then Some st
      else
        let S = sd_settings D;
            m = mms_deliveryreport G (e_msgId e) (Some to) (e_from e) tnow (report_status e tnow res)
        in map_option (\<lambda>(_, w). st\<lparr>nd_w := w\<rparr>)
             (qfs_add (sd_q D)
                (plain_args\<lparr>a_from := Some to, a_to := [e_from e], a_subject := err, a_viaproxy := e_fromproxy e,
                            a_senddate := tnow, a_expirydate := tnow + s_default_msgexpiry S,
                            a_mmscname := s_host_alias S\<rparr>)
                m (strncpy 256 (s_global_queuedir S)) (nd_w st)))"

text \<open>A recipient is done with after success and after a fatal error.\<close>

definition settled :: "int \<Rightarrow> bool" where
  "settled res = (res = MMS_SEND_OK \<or> res = MMS_SEND_ERROR_FATAL)"

definition settle :: "nat \<Rightarrow> int \<Rightarrow> MmsEnvelope \<Rightarrow> MmsEnvelope" where
  "settle i res e = (if settled res then e\<lparr>e_to := (e_to e)[i := (e_to e ! i)\<lparr>process := False\<rparr>]\<rparr> else e)"

definition produce_cdr :: "MmsEnvelope \<Rightarrow> octstr \<Rightarrow> int \<Rightarrow> octstr \<Rightarrow> 's node \<Rightarrow> 's node" where
  "produce_cdr e to res dst_int st =
     (if res = MMS_SEND_OK \<and> (e_msgtype e = MMS_MSGTYPE_SEND_REQ \<or> e_msgtype e = MMS_MSGTYPE_RETRIEVE_CONF)
      then st\<lparr>nd_cdrs := nd_cdrs st @ [make_cdr_struct (e_created e) (Some (show_octstr (e_from e))) (Some to)
                (Some (or_empty (e_msgId e))) (Some (or_empty (e_vaspid e))) (Some (e_src_interface e)) (Some dst_int)
                (e_msize e)]\<rparr>
      else st)"

text \<open>The recipients from the \<open>i\<close>-th on, \<open>k\<close> of them; the envelope is \<open>None\<close> when it has left the queue.\<close>

fun send_loop ::
  "gwlib \<Rightarrow> 's sender \<Rightarrow> nat \<Rightarrow> nat \<Rightarrow> MmsEnvelope \<Rightarrow> MmsMsg option \<Rightarrow> 's node \<Rightarrow>
   (MmsEnvelope option \<times> 's node) option" where
  "send_loop G D i 0 e mo st = Some (Some e, st)"
| "send_loop G D i (Suc k) e mo st =
     (let (tnow, w1) = x_time (sd_env D) (nd_w st); st1 = st\<lparr>nd_w := w1\<rparr>; to = e_to e ! i in
      if \<not> process to then send_loop G D (Suc i) k e mo st1
      else
        case attempt_rcpt G D e (rcpt to) tnow mo st1 of
          None \<Rightarrow> None
        | Some (res, err, dst_int, mo', st2) \<Rightarrow>
            (case queue_report G D e (rcpt to) tnow res err st2 of
               None \<Rightarrow> None
             | Some st3 \<Rightarrow>
                 let st4 = produce_cdr e (rcpt to) res dst_int st3;
                     e1 = (settle i res e)\<lparr>e_lasttry := tnow\<rparr>
                 in case qfs_update (sd_q D) e1 (nd_w st4) of
                      (r, eo, w5) \<Rightarrow>
                        (case eo of
                           None \<Rightarrow> Some (None, st4\<lparr>nd_w := w5\<rparr>)
                         | Some e2 \<Rightarrow> send_loop G D (Suc i) k e2 mo' (st4\<lparr>nd_w := w5\<rparr>))))"

text \<open>Billing: the envelope (\<open>None\<close> when it has left the queue), and whether to go on.\<close>

definition drop_recipients :: "MmsEnvelope \<Rightarrow> MmsEnvelope" where
  "drop_recipients e = e\<lparr>e_to := map (\<lambda>t. t\<lparr>process := False\<rparr>) (e_to e)\<rparr>"

definition bill_message ::
  "gwlib \<Rightarrow> 's sender \<Rightarrow> MmsEnvelope \<Rightarrow> 's node \<Rightarrow> MmsEnvelope option \<times> bool \<times> 's node" where
  "bill_message G D e st =
     (if e_msgtype e = MMS_MSGTYPE_SEND_REQ \<and> \<not> e_billed e
      then
        let S = sd_settings D;
            l = concat (map (\<lambda>t. case mms_fixup_address G (Some (rcpt t)) (Some (s_unified_prefix S)) (s_strip_prefixes S) True of
                                   Some a \<Rightarrow> [a] | None \<Rightarrow> []) (e_to e));
            (amt, w1) = sd_billmsg D (e_from e) l (e_msize e) (e_vaspid e) (e_msgId e) (nd_w st);
            st1 = st\<lparr>nd_w := w1\<rparr>;
            e1 = (if amt = -1 then drop_recipients e
                  else if amt \<ge> 0 then e\<lparr>e_billed := True, e_amt := 1000 * amt\<rparr> else e)
        in if amt \<ge> -1
           then (case qfs_update (sd_q D) e1 w1 of (r, eo, w2) \<Rightarrow> (eo, e_billed e1 \<and> eo \<noteq> None, st1\<lparr>nd_w := w2\<rparr>))
           else (Some e1, False, st1)
      else (Some e, True, st))"

text \<open>The end of an attempt: what is left is queued again, later each time. The result is the envelope as
  written, or \<open>None\<close>.\<close>

definition finish_attempt :: "'s sender \<Rightarrow> MmsEnvelope \<Rightarrow> 's node \<Rightarrow> MmsEnvelope option \<times> 's node" where
  "finish_attempt D e st =
     (let (now, w1) = x_time (sd_env D) (nd_w st);
          e1 = e\<lparr>e_lasttry := now, e_attempts := e_attempts e + 1,
                 e_sendt := now + s_send_back_off (sd_settings D) * (e_attempts e + 1)\<rparr>
      in case qfs_update (sd_q D) e1 w1 of
           (r, None, w2) \<Rightarrow> (None, st\<lparr>nd_w := w2\<rparr>)
         | (r, Some e2, w2) \<Rightarrow> (Some e2, st\<lparr>nd_w := if r \<noteq> 1 then qfs_free_env (sd_q D) e2 w2 else w2\<rparr>))"

text \<open>\<open>sendMsg\<close> always returns 1, as it frees the envelope; the model returns what the queue holds then.\<close>

definition sendMsg ::
  "gwlib \<Rightarrow> 's sender \<Rightarrow> MmsEnvelope \<Rightarrow> 's node \<Rightarrow> (MmsEnvelope option \<times> 's node) option" where
  "sendMsg G D e st =
     (case bill_message G D e st of
        (None, _, st1) \<Rightarrow> Some (None, st1)
      | (Some e1, False, st1) \<Rightarrow> Some (finish_attempt D e1 st1)
      | (Some e1, True, st1) \<Rightarrow>
          (case send_loop G D 0 (length (e_to e1)) e1 (qfs_getdata (sd_q D) e1 (nd_w st1)) st1 of
             None \<Rightarrow> None
           | Some (None, st2) \<Rightarrow> Some (None, st2)
           | Some (Some e2, st2) \<Rightarrow> Some (finish_attempt D e2 st2)))"

text \<open>Attempts at a message as long as it is in the queue, at most \<open>k\<close>; each reads the envelope that the
  one before it has written.\<close>

fun attempts ::
  "gwlib \<Rightarrow> 's sender \<Rightarrow> nat \<Rightarrow> MmsEnvelope \<Rightarrow> 's node \<Rightarrow> (MmsEnvelope option \<times> 's node) option" where
  "attempts G D 0 e st = Some (Some e, st)"
| "attempts G D (Suc k) e st =
     (case sendMsg G D e st of
        None \<Rightarrow> None
      | Some (None, st') \<Rightarrow> Some (None, st')
      | Some (Some e', st') \<Rightarrow> attempts G D k e' st')"

end
