(* ===== verification/SenderFacts.thy ===== *)
theory SenderFacts
  imports MmsSender QueueStore
begin

text \<open>
  What the attempts of the global sender do to a message: which recipients they leave, how often a
  message is tried and when it leaves the queue, over any queue module that keeps the contract
  \<open>queue_module\<close>.
\<close>

text \<open>An attempt may only settle recipients; everything else that decides about delivery stays.\<close>

definition sender_frame :: "MmsEnvelope \<Rightarrow> MmsEnvelope \<Rightarrow> bool" where
  "sender_frame e e' =
     (map rcpt (e_to e') = map rcpt (e_to e) \<and>
      (\<forall>j < length (e_to e). process (e_to e' ! j) \<longrightarrow> process (e_to e ! j)) \<and>
      e_attempts e' = e_attempts e \<and> e_billed e' = e_billed e \<and> e_msgtype e' = e_msgtype e \<and>
      e_from e' = e_from e \<and> e_dlr e' = e_dlr e \<and> (0 < e_expiryt e \<longrightarrow> e_expiryt e' = e_expiryt e))"

lemma sender_frame_refl [simp]: "sender_frame e e"
  by (simp add: sender_frame_def)

lemma sender_frame_length: "sender_frame e e' \<Longrightarrow> length (e_to e') = length (e_to e)"
  by (metis sender_frame_def length_map)

lemma sender_frame_trans [trans]: "sender_frame a b \<Longrightarrow> sender_frame b c \<Longrightarrow> sender_frame a c"
  using sender_frame_length [of a b] by (simp add: sender_frame_def)

lemma sender_frame_same: "same_message e e' \<Longrightarrow> sender_frame e e' \<and> e_to e' = e_to e"
  by (auto simp: same_message_def sender_frame_def)

lemma sender_frame_settle: "i < length (e_to e) \<Longrightarrow> sender_frame e ((settle i res e)\<lparr>e_lasttry := t\<rparr>)"
  by (auto simp: settle_def sender_frame_def nth_list_update map_update intro!: nth_equalityI)

lemma settle_to: "i < length (e_to e) \<Longrightarrow> j < length (e_to e) \<Longrightarrow>
  process (e_to (settle i res e) ! j) = (if j = i \<and> settled res then False else process (e_to e ! j))"
  by (auto simp: settle_def nth_list_update)

lemma attempt_limit:
  assumes "e_attempts e \<ge> s_maxsendattempts (sd_settings D)"
  shows "\<exists>err. attempt_rcpt G D e to t mo st = Some (MMS_SEND_ERROR_FATAL, err, ''NONE'', mo, st)"
  using assms by (cases "expired e t") (simp_all add: attempt_rcpt_def)

lemma queue_report_total:
  assumes "\<And>a d s i to fr t sta. qfs_add (sd_q D) a (mms_deliveryreport G i to fr t sta) d s \<noteq> None"
  shows "queue_report G D e to tnow res err st \<noteq> None"
  unfolding queue_report_def Let_def using assms by (simp del: not_None_eq)

context queue_module
begin

lemma send_loop_frame:
  assumes "sd_q D = Q"
  shows "send_loop G D i k e mo st = Some (Some e', st') \<Longrightarrow> i + k = length (e_to e) \<Longrightarrow> sender_frame e e'"
proof (induction k arbitrary: i e mo st)
  case (Suc k)
  obtain tnow w1 where time: "x_time (sd_env D) (nd_w st) = (tnow, w1)" by force
  show ?case
  proof (cases "process (e_to e ! i)")
    case False
    with Suc time show ?thesis by simp
  next
    case True
    then obtain res err dst mo2 st2 st3 where a: "attempt_rcpt G D e (rcpt (e_to e ! i)) tnow mo (st\<lparr>nd_w := w1\<rparr>) = Some (res, err, dst, mo2, st2)"
      and q: "queue_report G D e (rcpt (e_to e ! i)) tnow res err st2 = Some st3"
      using Suc.prems(1) time by (auto simp: Let_def split: option.splits)
    let ?e1 = "(settle i res e)\<lparr>e_lasttry := tnow\<rparr>" and ?st4 = "produce_cdr e (rcpt (e_to e ! i)) res dst st3"
    have fr: "sender_frame e ?e1" using Suc.prems(2) by (intro sender_frame_settle) simp
    show ?thesis
    proof (cases rule: update_cases [of ?e1 "nd_w ?st4"])
      case (gone s')
      with Suc.prems(1) time True a q assms show ?thesis by simp
    next
      case (kept r e2 s')
      with Suc.prems(1) time True a q assms
      have "send_loop G D (Suc i) k e2 mo2 (?st4\<lparr>nd_w := s'\<rparr>) = Some (Some e', st')" by simp
      moreover have "sender_frame e e2"
        using fr sender_frame_same [OF kept(3)] sender_frame_trans by blast
      moreover from this have "Suc i + k = length (e_to e2)"
        using Suc.prems(2) sender_frame_length by fastforce
      ultimately show ?thesis using Suc.IH sender_frame_trans by blast
    qed
  qed
qed simp

text \<open>At the limit of attempts every recipient that is left is settled.\<close>

lemma send_loop_limit:
  assumes D: "sd_q D = Q" and add: "\<And>a d s i to fr t sta. qfs_add Q a (mms_deliveryreport G i to fr t sta) d s \<noteq> None"
  shows "e_attempts e \<ge> s_maxsendattempts (sd_settings D) \<Longrightarrow> i + k = length (e_to e) \<Longrightarrow>
    \<forall>j < i. \<not> process (e_to e ! j) \<Longrightarrow>
    \<exists>eo st'. send_loop G D i k e mo st = Some (eo, st') \<and>
      (case eo of None \<Rightarrow> True | Some e' \<Rightarrow> \<forall>t \<in> set (e_to e'). \<not> process t)"
proof (induction k arbitrary: i e mo st)
  case 0
  then show ?case by (auto simp: in_set_conv_nth)
next
  case (Suc k)
  obtain tnow w1 where time: "x_time (sd_env D) (nd_w st) = (tnow, w1)" by force
  show ?case
  proof (cases "process (e_to e ! i)")
    case False
    have "\<forall>j < Suc i. \<not> process (e_to e ! j)" using Suc.prems(3) False less_Suc_eq by auto
    from Suc.IH [OF Suc.prems(1) _ this] Suc.prems(2) show ?thesis using time False by simp
  next
    case True
    let ?to = "rcpt (e_to e ! i)"
    obtain err st2 where a: "attempt_rcpt G D e ?to tnow mo (st\<lparr>nd_w := w1\<rparr>) = Some (MMS_SEND_ERROR_FATAL, err, ''NONE'', mo, st2)"
      using attempt_limit [OF Suc.prems(1)] by blast
    obtain st3 where q: "queue_report G D e ?to tnow MMS_SEND_ERROR_FATAL err st2 = Some st3"
      using queue_report_total add D by (metis not_None_eq)
    let ?e1 = "(settle i MMS_SEND_ERROR_FATAL e)\<lparr>e_lasttry := tnow\<rparr>"
      and ?st4 = "produce_cdr e ?to MMS_SEND_ERROR_FATAL ''NONE'' st3"
    have fr: "sender_frame e ?e1" using Suc.prems(2) by (intro sender_frame_settle) simp
    have done1: "\<forall>j < Suc i. \<not> process (e_to ?e1 ! j)"
      using Suc.prems(2,3) by (auto simp: settle_to settled_def less_Suc_eq)
    show ?thesis
    proof (cases rule: update_cases [of ?e1 "nd_w ?st4"])
      case (gone s')
      with time True a q D show ?thesis by simp
    next
      case (kept r e2 s')
      note same = sender_frame_same [OF kept(3)]
      have "e_attempts e2 \<ge> s_maxsendattempts (sd_settings D)"
        using Suc.prems(1) same fr by (simp add: sender_frame_def)
      moreover have "Suc i + k = length (e_to e2)"
        using Suc.prems(2) same sender_frame_length [OF fr] by simp
      moreover have "\<forall>j < Suc i. \<not> process (e_to e2 ! j)" using done1 same by simp
      ultimately show ?thesis using Suc.IH [of e2 "Suc i" mo] time True a q D kept(1) by simp
    qed
  qed
qed

lemma finish_attempt_cases:
  assumes "sd_q D = Q" and "finish_attempt D e st = (eo, st')"
  shows "(eo = None \<longleftrightarrow> (\<forall>t \<in> set (e_to e). \<not> process t)) \<and>
    (\<forall>e'. eo = Some e' \<longrightarrow> e_to e' = e_to e \<and> e_attempts e' = e_attempts e + 1 \<and>
      sender_frame (e\<lparr>e_attempts := e_attempts e + 1\<rparr>) e')"
proof -
  obtain now w1 where time: "x_time (sd_env D) (nd_w st) = (now, w1)" by force
  let ?e1 = "e\<lparr>e_lasttry := now, e_attempts := e_attempts e + 1,
                 e_sendt := now + s_send_back_off (sd_settings D) * (e_attempts e + 1)\<rparr>"
  show ?thesis
  proof (cases rule: update_cases [of ?e1 w1])
    case (gone s')
    with assms time show ?thesis by (auto simp: finish_attempt_def)
  next
    case (kept r e2 s')
    then have "eo = Some e2" using assms time by (auto simp: finish_attempt_def)
    moreover have "e_to e2 = e_to e" "e_attempts e2 = e_attempts e + 1"
      "sender_frame (e\<lparr>e_attempts := e_attempts e + 1\<rparr>) e2"
      using kept(3) by (auto simp: same_message_def sender_frame_def)
    ultimately show ?thesis using kept(4) by simp
  qed
qed

end

section \<open>A node without VASPs does not panic\<close>

definition no_vasps :: "vasp_registry \<Rightarrow> bool" where
  "no_vasps r = (vasp_list r = [] \<and> mms2email r = None \<and> mms2mobile r = None)"

definition safe_command :: "string \<Rightarrow> bool" where
  "safe_command c = (set (mail_letters c) \<inter> {CHR ''s'', CHR ''m''} = {})"

text \<open>The mail commands in use have no subject or identifier, which may be missing, and the queue takes
  the messages \<open>M\<close>, among which are those that it holds and the delivery reports.\<close>

definition calm :: "gwlib \<Rightarrow> 's sender \<Rightarrow> MmsMsg set \<Rightarrow> bool" where
  "calm G D M =
     (safe_command (take 255 (s_sendmail (sd_settings D))) \<and>
      (\<forall>mp \<in> set (sd_proxies D). \<forall>c. pr_sendmail mp = Some c \<longrightarrow> safe_command c) \<and>
      (\<forall>m \<in> M. \<forall>a d s. qfs_add (sd_q D) a m d s \<noteq> None) \<and>
      (\<forall>i to fr t sta. mms_deliveryreport G i to fr t sta \<in> M) \<and>
      (\<forall>e s m. qfs_getdata (sd_q D) e s = Some m \<longrightarrow> m \<in> M))"

text \<open>A message for mail recipients needs a sender and readable data.\<close>

definition mail_ok :: "gwlib \<Rightarrow> MmsEnvelope \<Rightarrow> MmsMsg option \<Rightarrow> bool" where
  "mail_ok G e mo = (mo \<noteq> None \<and> e_from e \<noteq> None \<or> (\<forall>a \<in> set (map rcpt (e_to e)). rcpt_class G a \<noteq> Mail))"

lemma send2email_total: "safe_command c \<Longrightarrow> send2email G X to from su mi m b c h w \<noteq> None"
  by (auto simp: send2email_def safe_command_def Let_def split: prod.split popen_result.split)

lemma sendtoemail_total:
  "safe_command c \<Longrightarrow> mms_sendtoemail G X fmt from to su mi (Some m) dlr c h tr sm txt html mm4 ti hs w \<noteq> None"
  using send2email_total [of c]
  by (auto simp: mms_sendtoemail_def Let_def split: prod.split option.split)

lemma fixup_total: "mms_fixup_address G (Some a) u s b \<noteq> None"
  by (auto simp: mms_fixup_address_def mms_normalize_phonenum_def Let_def split: option.split)

lemma no_vasps_lookup: "no_vasps r \<Longrightarrow> vasp_with P r = None \<and> mail_handler e r = Some None"
  by (simp add: no_vasps_def vasp_with_def mail_handler_def)

text \<open>A delivery that ends keeps the message and the registry.\<close>

definition delivered :: "MmsMsg option \<Rightarrow> 's node \<Rightarrow> 's delivery \<Rightarrow> bool" where
  "delivered mo st d = (\<exists>res err dst st'. d = Some (res, err, dst, mo, st') \<and> nd_vasps st' = nd_vasps st)"

lemma deliver_mail_total:
  assumes "calm G D M" and "no_vasps (nd_vasps st)" and "e_from e \<noteq> None"
  shows "delivered (Some m) st (deliver_mail G D e to (Some m) st)"
proof -
  obtain f where f: "e_from e = Some f" using assms(3) by auto
  let ?S = "sd_settings D"
  obtain r where r: "mms_sendtoemail G (sd_env D) (sd_fmt D) (mail_from G (s_hostname ?S) f) to
      (case e_subject e of Some s \<Rightarrow> Some s | None \<Rightarrow> s_mms_email_subject ?S) (e_msgId e) (Some m) False
      (take 255 (s_sendmail ?S)) (s_hostname ?S) True True (s_mms_email_txt ?S) (s_mms_email_html ?S) False
      (Some (e_xqfname e)) (e_hdrs e) (nd_w st) = Some r"
    using sendtoemail_total assms(1) unfolding calm_def by (metis not_None_eq)
  obtain res err w where "r = (res, err, w)" by (cases r)
  with r f no_vasps_lookup [OF assms(2), of _ e] show ?thesis
    by (simp add: deliver_mail_def delivered_def Let_def)
qed

lemma map_option_keeps:
  assumes "x \<noteq> None" and "\<And>y. nd_vasps (snd (snd (f y))) = v"
  shows "\<exists>res err st'. map_option f x = Some (res, err, st') \<and> nd_vasps st' = v"
proof -
  obtain y where "x = Some y" using assms(1) by auto
  with assms(2) [of y] show ?thesis by (cases "f y") auto
qed

lemma sendtomobile_total:
  assumes "calm G D M" and "set_option mo \<subseteq> M"
  shows "\<exists>res err st'. mms_sendtomobile D from to su fp ex mo dlr st = Some (res, err, st') \<and> nd_vasps st' = nd_vasps st"
proof (cases mo)
  case None
  then show ?thesis by (simp add: mms_sendtomobile_def case_prod_unfold Let_def)
next
  case (Some m)
  obtain r w1 where r: "x_random (sd_env D) (nd_w st) = (r, w1)" by force
  have "qfs_add (sd_q D) a m d w1 \<noteq> None" for a d using assms Some unfolding calm_def by simp
  then show ?thesis
    unfolding Some mms_sendtomobile_def Let_def r prod.case option.case
    by (rule map_option_keeps) (simp add: case_prod_unfold)
qed

lemma deliver_local_total:
  assumes "calm G D M" and "no_vasps (nd_vasps st)" and "set_option mo \<subseteq> M"
  shows "delivered mo st (deliver_local G D e to mo st)"
proof -
  have "local_copy G D e to mo st = Some (None, mo, st)"
    using assms(2) by (simp add: local_copy_def no_vasps_def)
  moreover obtain res err st' where
    "mms_sendtomobile D (e_from e) to (e_subject e) (e_fromproxy e) (e_expiryt e) mo (e_dlr e) st = Some (res, err, st')"
    and "nd_vasps st' = nd_vasps st"
    using sendtomobile_total [OF assms(1,3)] by blast
  ultimately show ?thesis by (simp add: deliver_local_def delivered_def)
qed

lemma sendtoproxy_total:
  assumes "safe_command (case c of Some c \<Rightarrow> c | None \<Rightarrow> take 255 (s_sendmail (sd_settings D)))"
  shows "\<exists>res err st'. mms_sendtoproxy G D from to su p ti mi mo dlr c hs st = Some (res, err, st') \<and> nd_vasps st' = nd_vasps st"
proof (cases "octstr_search_char to CHR ''@'' 0 \<ge> 0 \<or> mo = None")
  case True
  then show ?thesis by (auto simp: mms_sendtoproxy_def Let_def)
next
  case False
  then obtain m where m: "mo = Some m" and no_at: "\<not> octstr_search_char to CHR ''@'' 0 \<ge> 0" by auto
  show ?thesis
    unfolding m mms_sendtoproxy_def Let_def if_not_P [OF no_at] if_not_P [OF option.distinct(2)]
    by (intro map_option_keeps sendtoemail_total [OF assms]) (simp add: case_prod_unfold)
qed

lemma deliver_proxy_total:
  assumes "calm G D M" and "mp \<in> set (sd_proxies D)"
  shows "delivered mo st (deliver_proxy G D e to mp mo st)"
proof -
  obtain f t where f: "mms_fixup_address G (Some (case e_from e of Some f \<Rightarrow> f | None \<Rightarrow> ''anon@anon''))
      (pr_unified_prefix mp) (pr_strip_prefixes mp) True = Some f"
    and t: "mms_fixup_address G (Some to) (pr_unified_prefix mp) (pr_strip_prefixes mp) True = Some t"
    using fixup_total by (metis not_None_eq)
  have "safe_command (case pr_sendmail mp of Some c \<Rightarrow> c | None \<Rightarrow> take 255 (s_sendmail (sd_settings D)))"
    using assms by (auto simp: calm_def split: option.split)
  from sendtoproxy_total [OF this] obtain res err st' where
    "mms_sendtoproxy G D f t (e_subject e) (pr_host mp)
       (fst (mms_maketransid 0 0 0 0 (Some (e_xqfname e)) (show_octstr (s_host_alias (sd_settings D)))))
       (e_msgId e) mo (pr_confirmed_mm4 mp) (pr_sendmail mp) (e_hdrs e) st = Some (res, err, st')"
    and "nd_vasps st' = nd_vasps st" by blast
  then show ?thesis by (simp add: deliver_proxy_def delivered_def f t Let_def)
qed

lemma deliver_phone_total:
  assumes "calm G D M" and "no_vasps (nd_vasps st)" and "set_option mo \<subseteq> M"
  shows "delivered mo st (deliver_phone G D e to num mo st)"
proof -
  let ?S = "sd_settings D"
  obtain n where n: "mms_normalize_phonenum G (Some num) (Some (s_unified_prefix ?S)) (s_strip_prefixes ?S) = Some n"
    by (auto simp: mms_normalize_phonenum_def Let_def)
  obtain mmsc w1 where res: "sd_resolve D n (e_src_interface e) (e_vaspid e) (nd_w st) = (mmsc, w1)" by force
  let ?st1 = "st\<lparr>nd_w := w1\<rparr>"
  have nv: "no_vasps (nd_vasps ?st1)" using assms(2) by simp
  have stays: "delivered mo ?st1 d \<Longrightarrow> delivered mo st d" for d by (simp add: delivered_def)
  have none: "delivered mo ?st1 (no_route to mo ?st1)" by (simp add: delivered_def no_route_def)
  have "delivered mo ?st1 (deliver_phone G D e to num mo st)"
  proof (cases mmsc)
    case None
    with none res n no_vasps_lookup [OF assms(2)] show ?thesis by (simp add: deliver_phone_def Let_def)
  next
    case (Some h)
    show ?thesis
    proof (cases "gw_compare G h (s_hostname ?S) = 0")
      case True
      with Some res n no_vasps_lookup [OF assms(2)] deliver_local_total [OF assms(1) nv assms(3)] show ?thesis
        by (simp add: deliver_phone_def Let_def)
    next
      case False
      show ?thesis
      proof (cases "List.find (\<lambda>mp. gw_compare G (pr_host mp) h = 0) (sd_proxies D)")
        case None
        with Some False res n no_vasps_lookup [OF assms(2)] none show ?thesis
          by (simp add: deliver_phone_def Let_def)
      next
        case (Some mp)
        then have "mp \<in> set (sd_proxies D)" using find_Some_in by fastforce
        with Some \<open>mmsc = Some h\<close> False res n no_vasps_lookup [OF assms(2)] deliver_proxy_total [OF assms(1)]
        show ?thesis by (simp add: deliver_phone_def Let_def)
      qed
    qed
  qed
  then show ?thesis by (rule stays)
qed

lemma attempt_total:
  assumes "calm G D M" and "no_vasps (nd_vasps st)" and "set_option mo \<subseteq> M"
    and "mail_ok G e mo" and "to \<in> set (map rcpt (e_to e))"
  shows "delivered mo st (attempt_rcpt G D e to t mo st)"
proof (cases "expired e t \<or> e_attempts e \<ge> s_maxsendattempts (sd_settings D)")
  case True
  then show ?thesis by (auto simp: attempt_rcpt_def delivered_def Let_def)
next
  case False
  then have step: "attempt_rcpt G D e to t mo st = (case rcpt_class G to of
          Mail \<Rightarrow> deliver_mail G D e to mo st
        | Ip \<Rightarrow> deliver_local G D e to mo st
        | Phone num \<Rightarrow> deliver_phone G D e to num mo st
        | Unsupported \<Rightarrow>
            Some (MMS_SEND_ERROR_FATAL, Some (''MMSC error: Unsupported recipient type '' @ to), ''NONE'', mo, st))"
    by (simp add: attempt_rcpt_def Let_def)
  show ?thesis
  proof (cases "rcpt_class G to")
    case Mail
    then obtain m where "mo = Some m" "e_from e \<noteq> None" using assms(4,5) by (auto simp: mail_ok_def)
    with deliver_mail_total [OF assms(1,2), of e m to] step Mail show ?thesis by simp
  next
    case (Phone num)
    with deliver_phone_total [OF assms(1-3)] show ?thesis by (simp add: step)
  next
    case Ip
    with deliver_local_total [OF assms(1-3)] show ?thesis by (simp add: step)
  next
    case Unsupported
    then show ?thesis by (simp add: step delivered_def)
  qed
qed

lemma queue_report_vasps: "queue_report G D e to t res err st = Some st' \<Longrightarrow> nd_vasps st' = nd_vasps st"
  by (auto simp: queue_report_def Let_def split: if_splits)

lemma produce_cdr_vasps [simp]: "nd_vasps (produce_cdr e to res dst st) = nd_vasps st"
  by (simp add: produce_cdr_def)

lemma finish_attempt_vasps: "finish_attempt D e st = (eo, st') \<Longrightarrow> nd_vasps st' = nd_vasps st"
  by (auto simp: finish_attempt_def Let_def split: prod.splits option.splits)

lemma bill_message_vasps: "bill_message G D e st = (eo, b, st') \<Longrightarrow> nd_vasps st' = nd_vasps st"
  by (auto simp: bill_message_def Let_def split: prod.splits if_splits)

context queue_module
begin

lemma send_loop_total:
  assumes D: "sd_q D = Q" and calm: "calm G D M" and mo: "set_option mo \<subseteq> M"
  shows "i + k = length (e_to e) \<Longrightarrow> no_vasps (nd_vasps st) \<Longrightarrow> mail_ok G e mo \<Longrightarrow>
    \<exists>eo st'. send_loop G D i k e mo st = Some (eo, st') \<and> nd_vasps st' = nd_vasps st"
proof (induction k arbitrary: i e st)
  case (Suc k)
  obtain tnow w1 where time: "x_time (sd_env D) (nd_w st) = (tnow, w1)" by force
  let ?st1 = "st\<lparr>nd_w := w1\<rparr>" and ?to = "rcpt (e_to e ! i)"
  show ?case
  proof (cases "process (e_to e ! i)")
    case False
    with Suc.IH [of "Suc i" e ?st1] Suc.prems time show ?thesis by simp
  next
    case True
    have "?to \<in> set (map rcpt (e_to e))" using Suc.prems(1) by simp
    then obtain res err dst st2 where a: "attempt_rcpt G D e ?to tnow mo ?st1 = Some (res, err, dst, mo, st2)"
      and v2: "nd_vasps st2 = nd_vasps st"
      using attempt_total [OF calm _ mo Suc.prems(3), of ?st1 ?to tnow] Suc.prems(2) by (auto simp: delivered_def)
    have "qfs_add (sd_q D) a (mms_deliveryreport G i to fr t sta) d s \<noteq> None" for a i to fr t sta d s
      using calm unfolding calm_def by blast
    then obtain st3 where q: "queue_report G D e ?to tnow res err st2 = Some st3"
      using queue_report_total by (metis not_None_eq)
    note v3 = queue_report_vasps [OF q]
    let ?e1 = "(settle i res e)\<lparr>e_lasttry := tnow\<rparr>" and ?st4 = "produce_cdr e ?to res dst st3"
    have fr: "sender_frame e ?e1" using Suc.prems(1) by (intro sender_frame_settle) simp
    show ?thesis
    proof (cases rule: update_cases [of ?e1 "nd_w ?st4"])
      case (gone s')
      with time True a q D v2 v3 show ?thesis by simp
    next
      case (kept r e2 s')
      have fr2: "sender_frame e e2" using fr sender_frame_same [OF kept(3)] sender_frame_trans by blast
      then have "Suc i + k = length (e_to e2)" "mail_ok G e2 mo"
        using Suc.prems(1,3) sender_frame_length [OF fr2] by (simp_all add: sender_frame_def mail_ok_def del: set_map)
      from Suc.IH [OF this(1) _ this(2), of "?st4\<lparr>nd_w := s'\<rparr>"] Suc.prems(2) v2 v3
      show ?thesis using time True a q D kept(1) by simp
    qed
  qed
qed simp

text \<open>Billing either lets the message go on, with all its recipients, or removes it, or leaves it.\<close>

lemma bill_message_cases:
  assumes D: "sd_q D = Q" and b: "bill_message G D e st = (eo, go, st')"
  obtains (gone) "eo = None"
  | (on) e1 where "eo = Some e1" and "go" and "sender_frame (e\<lparr>e_billed := e_billed e1\<rparr>) e1"
  | (unpaid) "eo = Some e" and "\<not> go" and "fst (sd_billmsg D (e_from e)
        (concat (map (\<lambda>t. case mms_fixup_address G (Some (rcpt t)) (Some (s_unified_prefix (sd_settings D)))
             (s_strip_prefixes (sd_settings D)) True of Some a \<Rightarrow> [a] | None \<Rightarrow> []) (e_to e)))
        (e_msize e) (e_vaspid e) (e_msgId e) (nd_w st)) < -1"
proof (cases "e_msgtype e = MMS_MSGTYPE_SEND_REQ \<and> \<not> e_billed e")
  case False
  with b show thesis by (intro on [of e]) (auto simp: bill_message_def sender_frame_def)
next
  case True
  let ?l = "concat (map (\<lambda>t. case mms_fixup_address G (Some (rcpt t)) (Some (s_unified_prefix (sd_settings D)))
             (s_strip_prefixes (sd_settings D)) True of Some a \<Rightarrow> [a] | None \<Rightarrow> []) (e_to e))"
  obtain amt w1 where amt: "sd_billmsg D (e_from e) ?l (e_msize e) (e_vaspid e) (e_msgId e) (nd_w st) = (amt, w1)" by force
  consider "amt < -1" | "amt = -1" | "amt \<ge> 0" by linarith
  then show thesis
  proof cases
    case 1
    with b True amt show thesis by (intro unpaid) (auto simp: bill_message_def Let_def)
  next
    case 2
    have "\<forall>t \<in> set (e_to (drop_recipients e)). \<not> process t" by (auto simp: drop_recipients_def)
    then obtain s' where "qfs_update Q (drop_recipients e) w1 = (1, None, s')" using update_settled by blast
    with b True amt 2 D show thesis by (intro gone) (auto simp: bill_message_def Let_def)
  next
    case 3
    let ?e1 = "e\<lparr>e_billed := True, e_amt := 1000 * amt\<rparr>"
    show thesis
    proof (cases rule: update_cases [of ?e1 w1])
      case (gone s')
      with b True amt 3 D show thesis by (intro that(1)) (auto simp: bill_message_def Let_def)
    next
      case (kept r e2 s')
      then have "sender_frame (e\<lparr>e_billed := e_billed e2\<rparr>) e2"
        by (auto simp: same_message_def sender_frame_def)
      with b True amt 3 D kept show thesis by (intro on [of e2]) (auto simp: bill_message_def Let_def)
    qed
  qed
qed

text \<open>What an attempt that leaves the message in the queue does to it.\<close>

lemma sendMsg_left:
  assumes D: "sd_q D = Q" and s: "sendMsg G D e st = Some (Some e', st')"
  shows "e_attempts e' = e_attempts e + 1 \<and> map rcpt (e_to e') = map rcpt (e_to e) \<and>
    (\<forall>j < length (e_to e). process (e_to e' ! j) \<longrightarrow> process (e_to e ! j)) \<and> (\<exists>t \<in> set (e_to e'). process t) \<and>
    e_from e' = e_from e"
proof -
  obtain eo go st1 where b: "bill_message G D e st = (eo, go, st1)" by (metis prod_cases3)
  from D b show ?thesis
  proof (cases rule: bill_message_cases)
    case gone
    with s b show ?thesis by (simp add: sendMsg_def)
  next
    case (on e1)
    with s b obtain e2 st2 where l: "send_loop G D 0 (length (e_to e1)) e1 (qfs_getdata (sd_q D) e1 (nd_w st1)) st1 = Some (Some e2, st2)"
      and f: "finish_attempt D e2 st2 = (Some e', st')"
      by (auto simp: sendMsg_def split: option.splits)
    have "sender_frame e1 e2" using send_loop_frame [OF D l] by simp
    with on(3) finish_attempt_cases [OF D f] show ?thesis
      using sender_frame_length [OF on(3)] by (auto simp: sender_frame_def)
  next
    case unpaid
    with s b have "finish_attempt D e st1 = (Some e', st')" by (simp add: sendMsg_def)
    from finish_attempt_cases [OF D this] show ?thesis by (auto simp: sender_frame_def)
  qed
qed

lemma sendMsg_limit:
  assumes D: "sd_q D = Q" and add: "\<And>a d s i to fr t sta. qfs_add Q a (mms_deliveryreport G i to fr t sta) d s \<noteq> None"
    and bill: "\<And>f l z v i s. fst (sd_billmsg D f l z v i s) \<ge> -1"
    and lim: "e_attempts e \<ge> s_maxsendattempts (sd_settings D)"
  shows "\<exists>st'. sendMsg G D e st = Some (None, st')"
proof -
  obtain eo go st1 where b: "bill_message G D e st = (eo, go, st1)" by (metis prod_cases3)
  from D b show ?thesis
  proof (cases rule: bill_message_cases)
    case gone
    with b show ?thesis by (simp add: sendMsg_def)
  next
    case (on e1)
    then have "e_attempts e1 \<ge> s_maxsendattempts (sd_settings D)" using lim by (simp add: sender_frame_def)
    from send_loop_limit [OF D add this, of 0 "length (e_to e1)"] obtain e2o st2 where
      l: "send_loop G D 0 (length (e_to e1)) e1 (qfs_getdata (sd_q D) e1 (nd_w st1)) st1 = Some (e2o, st2)"
      and done2: "case e2o of None \<Rightarrow> True | Some e' \<Rightarrow> \<forall>t \<in> set (e_to e'). \<not> process t" by fastforce
    show ?thesis
    proof (cases e2o)
      case None
      with on b l show ?thesis by (simp add: sendMsg_def)
    next
      case (Some e2)
      obtain eo' st' where f: "finish_attempt D e2 st2 = (eo', st')" by force
      with finish_attempt_cases [OF D f] done2 Some on b l show ?thesis by (simp add: sendMsg_def)
    qed
  next
    case unpaid
    then show ?thesis using bill by (meson not_less)
  qed
qed

lemma sendMsg_total:
  assumes D: "sd_q D = Q" and calm: "calm G D M" and nv: "no_vasps (nd_vasps st)"
    and mail: "\<And>e' s. e_from e' = e_from e \<Longrightarrow> map rcpt (e_to e') = map rcpt (e_to e) \<Longrightarrow> mail_ok G e' (qfs_getdata Q e' s)"
  shows "\<exists>eo st'. sendMsg G D e st = Some (eo, st') \<and> nd_vasps st' = nd_vasps st"
proof -
  obtain eo go st1 where b: "bill_message G D e st = (eo, go, st1)" by (metis prod_cases3)
  note v1 = bill_message_vasps [OF b]
  from D b show ?thesis
  proof (cases rule: bill_message_cases)
    case gone
    with b v1 show ?thesis by (simp add: sendMsg_def)
  next
    case (on e1)
    let ?mo = "qfs_getdata (sd_q D) e1 (nd_w st1)"
    have m: "mail_ok G e1 ?mo" using mail [of e1] on(3) D by (simp add: sender_frame_def)
    have "set_option ?mo \<subseteq> M" using calm unfolding calm_def by auto
    then obtain e2o st2 where l: "send_loop G D 0 (length (e_to e1)) e1 ?mo st1 = Some (e2o, st2)"
      and v2: "nd_vasps st2 = nd_vasps st1"
      using send_loop_total [OF D calm, of ?mo 0 "length (e_to e1)" e1 st1] nv v1 m by auto
    show ?thesis
    proof (cases e2o)
      case None
      with on b l v1 v2 show ?thesis by (simp add: sendMsg_def)
    next
      case (Some e2)
      obtain eo' st' where f: "finish_attempt D e2 st2 = (eo', st')" by force
      with finish_attempt_vasps [OF f] Some on b l v1 v2 show ?thesis by (simp add: sendMsg_def)
    qed
  next
    case unpaid
    obtain eo' st' where f: "finish_attempt D e st1 = (eo', st')" by force
    with finish_attempt_vasps [OF f] unpaid b v1 show ?thesis by (simp add: sendMsg_def)
  qed
qed

text \<open>Every message that can be tried leaves the queue: the attempt after the last one settles all
  recipients.\<close>

lemma attempts_end:
  assumes D: "sd_q D = Q" and calm: "calm G D M"
    and bill: "\<And>f l z v i s. fst (sd_billmsg D f l z v i s) \<ge> -1"
    and data: "\<And>e' s. e_from e' = fr \<Longrightarrow> map rcpt (e_to e') = rs \<Longrightarrow> mail_ok G e' (qfs_getdata Q e' s)"
  shows "no_vasps (nd_vasps st) \<Longrightarrow> e_from e = fr \<Longrightarrow> map rcpt (e_to e) = rs \<Longrightarrow>
    nat (s_maxsendattempts (sd_settings D) - e_attempts e) < k \<Longrightarrow> \<exists>st'. attempts G D k e st = Some (None, st')"
proof (induction k arbitrary: e st)
  case (Suc k)
  have add: "qfs_add Q a (mms_deliveryreport G i to fr t sta) d s \<noteq> None" for a i to fr t sta d s
    using calm D unfolding calm_def by blast
  obtain eo st1 where s: "sendMsg G D e st = Some (eo, st1)" and v: "nd_vasps st1 = nd_vasps st"
    using sendMsg_total [OF D calm Suc.prems(1)] data Suc.prems(2,3) by metis
  show ?case
  proof (cases eo)
    case None
    with s show ?thesis by simp
  next
    case (Some e')
    have "e_attempts e < s_maxsendattempts (sd_settings D)"
      using sendMsg_limit [OF D add bill, of e st] s Some by fastforce
    with sendMsg_left [OF D s [unfolded Some]] Suc.prems(4)
    have "nat (s_maxsendattempts (sd_settings D) - e_attempts e') < k" by linarith
    with Suc.IH [of st1 e'] sendMsg_left [OF D s [unfolded Some]] Suc.prems v s Some show ?thesis by simp
  qed
qed simp

text \<open>A message that cannot be billed yet is only put off: neither its expiry nor the limit of attempts is
  looked at.\<close>

lemma sendMsg_unbilled:
  assumes D: "sd_q D = Q" and bill: "\<And>f l z v i s. fst (sd_billmsg D f l z v i s) < -1"
    and e: "e_msgtype e = MMS_MSGTYPE_SEND_REQ" "\<not> e_billed e" "t \<in> set (e_to e)" "process t"
  shows "\<exists>e' st'. sendMsg G D e st = Some (Some e', st') \<and> e_attempts e' = e_attempts e + 1 \<and>
    e_msgtype e' = MMS_MSGTYPE_SEND_REQ \<and> \<not> e_billed e' \<and> e_to e' = e_to e"
proof -
  have nb: "\<not> -1 \<le> fst (sd_billmsg D f l z v i s)" "fst (sd_billmsg D f l z v i s) \<noteq> -1" "\<not> 0 \<le> fst (sd_billmsg D f l z v i s)" for f l z v i s
    using bill [of f l z v i s] by simp_all
  obtain eo go st1 where b: "bill_message G D e st = (eo, go, st1)" by (metis prod_cases3)
  with e(1,2) nb have eo: "eo = Some e \<and> \<not> go"
    unfolding bill_message_def Let_def case_prod_unfold by (simp only: if_True if_False simp_thms) auto
  obtain fo st' where f: "finish_attempt D e st1 = (fo, st')" by force
  note fin = finish_attempt_cases [OF D f]
  obtain e' where fo: "fo = Some e'" using fin e(3,4) by blast
  with fin have e': "e_to e' = e_to e" "e_attempts e' = e_attempts e + 1" "sender_frame (e\<lparr>e_attempts := e_attempts e + 1\<rparr>) e'"
    by blast+
  with fo eo b f e show ?thesis by (simp add: sendMsg_def sender_frame_def)
qed

lemma unbilled_stays:
  assumes D: "sd_q D = Q" and bill: "\<And>f l z v i s. fst (sd_billmsg D f l z v i s) < -1"
  shows "e_msgtype e = MMS_MSGTYPE_SEND_REQ \<Longrightarrow> \<not> e_billed e \<Longrightarrow> t \<in> set (e_to e) \<Longrightarrow> process t \<Longrightarrow>
    \<exists>e' st'. attempts G D k e st = Some (Some e', st') \<and> e_attempts e' = e_attempts e + int k \<and> e_to e' = e_to e"
proof (induction k arbitrary: e st)
  case (Suc k)
  obtain e1 st1 where s: "sendMsg G D e st = Some (Some e1, st1)" and e1: "e_attempts e1 = e_attempts e + 1"
    "e_msgtype e1 = MMS_MSGTYPE_SEND_REQ" "\<not> e_billed e1" "e_to e1 = e_to e"
    using sendMsg_unbilled [OF D bill Suc.prems] by blast
  have "t \<in> set (e_to e1)" using e1 Suc.prems(3) by simp
  from Suc.IH [OF e1(2,3) this Suc.prems(4), of st1] s e1(1,4) show ?case by auto
qed simp

end

text \<open>The first recipient that is left decides whether the attempt goes on.\<close>

lemma send_loop_panics:
  assumes "\<And>s. attempt_rcpt G D e (rcpt t) (fst (x_time (sd_env D) s)) mo
      (st\<lparr>nd_w := snd (x_time (sd_env D) s)\<rparr>) = None"
    and "process t"
  shows "e_to e = xs @ t # ys \<Longrightarrow> \<forall>x \<in> set (drop i xs). \<not> process x \<Longrightarrow> i \<le> length xs \<Longrightarrow> length xs - i < k \<Longrightarrow>
    send_loop G D i k e mo (st\<lparr>nd_w := w\<rparr>) = None"
proof (induction k arbitrary: i w)
  case (Suc k)
  obtain tnow w1 where time: "x_time (sd_env D) w = (tnow, w1)" by force
  show ?case
  proof (cases "i < length xs")
    case True
    then have "drop i xs = xs ! i # drop (Suc i) xs" by (simp add: Cons_nth_drop_Suc)
    with Suc.prems True have "\<not> process (e_to e ! i)" "\<forall>x \<in> set (drop (Suc i) xs). \<not> process x"
      by (simp_all add: nth_append)
    with Suc.IH [of "Suc i" w1] Suc.prems True time show ?thesis by (simp add: Let_def)
  next
    case False
    with Suc.prems have "e_to e ! i = t" by simp
    with assms(1) [of w] assms(2) time show ?thesis by (simp add: Let_def)
  qed
qed simp

lemma deliver_mail_panics:
  assumes "mms2email (nd_vasps st) = None" and "e_from e = None \<or> mo = None"
  shows "deliver_mail G D e to mo st = None"
  using assms by (cases "e_from e") (simp_all add: deliver_mail_def mail_handler_def mms_sendtoemail_def Let_def)

section \<open>The file queue\<close>

lemma report_header_codes:
  "mms_string_to_header gwlib_ref ''X-Mms-Message-Type'' = MMS_HEADER_MESSAGE_TYPE"
  "mms_string_to_header gwlib_ref ''X-Mms-MMS-Version'' = MMS_HEADER_MMS_VERSION"
  "mms_string_to_header gwlib_ref ''Message-ID'' = MMS_HEADER_MESSAGE_ID"
  "mms_string_to_header gwlib_ref ''To'' = MMS_HEADER_TO"
  "mms_string_to_header gwlib_ref ''From'' = MMS_HEADER_FROM"
  "mms_string_to_header gwlib_ref ''Date'' = MMS_HEADER_DATE"
  "mms_string_to_header gwlib_ref ''X-Mms-Status'' = MMS_HEADER_STATUS"
  by (rule header_code, code_simp, simp add: ci_def)+

lemma report_headers:
  "gw_header_value gwlib_ref (m_headers (mms_deliveryreport gwlib_ref i to fr t sta)) ''Content-Type'' = None"
  "gw_header_value gwlib_ref (m_headers (mms_deliveryreport gwlib_ref i to fr t sta)) ''X-Mms-Message-Type'' = Some ''m-delivery-ind''"
  "gw_header_value gwlib_ref (m_headers (mms_deliveryreport gwlib_ref i to fr t sta)) ''Message-ID'' \<noteq> None"
  by (simp_all add: mms_deliveryreport_def gwlib_api.gwlib_simps [OF gwlib_ref_api] header_value_def header_named_def ci_def
      split: option.split)

lemma encode_each_total: "\<forall>h \<in> set hs. encode_header G h \<noteq> None \<Longrightarrow> encode_each G hs \<noteq> None"
  by (induction hs) auto

lemma report_header_encodes:
  "h \<in> set (m_headers (mms_deliveryreport gwlib_ref i to fr t sta)) \<Longrightarrow> encode_header gwlib_ref h \<noteq> None"
  by (auto simp: mms_deliveryreport_def encode_header_def report_header_codes mms_pack_well_known_field_def Let_def split: option.splits)

lemma report_encodable: "mms_tobinary gwlib_ref (mms_deliveryreport gwlib_ref i to fr t sta) \<noteq> None"
proof -
  let ?h = "m_headers (mms_deliveryreport gwlib_ref i to fr t sta)"
  have "strip_boundary_element gwlib_ref ?h None = ?h"
    by (simp add: strip_boundary_element_def get_content_type_def report_headers)
  moreover have "encode_each gwlib_ref ?h \<noteq> None"
    by (intro encode_each_total ballI report_header_encodes)
  ultimately show ?thesis by (simp add: mms_tobinary_def encode_msgheaders_def report_headers Let_def)
qed

text \<open>The messages with an identifier that the encoder takes; the file queue takes them all.\<close>

definition encodable :: "gwlib \<Rightarrow> MmsMsg set" where
  "encodable G = {m. mms_get_header_value G m ''Message-ID'' \<noteq> None \<and> mms_tobinary G m \<noteq> None}"

lemma file_add_total:
  assumes "m \<in> encodable G"
  shows "qfs_add (file_qfs G fb) a m d s \<noteq> None"
proof -
  have "mms_queue_create_envelope G t a (Some m) q \<noteq> None" for t q
    using assms by (auto simp: encodable_def mms_queue_create_envelope_def envelope_of_msg_def split: option.splits)
  then show ?thesis
    by (auto simp: file_qfs_def mms_queue_add_def Let_def split: prod.splits option.splits) (metis option.distinct(1))
qed

lemma report_in_encodable: "mms_deliveryreport gwlib_ref i to fr t sta \<in> encodable gwlib_ref"
  using report_encodable report_headers by (auto simp: encodable_def mms_get_header_value_def)

section \<open>Properties\<close>

text \<open>The settings and the outside of the examples: every command succeeds, nothing can be resolved.\<close>

definition ex_env :: "(nat \<times> os) env" where
  "ex_env = \<lparr>x_time = (\<lambda>s. (os_now (snd s), s)), x_random = (\<lambda>s. (0, s)), x_popen = (\<lambda>c b s. (Exited 0, s)),
     x_popen_read = (\<lambda>c s. (None, s)), x_system = (\<lambda>c s. (0, s)), x_fetch = (\<lambda>u h b s. ((200, [], []), s)),
     x_udp = (\<lambda>a p b s. (True, s)),
     x_log = (\<lambda>l s. s), x_errno = (\<lambda>s. (0, []))\<rparr>"

definition ex_sender :: "int \<Rightarrow> (nat \<times> os) sender" where
  "ex_sender bill = \<lparr>sd_env = ex_env, sd_q = file_qfs gwlib_ref (\<lambda>b. None), sd_fmt = (\<lambda>m s t h w. (m, w)),
     sd_billmsg = (\<lambda>f l z v i w. (bill, w)), sd_resolve = (\<lambda>n i v w. (None, w)),
     sd_soap = \<lparr>so_xml = (\<lambda>s. None), so_start = (\<lambda>m. None), so_body = mime_body, so_print = (\<lambda>m. (mime_headers m, [])),
       so_parse_iso = (\<lambda>s. None), so_show_iso = show_int, so_gmt = (\<lambda>s. s)\<rparr>,
     sd_settings = ex_settings, sd_proxies = []\<rparr>"

definition ex_node :: "(nat \<times> os) node" where
  "ex_node = \<lparr>nd_w = (0, ex_os 1000),
     nd_vasps = \<lparr>vasp_mem = (\<lambda>a. None), vasp_next = 0, vasp_list = [], vasp_del_list = [], mms2email = None, mms2mobile = None\<rparr>,
     nd_cdrs = []\<rparr>"

definition ex_unbilled :: MmsEnvelope where
  "ex_unbilled = ex_envelope\<lparr>e_msgtype := MMS_MSGTYPE_SEND_REQ, e_expiryt := -5\<rparr>"

lemma ex_unbilled:
  "sd_q (ex_sender b) = file_qfs gwlib_ref (\<lambda>b. None)" "fst (sd_billmsg (ex_sender b) f l z v i s) = b"
  "e_msgtype ex_unbilled = MMS_MSGTYPE_SEND_REQ" "\<not> e_billed ex_unbilled" "e_attempts ex_unbilled = 0"
  "\<lparr>rcpt = ''a@b'', process = True\<rparr> \<in> set (e_to ex_unbilled)"
  by (simp_all add: ex_sender_def ex_unbilled_def ex_envelope_def blank_envelope_def)

lemma ex_calm: "calm gwlib_ref (ex_sender b) (encodable gwlib_ref)"
  using file_add_total report_in_encodable
  by (simp add: calm_def ex_sender_def ex_settings_def safe_command_def file_qfs_def mms_queue_getdata_def split: option.split)

lemma ex_rcpts: "rcpt_class gwlib_ref ''1/TYPE=IPv4'' = Ip" "rcpt_class gwlib_ref ''a@b'' = Mail"
  by code_simp+



text \<open>C25: an attempt that ends with the message still in the file queue has counted itself, and has kept the
  recipients and their order; a recipient that was settled stays settled, and one is left.\<close>

theorem attempt_progress:
  assumes "sd_q D = file_qfs G fb" and "sendMsg G D e st = Some (Some e', st')"
  shows "e_attempts e' = e_attempts e + 1 \<and> map rcpt (e_to e') = map rcpt (e_to e) \<and>
    (\<forall>j < length (e_to e). process (e_to e' ! j) \<longrightarrow> process (e_to e ! j)) \<and> (\<exists>t \<in> set (e_to e'). process t) \<and>
    e_from e' = e_from e"
  by (rule file_module.sendMsg_left [OF assms])

text \<open>a message that the billing module wants to see later (a result below -1) stays in the file queue
  for ever, with all its recipients: each attempt is counted, but neither the limit of attempts nor the expiry is
  looked at before the message is billed.\<close>

theorem unbilled_never_leaves:
  assumes "sd_q D = file_qfs G fb" and "\<And>f l z v i s. fst (sd_billmsg D f l z v i s) < -1"
    and "e_msgtype e = MMS_MSGTYPE_SEND_REQ" and "\<not> e_billed e" and "t \<in> set (e_to e)" and "process t"
  shows "\<exists>e' st'. attempts G D k e st = Some (Some e', st') \<and> e_attempts e' = e_attempts e + int k \<and> e_to e' = e_to e"
  by (rule file_module.unbilled_stays [OF assms])

theorem unbilled_never_leaves_witness:
  "\<exists>e' st'. attempts gwlib_ref (ex_sender (-2)) 1000 ex_unbilled ex_node = Some (Some e', st') \<and> e_attempts e' = 1000 \<and>
     e_to e' = e_to ex_unbilled"
proof -
  have "fst (sd_billmsg (ex_sender (-2)) f l z v i s) < -1" for f l z v i s by (simp add: ex_unbilled)
  from unbilled_never_leaves [OF ex_unbilled(1) this ex_unbilled(3,4,6)] show ?thesis by (fastforce simp: ex_unbilled(5))
qed

lemma attempt_progress_witness:
  "\<exists>e' st'. sendMsg gwlib_ref (ex_sender (-2)) ex_unbilled ex_node = Some (Some e', st') \<and> e_attempts e' = 1"
proof -
  obtain e' st' where s: "sendMsg gwlib_ref (ex_sender (-2)) ex_unbilled ex_node = Some (Some e', st')"
    using file_module.sendMsg_unbilled [OF ex_unbilled(1) _ ex_unbilled(3,4,6), of "-2" gwlib_ref ex_node] ex_unbilled by auto
  from attempt_progress [OF ex_unbilled(1) s] s show ?thesis by (simp add: ex_unbilled)
qed

text \<open>a message for a mail recipient that has no sender, or whose data cannot be decoded, stops the
  runner: no VASP takes the mail, the recipient is the first that is left, and the attempt panics before it has
  counted anything, so that the message is found again in the same state by the next process.\<close>

theorem poison_message_panics:
  assumes "mms2email (nd_vasps st) = None" and "e_to e = xs @ t # ys" and "\<forall>x \<in> set xs. \<not> process x" and "process t"
    and "rcpt_class G (rcpt t) = Mail" and "e_attempts e < s_maxsendattempts (sd_settings D)"
    and "\<And>s. \<not> expired e (fst (x_time (sd_env D) s))"
    and "e_msgtype e \<noteq> MMS_MSGTYPE_SEND_REQ \<or> e_billed e"
    and "e_from e = None \<or> qfs_getdata (sd_q D) e (nd_w st) = None"
  shows "sendMsg G D e st = None"
proof -
  have "attempt_rcpt G D e (rcpt t) (fst (x_time (sd_env D) s)) (qfs_getdata (sd_q D) e (nd_w st)) (st\<lparr>nd_w := w\<rparr>) = None" for s w
    using assms(1,5,6,7,9) by (simp add: attempt_rcpt_def deliver_mail_panics)
  from send_loop_panics [where st = st and w = "nd_w st" and i = 0, OF this assms(4,2)] assms(2,3)
  have "send_loop G D 0 (length (e_to e)) e (qfs_getdata (sd_q D) e (nd_w st)) st = None" by (simp del: send_loop.simps)
  moreover have "bill_message G D e st = (Some e, True, st)" using assms(8) by (auto simp: bill_message_def)
  ultimately show ?thesis by (simp add: sendMsg_def)
qed

definition ex_poison :: MmsEnvelope where
  "ex_poison = ex_envelope\<lparr>e_from := Some ''c@d'', e_expiryt := 0\<rparr>"

theorem poison_message_panics_witness: "sendMsg gwlib_ref (ex_sender 0) ex_poison ex_node = None"
proof (rule poison_message_panics [where xs = "[]" and ys = "[]" and t = "\<lparr>rcpt = ''a@b'', process = True\<rparr>"])
  show "e_from ex_poison = None \<or> qfs_getdata (sd_q (ex_sender 0)) ex_poison (nd_w ex_node) = None"
    by (simp add: ex_sender_def ex_node_def file_qfs_def mms_queue_getdata_def split: option.split)
qed (simp_all add: ex_rcpts ex_sender_def ex_node_def ex_poison_def ex_envelope_def blank_envelope_def ex_settings_def
  expired_def)

end
