(* ===== verification/MmsMmbox.thy ===== *)
theory MmsMmbox
  imports MmsEmail
begin

text \<open>
  The mailboxes of subscribers, \<open>mmlib/mms_mmbox.c\<close>: a directory per user with a locked index file,
  one line for each message, and the messages in files below it. \<open>None\<close> stands for undefined behaviour
  (a buffer that overflows, a line that cannot be read), a failed assertion, or waiting for the lock of
  the index that another process holds.
\<close>

section \<open>Directories and files\<close>

definition IDXFILE :: string where "IDXFILE = ''00Index''"

text \<open>\<open>open(path, O_RDWR | O_CREAT | O_TRUNC)\<close>.\<close>

definition sys_creat_trunc :: "string \<Rightarrow> os \<Rightarrow> nat option \<times> os" where
  "sys_creat_trunc path os =
     (case sys_creat path os of
        (None, os1) \<Rightarrow> (None, os1)
      | (Some fd, os1) \<Rightarrow>
          (Some fd, case os_fds os1 fd of Some ino \<Rightarrow> os1\<lparr>os_data := (os_data os1)(ino := [])\<rparr> | None \<Rightarrow> os1))"

fun root_subdirs :: "string \<Rightarrow> string \<Rightarrow> os \<Rightarrow> bool \<times> os" where
  "root_subdirs root [] os = (True, os)"
| "root_subdirs root (c # cs) os =
     (case sys_mkdir (take 128 root @ ''/'' @ [c]) os of
        (Mkdir_error, os1) \<Rightarrow> (False, os1)
      | (_, os1) \<Rightarrow> root_subdirs root cs os1)"

text \<open>\<open>False\<close> is an error code.\<close>

definition mmbox_root_init :: "string \<Rightarrow> os \<Rightarrow> bool \<times> os" where
  "mmbox_root_init root os =
     (case sys_mkdir root os of
        (Mkdir_error, os1) \<Rightarrow> (False, os1)
      | (_, os1) \<Rightarrow> root_subdirs root TT os1)"

definition user_dir :: "string \<Rightarrow> string \<Rightarrow> string \<times> string" where
  "user_dir root userid =
     (let h = unat (mshash userid);
          d = take 128 root @ ''/'' @ [tt_char h] @ ''/'' @ [tt_char (h div 36), tt_char (h div 36 div 36)]
      in (d, d @ ''/'' @ replace_char CHR ''/'' CHR ''$'' userid))"

definition user_mmbox_dir :: "string \<Rightarrow> string \<Rightarrow> os \<Rightarrow> string option \<times> os" where
  "user_mmbox_dir root userid os =
     (let (d, s) = user_dir root userid in
      case sys_mkdir d os of
        (Mkdir_error, os1) \<Rightarrow> (None, os1)
      | (_, os1) \<Rightarrow>
          (case sys_mkdir s os1 of
             (Mkdir_error, os2) \<Rightarrow> (None, os2)
           | (_, os2) \<Rightarrow> (Some s, os2)))"

text \<open>A new data file: its descriptor and its name below the home directory. \<open>ect\<close> is the static counter.\<close>

fun mkdf_try :: "nat \<Rightarrow> string \<Rightarrow> nat \<Rightarrow> os \<Rightarrow> (nat \<times> string) option \<times> nat \<times> os" where
  "mkdf_try 0 home ect os = (None, ect, os)"
| "mkdf_try (Suc k) home ect os =
     (let (a, os1) = sys_random os; d1 = [tt_char a] in
      case sys_mkdir (take 128 home @ ''/'' @ d1) os1 of
        (Mkdir_error, os2) \<Rightarrow> (None, ect, os2)
      | (_, os2) \<Rightarrow>
          let (b, os3) = sys_random os2; (c, os4) = sys_random os3; d2 = [tt_char b, tt_char c] in
          case sys_mkdir (take 128 home @ ''/'' @ d1 @ ''/'' @ d2) os4 of
            (Mkdir_error, os5) \<Rightarrow> (None, ect, os5)
          | (_, os5) \<Rightarrow>
              let (r, os6) = sys_random os5;
                  df = d1 @ ''/'' @ d2 @ ''/df'' @ show_int (os_now os6) @ ''.'' @ show_nat (ect + 1) @ ''.x'' @
                       show_int (os_pid os6) @ show_nat (r mod 100);
                  tmp = home @ ''/'' @ df in
              case sys_creat_excl tmp os6 of
                (None, os7) \<Rightarrow> mkdf_try k home (ect + 1) os7
              | (Some fd, os7) \<Rightarrow>
                  case mm_lockfile fd tmp True os7 of
                    (Some True, os8) \<Rightarrow> (Some (fd, df), ect + 1, os8)
                  | (_, os8) \<Rightarrow> mkdf_try k home (ect + 1) (unlock_and_close fd (sys_unlink tmp os8)))"

definition mkdf :: "string \<Rightarrow> nat \<Rightarrow> os \<Rightarrow> (nat \<times> string) option \<times> nat \<times> os" where
  "mkdf home ect os = mkdf_try (MAXTRIES + 1) home ect os"

fun open_index_try :: "nat \<Rightarrow> string \<Rightarrow> bool \<Rightarrow> os \<Rightarrow> (nat option \<times> os) option" where
  "open_index_try 0 fbuf shouldblock os = Some (None, os)"
| "open_index_try (Suc k) fbuf shouldblock os =
     (case sys_creat fbuf os of
        (None, os1) \<Rightarrow> Some (None, os1)
      | (Some fd, os1) \<Rightarrow>
          (case mm_lockfile fd fbuf shouldblock os1 of
             (None, os2) \<Rightarrow> None
           | (Some True, os2) \<Rightarrow> Some (Some fd, os2)
           | (Some False, os2) \<Rightarrow> open_index_try k fbuf shouldblock (unlock_and_close fd os2)))"

text \<open>The name of the index is printed into 256 bytes.\<close>

definition open_mmbox_index :: "string \<Rightarrow> bool \<Rightarrow> os \<Rightarrow> (nat option \<times> os) option" where
  "open_mmbox_index dir shouldblock os =
     (case sprintf_buf 256 (dir @ ''/'' @ IDXFILE) of
        None \<Rightarrow> None
      | Some fbuf \<Rightarrow> open_index_try (MAXTRIES + 1) fbuf shouldblock os)"

section \<open>Lines of the index\<close>

text \<open>The NULL entries of a list are left out, but not their separators.\<close>

definition linearise_string_list :: "octstr list \<Rightarrow> string \<Rightarrow> octstr" where
  "linearise_string_list l sep =
     (case l of [] \<Rightarrow> [] | x # xs \<Rightarrow> x @ concat (map (\<lambda>y. sep @ y) xs))"

text \<open>\<open>%s\<close> of \<open>sscanf\<close>.\<close>

definition scan_word :: "octstr \<Rightarrow> (octstr \<times> octstr) option" where
  "scan_word s =
     (let t = dropWhile isspace s; w = takeWhile (\<lambda>c. \<not> isspace c) t
      in if w = [] then None else Some (w, drop (length w) t))"

lemma scan_word_shorter: "scan_word s = Some (w, r) \<Longrightarrow> length r < length s"
proof -
  let ?t = "dropWhile isspace s"
  assume "scan_word s = Some (w, r)"
  then have "w = takeWhile (\<lambda>c. \<not> isspace c) ?t" "w \<noteq> []" "r = drop (length w) ?t"
    by (auto simp: scan_word_def Let_def split: if_splits)
  moreover have "length ?t \<le> length s" by (rule length_dropWhile_le)
  moreover from calculation have "0 < length w" "length w \<le> length ?t" by (simp_all only: length_takeWhile_le) auto
  moreover from calculation have "length r = length ?t - length w" by (simp only: length_drop)
  ultimately show ?thesis by linarith
qed

text \<open>Words go into a buffer of 128 bytes.\<close>

function parse_string_list :: "octstr \<Rightarrow> octstr list option" where
  "parse_string_list p =
     (case scan_word p of
        None \<Rightarrow> Some []
      | Some (w, r) \<Rightarrow>
          if length w < 128 then map_option (\<lambda>ws. w # ws) (parse_string_list r) else None)"
  by auto
termination
  by (relation "measure length") (auto dest: scan_word_shorter)

declare parse_string_list.simps [simp del]

text \<open>A line: \<open>%s %s %d%n\<close> into buffers of 128 and 32 bytes, and what follows.\<close>

definition scan_index :: "octstr \<Rightarrow> (octstr \<times> octstr \<times> int \<times> octstr) option" where
  "scan_index line = do {
     (idx, r) \<leftarrow> scan_word line;
     (xstate, r1) \<leftarrow> scan_word r;
     (msize, r2) \<leftarrow> scan_int r1;
     if length idx < 128 \<and> length xstate < 32 then Some (idx, xstate, msize, r2) else None }"

text \<open>All lines of the index, read into a buffer of 1024 bytes.\<close>

function fgets_lines :: "octstr \<Rightarrow> octstr list" where
  "fgets_lines s = (if s = [] then [] else first_line 1023 s # fgets_lines (drop (length (first_line 1023 s)) s))"
  by auto
termination
  by (relation "measure length") (use first_line_pos in force)+

declare fgets_lines.simps [simp del]

text \<open>What a process reads from a descriptor.\<close>

definition fd_contents :: "nat \<Rightarrow> os \<Rightarrow> octstr" where
  "fd_contents fd os = (case os_fds os fd of Some ino \<Rightarrow> drop (os_off os fd) (os_data os ino) | None \<Rightarrow> [])"

section \<open>The index\<close>

datatype item_cmd = ITEM_ADD | ITEM_DEL | ITEM_MOD

definition index_line :: "octstr \<Rightarrow> octstr \<Rightarrow> int \<Rightarrow> octstr \<Rightarrow> octstr" where
  "index_line df state msize flags = df @ '' '' @ state @ '' '' @ show_int msize @ '' '' @ flags @ [CHR 0x0A]"

text \<open>What becomes of a line: nothing, the line \<open>new\<close>, or the same fields again.\<close>

definition rewrite_line :: "gwlib \<Rightarrow> item_cmd \<Rightarrow> octstr \<Rightarrow> octstr \<Rightarrow> octstr \<Rightarrow> octstr option" where
  "rewrite_line G cmd df new line =
     map_option (\<lambda>(idx, xstate, msize, r).
       if gw_compare G df idx = 0 then (if cmd = ITEM_MOD then new else [])
       else let p = dropWhile isspace r
            in idx @ '' '' @ xstate @ '' '' @ show_int msize @ '' '' @ p @
               (if CHR 0x0A \<in> set p then [] else [CHR 0x0A]))
       (scan_index line)"

text \<open>The results of the writes are not looked at.\<close>

fun rewrite_index :: "gwlib \<Rightarrow> item_cmd \<Rightarrow> octstr \<Rightarrow> octstr \<Rightarrow> octstr list \<Rightarrow> nat \<Rightarrow> os \<Rightarrow> os option" where
  "rewrite_index G cmd df new [] fd os = Some os"
| "rewrite_index G cmd df new (line # lines) fd os =
     (case rewrite_line G cmd df new line of
        None \<Rightarrow> None
      | Some outs \<Rightarrow>
          rewrite_index G cmd df new lines fd (if length outs > 0 then snd (sys_write fd outs os) else os))"

text \<open>The index is written anew and renamed into place; whether that has worked is not looked at. The
  result is the descriptor of the new index, which is locked; the old one is closed.\<close>

definition update_mmbox_index ::
  "gwlib \<Rightarrow> nat \<Rightarrow> string \<Rightarrow> item_cmd \<Rightarrow> octstr \<Rightarrow> octstr option \<Rightarrow> octstr list \<Rightarrow> int \<Rightarrow> os \<Rightarrow>
   (nat option \<times> os) option" where
  "update_mmbox_index G fd dir cmd df state flags msgsize os =
     (let (r, os1) = sys_random os;
          fbuf = take 128 dir @ ''/t'' @ IDXFILE @ ''.'' @ show_int (os_now os) @ ''.'' @ show_nat (r mod 1000);
          new = index_line df (show_octstr state) msgsize (linearise_string_list flags '' '')
      in case sys_creat_excl fbuf os1 of
           (None, os2) \<Rightarrow> Some (None, os2)
         | (Some tempfd, os2) \<Rightarrow>
             case mm_lockfile tempfd fbuf False os2 of
               (Some True, os3) \<Rightarrow>
                 (case sys_fault os3 of
                    (True, os4) \<Rightarrow> Some (None, unlock_and_close tempfd os4)
                  | (False, os4) \<Rightarrow>
                      map_option (\<lambda>os5.
                        let os6 = (if cmd = ITEM_ADD then snd (sys_write tempfd new os5) else os5);
                            os7 = snd (sys_rename fbuf (take 128 dir @ ''/'' @ IDXFILE) os6)
                        in (Some tempfd, sys_close fd os7))
                        (rewrite_index G cmd df new (fgets_lines (fd_contents fd os4)) tempfd os4))
             | (_, os3) \<Rightarrow> Some (None, unlock_and_close tempfd os3))"

text \<open>Flags and the commands that change them: \<open>+\<close> and \<open>/\<close> set a flag, \<open>-\<close> takes it away.\<close>

definition is_flag_cmd :: "octstr \<Rightarrow> bool" where
  "is_flag_cmd x = (octstr_get_char x 0 \<in> {Some CHR ''+'', Some CHR ''-'', Some CHR ''/''})"

definition flag_name :: "octstr \<Rightarrow> octstr" where
  "flag_name x = (if is_flag_cmd x then drop 1 x else x)"

definition apply_flag :: "gwlib \<Rightarrow> octstr \<Rightarrow> octstr list \<Rightarrow> octstr list" where
  "apply_flag G x l =
     filter (\<lambda>y. gw_compare G y (flag_name x) \<noteq> 0) l @ (if octstr_get_char x 0 = Some CHR ''-'' then [] else [flag_name x])"

definition make_mm_flags :: "gwlib \<Rightarrow> octstr list \<Rightarrow> octstr list \<Rightarrow> octstr list" where
  "make_mm_flags G oflags flag_cmds = fold (apply_flag G) flag_cmds (map flag_name oflags)"

section \<open>Operations\<close>

text \<open>The home directory and its locked index; \<open>Some (None, os)\<close> when one of them cannot be had.\<close>

definition open_mailbox :: "string \<Rightarrow> string \<Rightarrow> os \<Rightarrow> ((string \<times> nat) option \<times> os) option" where
  "open_mailbox root user os =
     (case user_mmbox_dir root user os of
        (None, os1) \<Rightarrow> Some (None, os1)
      | (Some home, os1) \<Rightarrow>
          map_option (\<lambda>(ifd, os2). (map_option (\<lambda>fd. (home, fd)) ifd, os2)) (open_mmbox_index home True os1))"

text \<open>The state and the flags that a message is stored with.\<close>

definition msg_state :: "gwlib \<Rightarrow> MmsMsg \<Rightarrow> octstr option \<Rightarrow> octstr" where
  "msg_state G msg dfltstate =
     (case mms_get_header_value G msg ''X-Mms-MM-State'' of
        Some s \<Rightarrow> s
      | None \<Rightarrow> (case dfltstate of Some s \<Rightarrow> s | None \<Rightarrow> ''Sent''))"

definition msg_flags :: "gwlib \<Rightarrow> MmsMsg \<Rightarrow> octstr list \<Rightarrow> octstr list" where
  "msg_flags G msg flag_cmds = make_mm_flags G (mms_get_header_values G msg ''X-Mms-MM-Flags'') flag_cmds"

definition stored_msg :: "gwlib \<Rightarrow> MmsMsg \<Rightarrow> octstr list \<Rightarrow> octstr \<Rightarrow> MmsMsg" where
  "stored_msg G msg flags state =
     mms_replace_header_value G (mms_replace_header_values G msg ''X-Mms-MM-Flags'' flags) ''X-Mms-MM-State'' state"

text \<open>The reference of the new message, or \<open>None\<close>; and the message, whose headers are set.\<close>

definition mms_mmbox_addmsg ::
  "gwlib \<Rightarrow> string \<Rightarrow> string \<Rightarrow> MmsMsg \<Rightarrow> octstr list \<Rightarrow> octstr option \<Rightarrow> nat \<Rightarrow> os \<Rightarrow>
   (octstr option \<times> MmsMsg \<times> nat \<times> os) option" where
  "mms_mmbox_addmsg G root user msg flag_cmds dfltstate ect os =
     (case open_mailbox root user os of
        None \<Rightarrow> None
      | Some (None, os1) \<Rightarrow> Some (None, msg, ect, os1)
      | Some (Some (home, ifd), os1) \<Rightarrow>
          (case mkdf home ect os1 of
             (None, ect', os2) \<Rightarrow> Some (None, msg, ect', unlock_and_close ifd os2)
           | (Some (dfd, df), ect', os2) \<Rightarrow>
               let state = msg_state G msg dfltstate; flags = msg_flags G msg flag_cmds
               in case mms_tobinary G (stored_msg G msg flags state) of
                    None \<Rightarrow> None
                  | Some (s, msg2) \<Rightarrow>
                      (case update_mmbox_index G ifd home ITEM_ADD df (Some state) flags (int (length s))
                              (snd (sys_write dfd s os2)) of
                         None \<Rightarrow> None
                       | Some (None, os4) \<Rightarrow>
                           Some (None, msg2, ect', unlock_and_close ifd (unlock_and_close dfd
                             (sys_unlink (home @ ''/'' @ df) os4)))
                       | Some (Some nifd, os4) \<Rightarrow>
                           Some (Some (replace_char CHR ''/'' CHR ''-'' df), msg2, ect',
                             unlock_and_close nifd (unlock_and_close dfd os4)))))"

text \<open>The results of writing and renaming the data file are not looked at. \<open>frombinary\<close> is
  \<open>mms_frombinary\<close>.\<close>

definition modify_file ::
  "gwlib \<Rightarrow> nat \<Rightarrow> string \<Rightarrow> octstr \<Rightarrow> string \<Rightarrow> MmsMsg \<Rightarrow> octstr option \<Rightarrow> octstr list \<Rightarrow> os \<Rightarrow> (int \<times> os) option" where
  "modify_file G ifd home sdf fname m nstate flags os =
     (let ftmp = fname @ ''.'' @ show_int (os_now os) @ ''.'' @ show_int (os_pid os) in
      case sys_creat_trunc ftmp os of
        (None, os1) \<Rightarrow> Some (-1, unlock_and_close ifd os1)
      | (Some tmpfd, os1) \<Rightarrow>
          case mms_tobinary G m of
            None \<Rightarrow> None
          | Some (s, m') \<Rightarrow>
              let os2 = sys_close tmpfd (snd (sys_rename ftmp fname (snd (sys_write tmpfd s os1)))) in
              map_option (\<lambda>(nifd, os3).
                  case nifd of None \<Rightarrow> (-1, unlock_and_close ifd os3) | Some fd \<Rightarrow> (0, unlock_and_close fd os3))
                (update_mmbox_index G ifd home ITEM_MOD sdf nstate flags (int (length s)) os2))"

definition mms_mmbox_modmsg ::
  "gwlib \<Rightarrow> (octstr \<Rightarrow> MmsMsg option) \<Rightarrow> string \<Rightarrow> string \<Rightarrow> octstr \<Rightarrow> octstr option \<Rightarrow> octstr list \<Rightarrow> os \<Rightarrow>
   (int \<times> os) option" where
  "mms_mmbox_modmsg G frombinary root user msgref state flag_cmds os =
     (let sdf = replace_char CHR ''-'' CHR ''/'' msgref in
      case open_mailbox root user os of
        None \<Rightarrow> None
      | Some (None, os1) \<Rightarrow> Some (-1, os1)
      | Some (Some (home, ifd), os1) \<Rightarrow>
          let fname = home @ ''/'' @ sdf in
          case (case read_file fname os1 of Some s \<Rightarrow> if s = [] then None else frombinary s | None \<Rightarrow> None) of
            None \<Rightarrow> Some (-1, unlock_and_close ifd os1)
          | Some m \<Rightarrow>
              let nstate = (case state of Some s \<Rightarrow> Some s | None \<Rightarrow> mms_get_header_value G m ''X-Mms-MM-State'');
                  m1 = (case state of Some s \<Rightarrow> mms_replace_header_value G m ''X-Mms-MM-State'' s | None \<Rightarrow> m);
                  flags = make_mm_flags G (mms_get_header_values G m1 ''X-Mms-MM-Flags'') flag_cmds
              in modify_file G ifd home sdf fname (mms_replace_header_values G m1 ''X-Mms-MM-Flags'' flags) nstate flags os1)"

text \<open>The result is always 0.\<close>

definition mms_mmbox_delmsg :: "gwlib \<Rightarrow> string \<Rightarrow> string \<Rightarrow> octstr \<Rightarrow> os \<Rightarrow> (int \<times> os) option" where
  "mms_mmbox_delmsg G root user msgref os =
     (let sdf = replace_char CHR ''-'' CHR ''/'' msgref in
      case open_mailbox root user os of
        None \<Rightarrow> None
      | Some (None, os1) \<Rightarrow> Some (0, os1)
      | Some (Some (home, ifd), os1) \<Rightarrow>
          map_option (\<lambda>(nifd, os2).
              case nifd of
                None \<Rightarrow> (0, unlock_and_close ifd os2)
              | Some fd \<Rightarrow> (0, unlock_and_close fd (sys_unlink (home @ ''/'' @ sdf) os2)))
            (update_mmbox_index G ifd home ITEM_DEL sdf None [] 0 os1))"

text \<open>Whether a line of the index is asked for: by its state, by its reference, or by one of the flags;
  all lines when neither states nor references are given.\<close>

definition string_in_list :: "gwlib \<Rightarrow> octstr \<Rightarrow> octstr list \<Rightarrow> bool" where
  "string_in_list G s l = (\<exists>x \<in> set l. gw_compare G s (flag_name x) = 0)"

definition line_matches ::
  "gwlib \<Rightarrow> octstr list option \<Rightarrow> octstr list option \<Rightarrow> octstr list option \<Rightarrow> octstr \<Rightarrow> octstr \<Rightarrow> octstr \<Rightarrow> bool option" where
  "line_matches G state flag_cmds msgrefs ref xstate r =
     (if state = None \<and> (msgrefs = None \<or> msgrefs = Some []) then Some True
      else if (case state of Some l \<Rightarrow> \<exists>x \<in> set l. gw_compare G x xstate = 0 | None \<Rightarrow> False) then Some True
      else if (case msgrefs of Some l \<Rightarrow> \<exists>x \<in> set l. gw_compare G x ref = 0 | None \<Rightarrow> False) then Some True
      else case flag_cmds of
             None \<Rightarrow> Some False
           | Some cmds \<Rightarrow>
               map_option (\<lambda>xflags. \<exists>f \<in> set xflags. string_in_list G f (make_mm_flags G [] cmds)) (parse_string_list r))"

fun search_lines ::
  "gwlib \<Rightarrow> octstr list option \<Rightarrow> octstr list option \<Rightarrow> octstr list option \<Rightarrow> int \<Rightarrow> int \<Rightarrow> octstr list \<Rightarrow> int \<Rightarrow>
   octstr list \<Rightarrow> octstr list option" where
  "search_lines G state flag_cmds msgrefs start limit [] ct dflist = Some dflist"
| "search_lines G state flag_cmds msgrefs start limit (line # lines) ct dflist =
     (case scan_index line of
        None \<Rightarrow> None
      | Some (idx, xstate, msize, r) \<Rightarrow>
          let ref = replace_char CHR ''/'' CHR ''-'' idx in
          case line_matches G state flag_cmds msgrefs ref xstate r of
            None \<Rightarrow> None
          | Some match \<Rightarrow>
              search_lines G state flag_cmds msgrefs start limit lines (ct + 1)
                (if match \<and> start \<le> ct \<and> int (length dflist) \<le> limit then dflist @ [ref] else dflist))"

text \<open>A user without a home directory has one called \<open>(null)\<close>. \<open>f\<close> reads the lines of the locked index.\<close>

definition read_index :: "string \<Rightarrow> string \<Rightarrow> (octstr list \<Rightarrow> 'a option) \<Rightarrow> os \<Rightarrow> ('a option \<times> os) option" where
  "read_index root user f os =
     (let (home, os1) = user_mmbox_dir root user os in
      case open_mmbox_index (show_octstr home) True os1 of
        None \<Rightarrow> None
      | Some (None, os2) \<Rightarrow> Some (None, os2)
      | Some (Some ifd, os2) \<Rightarrow>
          (case sys_fault os2 of
             (True, os3) \<Rightarrow> Some (None, unlock_and_close ifd os3)
           | (False, os3) \<Rightarrow>
               map_option (\<lambda>r. (Some r, unlock_and_close ifd os3)) (f (fgets_lines (fd_contents ifd os3)))))"

definition mms_mmbox_search ::
  "gwlib \<Rightarrow> string \<Rightarrow> string \<Rightarrow> octstr list option \<Rightarrow> octstr list option \<Rightarrow> int \<Rightarrow> int \<Rightarrow> octstr list option \<Rightarrow> os \<Rightarrow>
   (octstr list option \<times> os) option" where
  "mms_mmbox_search G root user state flag_cmds start limit msgrefs os =
     read_index root user (\<lambda>lines. search_lines G state flag_cmds msgrefs start limit lines 1 []) os"

text \<open>The message and its msize; no msize is given when the index cannot be had.\<close>

definition mms_mmbox_get ::
  "(octstr \<Rightarrow> MmsMsg option) \<Rightarrow> string \<Rightarrow> string \<Rightarrow> octstr \<Rightarrow> os \<Rightarrow> ((MmsMsg option \<times> nat option) \<times> os) option" where
  "mms_mmbox_get frombinary root user msgref os =
     (case open_mailbox root user os of
        None \<Rightarrow> None
      | Some (None, os1) \<Rightarrow> Some ((None, None), os1)
      | Some (Some (home, ifd), os1) \<Rightarrow>
          Some (case read_file (home @ ''/'' @ replace_char CHR ''-'' CHR ''/'' msgref) os1 of
                  Some s \<Rightarrow> (frombinary s, Some (length s))
                | None \<Rightarrow> (None, Some 0), unlock_and_close ifd os1))"

definition line_size :: "octstr \<Rightarrow> int" where
  "line_size line =
     (case Option.bind (scan_word line) (\<lambda>(a, r). Option.bind (scan_word r) (\<lambda>(b, r1). scan_int r1)) of
        Some (n, r) \<Rightarrow> n
      | None \<Rightarrow> 0)"

text \<open>The number of messages and of bytes; \<open>None\<close> inside is the failure -1.\<close>

definition mms_mmbox_count :: "string \<Rightarrow> string \<Rightarrow> os \<Rightarrow> ((nat \<times> int) option \<times> os) option" where
  "mms_mmbox_count root user os =
     read_index root user (\<lambda>lines. Some (length lines, sum_list (map line_size lines))) os"

end
