(* ===== verification/MboxFacts.thy ===== *)
theory MboxFacts
  imports MmsMmbox QueueFrames
begin

text \<open>
  What the mailbox operations promise: the index file stands for a list of entries, which the operations
  change as a list, and a search selects from that list.
\<close>

section \<open>The index as a list of entries\<close>

record index_entry =
  ie_df :: octstr
  ie_state :: octstr
  ie_size :: int
  ie_flags :: "octstr list"

definition word_ok :: "octstr \<Rightarrow> bool" where
  "word_ok w = (w \<noteq> [] \<and> (\<forall>c \<in> set w. \<not> isspace c))"

definition entry_text :: "index_entry \<Rightarrow> octstr" where
  "entry_text e = index_line (ie_df e) (ie_state e) (ie_size e) (linearise_string_list (ie_flags e) '' '')"

definition index_text :: "index_entry list \<Rightarrow> octstr" where
  "index_text es = concat (map entry_text es)"

definition entry_ok :: "index_entry \<Rightarrow> bool" where
  "entry_ok e =
     (word_ok (ie_df e) \<and> length (ie_df e) < 128 \<and> word_ok (ie_state e) \<and> length (ie_state e) < 32 \<and>
      (\<forall>f \<in> set (ie_flags e). word_ok f \<and> length f < 128) \<and> length (entry_text e) \<le> 1023)"

text \<open>What an update means.\<close>

definition index_apply :: "item_cmd \<Rightarrow> index_entry \<Rightarrow> index_entry list \<Rightarrow> index_entry list" where
  "index_apply cmd e es =
     (case cmd of
        ITEM_ADD \<Rightarrow> filter (\<lambda>x. ie_df x \<noteq> ie_df e) es @ [e]
      | ITEM_DEL \<Rightarrow> filter (\<lambda>x. ie_df x \<noteq> ie_df e) es
      | ITEM_MOD \<Rightarrow> map (\<lambda>x. if ie_df x = ie_df e then e else x) es)"

section \<open>Lines\<close>

definition ends_word :: "octstr \<Rightarrow> bool" where
  "ends_word r = (r = [] \<or> isspace (hd r))"

lemma scan_word_word:
  assumes "word_ok w" and "ends_word r"
  shows "scan_word (w @ r) = Some (w, r)"
proof -
  have "dropWhile isspace (w @ r) = w @ r" using assms(1) by (cases w) (auto simp: word_ok_def)
  moreover have "takeWhile (\<lambda>c. \<not> isspace c) r = []" using assms(2) by (cases r) (auto simp: ends_word_def)
  then have "takeWhile (\<lambda>c. \<not> isspace c) (w @ r) = w" using assms(1) by (simp add: word_ok_def takeWhile_append)
  ultimately show ?thesis using assms(1) by (simp add: scan_word_def word_ok_def)
qed

lemma scan_word_space: "isspace c \<Longrightarrow> scan_word (c # s) = scan_word s"
  by (simp add: scan_word_def)

lemma isspace_chars [simp]: "isspace CHR '' ''" "isspace CHR 0x0A" "\<not> isspace CHR ''-''"
  by (simp_all add: isspace_def)

lemma scan_int_show: "scan_int (show_int i @ CHR '' '' # r) = Some (i, CHR '' '' # r)"
proof -
  have d: "takeWhile isdigit (show_nat n @ CHR '' '' # r) = show_nat n" for n
    using show_nat_digits [of _ n] by (subst takeWhile_append2) (auto simp: isdigit_def)
  have h: "dropWhile isspace (show_nat n @ x) = show_nat n @ x" for n x
    using show_nat_digits [of "hd (show_nat n)" n] isdigit_not_isspace by (cases "show_nat n") auto
  have "take 1 (show_nat n @ x) \<noteq> ''-''" "take 1 (show_nat n @ x) \<noteq> ''+''" for n x
    using show_nat_digits [of "hd (show_nat n)" n] by (cases "show_nat n"; auto simp: isdigit_def)+
  then show ?thesis
    by (auto simp: scan_int_def show_int_def h d Let_def read_nat_show_nat)
qed

lemma scan_int_space: "isspace c \<Longrightarrow> scan_int (c # s) = scan_int s"
  by (simp add: scan_int_def)

definition entry_rest :: "index_entry \<Rightarrow> octstr" where
  "entry_rest e = CHR '' '' # linearise_string_list (ie_flags e) '' '' @ [CHR 0x0A]"

lemma scan_index_entry:
  assumes "entry_ok e"
  shows "scan_index (entry_text e) = Some (ie_df e, ie_state e, ie_size e, entry_rest e)"
  using assms scan_word_word [of "ie_df e"] scan_word_word [of "ie_state e"]
  by (simp add: scan_index_def entry_text_def index_line_def entry_ok_def ends_word_def scan_word_space scan_int_show
      scan_int_space entry_rest_def)

lemma line_size_entry: "entry_ok e \<Longrightarrow> line_size (entry_text e) = ie_size e"
  using scan_word_word [of "ie_df e"] scan_word_word [of "ie_state e"]
  by (simp add: line_size_def entry_text_def index_line_def entry_ok_def ends_word_def scan_word_space scan_int_show
      scan_int_space)

lemma parse_flags:
  assumes "\<forall>f \<in> set fs. word_ok f \<and> length f < 128"
  shows "parse_string_list (concat (map (\<lambda>y. CHR '' '' # y) fs) @ [CHR 0x0A]) = Some fs"
  using assms
proof (induction fs)
  case Nil
  then show ?case by (subst parse_string_list.simps) (simp add: scan_word_def)
next
  case (Cons f fs)
  have "ends_word (concat (map (\<lambda>y. CHR '' '' # y) fs) @ [CHR 0x0A])" by (cases fs) (auto simp: ends_word_def)
  with Cons show ?case by (subst parse_string_list.simps) (simp add: scan_word_word scan_word_space)
qed

lemma parse_entry_flags:
  assumes "entry_ok e" shows "parse_string_list (entry_rest e) = Some (ie_flags e)"
proof -
  have ok: "\<forall>f \<in> set (ie_flags e). word_ok f \<and> length f < 128" using assms by (simp add: entry_ok_def)
  show ?thesis
  proof (cases "ie_flags e")
    case Nil
    then show ?thesis by (subst parse_string_list.simps) (simp add: entry_rest_def linearise_string_list_def scan_word_def)
  next
    case (Cons f fs)
    have "(@) '' '' = (#) CHR '' ''" by auto
    with Cons parse_flags [OF ok] show ?thesis by (simp add: entry_rest_def linearise_string_list_def)
  qed
qed

lemma no_newline:
  "word_ok w \<Longrightarrow> CHR 0x0A \<notin> set w" "CHR 0x0A \<notin> set (show_int i)"
  "(\<forall>f \<in> set fs. word_ok f) \<Longrightarrow> CHR 0x0A \<notin> set (linearise_string_list fs '' '')"
proof -
  show w: "word_ok w \<Longrightarrow> CHR 0x0A \<notin> set w" for w using isspace_chars(2) by (auto simp: word_ok_def)
  show "CHR 0x0A \<notin> set (show_int i)" using show_int_chars [of "CHR 0x0A" i] by (auto simp: isdigit_def)
  show "(\<forall>f \<in> set fs. word_ok f) \<Longrightarrow> CHR 0x0A \<notin> set (linearise_string_list fs '' '')"
    using w by (cases fs) (auto simp: linearise_string_list_def)
qed

lemma first_line_text:
  "CHR 0x0A \<notin> set l \<Longrightarrow> length l < n \<Longrightarrow> first_line n (l @ CHR 0x0A # r) = l @ [CHR 0x0A]"
  by (simp add: first_line_def takeWhile_append)

lemma entry_first_line:
  assumes "entry_ok e" shows "first_line 1023 (entry_text e @ r) = entry_text e"
proof -
  let ?l = "ie_df e @ '' '' @ ie_state e @ '' '' @ show_int (ie_size e) @ '' '' @ linearise_string_list (ie_flags e) '' ''"
  have t: "entry_text e = ?l @ [CHR 0x0A]" by (simp add: entry_text_def index_line_def)
  have "CHR 0x0A \<notin> set ?l" using assms no_newline by (simp add: entry_ok_def)
  moreover have "length ?l < 1023" using assms t by (simp add: entry_ok_def)
  ultimately show ?thesis using first_line_text [of ?l 1023 r] by (simp add: t)
qed

lemma fgets_index:
  "\<forall>e \<in> set es. entry_ok e \<Longrightarrow> fgets_lines (index_text es) = map entry_text es"
proof (induction es)
  case Nil
  then show ?case by (simp add: index_text_def fgets_lines.simps)
next
  case (Cons e es)
  have "entry_text e \<noteq> []" by (simp add: entry_text_def index_line_def)
  with Cons show ?case
    by (subst fgets_lines.simps) (simp add: index_text_def entry_first_line)
qed

lemma rewrite_entry:
  assumes G: "gwlib_api G" and "entry_ok x"
  shows "rewrite_line G cmd df new (entry_text x) =
    Some (if ie_df x = df then (if cmd = ITEM_MOD then new else []) else entry_text x)"
proof -
  let ?f = "linearise_string_list (ie_flags x) '' ''"
  have f: "dropWhile isspace (?f @ [CHR 0x0A]) = (if ?f = [] then [] else ?f @ [CHR 0x0A])"
  proof (cases "ie_flags x")
    case (Cons f fs)
    then have "word_ok f" using assms(2) by (simp add: entry_ok_def)
    with Cons show ?thesis by (cases f) (auto simp: linearise_string_list_def word_ok_def)
  qed (simp add: linearise_string_list_def)
  define copy where "copy = ie_df x @ '' '' @ ie_state x @ '' '' @ show_int (ie_size x) @ '' '' @
      dropWhile isspace (?f @ [CHR 0x0A]) @ (if CHR 0x0A \<in> set (dropWhile isspace (?f @ [CHR 0x0A])) then [] else [CHR 0x0A])"
  have "rewrite_line G cmd df new (entry_text x) = Some (if ie_df x = df then (if cmd = ITEM_MOD then new else []) else copy)"
    by (auto simp: rewrite_line_def scan_index_entry [OF assms(2)] gwlib_api.compare [OF G] entry_rest_def copy_def Let_def)
  moreover have "entry_text x = copy" by (simp add: copy_def f entry_text_def index_line_def)
  ultimately show ?thesis by simp
qed

text \<open>Writing the lines with room on the disk.\<close>

definition appended :: "nat \<Rightarrow> nat \<Rightarrow> octstr \<Rightarrow> os \<Rightarrow> os" where
  "appended i fd t os =
     os\<lparr>os_data := (os_data os)(i := os_data os i @ t), os_off := (os_off os)(fd := length (os_data os i) + length t),
        os_space := os_space os - length t\<rparr>"

lemma appended_twice: "appended i fd b (appended i fd a os) = appended i fd (a @ b) os"
  by (simp add: appended_def ac_simps)

lemma appended_nothing: "os_off os fd = length (os_data os i) \<Longrightarrow> appended i fd [] os = os"
  by (cases os) (auto simp: appended_def fun_eq_iff)

lemma appended_fields [simp]:
  "os_fds (appended i fd t os) = os_fds os" "os_files (appended i fd t os) = os_files os"
  "os_locks (appended i fd t os) = os_locks os" "os_dirs (appended i fd t os) = os_dirs os"
  "os_space (appended i fd t os) = os_space os - length t" "os_fault (appended i fd t os) = os_fault os"
  "os_tick (appended i fd t os) = os_tick os" "os_next (appended i fd t os) = os_next os"
  "os_data (appended i fd t os) = (os_data os)(i := os_data os i @ t)"
  "os_off (appended i fd t os) fd = length (os_data os i) + length t"
  by (simp_all add: appended_def)

lemma write_appended:
  assumes "os_fds os fd = Some i" and "os_off os fd = length (os_data os i)" and "length s \<le> os_space os"
  shows "snd (sys_write fd s os) = appended i fd s os"
  using write_at_end [OF assms] by (simp add: appended_def)

definition rewritten :: "item_cmd \<Rightarrow> octstr \<Rightarrow> octstr \<Rightarrow> index_entry list \<Rightarrow> octstr" where
  "rewritten cmd df new es =
     concat (map (\<lambda>x. if ie_df x = df then (if cmd = ITEM_MOD then new else []) else entry_text x) es)"

lemma rewrite_index_text:
  assumes G: "gwlib_api G"
  shows "\<forall>x \<in> set es. entry_ok x \<Longrightarrow> os_fds os fd = Some i \<Longrightarrow> os_off os fd = length (os_data os i) \<Longrightarrow>
    length (rewritten cmd df new es) \<le> os_space os \<Longrightarrow>
    rewrite_index G cmd df new (map entry_text es) fd os = Some (appended i fd (rewritten cmd df new es) os)"
proof (induction es arbitrary: os)
  case Nil
  then show ?case by (simp add: rewritten_def appended_nothing)
next
  case (Cons x es)
  define out where "out = (if ie_df x = df then (if cmd = ITEM_MOD then new else []) else entry_text x)"
  have out: "rewritten cmd df new (x # es) = out @ rewritten cmd df new es" by (simp add: rewritten_def out_def)
  have r: "rewrite_line G cmd df new (entry_text x) = Some out"
    using rewrite_entry [OF G] Cons.prems(1) by (simp add: out_def)
  have w: "(if length out > 0 then snd (sys_write fd out os) else os) = appended i fd out os"
    using write_appended [OF Cons.prems(2,3)] appended_nothing [OF Cons.prems(3)] Cons.prems(4) out by auto
  have "rewrite_index G cmd df new (map entry_text es) fd (appended i fd out os) =
      Some (appended i fd (rewritten cmd df new es) (appended i fd out os))"
    using Cons.prems out by (intro Cons.IH) auto
  with r w show ?case by (simp add: out appended_twice)
qed

section \<open>Updates\<close>

definition index_path :: "string \<Rightarrow> string" where
  "index_path dir = take 128 dir @ ''/'' @ IDXFILE"

definition no_faults :: "os \<Rightarrow> bool" where
  "no_faults os = (\<forall>n. \<not> os_fault os n)"

definition index_bytes :: "item_cmd \<Rightarrow> index_entry \<Rightarrow> index_entry list \<Rightarrow> nat" where
  "index_bytes cmd e es = length (index_text (index_apply cmd e es))"

lemma index_apply_text:
  "rewritten cmd (ie_df e) (entry_text e) es @
     (if cmd = ITEM_ADD then entry_text e else []) = index_text (index_apply cmd e es)"
proof -
  have "concat (map (\<lambda>x. if ie_df x = d then [] else f x) es) = concat (map f (filter (\<lambda>x. ie_df x \<noteq> d) es))" for d f
    by (induction es) auto
  moreover have "concat (map (\<lambda>x. if ie_df x = ie_df e then entry_text e else entry_text x) es) =
      concat (map entry_text (map (\<lambda>x. if ie_df x = ie_df e then e else x) es))"
    by (simp add: comp_def if_distrib cong: if_cong)
  ultimately show ?thesis by (cases cmd) (simp_all add: index_apply_def index_text_def rewritten_def)
qed

definition temp_index :: "string \<Rightarrow> os \<Rightarrow> string" where
  "temp_index dir os =
     take 128 dir @ ''/t'' @ IDXFILE @ ''.'' @ show_int (os_now os) @ ''.'' @ show_nat (fst (sys_random os) mod 1000)"

lemma temp_index_neq: "temp_index dir os \<noteq> index_path dir"
  by (simp add: temp_index_def index_path_def IDXFILE_def)

text \<open>The parent of a file directly below a directory.\<close>

lemma parent_dir_below: "CHR ''/'' \<notin> set n \<Longrightarrow> parent_dir (d @ ''/'' @ n) = d"
  by (simp add: parent_dir_def strrchr_split_append)

lemma temp_index_parent: "parent_dir (temp_index dir os) = take 128 dir"
  using parent_dir_below [of "''t'' @ IDXFILE @ ''.'' @ show_int (os_now os) @ ''.'' @ show_nat (fst (sys_random os) mod 1000)"]
  by (simp add: temp_index_def IDXFILE_def show_no_slash)

lemma update_mmbox_index_works:
  assumes G: "gwlib_api G" and wf: "os_wf os" and nf: "no_faults os"
    and fd: "os_fds os fd = Some i" "os_off os fd = 0" "os_data os i = index_text es"
    and es: "\<forall>x \<in> set es. entry_ok x"
    and e: "ie_df e = df" "ie_state e = show_octstr so" "ie_flags e = flags" "ie_size e = n"
    and dir: "take 128 dir \<in> set (os_dirs os)" and new: "os_files os (temp_index dir os) = None"
    and space: "index_bytes cmd e es \<le> os_space os"
  shows "\<exists>tfd ino os'. update_mmbox_index G fd dir cmd df so flags n os = Some (Some tfd, os') \<and> os_wf os' \<and>
    os_files os' = (os_files os)(index_path dir \<mapsto> ino) \<and> os_data os' ino = index_text (index_apply cmd e es) \<and>
    os_fds os' tfd = Some ino \<and> os_locks os' ino = Some tfd \<and> os_next os \<le> tfd \<and>
    keeps {index_path dir} {fd} os os' \<and> os_fault os' = os_fault os \<and> os_dirs os' = os_dirs os"
proof -
  obtain r os1 where r: "sys_random os = (r, os1)" by force
  let ?t = "temp_index dir os" and ?ip = "index_path dir"
  have os1: "os1 = os\<lparr>os_rpos := os_rpos os + 1\<rparr>" using r by (auto simp: sys_random_def)
  have wf1: "os_wf os1" using wf_random [OF wf] r by simp
  obtain fo os2 where c0: "sys_creat_excl ?t os1 = (fo, os2)" by force
  have "fo \<noteq> None"
    using c0 new dir nf temp_index_parent [of dir os]
    by (auto simp: sys_creat_excl_def sys_fault_def os1 no_faults_def new_file_fields)
  then obtain tfd where c: "sys_creat_excl ?t os1 = (Some tfd, os2)" using c0 by auto
  note cs = creat_excl_Some [OF c]
  have lk: "mm_lockfile tfd ?t False os2 = (Some True, os2\<lparr>os_locks := (os_locks os2)(os_next os1 \<mapsto> tfd)\<rparr>)"
    by (rule lock_created [OF wf1 c])
  let ?os3 = "os2\<lparr>os_locks := (os_locks os2)(os_next os1 \<mapsto> tfd)\<rparr>"
  let ?os4 = "?os3\<lparr>os_tick := os_tick ?os3 + 1\<rparr>" and ?ino = "os_next os"
  have flt: "sys_fault ?os3 = (False, ?os4)" using nf cs(2) by (simp add: sys_fault_def no_faults_def os1)
  have i: "i < os_next os" "fd < os_next os" using os_wfD(2,3) [OF wf] fd(1) by auto
  have new_text: "entry_text e = index_line df (show_octstr so) n (linearise_string_list flags '' '')"
    using e by (simp add: entry_text_def)
  have f4: "os_fds ?os4 tfd = Some ?ino" "os_off ?os4 tfd = length (os_data ?os4 ?ino)" "os_space ?os4 = os_space os"
    "os_data ?os4 ?ino = []" "fd_contents fd ?os4 = index_text es"
    using cs fd i by (simp_all add: os1 fd_contents_def)
  note body = index_apply_text [of cmd e es]
  have sp: "length (rewritten cmd df (entry_text e) es) \<le> os_space ?os4"
    using space body e(1) f4(3) unfolding index_bytes_def by (metis length_append le_add1 le_trans)
  let ?os5 = "appended ?ino tfd (rewritten cmd df (entry_text e) es) ?os4"
  have rw: "rewrite_index G cmd df (entry_text e) (fgets_lines (fd_contents fd ?os4)) tfd ?os4 = Some ?os5"
    unfolding f4(5) fgets_index [OF es] by (rule rewrite_index_text [OF G es f4(1,2) sp])
  let ?os6 = "appended ?ino tfd (index_text (index_apply cmd e es)) ?os4"
  have w6: "(if cmd = ITEM_ADD then snd (sys_write tfd (entry_text e) ?os5) else ?os5) = ?os6"
  proof (cases "cmd = ITEM_ADD")
    case True
    have "length (entry_text e) \<le> os_space ?os5"
      using space body e(1) f4(3) True unfolding index_bytes_def by (metis (mono_tags, lifting) appended_fields(5) length_append le_diff_conv2 add.commute le_add1 le_trans)
    then have "snd (sys_write tfd (entry_text e) ?os5) = appended ?ino tfd (entry_text e) ?os5"
      using f4 by (intro write_appended) simp_all
    with True body e(1) show ?thesis by (simp add: appended_twice)
  next
    case False
    with body e(1) show ?thesis by simp
  qed
  let ?os7 = "snd (sys_rename ?t ?ip ?os6)"
  have upd: "update_mmbox_index G fd dir cmd df so flags n os = Some (Some tfd, sys_close fd ?os7)"
  proof -
    have tn: "take 128 dir @ ''/t'' @ IDXFILE @ ''.'' @ show_int (os_now os) @ ''.'' @ show_nat (r mod 1000) = ?t"
      by (simp add: temp_index_def r)
    show ?thesis
      unfolding update_mmbox_index_def Let_def r prod.case tn new_text [symmetric] c option.case lk bool.case flt rw
        option.map w6 index_path_def ..
  qed
  have os7: "?os7 = ?os6\<lparr>os_tick := os_tick ?os6 + 1, os_files := (os_files os)(?ip \<mapsto> ?ino)\<rparr>"
  proof -
    have "(os_files os)(?t \<mapsto> ?ino, ?t := None, ?ip \<mapsto> ?ino) = (os_files os)(?ip \<mapsto> ?ino)"
      using new by (auto simp: fun_eq_iff)
    then show ?thesis using nf cs(2) by (simp add: sys_rename_def sys_fault_def no_faults_def os1)
  qed
  have wf2: "os_wf os2" using wf_creat_excl [OF wf1, of ?t] c by simp
  then have wf4: "os_wf ?os4" using wf_mm_lockfile [OF wf2, of tfd ?t False] lk by (simp add: wf_tick)
  then have "os_wf ?os6" by (simp add: appended_def os_wf_def)
  then have wf8: "os_wf (sys_close fd ?os7)" by (intro wf_close wf_rename)
  have tfd: "tfd = os_next os + 1" using cs(1) by (simp add: os1)
  have fields: "os_files (sys_close fd ?os7) = (os_files os)(?ip \<mapsto> ?ino)" "os_fault (sys_close fd ?os7) = os_fault os"
    "os_data (sys_close fd ?os7) ?ino = index_text (index_apply cmd e es)"
    "os_fds (sys_close fd ?os7) tfd = Some ?ino" "os_locks (sys_close fd ?os7) ?ino = Some tfd" "os_dirs (sys_close fd ?os7) = os_dirs os"
    unfolding os7 using cs(2) tfd i fd(1) f4(4) by (simp_all add: sys_close_def os1)
  have k: "keeps {?ip} {fd} os (sys_close fd ?os7)"
  proof -
    have "os_data (sys_close fd ?os7) j = os_data os j" if "j < os_next os" for j
      unfolding os7 using that cs(2) by (simp add: sys_close_def os1)
    moreover have "os_fds (sys_close fd ?os7) g = os_fds os g" if "g \<noteq> fd" "g < os_next os" for g
      unfolding os7 using that cs(2) tfd by (simp add: sys_close_def os1)
    moreover have "os_locks (sys_close fd ?os7) j = os_locks os j" if "os_locks os j = Some g" "g \<noteq> fd" for j g
      unfolding os7 using that cs(2) os_wfD(3) [OF wf os_wfD(4) [OF wf that(1)]] os_wfD(4) [OF wf that(1)] fd(1) by (auto simp: sys_close_def os1)
    moreover have "os_next os \<le> os_next (sys_close fd ?os7)" unfolding os7 using cs(2) by (simp add: sys_close_def os1)
    ultimately show ?thesis
      unfolding keeps_def using fields(1) os_wfD(1,2) [OF wf] by (auto dest: os_wfD(1) [OF wf])
  qed
  show ?thesis
    using upd wf8 k fields tfd by (intro exI [of _ tfd] exI [of _ ?ino] exI [of _ "sys_close fd ?os7"]) simp
qed

section \<open>Mailboxes\<close>

text \<open>The names of data files are below two directories and have no hyphen.\<close>

definition data_name :: "string \<Rightarrow> bool" where
  "data_name n = (CHR ''/'' \<in> set n \<and> CHR ''-'' \<notin> set n)"

definition no_temp :: "string \<Rightarrow> os \<Rightarrow> bool" where
  "no_temp home os = (\<forall>n. CHR ''/'' \<notin> set n \<longrightarrow> os_files os (home @ ''/t'' @ IDXFILE @ n) = None)"

text \<open>The mailbox \<open>mb\<close>, messages with the bytes of their files, is what the home directory holds.\<close>

definition mailbox_at :: "string \<Rightarrow> (index_entry \<times> octstr) list \<Rightarrow> os \<Rightarrow> bool" where
  "mailbox_at home mb os =
     (os_wf os \<and> no_faults os \<and> length home \<le> 128 \<and> home \<in> set (os_dirs os) \<and> no_temp home os \<and>
      read_file (home @ ''/'' @ IDXFILE) os = Some (index_text (map fst mb)) \<and>
      (\<forall>(e, s) \<in> set mb. entry_ok e \<and> data_name (ie_df e) \<and> read_file (home @ ''/'' @ ie_df e) os = Some s))"

definition index_free :: "string \<Rightarrow> os \<Rightarrow> bool" where
  "index_free home os = (\<forall>i. os_files os (home @ ''/'' @ IDXFILE) = Some i \<longrightarrow> os_locks os i = None)"

definition mailbox_ok :: "string \<Rightarrow> string \<Rightarrow> (index_entry \<times> octstr) list \<Rightarrow> os \<Rightarrow> bool" where
  "mailbox_ok root user mb os =
     (let (d, home) = user_dir root user
      in user \<noteq> [] \<and> d \<in> set (os_dirs os) \<and> mailbox_at home mb os \<and> index_free home os)"

lemma data_name_neq: "data_name n \<Longrightarrow> home @ ''/'' @ n \<noteq> home @ ''/'' @ IDXFILE"
  by (auto simp: data_name_def IDXFILE_def)

lemma mailbox_at_keeps:
  assumes at: "mailbox_at home mb os" and k: "keeps ps fds os os'" and ps: "home @ ''/'' @ IDXFILE \<notin> ps"
    "\<And>e s. (e, s) \<in> set mb \<Longrightarrow> home @ ''/'' @ ie_df e \<notin> ps"
    and os': "os_wf os'" "os_fault os' = os_fault os" "set (os_dirs os) \<subseteq> set (os_dirs os')" "no_temp home os'"
  shows "mailbox_at home mb os'"
proof -
  have "read_file p os' = read_file p os" if "p \<notin> ps" "read_file p os = Some s" for p s
    using that keepsD(1,2) [OF k that(1)] by (auto simp: read_file_def)
  then show ?thesis using at ps os' by (auto simp: mailbox_at_def no_faults_def)
qed

lemma strip_slashes_id: "p \<noteq> [] \<Longrightarrow> last p \<noteq> CHR ''/'' \<Longrightarrow> strip_slashes p = p"
  by (cases p rule: rev_cases) (simp_all add: strip_slashes_def)

lemma tt_char_no_slash: "tt_char r \<noteq> CHR ''/''"
proof -
  have "tt_char r \<in> set TT" unfolding tt_char_def by (rule nth_mem) (simp add: TT_def)
  then show ?thesis by (auto simp: TT_def)
qed

lemma user_dir_strip:
  assumes "user_dir root user = (d, home)" and "user \<noteq> []"
  shows "strip_slashes d = d" and "strip_slashes home = home"
proof -
  have "last (replace_char CHR ''/'' CHR ''$'' user) \<noteq> CHR ''/''"
    using assms(2) last_in_set [of "replace_char CHR ''/'' CHR ''$'' user"] by (auto simp: replace_char_def)
  then show "strip_slashes d = d" and "strip_slashes home = home"
    using assms tt_char_no_slash by (auto simp: user_dir_def Let_def replace_char_def intro!: strip_slashes_id)
qed

lemma mkdir_exists: "no_faults os \<Longrightarrow> strip_slashes p = p \<Longrightarrow> p \<in> set (os_dirs os) \<Longrightarrow>
  sys_mkdir p os = (Exists, os\<lparr>os_tick := os_tick os + 1\<rparr>)"
  by (simp add: sys_mkdir_def sys_fault_def no_faults_def)

text \<open>The locked index of a mailbox, as an operation has it.\<close>

definition index_open :: "string \<Rightarrow> nat \<Rightarrow> os \<Rightarrow> bool" where
  "index_open home ifd os =
     (\<exists>i. os_files os (home @ ''/'' @ IDXFILE) = Some i \<and> os_fds os ifd = Some i \<and> os_locks os i = Some ifd \<and>
          os_off os ifd = 0)"

lemma open_index_ok:
  assumes at: "mailbox_at home mb os" and free: "index_free home os"
  shows "\<exists>ifd os1. open_mmbox_index home b os = Some (Some ifd, os1) \<and> mailbox_at home mb os1 \<and> index_open home ifd os1 \<and>
    keeps {} {} os os1 \<and> os_next os \<le> ifd \<and> os_space os1 = os_space os \<and> os_dirs os1 = os_dirs os \<and>
    os_now os1 = os_now os \<and> os_pid os1 = os_pid os \<and> os_files os1 = os_files os"
proof -
  let ?p = "home @ ''/'' @ IDXFILE"
  have wf: "os_wf os" and nf: "no_faults os" and len: "length home \<le> 128" using at by (simp_all add: mailbox_at_def)
  obtain i where i: "os_files os ?p = Some i" using at by (auto simp: mailbox_at_def read_file_def)
  obtain fd os1 where c: "sys_creat ?p os = (Some fd, os1)"
    and os1: "os1 = os\<lparr>os_tick := os_tick os + 1, os_fds := (os_fds os)(fd \<mapsto> i), os_off := (os_off os)(fd := 0),
        os_next := os_next os + 1\<rparr>" and fd: "fd = os_next os"
    using nf i by (auto simp: sys_creat_def sys_fault_def no_faults_def new_fd_def)
  let ?os2 = "os1\<lparr>os_locks := (os_locks os1)(i \<mapsto> fd)\<rparr>"
  have lk: "mm_lockfile fd ?p b os1 = (Some True, ?os2)"
    using i free by (simp add: os1 mm_lockfile_def lockfile_def check_lock_def index_free_def)
  have "sprintf_buf 256 ?p = Some ?p" using len by (simp add: sprintf_buf_def IDXFILE_def)
  then have o: "open_mmbox_index home b os = Some (Some fd, ?os2)"
    using c lk open_index_try.simps(2) [of 10 ?p b os] by (simp add: open_mmbox_index_def MAXTRIES_def del: append.simps)
  have wf1: "os_wf os1" using wf_creat [OF wf, of ?p] c by simp
  then have wf2: "os_wf ?os2" using wf_mm_lockfile [OF wf1, of fd ?p b] lk by simp
  have "keeps {} {} os os1" using keeps_creat [OF wf, of "{}" "{}" ?p] c by simp
  also have "keeps {} {} os1 ?os2" using keeps_mm_lockfile [of "{}" "{}" os1 fd ?p b] lk by simp
  finally have k: "keeps {} {} os ?os2" .
  have "no_temp home ?os2" using at by (simp add: mailbox_at_def no_temp_def os1)
  with mailbox_at_keeps [OF at k _ _ wf2] have "mailbox_at home mb ?os2" by (simp add: os1)
  moreover have "index_open home fd ?os2" using i by (simp add: index_open_def os1)
  ultimately show ?thesis using o k fd by (intro exI [of _ fd] exI [of _ ?os2]) (simp add: os1)
qed

lemma user_mmbox_dir_ok:
  assumes "mailbox_ok root user mb os" and "user_dir root user = (d, home)"
  shows "user_mmbox_dir root user os = (Some home, os\<lparr>os_tick := os_tick os + 2\<rparr>)"
  using assms(1) user_dir_strip [OF assms(2)] mkdir_exists [of os d] mkdir_exists [of "os\<lparr>os_tick := os_tick os + 1\<rparr>" home]
  by (simp add: user_mmbox_dir_def mailbox_ok_def mailbox_at_def assms(2) no_faults_def)

lemma mailbox_at_tick: "mailbox_at home mb (os\<lparr>os_tick := n\<rparr>) = mailbox_at home mb os"
  by (simp add: mailbox_at_def no_faults_def no_temp_def wf_tick read_file_def)

lemma open_mailbox_ok:
  assumes ok: "mailbox_ok root user mb os" and d: "user_dir root user = (d, home)"
  shows "\<exists>ifd os1. open_mailbox root user os = Some (Some (home, ifd), os1) \<and> mailbox_at home mb os1 \<and> index_open home ifd os1 \<and>
    keeps {} {} os os1 \<and> os_next os \<le> ifd \<and> os_space os1 = os_space os \<and> os_dirs os1 = os_dirs os \<and>
    os_now os1 = os_now os \<and> os_pid os1 = os_pid os \<and> os_files os1 = os_files os"
proof -
  let ?os = "os\<lparr>os_tick := os_tick os + 2\<rparr>"
  have "mailbox_at home mb ?os" "index_free home ?os"
    using ok by (simp_all add: mailbox_ok_def d mailbox_at_tick index_free_def)
  then obtain ifd os1 where o: "open_mmbox_index home True ?os = Some (Some ifd, os1)" "mailbox_at home mb os1"
    "index_open home ifd os1" "keeps {} {} ?os os1" "os_next os \<le> ifd" "os_space os1 = os_space os" "os_dirs os1 = os_dirs os"
    "os_now os1 = os_now os" "os_pid os1 = os_pid os" "os_files os1 = os_files os"
    using open_index_ok [of home mb ?os True] by auto
  have "open_mailbox root user os = Some (Some (home, ifd), os1)"
    using o(1) by (simp add: open_mailbox_def user_mmbox_dir_ok [OF ok d])
  with o show ?thesis by (auto simp: keeps_fields)
qed

text \<open>Closing the index ends an operation.\<close>

lemma close_index:
  assumes at: "mailbox_at home mb os" and fd: "os_files os (home @ ''/'' @ IDXFILE) = Some i" "os_fds os fd = Some i"
    and lk: "os_locks os i = None \<or> os_locks os i = Some fd"
  shows "mailbox_at home mb (sys_close fd os)" and "index_free home (sys_close fd os)"
proof -
  have wf: "os_wf os" using at by (simp add: mailbox_at_def)
  have f: "os_files (sys_close fd os) = os_files os" "os_fault (sys_close fd os) = os_fault os" "os_dirs (sys_close fd os) = os_dirs os"
    by (simp_all add: sys_close_def)
  have "no_temp home (sys_close fd os)" using at by (simp add: f no_temp_def mailbox_at_def)
  with mailbox_at_keeps [OF at keeps_close [of fd "{fd}" "{}"] _ _ wf_close [OF wf]]
  show "mailbox_at home mb (sys_close fd os)" by (simp add: f)
  show "index_free home (sys_close fd os)" using fd lk by (auto simp: index_free_def sys_close_def)
qed

lemma read_index_ok:
  assumes ok: "mailbox_ok root user mb os" and f: "f (map (entry_text \<circ> fst) mb) = Some r"
  shows "\<exists>os'. read_index root user f os = Some (Some r, os') \<and> mailbox_ok root user mb os'"
proof -
  obtain d home where d: "user_dir root user = (d, home)" by force
  let ?os = "os\<lparr>os_tick := os_tick os + 2\<rparr>"
  have "mailbox_at home mb ?os" "index_free home ?os"
    using ok by (simp_all add: mailbox_ok_def d mailbox_at_tick index_free_def)
  then obtain ifd os1 where o: "open_mmbox_index home True ?os = Some (Some ifd, os1)" "mailbox_at home mb os1"
    "index_open home ifd os1" "os_dirs os1 = os_dirs os"
    using open_index_ok [of home mb ?os True] by auto
  let ?os2 = "os1\<lparr>os_tick := os_tick os1 + 1\<rparr>"
  have flt: "sys_fault os1 = (False, ?os2)" using o(2) by (simp add: sys_fault_def mailbox_at_def no_faults_def)
  obtain i where i: "os_files ?os2 (home @ ''/'' @ IDXFILE) = Some i" "os_fds ?os2 ifd = Some i" "os_locks ?os2 i = Some ifd"
    "os_off ?os2 ifd = 0" using o(3) by (auto simp: index_open_def)
  have at2: "mailbox_at home mb ?os2" using o(2) by (simp add: mailbox_at_tick)
  then have "fd_contents ifd ?os2 = index_text (map fst mb)" "\<forall>e \<in> set (map fst mb). entry_ok e"
    using i by (auto simp: fd_contents_def mailbox_at_def read_file_def)
  then have "fgets_lines (fd_contents ifd ?os2) = map (entry_text \<circ> fst) mb" using fgets_index by simp
  then have "read_index root user f os = Some (Some r, unlock_and_close ifd ?os2)"
    using o(1) flt f by (simp add: read_index_def user_mmbox_dir_ok [OF ok d] show_octstr_def)
  moreover have "mailbox_ok root user mb (unlock_and_close ifd ?os2)"
    using close_index [OF at2 i(1,2)] i(3) ok o(4) by (simp add: mailbox_ok_def d unlock_and_close_def sys_close_def)
  ultimately show ?thesis by blast
qed

section \<open>Search\<close>

definition ie_ref :: "index_entry \<Rightarrow> octstr" where
  "ie_ref e = replace_char CHR ''/'' CHR ''-'' (ie_df e)"

definition entry_matches ::
  "gwlib \<Rightarrow> octstr list option \<Rightarrow> octstr list option \<Rightarrow> octstr list option \<Rightarrow> index_entry \<Rightarrow> bool" where
  "entry_matches G state flag_cmds msgrefs e =
     (state = None \<and> (msgrefs = None \<or> msgrefs = Some []) \<or>
      (\<exists>l. state = Some l \<and> ie_state e \<in> set l) \<or> (\<exists>l. msgrefs = Some l \<and> ie_ref e \<in> set l) \<or>
      (\<exists>cmds. flag_cmds = Some cmds \<and> set (ie_flags e) \<inter> flag_name ` set (make_mm_flags G [] cmds) \<noteq> {}))"

lemma line_matches_entry:
  assumes G: "gwlib_api G" and "entry_ok e"
  shows "line_matches G state flag_cmds msgrefs (ie_ref e) (ie_state e) (entry_rest e) =
    Some (entry_matches G state flag_cmds msgrefs e)"
  using parse_entry_flags [OF assms(2)] gwlib_api.compare [OF G]
  by (auto simp: line_matches_def entry_matches_def string_in_list_def split: option.split)

text \<open>From the \<open>start\<close>-th message on, those that match, \<open>limit + 1\<close> at most.\<close>

definition search_spec ::
  "gwlib \<Rightarrow> octstr list option \<Rightarrow> octstr list option \<Rightarrow> octstr list option \<Rightarrow> int \<Rightarrow> int \<Rightarrow> index_entry list \<Rightarrow> octstr list" where
  "search_spec G state flag_cmds msgrefs start limit es =
     take (nat (limit + 1)) (map ie_ref (filter (entry_matches G state flag_cmds msgrefs) (drop (nat (start - 1)) es)))"

lemma search_lines_spec:
  assumes G: "gwlib_api G"
  shows "\<forall>e \<in> set es. entry_ok e \<Longrightarrow>
    search_lines G state flag_cmds msgrefs start limit (map entry_text es) ct acc =
      Some (acc @ take (nat (limit + 1) - length acc)
        (map ie_ref (filter (entry_matches G state flag_cmds msgrefs) (drop (nat (start - ct)) es))))"
proof (induction es arbitrary: ct acc)
  case (Cons e es)
  have e: "entry_ok e" using Cons.prems by simp
  have skip: "drop (nat (start - ct)) (e # es) = drop (nat (start - (ct + 1))) es" if "\<not> start \<le> ct"
  proof -
    have "nat (start - ct) = Suc (nat (start - (ct + 1)))" using that by simp
    then show ?thesis by simp
  qed
  have here: "drop (nat (start - ct)) (e # es) = e # es" "drop (nat (start - (ct + 1))) es = es" if "start \<le> ct"
    using that by simp_all
  have full: "nat (limit + 1) - length acc = 0" if "\<not> int (length acc) \<le> limit" using that by linarith
  have room: "nat (limit + 1) - length acc = Suc (nat (limit + 1) - Suc (length acc))" if "int (length acc) \<le> limit"
    using that by linarith
  show ?case
    using Cons scan_index_entry [OF e] line_matches_entry [OF G e] skip here full room
    by (cases "start \<le> ct"; cases "int (length acc) \<le> limit"; cases "entry_matches G state flag_cmds msgrefs e")
       (simp_all add: Let_def ie_ref_def [symmetric])
qed simp

section \<open>Operations on mailboxes\<close>

lemma mailbox_entries_ok: "mailbox_ok root user mb os \<Longrightarrow> \<forall>e \<in> set (map fst mb). entry_ok e"
  by (auto simp: mailbox_ok_def mailbox_at_def)

lemma search_ok:
  assumes G: "gwlib_api G" and ok: "mailbox_ok root user mb os"
  shows "\<exists>os'. mms_mmbox_search G root user state flag_cmds start limit msgrefs os =
      Some (Some (search_spec G state flag_cmds msgrefs start limit (map fst mb)), os') \<and> mailbox_ok root user mb os'"
  unfolding mms_mmbox_search_def
  using search_lines_spec [OF G mailbox_entries_ok [OF ok], of state flag_cmds msgrefs start limit 1 "[]"]
  by (intro read_index_ok [OF ok]) (simp add: search_spec_def)

lemma count_ok:
  assumes ok: "mailbox_ok root user mb os"
  shows "\<exists>os'. mms_mmbox_count root user os = Some (Some (length mb, sum_list (map (ie_size \<circ> fst) mb)), os') \<and>
    mailbox_ok root user mb os'"
proof -
  have "map (line_size \<circ> entry_text) (map fst mb) = map ie_size (map fst mb)"
    using mailbox_entries_ok [OF ok] line_size_entry by (intro map_cong) auto
  then have "map (line_size \<circ> (entry_text \<circ> fst)) mb = map (ie_size \<circ> fst) mb" by (simp add: comp_assoc)
  then show ?thesis unfolding mms_mmbox_count_def by (intro read_index_ok [OF ok]) (simp del: map_eq_conv)
qed

lemma index_open_close:
  assumes "mailbox_ok root user mb os" and "user_dir root user = (d, home)"
    and "mailbox_at home mb' os1" and "index_open home ifd os1" and "set (os_dirs os) \<subseteq> set (os_dirs os1)"
  shows "mailbox_ok root user mb' (unlock_and_close ifd os1)"
proof -
  obtain i where "os_files os1 (home @ ''/'' @ IDXFILE) = Some i" "os_fds os1 ifd = Some i" "os_locks os1 i = Some ifd"
    using assms(4) by (auto simp: index_open_def)
  from close_index [OF assms(3) this(1,2)] this(3) assms(1,2,5) show ?thesis
    by (auto simp: mailbox_ok_def unlock_and_close_def sys_close_def)
qed

lemma replace_ref: "data_name n \<Longrightarrow> replace_char CHR ''-'' CHR ''/'' (replace_char CHR ''/'' CHR ''-'' n) = n"
  by (simp add: data_name_def replace_char_inverse)

lemma get_ok:
  assumes ok: "mailbox_ok root user mb os" and m: "(e, s) \<in> set mb"
  shows "\<exists>os'. mms_mmbox_get frombinary root user (ie_ref e) os = Some ((frombinary s, Some (length s)), os') \<and>
    mailbox_ok root user mb os'"
proof -
  obtain d home where d: "user_dir root user = (d, home)" by force
  obtain ifd os1 where o: "open_mailbox root user os = Some (Some (home, ifd), os1)" "mailbox_at home mb os1"
    "index_open home ifd os1" "os_dirs os1 = os_dirs os"
    using open_mailbox_ok [OF ok d] by auto
  have "read_file (home @ ''/'' @ ie_df e) os1 = Some s" "data_name (ie_df e)" using o(2) m by (auto simp: mailbox_at_def)
  then have "mms_mmbox_get frombinary root user (ie_ref e) os = Some ((frombinary s, Some (length s)), unlock_and_close ifd os1)"
    using o(1) by (simp add: mms_mmbox_get_def ie_ref_def replace_ref)
  then show ?thesis using index_open_close [OF ok d o(2,3)] o(4) by simp
qed

text \<open>An update of the open index, in the terms of mailboxes: the other files stay.\<close>

lemma update_ok:
  assumes G: "gwlib_api G" and at: "mailbox_at home mb os" and io: "index_open home ifd os"
    and e: "ie_df e = df" "ie_state e = show_octstr so" "ie_flags e = flags" "ie_size e = n"
    and space: "index_bytes cmd e (map fst mb) \<le> os_space os"
  shows "\<exists>nifd ino os'. update_mmbox_index G ifd home cmd df so flags n os = Some (Some nifd, os') \<and> os_wf os' \<and>
    os_files os' = (os_files os)(home @ ''/'' @ IDXFILE \<mapsto> ino) \<and> os_data os' ino = index_text (index_apply cmd e (map fst mb)) \<and>
    os_fds os' nifd = Some ino \<and> os_locks os' ino = Some nifd \<and> os_next os \<le> nifd \<and>
    keeps {home @ ''/'' @ IDXFILE} {ifd} os os' \<and> os_fault os' = os_fault os \<and> os_dirs os' = os_dirs os"
proof -
  have len: "take 128 home = home" and "no_temp home os" and wf: "os_wf os" and nf: "no_faults os"
    and dir: "home \<in> set (os_dirs os)" using at by (simp_all add: mailbox_at_def)
  obtain i where i: "os_files os (home @ ''/'' @ IDXFILE) = Some i" "os_fds os ifd = Some i" "os_off os ifd = 0"
    using io by (auto simp: index_open_def)
  have "temp_index home os = home @ ''/t'' @ IDXFILE @ ''.'' @ show_int (os_now os) @ ''.'' @ show_nat (fst (sys_random os) mod 1000)"
    by (simp add: temp_index_def len)
  then have tmp: "os_files os (temp_index home os) = None"
    using \<open>no_temp home os\<close> show_no_slash by (simp add: no_temp_def)
  have dat: "os_data os i = index_text (map fst mb)" using at i(1) by (simp add: mailbox_at_def read_file_def)
  have es: "\<forall>x \<in> set (map fst mb). entry_ok x" using at by (auto simp: mailbox_at_def)
  have dir': "take 128 home \<in> set (os_dirs os)" using dir len by simp
  from update_mmbox_index_works [OF G wf nf i(2,3) dat es e dir' tmp space] show ?thesis
    by (simp only: index_path_def len)
qed

text \<open>After an update the new index is open and the mailbox consists of entries whose files are there.\<close>

lemma updated_mailbox:
  assumes at: "mailbox_at home mb os" and wf: "os_wf os'"
    and files: "os_files os' = (os_files os)(home @ ''/'' @ IDXFILE \<mapsto> ino)" "os_data os' ino = index_text (map fst mb')"
    and k: "keeps {home @ ''/'' @ IDXFILE} fds os os'" and f: "os_fault os' = os_fault os" "os_dirs os' = os_dirs os"
    and mb': "\<And>e s. (e, s) \<in> set mb' \<Longrightarrow> entry_ok e \<and> data_name (ie_df e) \<and> read_file (home @ ''/'' @ ie_df e) os = Some s"
  shows "mailbox_at home mb' os'"
proof -
  have "no_temp home os'" using at files(1) by (auto simp: no_temp_def mailbox_at_def IDXFILE_def)
  moreover have "read_file (home @ ''/'' @ ie_df e) os' = Some s" if m: "(e, s) \<in> set mb'" for e s
  proof -
    have nin: "home @ ''/'' @ ie_df e \<notin> {home @ ''/'' @ IDXFILE}" using mb' [OF m] data_name_neq by auto
    obtain z where z: "os_files os (home @ ''/'' @ ie_df e) = Some z" "s = os_data os z"
      using mb' [OF m] by (auto simp: read_file_def)
    then show ?thesis using keepsD(1,2) [OF k nin z(1)] by (simp add: read_file_def)
  qed
  ultimately show ?thesis
    using at wf files f mb' by (auto simp: mailbox_at_def no_faults_def read_file_def)
qed

lemma index_apply_delete: "index_apply ITEM_DEL e (map fst mb) = map fst (filter (\<lambda>(x, s). ie_df x \<noteq> ie_df e) mb)"
  by (simp add: index_apply_def filter_map case_prod_unfold comp_def)

text \<open>Deleting: the entry and the file are gone.\<close>

lemma delete_ok:
  assumes G: "gwlib_api G" and ok: "mailbox_ok root user mb os" and ref: "replace_char CHR ''-'' CHR ''/'' ref = df"
    and df: "data_name df" and space: "length (index_text (map fst mb)) \<le> os_space os"
  shows "\<exists>os'. mms_mmbox_delmsg G root user ref os = Some (0, os') \<and>
    mailbox_ok root user (filter (\<lambda>(e, s). ie_df e \<noteq> df) mb) os' \<and>
    read_file (snd (user_dir root user) @ ''/'' @ df) os' = None"
proof -
  obtain d home where d: "user_dir root user = (d, home)" by force
  obtain ifd os1 where o: "open_mailbox root user os = Some (Some (home, ifd), os1)" "mailbox_at home mb os1"
    "index_open home ifd os1" "os_dirs os1 = os_dirs os" "os_space os1 = os_space os"
    using open_mailbox_ok [OF ok d] by auto
  let ?e = "\<lparr>ie_df = df, ie_state = show_octstr None, ie_size = 0, ie_flags = []\<rparr>"
    and ?mb = "filter (\<lambda>(x, s). ie_df x \<noteq> df) mb"
  have "length (index_text (map fst ?mb)) \<le> length (index_text (map fst mb))"
    by (induction mb) (auto simp: index_text_def)
  then have sp: "index_bytes ITEM_DEL ?e (map fst mb) \<le> os_space os1"
    using space o(5) by (simp add: index_bytes_def index_apply_delete)
  obtain nifd ino os2 where
    u: "update_mmbox_index G ifd home ITEM_DEL df None [] 0 os1 = Some (Some nifd, os2)" "os_wf os2"
    "os_files os2 = (os_files os1)(home @ ''/'' @ IDXFILE \<mapsto> ino)" "os_data os2 ino = index_text (map fst ?mb)"
    "os_fds os2 nifd = Some ino" "os_locks os2 ino = Some nifd"
    "keeps {home @ ''/'' @ IDXFILE} {ifd} os1 os2" "os_fault os2 = os_fault os1" "os_dirs os2 = os_dirs os1"
    using update_ok [OF G o(2,3) _ _ _ _ sp, of df None "[]" 0] by (auto simp: index_apply_delete)
  have at2: "mailbox_at home ?mb os2"
    using o(2) by (intro updated_mailbox [OF o(2) u(2,3,4,7,8,9)]) (auto simp: mailbox_at_def)
  let ?p = "home @ ''/'' @ df"
  let ?os3 = "sys_unlink ?p os2"
  have pn: "?p \<noteq> home @ ''/'' @ IDXFILE" using data_name_neq [OF df] .
  have os3: "?os3 = os2\<lparr>os_tick := os_tick os2 + 1, os_files := (os_files os2)(?p := None)\<rparr>"
    using at2 by (simp add: sys_unlink_def sys_fault_def mailbox_at_def no_faults_def)
  have "no_temp home ?os3" unfolding os3 using at2 by (simp add: no_temp_def mailbox_at_def)
  then have at3: "mailbox_at home ?mb ?os3"
    using pn wf_unlink [OF u(2)] by (intro mailbox_at_keeps [OF at2 keeps_unlink [of ?p "{?p}" "{}"]]) (auto simp: sys_unlink_def sys_fault_def Let_def)
  have res: "mms_mmbox_delmsg G root user ref os = Some (0, unlock_and_close nifd ?os3)"
    using o(1) u(1) by (simp add: mms_mmbox_delmsg_def ref Let_def)
  have idx: "os_files ?os3 (home @ ''/'' @ IDXFILE) = Some ino" "os_fds ?os3 nifd = Some ino" "os_locks ?os3 ino = Some nifd"
    unfolding os3 using u(3,5,6) pn by simp_all
  have "mailbox_ok root user ?mb (unlock_and_close nifd ?os3)"
    using close_index [OF at3 idx(1,2)] idx(3) ok o(4) u(9)
    unfolding os3 by (simp add: mailbox_ok_def d unlock_and_close_def sys_close_def)
  moreover have "read_file ?p (unlock_and_close nifd ?os3) = None"
    unfolding os3 by (simp add: read_file_def unlock_and_close_def sys_close_def)
  ultimately show ?thesis using res d by auto
qed

section \<open>Adding\<close>

text \<open>What making a data file leaves of the mailbox and of the open index.\<close>

definition quiet :: "string \<Rightarrow> (index_entry \<times> octstr) list \<Rightarrow> os \<Rightarrow> os \<Rightarrow> bool" where
  "quiet home mb os os' =
     (mailbox_at home mb os' \<and> keeps {} {} os os' \<and> os_space os' = os_space os \<and> os_now os' = os_now os \<and>
      os_pid os' = os_pid os \<and> set (os_dirs os) \<subseteq> set (os_dirs os') \<and>
      (\<forall>fd < os_next os. os_off os' fd = os_off os fd))"

lemma quietD:
  assumes "quiet home mb os os'"
  shows "mailbox_at home mb os'" "keeps {} {} os os'" "os_space os' = os_space os" "os_now os' = os_now os"
    "os_pid os' = os_pid os" "set (os_dirs os) \<subseteq> set (os_dirs os')" "fd < os_next os \<Longrightarrow> os_off os' fd = os_off os fd"
    "os_next os \<le> os_next os'"
  using assms keepsD(5) by (auto simp: quiet_def)

lemma quiet_trans [trans]:
  assumes a: "quiet home mb os os'" and b: "quiet home mb os' os''"
  shows "quiet home mb os os''"
  using quietD [OF a] quietD [OF b] keeps_trans [OF quietD(2) [OF a] quietD(2) [OF b]] by (auto simp: quiet_def)

lemma quiet_random: "mailbox_at home mb os \<Longrightarrow> quiet home mb os (snd (sys_random os))"
  using keeps_random [of "{}" "{}" os] wf_random [of os]
  by (auto simp: quiet_def sys_random_def mailbox_at_def no_faults_def no_temp_def read_file_def)

lemma quiet_mkdir: "mailbox_at home mb os \<Longrightarrow> quiet home mb os (snd (sys_mkdir p os))"
  using keeps_mkdir [of "{}" "{}" os p] wf_mkdir [of os p]
  by (auto simp: quiet_def sys_mkdir_def sys_fault_def Let_def mailbox_at_def no_faults_def no_temp_def read_file_def)

lemma creat_excl_fields:
  assumes "sys_creat_excl p os = (fo, os')"
  shows "os_fault os' = os_fault os \<and> os_dirs os' = os_dirs os \<and> os_space os' = os_space os \<and> os_now os' = os_now os \<and>
    os_pid os' = os_pid os \<and> (\<forall>q. q \<noteq> p \<longrightarrow> os_files os' q = os_files os q) \<and>
    (\<forall>fd < os_next os. os_off os' fd = os_off os fd)"
proof (cases fo)
  case None
  with creat_excl_None [of p os os'] assms show ?thesis by simp
next
  case (Some fd)
  with creat_excl_Some [of p os fd os'] assms show ?thesis by simp
qed

lemma quiet_creat_excl:
  assumes at: "mailbox_at home mb os" and df: "CHR ''/'' \<in> set df"
    and c: "sys_creat_excl (home @ ''/'' @ df) os = (fo, os')"
  shows "quiet home mb os os'"
proof -
  let ?p = "home @ ''/'' @ df"
  have wf: "os_wf os" using at by (simp add: mailbox_at_def)
  have t: "home @ ''/t'' @ IDXFILE @ n \<noteq> ?p" if "CHR ''/'' \<notin> set n" for n
    using df that by (auto simp: IDXFILE_def)
  note f = creat_excl_fields [OF c]
  have k: "keeps {} {} os os'" and wf': "os_wf os'"
    using keeps_creat_excl [OF wf, of "{}" "{}" ?p] wf_creat_excl [OF wf, of ?p] c by simp_all
  have "no_temp home os" using at by (simp add: mailbox_at_def)
  have "no_temp home os'"
    unfolding no_temp_def
  proof (intro allI impI)
    fix n :: string assume n: "CHR ''/'' \<notin> set n"
    show "os_files os' (home @ ''/t'' @ IDXFILE @ n) = None"
      using f t [OF n] \<open>no_temp home os\<close> n unfolding no_temp_def by metis
  qed
  with mailbox_at_keeps [OF at k _ _ wf'] f have "mailbox_at home mb os'" by simp
  with f k show ?thesis by (simp add: quiet_def)
qed

lemma lock_fields:
  "os_files (snd (mm_lockfile fd p b os)) = os_files os" "os_data (snd (mm_lockfile fd p b os)) = os_data os"
  "os_off (snd (mm_lockfile fd p b os)) = os_off os" "os_dirs (snd (mm_lockfile fd p b os)) = os_dirs os"
  "os_space (snd (mm_lockfile fd p b os)) = os_space os" "os_fault (snd (mm_lockfile fd p b os)) = os_fault os"
  "os_now (snd (mm_lockfile fd p b os)) = os_now os" "os_pid (snd (mm_lockfile fd p b os)) = os_pid os"
  by (simp_all add: mm_lockfile_def lockfile_def split: option.split)

lemma quiet_lock:
  assumes at: "mailbox_at home mb os" shows "quiet home mb os (snd (mm_lockfile fd p b os))"
proof -
  have wf: "os_wf os" using at by (simp add: mailbox_at_def)
  have "no_temp home (snd (mm_lockfile fd p b os))" using at by (simp add: no_temp_def lock_fields mailbox_at_def)
  then have "mailbox_at home mb (snd (mm_lockfile fd p b os))"
    by (intro mailbox_at_keeps [OF at keeps_mm_lockfile [of "{}" "{}"]] wf_mm_lockfile [OF wf]) (simp_all add: lock_fields)
  then show ?thesis using keeps_mm_lockfile [of "{}" "{}" os fd p b] by (simp add: quiet_def lock_fields)
qed

text \<open>The names that are tried: the counter has values up to \<open>m\<close>.\<close>

definition made_name :: "int \<Rightarrow> int \<Rightarrow> nat \<Rightarrow> string \<Rightarrow> bool" where
  "made_name now pid m df =
     (\<exists>a b c k r. df = [tt_char a] @ ''/'' @ [tt_char b, tt_char c] @ ''/df'' @ show_int now @ ''.'' @ show_nat k @ ''.x'' @
        show_int pid @ show_nat r \<and> k \<le> m \<and> r < 100)"

lemma made_name_ok:
  assumes "made_name now pid m df" and "0 \<le> now" and "0 \<le> pid"
  shows "data_name df"
proof -
  have "\<not> isdigit CHR ''-''" by (simp add: isdigit_def)
  then have "CHR ''-'' \<notin> set (show_nat n)" for n using show_nat_digits by metis
  then show ?thesis using assms tt_char_ok tt_char_ok [THEN not_sym] by (auto simp: made_name_def data_name_def show_int_def)
qed

lemma mkdir_below:
  assumes "no_faults os" and "d \<in> set (os_dirs os)" and "n \<noteq> []" and "CHR ''/'' \<notin> set n"
  shows "\<exists>m os'. sys_mkdir (d @ ''/'' @ n) os = (m, os') \<and> m \<noteq> Mkdir_error \<and> d @ ''/'' @ n \<in> set (os_dirs os')"
proof -
  have "strip_slashes (d @ ''/'' @ n) = d @ ''/'' @ n"
  proof (rule strip_slashes_id)
    show "last (d @ ''/'' @ n) \<noteq> CHR ''/''" using last_in_set [OF assms(3)] assms(3,4) by (auto simp del: last_in_set)
  qed simp
  then show ?thesis
    using assms(1,2) parent_dir_below [OF assms(4), of d] by (auto simp: sys_mkdir_def sys_fault_def no_faults_def Let_def)
qed

lemma files_random: "os_files (snd (sys_random os)) = os_files os"
  by (simp add: sys_random_def)

lemma files_mkdir: "os_files (snd (sys_mkdir p os)) = os_files os"
  by (simp add: sys_mkdir_def sys_fault_def Let_def)

lemma mkdf_try_ok:
  assumes "mailbox_at home mb os" and "mkdf_try k home ect os = (x, ect', os')"
  shows "quiet home mb os os' \<and>
    (case x of
       None \<Rightarrow> k = 0 \<or> (\<exists>df. made_name (os_now os) (os_pid os) (ect + k) df \<and> os_files os (home @ ''/'' @ df) \<noteq> None)
     | Some (fd, df) \<Rightarrow>
         os_next os \<le> fd \<and> made_name (os_now os) (os_pid os) (ect + k) df \<and> made_file (home @ ''/'' @ df) fd os' \<and>
         os_files os (home @ ''/'' @ df) = None)"
  using assms
proof (induction k arbitrary: ect os)
  case 0
  then show ?case by (simp add: quiet_def)
next
  case (Suc k)
  have len: "take 128 home = home" and home: "home \<in> set (os_dirs os)" using Suc.prems(1) by (simp_all add: mailbox_at_def)
  have nf: "no_faults o'" if "quiet home mb os o'" for o' using quietD(1) [OF that] by (simp add: mailbox_at_def)
  obtain a os1 where r1: "sys_random os = (a, os1)" by force
  have q1: "quiet home mb os os1" using quiet_random [OF Suc.prems(1)] r1 by simp
  let ?d1 = "home @ ''/'' @ [tt_char a]"
  obtain m1 os2 where d1: "sys_mkdir ?d1 os1 = (m1, os2)" and m1: "m1 \<noteq> Mkdir_error" and in1: "?d1 \<in> set (os_dirs os2)"
    using mkdir_below [OF nf [OF q1], of home "[tt_char a]"] quietD(6) [OF q1] home tt_char_no_slash [THEN not_sym] by auto
  have q2: "quiet home mb os os2" using quiet_trans [OF q1] quiet_mkdir [OF quietD(1) [OF q1]] d1 by (metis snd_conv)
  obtain b os3 where r2: "sys_random os2 = (b, os3)" by force
  have q3: "quiet home mb os os3" "quiet home mb os2 os3"
    using quiet_trans [OF q2] quiet_random [OF quietD(1) [OF q2]] r2 by (metis snd_conv)+
  obtain c os4 where r3: "sys_random os3 = (c, os4)" by force
  have q4: "quiet home mb os os4" "quiet home mb os3 os4"
    using quiet_trans [OF q3(1)] quiet_random [OF quietD(1) [OF q3(1)]] r3 by (metis snd_conv)+
  let ?d2 = "home @ ''/'' @ [tt_char a] @ ''/'' @ [tt_char b, tt_char c]"
  obtain m2 os5 where d2: "sys_mkdir ?d2 os4 = (m2, os5)" and m2: "m2 \<noteq> Mkdir_error" and in2: "?d2 \<in> set (os_dirs os5)"
    using mkdir_below [OF nf [OF q4(1)], of ?d1 "[tt_char b, tt_char c]"] in1 quietD(6) [OF q3(2)] quietD(6) [OF q4(2)]
      tt_char_no_slash [THEN not_sym] by auto
  have q5: "quiet home mb os os5" using quiet_trans [OF q4(1)] quiet_mkdir [OF quietD(1) [OF q4(1)]] d2 by (metis snd_conv)
  obtain r os6 where r4: "sys_random os5 = (r, os6)" by force
  have q6: "quiet home mb os os6" "quiet home mb os5 os6"
    using quiet_trans [OF q5] quiet_random [OF quietD(1) [OF q5]] r4 by (metis snd_conv)+
  define n where "n = ''df'' @ show_int (os_now os6) @ ''.'' @ show_nat (ect + 1) @ ''.x'' @ show_int (os_pid os6) @ show_nat (r mod 100)"
  define df where "df = [tt_char a] @ ''/'' @ [tt_char b, tt_char c] @ ''/df'' @ show_int (os_now os6) @ ''.'' @ show_nat (ect + 1) @
      ''.x'' @ show_int (os_pid os6) @ show_nat (r mod 100)"
  have df: "made_name (os_now os) (os_pid os) (ect + Suc k) df" "CHR ''/'' \<in> set df"
  proof -
    show "made_name (os_now os) (os_pid os) (ect + Suc k) df"
      unfolding made_name_def using quietD(4,5) [OF q6(1)]
      by (intro exI [of _ a] exI [of _ b] exI [of _ c] exI [of _ "ect + 1"] exI [of _ "r mod 100"]) (simp add: df_def)
  qed (simp add: df_def)
  obtain fo os7 where cr: "sys_creat_excl (home @ ''/'' @ df) os6 = (fo, os7)" by force
  have q7: "quiet home mb os os7" by (rule quiet_trans [OF q6(1) quiet_creat_excl [OF quietD(1) [OF q6(1)] df(2) cr]])
  have same: "os_files os6 = os_files os"
    using files_random [of os] files_mkdir [of ?d1 os1] files_random [of os2] files_random [of os3] files_mkdir [of ?d2 os4]
      files_random [of os5] by (simp add: r1 d1 r2 r3 d2 r4 del: append.simps)
  have step: "mkdf_try (Suc k) home ect os =
     (case fo of
             None \<Rightarrow> mkdf_try k home (ect + 1) os7
           | Some fd \<Rightarrow>
               case mm_lockfile fd (home @ ''/'' @ df) True os7 of
                 (Some True, os8) \<Rightarrow> (Some (fd, df), ect + 1, os8)
               | (_, os8) \<Rightarrow> mkdf_try k home (ect + 1) (unlock_and_close fd (sys_unlink (home @ ''/'' @ df) os8)))"
    unfolding mkdf_try.simps Let_def r1 prod.case len d1 r2 r3 d2 r4 df_def [symmetric] cr using m1 m2
    by (cases m1; cases m2) simp_all
  show ?case
  proof (cases fo)
    case None
    have "parent_dir (home @ ''/'' @ df) = ?d2"
      using parent_dir_below [of n ?d2] show_no_slash by (simp add: df_def n_def)
    moreover have "?d2 \<in> set (os_dirs os6)" using in2 quietD(6) [OF q6(2)] by auto
    ultimately have taken: "os_files os6 (home @ ''/'' @ df) \<noteq> None"
      using cr None nf [OF q6(1)] by (auto simp: sys_creat_excl_def sys_fault_def no_faults_def new_file_fields split: if_splits)
    have os7: "os7 = os6\<lparr>os_tick := os_tick os6 + 1\<rparr>" using creat_excl_None [of _ os6 os7] cr None by simp
    have "mkdf_try k home (ect + 1) os7 = (x, ect', os')" using Suc.prems(2) step None by simp
    from Suc.IH [OF quietD(1) [OF q7] this] show ?thesis
      using quiet_trans [OF q7] quietD(4,5,8) [OF q7] taken same df(1) os7
      by (auto split: option.splits prod.splits)
  next
    case (Some fd)
    note c' = cr [unfolded Some]
    have wf6: "os_wf os6" using quietD(1) [OF q6(1)] by (simp add: mailbox_at_def)
    note lk = lock_created [OF wf6 c', of True]
    note cs = creat_excl_Some [OF c']
    let ?os8 = "os7\<lparr>os_locks := (os_locks os7)(os_next os6 \<mapsto> fd)\<rparr>"
    have res: "x = Some (fd, df)" "os' = ?os8" using Suc.prems(2) step Some lk by simp_all
    have "quiet home mb os ?os8"
      using quiet_trans [OF q7] quiet_lock [OF quietD(1) [OF q7], of fd "home @ ''/'' @ df" True] lk by simp
    moreover have "made_file (home @ ''/'' @ df) fd ?os8" using cs by (simp add: made_file_def)
    moreover have "os_next os \<le> fd" using cs(1) quietD(8) [OF q6(1)] by simp
    ultimately show ?thesis using df(1) same cs(3) by (simp add: res)
  qed
qed

lemma index_open_quiet:
  assumes io: "index_open home ifd os" and wf: "os_wf os" and q: "quiet home mb os os'"
  shows "index_open home ifd os'"
proof -
  obtain i where i: "os_files os (home @ ''/'' @ IDXFILE) = Some i" "os_fds os ifd = Some i" "os_locks os i = Some ifd"
    "os_off os ifd = 0" using io by (auto simp: index_open_def)
  have "os_off os' ifd = 0" using quietD(7) [OF q os_wfD(2) [OF wf i(2)]] i(4) by simp
  then show ?thesis using keepsD(1,3,4) [OF quietD(2) [OF q]] i by (auto simp: index_open_def)
qed

text \<open>Writing the new data file keeps the mailbox and the open index.\<close>

lemma write_data_ok:
  assumes at: "mailbox_at home mb os" and io: "index_open home ifd os" and new: "made_file (home @ ''/'' @ df) dfd os"
    and df: "data_name df" and nin: "\<And>e s. (e, s) \<in> set mb \<Longrightarrow> ie_df e \<noteq> df" and space: "length s \<le> os_space os"
    and ne: "dfd \<noteq> ifd"
  shows "\<exists>os'. snd (sys_write dfd s os) = os' \<and> mailbox_at home mb os' \<and> index_open home ifd os' \<and>
    read_file (home @ ''/'' @ df) os' = Some s \<and> os_space os' = os_space os - length s \<and> os_dirs os' = os_dirs os \<and>
    os_fds os' = os_fds os \<and> os_next os' = os_next os \<and> os_files os' = os_files os"
proof -
  obtain i where i: "os_files os (home @ ''/'' @ df) = Some i" "os_fds os dfd = Some i" "os_data os i = []" "os_off os dfd = 0"
    using new by (auto simp: made_file_def)
  have wf: "os_wf os" using at by (simp add: mailbox_at_def)
  let ?os' = "appended i dfd s os"
  have w: "snd (sys_write dfd s os) = ?os'" using i space by (intro write_appended) simp_all
  have k: "keeps {home @ ''/'' @ df} {} os ?os'"
  proof -
    have sub: "q \<in> {home @ ''/'' @ df}" if "os_fds os dfd = Some j" "os_files os q = Some j" for j q
      using os_wfD(5) [OF wf that(2), of "home @ ''/'' @ df"] that(1) i(1,2) by simp
    show ?thesis unfolding w [symmetric] by (rule keeps_write [OF wf]) (rule sub)
  qed
  have wf': "os_wf ?os'" using wf_write [OF wf, of dfd s] by (simp add: w)
  have "no_temp home ?os'" using at by (simp add: no_temp_def mailbox_at_def)
  then have "mailbox_at home mb ?os'"
    using data_name_neq [OF df, of home] nin by (intro mailbox_at_keeps [OF at k _ _ wf']) auto
  moreover have "index_open home ifd ?os'" using io ne by (auto simp: index_open_def appended_def)
  moreover have "read_file (home @ ''/'' @ df) ?os' = Some s" using i by (simp add: read_file_def)
  ultimately show ?thesis using w by simp
qed

text \<open>The entry of a message that is stored under a name.\<close>

definition new_entry :: "gwlib \<Rightarrow> MmsMsg \<Rightarrow> octstr list \<Rightarrow> octstr option \<Rightarrow> nat \<Rightarrow> string \<Rightarrow> index_entry" where
  "new_entry G msg flag_cmds dflt n df =
     \<lparr>ie_df = df, ie_state = msg_state G msg dflt, ie_size = int n, ie_flags = msg_flags G msg flag_cmds\<rparr>"

definition add_result ::
  "string \<Rightarrow> string \<Rightarrow> (index_entry \<times> octstr) list \<Rightarrow> (string \<Rightarrow> index_entry) \<Rightarrow> octstr \<Rightarrow> octstr option \<Rightarrow> os \<Rightarrow> bool" where
  "add_result root user mb e s r os' =
     (case r of
        None \<Rightarrow> mailbox_ok root user mb os'
      | Some ref \<Rightarrow>
          \<exists>df. ref = ie_ref (e df) \<and> mailbox_ok root user (mb @ [(e df, s)]) os' \<and> (\<forall>x \<in> set mb. ie_df (fst x) \<noteq> df))"

lemma add_ok:
  assumes G: "gwlib_api G" and ok: "mailbox_ok root user mb os" and clock: "0 \<le> os_now os" "0 \<le> os_pid os"
    and bin: "mms_tobinary G (stored_msg G msg (msg_flags G msg flag_cmds) (msg_state G msg dflt)) = Some (s, msg2)"
    and fits: "\<And>df. made_name (os_now os) (os_pid os) (ect + 11) df \<Longrightarrow>
      entry_ok (new_entry G msg flag_cmds dflt (length s) df) \<and>
      length s + length (index_text (map fst mb @ [new_entry G msg flag_cmds dflt (length s) df])) \<le> os_space os"
  shows "\<exists>r msg' ect' os'. mms_mmbox_addmsg G root user msg flag_cmds dflt ect os = Some (r, msg', ect', os') \<and>
    add_result root user mb (new_entry G msg flag_cmds dflt (length s)) s r os' \<and>
    (r = None \<longrightarrow> (\<exists>df. made_name (os_now os) (os_pid os) (ect + 11) df \<and>
       os_files os (snd (user_dir root user) @ ''/'' @ df) \<noteq> None))"
proof -
  obtain d home where d: "user_dir root user = (d, home)" by force
  obtain ifd os1 where o: "open_mailbox root user os = Some (Some (home, ifd), os1)" "mailbox_at home mb os1"
    "index_open home ifd os1" "os_dirs os1 = os_dirs os" "os_space os1 = os_space os" "os_now os1 = os_now os" "os_pid os1 = os_pid os"
    "os_files os1 = os_files os"
    using open_mailbox_ok [OF ok d] by auto
  have wf1: "os_wf os1" using o(2) by (simp add: mailbox_at_def)
  obtain x ect2 os2 where mk: "mkdf home ect os1 = (x, ect2, os2)" by (metis prod_cases3)
  note mkd = mkdf_try_ok [OF o(2) mk [unfolded mkdf_def MAXTRIES_def], unfolded o(6,7,8)]
  then have q: "quiet home mb os1 os2" by blast
  show ?thesis
  proof (cases x)
    case None
    have "mms_mmbox_addmsg G root user msg flag_cmds dflt ect os = Some (None, msg, ect2, unlock_and_close ifd os2)"
      using o(1) mk None by (simp add: mms_mmbox_addmsg_def)
    moreover have "set (os_dirs os) \<subseteq> set (os_dirs os2)" using quietD(6) [OF q] o(4) by simp
    then have "mailbox_ok root user mb (unlock_and_close ifd os2)"
      by (rule index_open_close [OF ok d quietD(1) [OF q] index_open_quiet [OF o(3) wf1 q]])
    ultimately show ?thesis using mkd None by (auto simp: add_result_def d)
  next
    case (Some y)
    obtain dfd df where x: "x = Some (dfd, df)" using Some by (cases y) auto
    with mkd have mk': "os_next os1 \<le> dfd" "made_name (os_now os) (os_pid os) (ect + 11) df" "made_file (home @ ''/'' @ df) dfd os2"
      "os_files os (home @ ''/'' @ df) = None" by simp_all
    let ?e = "new_entry G msg flag_cmds dflt (length s) df" and ?st = "msg_state G msg dflt" and ?fl = "msg_flags G msg flag_cmds"
    have fit: "entry_ok ?e" "length s + length (index_text (map fst mb @ [?e])) \<le> os_space os" using fits [OF mk'(2)] by auto
    have dn: "data_name df" by (rule made_name_ok [OF mk'(2) clock])
    have ifd: "ifd < os_next os1" using o(3) os_wfD(2) [OF wf1] by (auto simp: index_open_def)
    have nin: "ie_df y \<noteq> df" if "(y, z) \<in> set mb" for y z
      using o(2) that mk'(4) o(8) by (auto simp: mailbox_at_def read_file_def)
    have "length s \<le> os_space os2" using fit(2) o(5) quietD(3) [OF q] by simp
    from write_data_ok [OF quietD(1) [OF q] index_open_quiet [OF o(3) wf1 q] mk'(3) dn nin this] ifd mk'(1)
    obtain os3 where w: "snd (sys_write dfd s os2) = os3" "mailbox_at home mb os3" "index_open home ifd os3"
      "read_file (home @ ''/'' @ df) os3 = Some s" "os_space os3 = os_space os2 - length s" "os_dirs os3 = os_dirs os2"
      "os_next os3 = os_next os2" by auto
    have e': "ie_df ?e = df" "ie_state ?e = show_octstr (Some ?st)" "ie_flags ?e = ?fl" "ie_size ?e = int (length s)"
      by (simp_all add: new_entry_def show_octstr_def)
    have "filter (\<lambda>x. ie_df x \<noteq> ie_df ?e) (map fst mb) = map fst mb"
      by (simp add: filter_id_conv e'(1)) (metis nin prod.collapse)
    then have ap: "index_apply ITEM_ADD ?e (map fst mb) = map fst (mb @ [(?e, s)])" by (simp add: index_apply_def)
    then have "index_bytes ITEM_ADD ?e (map fst mb) \<le> os_space os3"
      using fit(2) w(5) o(5) quietD(3) [OF q] by (simp add: index_bytes_def)
    from update_ok [OF G w(2,3) e' this] obtain nifd ino os4 where
      u: "update_mmbox_index G ifd home ITEM_ADD df (Some ?st) ?fl (int (length s)) os3 = Some (Some nifd, os4)"
      and up: "os_wf os4"
      "os_files os4 = (os_files os3)(home @ ''/'' @ IDXFILE \<mapsto> ino)" "os_data os4 ino = index_text (map fst (mb @ [(?e, s)]))"
      "os_fds os4 nifd = Some ino" "os_locks os4 ino = Some nifd" "os_next os3 \<le> nifd"
      "keeps {home @ ''/'' @ IDXFILE} {ifd} os3 os4" "os_fault os4 = os_fault os3" "os_dirs os4 = os_dirs os3"
      unfolding ap by blast
    have at4: "mailbox_at home (mb @ [(?e, s)]) os4"
    proof (rule updated_mailbox [OF w(2) up(1,2,3,7,8,9)])
      fix y z assume "(y, z) \<in> set (mb @ [(?e, s)])"
      then show "entry_ok y \<and> data_name (ie_df y) \<and> read_file (home @ ''/'' @ ie_df y) os3 = Some z"
        using w(2,4) fit(1) dn e'(1) by (auto simp: mailbox_at_def)
    qed
    have dfd: "dfd < os_next os2" using mk'(3) os_wfD(2) quietD(1) [OF q] by (auto simp: made_file_def mailbox_at_def)
    have neq: "dfd \<noteq> nifd" using dfd up(6) w(7) by simp
    let ?os5 = "unlock_and_close dfd os4"
    have f5: "os_files ?os5 = os_files os4" "os_fault ?os5 = os_fault os4" "os_dirs ?os5 = os_dirs os4"
      "os_fds ?os5 nifd = Some ino" "os_locks ?os5 ino = Some nifd"
      using neq up(4,5) by (auto simp: unlock_and_close_def sys_close_def split: option.split)
    have "no_temp home ?os5" using at4 by (simp add: f5 no_temp_def mailbox_at_def)
    then have at5: "mailbox_at home (mb @ [(?e, s)]) ?os5"
      using wf_close [OF up(1)] f5 unfolding unlock_and_close_def
      by (intro mailbox_at_keeps [OF at4 keeps_close [of dfd "{dfd}" "{}"]]) simp_all
    have idx: "os_files ?os5 (home @ ''/'' @ IDXFILE) = Some ino" using up(2) f5(1) by simp
    have dirs: "set (os_dirs os) \<subseteq> set (os_dirs ?os5)" using quietD(6) [OF q] o(4) w(6) up(9) f5(3) by simp
    have "mailbox_ok root user (mb @ [(?e, s)]) (sys_close nifd ?os5)"
      using close_index [OF at5 idx f5(4)] f5(5) ok dirs by (auto simp: mailbox_ok_def d sys_close_def)
    moreover obtain msg3 where
      "mms_mmbox_addmsg G root user msg flag_cmds dflt ect os = Some (Some (ie_ref ?e), msg3, ect2, sys_close nifd ?os5)"
      using o(1) mk x bin w(1) u by (simp add: mms_mmbox_addmsg_def ie_ref_def e'(1) unlock_and_close_def)
    moreover have "\<forall>y \<in> set mb. ie_df (fst y) \<noteq> df" using nin [of "fst y" "snd y" for y] by simp
    ultimately show ?thesis by (auto simp: add_result_def)
  qed
qed

section \<open>Properties\<close>


definition ex_entry :: index_entry where
  "ex_entry = \<lparr>ie_df = ''a/bc/df1'', ie_state = ''Sent'', ie_size = 1, ie_flags = [''x'']\<rparr>"

definition ex_mbox :: os where
  "ex_mbox =
     \<lparr> os_files = [''m/p/e2/u/00Index'' \<mapsto> 0, ''m/p/e2/u/a/bc/df1'' \<mapsto> 1],
       os_data = (\<lambda>i. if i = 0 then index_text [ex_entry] else ''b''), os_fds = Map.empty, os_off = (\<lambda>fd. 0),
       os_locks = Map.empty, os_dirs = [''m/p/e2'', ''m/p/e2/u''], os_next = 2, os_space = 1000,
       os_fault = (\<lambda>n. False), os_tick = 0, os_now = 5, os_pid = 7, os_rand = (\<lambda>n. n), os_rpos = 0 \<rparr>"

lemma ex_mbox_dir: "user_dir ''m'' ''u'' = (''m/p/e2'', ''m/p/e2/u'')"
  by code_simp

lemma ex_entry_ok: "entry_ok ex_entry" "data_name (ie_df ex_entry)" "length (index_text [ex_entry]) \<le> 1000"
  by code_simp+

lemma ex_mbox_ok: "mailbox_ok ''m'' ''u'' [(ex_entry, ''b'')] ex_mbox"
proof -
  have "os_wf ex_mbox" by (auto simp: ex_mbox_def os_wf_def)
  moreover have "no_temp ''m/p/e2/u'' ex_mbox" by (simp add: no_temp_def ex_mbox_def IDXFILE_def)
  ultimately show ?thesis
    using ex_entry_ok(1,2) unfolding mailbox_ok_def ex_mbox_dir
    by (simp add: mailbox_at_def no_faults_def read_file_def index_free_def IDXFILE_def ex_mbox_def ex_entry_def)
qed



definition ex_stored :: MmsMsg where
  "ex_stored = \<lparr> m_message_type = 6, m_msgId = None, m_headers = [(''X-Mms-Message-Type'', ''m-delivery-ind'')],
     m_enc = None, m_ismultipart = False, m_body = Body_null \<rparr>"

lemma ex_stored_fields: "msg_state gwlib_ref ex_stored None = ''Sent''" "msg_flags gwlib_ref ex_stored [''+x''] = [''x'']"
  "m_headers (stored_msg gwlib_ref ex_stored [''x''] ''Sent'') =
     [(''X-Mms-Message-Type'', ''m-delivery-ind''), (''X-Mms-MM-Flags'', ''x''), (''X-Mms-MM-State'', ''Sent'')]"
  "m_body (stored_msg gwlib_ref ex_stored [''x''] ''Sent'') = Body_null"
  by code_simp+

lemma ex_stored_bytes:
  "\<exists>s m. mms_tobinary gwlib_ref (stored_msg gwlib_ref ex_stored (msg_flags gwlib_ref ex_stored [''+x''])
      (msg_state gwlib_ref ex_stored None)) = Some (s, m) \<and> length s < 100"
proof -
  have codes: "mms_string_to_header gwlib_ref ''X-Mms-Message-Type'' = MMS_HEADER_MESSAGE_TYPE"
    "mms_string_to_header gwlib_ref ''X-Mms-MM-Flags'' = MMS_HEADER_MM_FLAGS"
    "mms_string_to_header gwlib_ref ''X-Mms-MM-State'' = MMS_HEADER_MM_STATE"
    by (rule header_code, code_simp, simp add: ci_def)+
  have pack: "length (pack_short_integer gwlib_ref n) = 1" for n
    by (simp add: pack_short_integer_def gwlib_ref_def)
  let ?h = "m_headers (stored_msg gwlib_ref ex_stored [''x''] ''Sent'')"
  have hv: "gw_header_value gwlib_ref ?h ''X-Mms-Message-Type'' = Some ''m-delivery-ind''"
    "gw_header_value gwlib_ref ?h ''Content-Type'' = None" "gw_header_value gwlib_ref ?h ''X-Mms-Transaction-Id'' = None"
    "gw_header_value gwlib_ref ?h ''X-Mms-MMS-Version'' = None"
    unfolding ex_stored_fields by code_simp+
  have strip: "strip_boundary_element gwlib_ref ?h None = ?h"
    by (simp add: strip_boundary_element_def get_content_type_def hv)
  have "length (pack_mm_flags gwlib_ref ''x'') < 50" by code_simp
  moreover have "length (gw_pack_version_value gwlib_ref None) = 1" by (simp add: gwlib_ref_def)
  ultimately have "\<exists>s h. encode_msgheaders gwlib_ref ?h = Some (s, h) \<and> length s < 100"
    by (simp add: encode_msgheaders_def strip hv Let_def pack)
       (simp add: ex_stored_fields encode_header_def codes mms_pack_well_known_field_def pack)
  then show ?thesis
    by (auto simp: ex_stored_fields(1,2) mms_tobinary_def encode_msgbody_def ex_stored_fields(4))
qed

lemma ex_made_name:
  assumes "made_name 5 7 11 df" shows "word_ok df \<and> length df < 20"
proof -
  obtain a b c k r where df: "df = [tt_char a] @ ''/'' @ [tt_char b, tt_char c] @ ''/df'' @ show_int 5 @ ''.'' @ show_nat k @ ''.x'' @
        show_int 7 @ show_nat r" and kr: "k \<le> 11" "r < 100"
    using assms by (auto simp: made_name_def)
  have "tt_char x \<in> set TT" for x unfolding tt_char_def by (rule nth_mem) (simp add: TT_def)
  moreover have "\<forall>x \<in> set TT. \<not> isspace x" by (simp add: TT_def isspace_def)
  ultimately have "\<not> isspace (tt_char x)" for x by blast
  moreover have "\<not> isspace x" if "x \<in> set (show_nat n)" for x n
    using show_nat_digits [OF that] isdigit_not_isspace by blast
  moreover have "length (show_nat k) \<le> 2" "length (show_nat r) \<le> 2"
    using kr by (subst length_show_nat_le; simp)+
  moreover have "show_int 5 = ''5''" "show_int 7 = ''7''" by code_simp+
  ultimately show ?thesis by (auto simp: df word_ok_def isspace_def)
qed


text \<open>C10: searching a mailbox is selecting from the list of messages: from the \<open>start\<close>-th on, those with one
  of the states, references or flags. As the code stands, all messages are selected when neither states nor
  references are given, whatever flags are, and one more than \<open>limit\<close> may be returned.\<close>

theorem mailbox_search_equiv:
  assumes "gwlib_api G" and "mailbox_ok root user mb os"
  shows "\<exists>os'. mms_mmbox_search G root user state flag_cmds start limit msgrefs os =
      Some (Some (search_spec G state flag_cmds msgrefs start limit (map fst mb)), os') \<and> mailbox_ok root user mb os'"
  by (rule search_ok [OF assms])

theorem mailbox_search_equiv_witness:
  "\<exists>os'. mms_mmbox_search gwlib_ref ''m'' ''u'' None (Some [''+nothing'']) 1 0 None ex_mbox = Some (Some [''a-bc-df1''], os')"
proof -
  have "search_spec gwlib_ref None (Some [''+nothing'']) None 1 0 [ex_entry] = [''a-bc-df1'']"
    by (simp add: search_spec_def entry_matches_def ie_ref_def ex_entry_def replace_char_def)
  with mailbox_search_equiv [OF gwlib_ref_api ex_mbox_ok, of None "Some [''+nothing'']" 1 0 None] show ?thesis by auto
qed

end
