(* ===== verification/MmscPlugins.thy ===== *)
theory MmscPlugins
  imports MmsSender
begin

text \<open>
  The plug-ins of the MMSC that come with it: billing (\<open>mms_billing.c\<close>, \<open>mms_billing_shell.c\<close>), the
  resolver of phone numbers (\<open>mms_resolve.c\<close>, \<open>mms_resolve_shell.c\<close>), the detokenizer
  (\<open>mms_detokenize.c\<close>, \<open>mms_detokenize_shell.c\<close>) and MM5 (\<open>mmsc_mm5.c\<close>); and the provisioning scripts
  that \<open>mmsc_cfg.c\<close> calls. The shell ones make command lines; what a shell makes of a command line is
  modelled too. The name of the script, a static variable of each module, is \<open>None\<close> before it is set.
\<close>

section \<open>Billing\<close>

definition billing_init :: "string \<Rightarrow> octstr option" where
  "billing_init settings = Some settings"

definition billing_fini :: "octstr option \<Rightarrow> int \<times> octstr option" where
  "billing_fini script = (0, None)"

definition billing_command :: "octstr \<Rightarrow> octstr option \<Rightarrow> octstr \<Rightarrow> octstr option \<Rightarrow> octstr" where
  "billing_command script from to msgid =
     script @ '' '' @ [CHR 0x27] @ show_octstr from @ [CHR 0x27] @ '' '' @ [CHR 0x27] @ to @ [CHR 0x27] @ '' '' @
     [CHR 0x27] @ show_octstr msgid @ [CHR 0x27]"

text \<open>One command for each recipient, until one fails.\<close>

fun bill_each ::
  "'s env \<Rightarrow> octstr \<Rightarrow> octstr option \<Rightarrow> octstr option \<Rightarrow> octstr list \<Rightarrow> 's \<Rightarrow> int \<times> 's" where
  "bill_each X script from msgid [] w = (0, w)"
| "bill_each X script from msgid (t # ts) w =
     (let (ret, w1) = x_system X (billing_command script from t msgid) w in
      if ret < 0 then (-2, w1)
      else if WEXITSTATUS ret \<noteq> 0 then (-1, w1)
      else bill_each X script from msgid ts w1)"

definition shell_billmsg ::
  "'s env \<Rightarrow> octstr option \<Rightarrow> octstr option \<Rightarrow> octstr list \<Rightarrow> int \<Rightarrow> octstr option \<Rightarrow> octstr option \<Rightarrow> 's \<Rightarrow> int \<times> 's" where
  "shell_billmsg X script from to msg_size vaspid msgid w =
     (if script = None \<or> script = Some [] then (0, w)
      else bill_each X (or_empty script) from msgid to w)"

text \<open>The default module bills nothing.\<close>

definition default_billmsg ::
  "octstr option \<Rightarrow> octstr list \<Rightarrow> int \<Rightarrow> octstr option \<Rightarrow> octstr option \<Rightarrow> 's \<Rightarrow> int \<times> 's" where
  "default_billmsg from to msg_size vaspid msgid w = (0, w)"

text \<open>The line that is appended to the file of call detail records.\<close>

definition cdr_interface :: "string \<Rightarrow> string" where
  "cdr_interface s = take 128 (if s = [] then ''MM2'' else s)"

definition cdr_line :: "gwlib \<Rightarrow> MmsCdrStruct \<Rightarrow> octstr" where
  "cdr_line G c =
     gw_local_time G (cdr_sdate c) @ [CHR 0x09] @ cdr_interface (cdr_src_interface c) @ [CHR 0x09] @
     cdr_interface (cdr_dst_interface c) @ [CHR 0x09] @ take 128 (cdr_from c) @ [CHR 0x09] @
     take 256 (cdr_to c) @ [CHR 0x09] @ take 256 (cdr_msgid c) @ [CHR 0x09] @ show_int (cdr_msg_size c) @ [CHR 0x0A]"

definition sys_append :: "nat \<Rightarrow> octstr \<Rightarrow> os \<Rightarrow> bool \<times> os" where
  "sys_append fd s os =
     (case os_fds os fd of
        None \<Rightarrow> (False, os)
      | Some ino \<Rightarrow> sys_write fd s (os\<lparr>os_off := (os_off os)(fd := length (os_data os ino))\<rparr>))"

text \<open>The module data is the file that \<open>mms_billingmodule_init\<close> has opened for appending.\<close>

definition mms_logcdr :: "gwlib \<Rightarrow> nat option \<Rightarrow> MmsCdrStruct \<Rightarrow> os \<Rightarrow> int \<times> os" where
  "mms_logcdr G module_data c os =
     (case module_data of None \<Rightarrow> (-1, os) | Some fd \<Rightarrow> (0, snd (sys_append fd (cdr_line G c) os)))"

section \<open>The resolver\<close>

definition mms_resolve :: "gwlib \<Rightarrow> MmscSettings \<Rightarrow> MmsProxyRelay list \<Rightarrow> octstr \<Rightarrow> octstr option" where
  "mms_resolve G S proxies phonenum =
     (if gw_prefix_match G (s_local_prefix S) phonenum then Some (s_hostname S)
      else map_option pr_host
             (List.find (\<lambda>mp. gw_prefix_match G (Some (pr_allowed_prefix mp)) phonenum \<and>
                              \<not> gw_prefix_match G (Some (pr_denied_prefix mp)) phonenum) proxies))"

definition resolve_command :: "octstr \<Rightarrow> octstr \<Rightarrow> octstr option \<Rightarrow> octstr option \<Rightarrow> octstr" where
  "resolve_command script phonenum src_int src_id =
     script @ '' '' @ [CHR 0x27] @ phonenum @ [CHR 0x27] @ '' '' @ [CHR 0x27] @ or_empty src_int @ [CHR 0x27] @ '' '' @
     [CHR 0x27] @ or_empty src_id @ [CHR 0x27]"

text \<open>The command is read without a check that it runs or writes anything: otherwise a null pointer is
  followed, or the buffer is not initialised.\<close>

definition shell_resolve ::
  "gwlib \<Rightarrow> 's env \<Rightarrow> octstr option \<Rightarrow> octstr \<Rightarrow> octstr option \<Rightarrow> octstr option \<Rightarrow> 's \<Rightarrow> (octstr option \<times> 's) option" where
  "shell_resolve G X script phonenum src_int src_id w =
     (if script = None \<or> script = Some [] then Some (None, w)
      else
        case x_popen_read X (resolve_command (or_empty script) phonenum src_int src_id) w of
          (None, _) \<Rightarrow> None
        | (Some out, w1) \<Rightarrow>
            if out = [] then None
            else let s = gw_strip_crlfs G (first_line 4095 out) in Some (if s = [] then None else Some s, w1))"

section \<open>The detokenizer\<close>

definition detokenize_command :: "gwlib \<Rightarrow> octstr \<Rightarrow> octstr option \<Rightarrow> octstr option \<Rightarrow> octstr" where
  "detokenize_command G script token request_ip =
     script @ '' '' @ escape_shell_chars G (case token of Some t \<Rightarrow> t | None \<Rightarrow> ''x'') @ '' '' @
     escape_shell_chars G (case request_ip of Some i \<Rightarrow> i | None \<Rightarrow> ''x'')"

definition shell_detokenize ::
  "gwlib \<Rightarrow> 's env \<Rightarrow> octstr option \<Rightarrow> octstr option \<Rightarrow> octstr option \<Rightarrow> 's \<Rightarrow> octstr option \<times> 's" where
  "shell_detokenize G X script token request_ip w =
     (if script = None \<or> script = Some [] then (None, w)
      else
        case x_popen_read X (detokenize_command G (or_empty script) token request_ip) w of
          (None, w1) \<Rightarrow> (None, w1)
        | (Some out, w1) \<Rightarrow>
            (if out = [] then None else Some (gw_strip_crlfs G (first_line 4095 out)), w1))"

definition shell_gettoken :: "octstr option \<Rightarrow> octstr option" where
  "shell_gettoken msisdn = Some ''y''"

definition default_detokenizer :: detokenizer where
  "default_detokenizer = \<lparr>mms_detokenize = (\<lambda>token ip. Some ''+45xxxxxx''), mms_gettoken = Some (\<lambda>msisdn. Some ''yy'')\<rparr>"

section \<open>MM5\<close>

text \<open>The command is copied into a buffer of 1024 bytes, which need not end with a NUL byte then.\<close>

definition mm5_init :: "string \<Rightarrow> string option" where
  "mm5_init shell_cmd = (if length shell_cmd < 1024 then Some (strncpy 1024 shell_cmd) else None)"

definition quoted_arg :: "octstr \<Rightarrow> octstr" where
  "quoted_arg s = [CHR 0x27] @ s @ [CHR 0x27]"

definition mm5_update_command :: "gwlib \<Rightarrow> string \<Rightarrow> octstr \<Rightarrow> octstr \<Rightarrow> octstr \<Rightarrow> octstr" where
  "mm5_update_command G cmd phonenum uaprof_url ua_string =
     cmd @ '' '' @ quoted_arg (escape_shell_chars G phonenum) @ '' '' @
     quoted_arg (escape_shell_chars G uaprof_url) @ '' '' @ quoted_arg (escape_shell_chars G ua_string)"

text \<open>For a profile or name of the handset that is not known the code takes a string of \<open>octstr_imm\<close>, which
  gwlib does not let anyone change: the escaping of it panics.\<close>

definition mm5_shell_update ::
  "gwlib \<Rightarrow> 's env \<Rightarrow> string \<Rightarrow> octstr option \<Rightarrow> octstr option \<Rightarrow> octstr option \<Rightarrow> 's \<Rightarrow> 's option" where
  "mm5_shell_update G X cmd phonenum uaprof_url ua_string w =
     (case phonenum of
        None \<Rightarrow> Some w
      | Some p \<Rightarrow>
          (case (uaprof_url, ua_string) of
             (Some x, Some y) \<Rightarrow> Some (snd (x_system X (mm5_update_command G cmd p x y) w))
           | _ \<Rightarrow> None))"

text \<open>Up to two lines of the output go into the buffers that are asked for, with their newlines; an empty
  text is a buffer that no line was read into.\<close>

definition mm5_lines :: "bool \<Rightarrow> bool \<Rightarrow> nat \<Rightarrow> octstr \<Rightarrow> octstr option \<times> octstr option" where
  "mm5_lines want_url want_ua buflen out =
     (let l1 = first_line 4095 out; rest = (if want_url then drop (length l1) out else out)
      in (if want_url then Some (strncpy buflen l1) else None,
          if want_ua then Some (strncpy buflen (first_line 4095 rest)) else None))"

definition mm5_shell_query ::
  "gwlib \<Rightarrow> 's env \<Rightarrow> string \<Rightarrow> octstr option \<Rightarrow> bool \<Rightarrow> bool \<Rightarrow> nat \<Rightarrow> 's \<Rightarrow> int \<times> (octstr option \<times> octstr option) \<times> 's" where
  "mm5_shell_query G X cmd phonenum want_url want_ua buflen w =
     (case phonenum of
        None \<Rightarrow> (-1, (None, None), w)
      | Some p \<Rightarrow>
          (case x_popen_read X (cmd @ '' '' @ quoted_arg (escape_shell_chars G p)) w of
             (None, w1) \<Rightarrow> (-1, (None, None), w1)
           | (Some out, w1) \<Rightarrow> (0, mm5_lines want_url want_ua buflen out, w1)))"

section \<open>Provisioning\<close>

text \<open>1: the handset takes notifications, 0: it does not, -1: the subscriber is not known (yet). The exit
  status of a script that was killed is 0.\<close>

definition mms_ind_send :: "gwlib \<Rightarrow> 's env \<Rightarrow> octstr option \<Rightarrow> octstr \<Rightarrow> 's \<Rightarrow> int \<times> 's" where
  "mms_ind_send G X prov_cmd to w =
     (if prov_cmd = None \<or> prov_cmd = Some [] then (1, w)
      else
        let (x, w1) = x_system X (or_empty prov_cmd @ '' '' @ escape_shell_chars G to) w; y = WEXITSTATUS x
        in (if x < 0 then 1 else if y \<noteq> 0 \<and> y \<noteq> 1 then -1 else y, w1))"

definition notify_command ::
  "gwlib \<Rightarrow> octstr \<Rightarrow> octstr \<Rightarrow> octstr \<Rightarrow> octstr \<Rightarrow> octstr option \<Rightarrow> octstr option \<Rightarrow> octstr option \<Rightarrow> octstr" where
  "notify_command G cmd from event arg msgid ua uaprof =
     cmd @ '' '' @ quoted_arg event @ '' '' @ quoted_arg (escape_shell_chars G from) @ '' '' @ quoted_arg arg @ '' '' @
     quoted_arg (escape_shell_chars G (or_empty msgid)) @ '' '' @ quoted_arg (escape_shell_chars G (or_empty ua)) @ '' '' @
     quoted_arg (escape_shell_chars G (or_empty uaprof))"

text \<open>The sender and the event are asserted to be there; \<open>%s\<close> prints a missing argument as \<open>(null)\<close>.\<close>

definition notify_prov_server ::
  "gwlib \<Rightarrow> 's env \<Rightarrow> octstr option \<Rightarrow> octstr option \<Rightarrow> octstr option \<Rightarrow> octstr option \<Rightarrow> octstr option \<Rightarrow>
   octstr option \<Rightarrow> octstr option \<Rightarrow> 's \<Rightarrow> 's option" where
  "notify_prov_server G X cmd from event arg msgid ua uaprof w =
     (if cmd = None \<or> cmd = Some [] then Some w
      else
        case (from, event) of
          (Some f, Some ev) \<Rightarrow>
            Some (snd (x_system X (notify_command G (or_empty cmd) f ev (show_octstr arg) msgid ua uaprof) w))
        | _ \<Rightarrow> None)"

section \<open>What the shell makes of a command line\<close>

text \<open>The words of the commands of a line: single quotes keep everything, a backslash outside of them keeps
  the byte after it, a semicolon ends a command. \<open>None\<close> is a line with an open quote, or with another byte
  that means something to a shell.\<close>

datatype sh_mode = Blank | In_word | Quoted

definition sh_other :: "char \<Rightarrow> bool" where
  "sh_other c = (c \<in> set ''|&<>()[]{}$*?#~!%'' \<or> c \<in> {CHR 0x22, CHR 0x60, CHR 0x0A, CHR 0x00})"

fun sh_words :: "sh_mode \<Rightarrow> string \<Rightarrow> string list \<Rightarrow> string \<Rightarrow> string list list option" where
  "sh_words m acc ws [] =
     (case m of Blank \<Rightarrow> Some [ws] | In_word \<Rightarrow> Some [ws @ [acc]] | Quoted \<Rightarrow> None)"
| "sh_words m acc ws (c # s) =
     (if m = Quoted then (if c = CHR 0x27 then sh_words In_word acc ws s else sh_words Quoted (acc @ [c]) ws s)
      else
        let w = (if m = In_word then ws @ [acc] else ws); pre = (if m = In_word then acc else []) in
        if c = CHR 0x27 then sh_words Quoted pre ws s
        else if c = CHR '' '' \<or> c = CHR 0x09 then sh_words Blank [] w s
        else if c = CHR '';'' then map_option ((#) w) (sh_words Blank [] [] s)
        else if c = CHR 0x5C then (case s of [] \<Rightarrow> None | d # s' \<Rightarrow> sh_words In_word (pre @ [d]) ws s')
        else if sh_other c then None
        else sh_words In_word (pre @ [c]) ws s)"

definition sh_commands :: "string \<Rightarrow> string list list option" where
  "sh_commands s = sh_words Blank [] [] s"

text \<open>A word of bytes that mean nothing to the shell.\<close>

definition plain_word :: "string \<Rightarrow> bool" where
  "plain_word s =
     (s \<noteq> [] \<and> (\<forall>c \<in> set s. \<not> sh_other c \<and> c \<notin> {CHR 0x27, CHR '' '', CHR 0x09, CHR '';'', CHR 0x5C}))"

lemma sh_plain:
  "\<forall>c \<in> set s. \<not> sh_other c \<and> c \<notin> {CHR 0x27, CHR '' '', CHR 0x09, CHR '';'', CHR 0x5C} \<Longrightarrow>
   sh_words In_word acc ws (s @ r) = sh_words In_word (acc @ s) ws r"
  by (induction s arbitrary: acc) auto

lemma sh_plain_word: "plain_word s \<Longrightarrow> sh_words Blank [] ws (s @ r) = sh_words In_word s ws r"
  using sh_plain [of "tl s" "[hd s]" ws r] by (cases s) (auto simp: plain_word_def)

lemma sh_quoted: "CHR 0x27 \<notin> set s \<Longrightarrow> sh_words Quoted acc ws (s @ CHR 0x27 # r) = sh_words In_word (acc @ s) ws r"
  by (induction s arbitrary: acc) auto

lemma sh_quoted_arg:
  "CHR 0x27 \<notin> set s \<Longrightarrow> sh_words In_word acc ws (CHR '' '' # CHR 0x27 # s @ CHR 0x27 # r) = sh_words In_word s (ws @ [acc]) r"
  by (simp add: sh_quoted)

lemma sh_quoted_arg':
  "CHR 0x27 \<notin> set s \<Longrightarrow> sh_words In_word acc ws (CHR '' '' # quoted_arg s @ r) = sh_words In_word s (ws @ [acc]) r"
  using sh_quoted_arg [of s acc ws r] by (simp add: quoted_arg_def)

text \<open>An escaped value outside of quotes is one word, the value, when it is not empty and has no byte that
  the escape does not know of.\<close>

lemma sh_backslash:
  "m \<noteq> Quoted \<Longrightarrow> sh_words m acc ws (CHR 0x5C # d # s) = sh_words In_word ((if m = In_word then acc else []) @ [d]) ws s"
  by (simp add: Let_def)

lemma sh_byte:
  "m \<noteq> Quoted \<Longrightarrow> \<not> sh_other c \<Longrightarrow> c \<notin> {CHR 0x27, CHR '' '', CHR 0x09, CHR '';'', CHR 0x5C} \<Longrightarrow>
   sh_words m acc ws (c # s) = sh_words In_word ((if m = In_word then acc else []) @ [c]) ws s"
  by (simp add: Let_def)

lemma sh_escape1:
  assumes "m \<noteq> Quoted" and "c \<notin> {CHR '';'', CHR ''~'', CHR ''#''}"
  shows "sh_words m acc ws (escape1 c @ s) = sh_words In_word ((if m = In_word then acc else []) @ [c]) ws s"
proof (cases "is_shell_char c")
  case True
  then show ?thesis using sh_backslash [OF assms(1)] by (simp add: escape1_def del: sh_words.simps)
next
  case False
  then have "c \<notin> set shellchars" "c \<noteq> CHR 0x00" by (simp_all add: is_shell_char_def)
  then have "\<not> sh_other c" "c \<notin> {CHR 0x27, CHR '' '', CHR 0x09, CHR '';'', CHR 0x5C}"
    using assms(2) by (simp_all add: sh_other_def shellchars_def)
  then show ?thesis using sh_byte [OF assms(1)] False by (simp add: escape1_def del: sh_words.simps)
qed

lemma sh_escaped:
  "\<forall>c \<in> set s. c \<notin> {CHR '';'', CHR ''~'', CHR ''#''} \<Longrightarrow>
   sh_words In_word acc ws (concat (map escape1 s) @ r) = sh_words In_word (acc @ s) ws r"
  by (induction s arbitrary: acc) (simp_all add: sh_escape1 del: sh_words.simps)

lemma sh_escaped_word:
  assumes "\<forall>c \<in> set s. c \<notin> {CHR '';'', CHR ''~'', CHR ''#''}" and "s \<noteq> []"
  shows "sh_words In_word acc ws (CHR '' '' # concat (map escape1 s) @ r) = sh_words In_word s (ws @ [acc]) r"
proof -
  obtain c t where s: "s = c # t" using assms(2) by (cases s) auto
  have "sh_words In_word acc ws (CHR '' '' # q) = sh_words Blank [] (ws @ [acc]) q" for q by simp
  then show ?thesis using assms(1) by (simp add: s sh_escape1 sh_escaped del: sh_words.simps)
qed

section \<open>Properties\<close>

lemma quote_in_escape:
  assumes "gwlib_api G" and "CHR 0x27 \<notin> set s" shows "CHR 0x27 \<notin> set (escape_shell_chars G s)"
proof -
  have "set (strip_ws s) \<subseteq> set s" by (auto simp: strip_ws_def dest!: set_dropWhileD)
  with assms(2) show ?thesis
    by (auto simp: escape_shell_chars_alt gwlib_api.strip_blanks [OF assms(1)] escape1_def)
qed

text \<open>The provisioning script is called with six arguments as long as no value has a single quote, and
  the values of the sender, the message identifier and the profile reach it with a backslash before
  every byte of the metacharacter list: the escape is made for a word outside of quotes, and the command line
  has quotes around it. Only a value without such bytes and outer blanks arrives as it is.\<close>

theorem notify_script_args:
  assumes G: "gwlib_api G" and "plain_word cmd"
    and "CHR 0x27 \<notin> set event" and "CHR 0x27 \<notin> set arg" and "CHR 0x27 \<notin> set from"
    and "CHR 0x27 \<notin> set (or_empty msgid)" and "CHR 0x27 \<notin> set (or_empty ua)" and "CHR 0x27 \<notin> set (or_empty uaprof)"
  shows "sh_commands (notify_command G cmd from event arg msgid ua uaprof) =
           Some [[cmd, event, concat (map escape1 (strip_ws from)), arg, concat (map escape1 (strip_ws (or_empty msgid))),
                  concat (map escape1 (strip_ws (or_empty ua))), concat (map escape1 (strip_ws (or_empty uaprof)))]]"
proof -
  note q = quote_in_escape [OF G]
  have e: "escape_shell_chars G s = concat (map escape1 (strip_ws s))" for s
    by (simp add: escape_shell_chars_alt gwlib_api.strip_blanks [OF G])
  have last: "CHR 0x27 \<notin> set s \<Longrightarrow> sh_words In_word acc ws (CHR '' '' # quoted_arg s) = Some [ws @ [acc] @ [s]]" for acc ws s
    using sh_quoted_arg' [of s acc ws "[]"] by simp
  show ?thesis
    using assms(2-4) q [OF assms(5)] q [OF assms(6)] q [OF assms(7)] q [OF assms(8)]
    unfolding sh_commands_def notify_command_def e [symmetric]
    by (simp add: sh_plain_word sh_quoted_arg' last del: sh_words.simps(2))
qed

lemma ex_strip: "strip_ws ''N (5)'' = ''N (5)''" "strip_ws ''a@b'' = ''a@b''" "strip_ws [] = []"
  by code_simp+

theorem notify_script_args_witness:
  "sh_commands (notify_command gwlib_ref ''prov'' ''a@b'' ''fetched'' [] None (Some ''N (5)'') None) =
     Some [[''prov'', ''fetched'', ''a@b'', [], [], ''N'' @ [CHR 0x5C, CHR '' '', CHR 0x5C, CHR ''('', CHR ''5'', CHR 0x5C, CHR '')''], []]]"
  using notify_script_args [OF gwlib_ref_api, of "''prov''" "''fetched''" "[]" "''a@b''" None "Some ''N (5)''" None]
  by (simp add: ex_strip or_empty_def plain_word_def sh_other_def escape1_def is_shell_char_def shellchars_def)

text \<open>A recipient number that holds a quote ends the argument of the billing script and starts commands
  of its own, as the shell modules put numbers between quotes as they are: a number
  \<open>1';c;'2\<close> runs the command \<open>c\<close> on the MMSC.\<close>

theorem billing_injection:
  assumes "plain_word script" and "plain_word c" and "CHR 0x27 \<notin> set (show_octstr from)" and "CHR 0x27 \<notin> set (show_octstr msgid)"
    and "CHR 0x27 \<notin> set a" and "CHR 0x27 \<notin> set b"
  shows "sh_commands (billing_command script from (a @ [CHR 0x27, CHR '';''] @ c @ [CHR '';'', CHR 0x27] @ b) msgid) =
           Some [[script, show_octstr from, a], [c], [b, show_octstr msgid]]"
proof -
  have semi: "sh_words In_word acc ws (CHR '';'' # s) = map_option ((#) (ws @ [acc])) (sh_words Blank [] [] s)" for acc ws s
    by simp
  have quote: "sh_words Blank [] ws (CHR 0x27 # s) = sh_words Quoted [] ws s" for ws s
    by simp
  have end_of_line: "sh_words In_word acc ws [] = Some [ws @ [acc]]" for acc ws
    by simp
  have l: "billing_command script from (a @ [CHR 0x27, CHR '';''] @ c @ [CHR '';'', CHR 0x27] @ b) msgid =
      script @ (CHR '' '' # CHR 0x27 # show_octstr from @ CHR 0x27 # (CHR '' '' # CHR 0x27 # a @ CHR 0x27 # (CHR '';'' # (c @ (CHR '';'' #
      (CHR 0x27 # (b @ CHR 0x27 # (CHR '' '' # CHR 0x27 # show_octstr msgid @ CHR 0x27 # []))))))))"
    by (simp add: billing_command_def)
  show ?thesis
    unfolding sh_commands_def l
    using assms by (simp add: sh_plain_word sh_quoted_arg semi quote sh_quoted end_of_line del: sh_words.simps)
qed

theorem billing_injection_witness:
  "sh_commands (billing_command ''bill'' (Some ''5'') (''1'' @ [CHR 0x27, CHR '';''] @ ''reboot'' @ [CHR '';'', CHR 0x27] @ ''2'') None) =
     Some [[''bill'', ''5'', ''1''], [''reboot''], [''2'', ''(null)'']]"
  using billing_injection [of "''bill''" "''reboot''" "Some ''5''" None "''1''" "''2''"]
  by (simp add: plain_word_def sh_other_def show_octstr_def)

text \<open>The detokenizer is called the right way: its script gets the token and the address as they are.\<close>

lemma detokenizer_args:
  assumes G: "gwlib_api G" and "plain_word script" and "strip_ws t \<noteq> []" and "strip_ws i \<noteq> []"
    and "\<forall>c \<in> set t \<union> set i. c \<notin> {CHR '';'', CHR ''~'', CHR ''#''}"
  shows "sh_commands (detokenize_command G script (Some t) (Some i)) = Some [[script, strip_ws t, strip_ws i]]"
proof -
  have e: "escape_shell_chars G s = concat (map escape1 (strip_ws s))" for s
    by (simp add: escape_shell_chars_alt gwlib_api.strip_blanks [OF G])
  have sub: "set (strip_ws s) \<subseteq> set s" for s by (auto simp: strip_ws_def dest!: set_dropWhileD)
  have end_of_line: "sh_words In_word acc ws [] = Some [ws @ [acc]]" for acc ws by simp
  have clean: "\<forall>c \<in> set (strip_ws t). c \<notin> {CHR '';'', CHR ''~'', CHR ''#''}"
    "\<forall>c \<in> set (strip_ws i). c \<notin> {CHR '';'', CHR ''~'', CHR ''#''}"
    using assms(5) sub [of t] sub [of i] by (meson Un_iff subsetD)+
  show ?thesis
    unfolding sh_commands_def detokenize_command_def e option.case append_Cons append_Nil
      sh_plain_word [OF assms(2)] sh_escaped_word [OF clean(1) assms(3)]
    using sh_escaped_word [OF clean(2) assms(4), where r = "[]"] by (simp only: append_Nil2 end_of_line append_Cons append_Nil)
qed

text \<open>C0: The billing script is called for the recipients in their order up to the first that it rejects: the
  result is 0 when it accepts them all, and else -1 (or -2 when it cannot be run), after the recipients before
  have been charged.\<close>

definition accepted :: "'s env \<Rightarrow> octstr \<Rightarrow> 's \<Rightarrow> bool" where
  "accepted X cmd w = (let ret = fst (x_system X cmd w) in ret \<ge> 0 \<and> WEXITSTATUS ret = 0)"

definition charge_all :: "'s env \<Rightarrow> octstr list \<Rightarrow> 's \<Rightarrow> 's" where
  "charge_all X cmds w = fold (\<lambda>c w. snd (x_system X c w)) cmds w"

theorem billing_in_order:
  assumes "bill_each X script from msgid to w = (r, w')"
  shows "\<exists>k. let cmds = map (\<lambda>t. billing_command script from t msgid) to in
    w' = charge_all X (take k cmds) w \<and>
    (\<forall>i < k - 1. accepted X (cmds ! i) (charge_all X (take i cmds) w)) \<and>
    (if r = 0 then k = length to + 1 else r \<in> {-1, -2} \<and> 0 < k \<and> k \<le> length to \<and>
       \<not> accepted X (cmds ! (k - 1)) (charge_all X (take (k - 1) cmds) w))"
  using assms
proof (induction to arbitrary: w)
  case Nil
  then show ?case by (intro exI [of _ 1]) (simp add: charge_all_def)
next
  case (Cons t ts)
  let ?c = "billing_command script from t msgid"
  obtain ret w1 where s: "x_system X ?c w = (ret, w1)" by force
  show ?case
  proof (cases "ret \<ge> 0 \<and> WEXITSTATUS ret = 0")
    case False
    with Cons.prems s show ?thesis
      by (intro exI [of _ 1]) (auto simp: charge_all_def accepted_def split: if_splits)
  next
    case True
    with Cons.prems s have "bill_each X script from msgid ts w1 = (r, w')" by simp
    from Cons.IH [OF this] obtain k where k: "let cmds = map (\<lambda>t. billing_command script from t msgid) ts in
      w' = charge_all X (take k cmds) w1 \<and>
      (\<forall>i < k - 1. accepted X (cmds ! i) (charge_all X (take i cmds) w1)) \<and>
      (if r = 0 then k = length ts + 1 else r \<in> {-1, -2} \<and> 0 < k \<and> k \<le> length ts \<and>
         \<not> accepted X (cmds ! (k - 1)) (charge_all X (take (k - 1) cmds) w1))" by blast
    have "0 < k" using k by (auto simp: Let_def split: if_splits)
    with k True s show ?thesis
      by (intro exI [of _ "Suc k"]) (auto simp: charge_all_def accepted_def Let_def nth_Cons' take_Cons' split: if_splits)
  qed
qed

theorem billing_in_order_witness:
  "\<exists>k. let cmds = map (\<lambda>t. billing_command ''bill'' None t None) [''1'', ''2'', ''3''] in
    [''2'', ''1''] = charge_all
      \<lparr>x_time = (\<lambda>s. (0, s)), x_random = (\<lambda>s. (0, s)), x_popen = (\<lambda>c b s. (Exited 0, s)), x_popen_read = (\<lambda>c s. (None, s)),
       x_system = (\<lambda>c s. if s = [] then (0, [''1'']) else (256, ''2'' # s)), x_fetch = (\<lambda>u h b s. ((200, [], []), s)),
       x_udp = (\<lambda>a p b s. (True, s)), x_log = (\<lambda>l s. s), x_errno = (\<lambda>s. (0, []))\<rparr> (take k cmds) [] \<and> k \<le> 3"
  using billing_in_order [of "\<lparr>x_time = (\<lambda>s. (0, s)), x_random = (\<lambda>s. (0, s)), x_popen = (\<lambda>c b s. (Exited 0, s)), x_popen_read = (\<lambda>c s. (None, s)),
       x_system = (\<lambda>c s. if s = [] then (0, [''1'']) else (256, ''2'' # s)), x_fetch = (\<lambda>u h b s. ((200, [], []), s)),
       x_udp = (\<lambda>a p b s. (True, s)), x_log = (\<lambda>l s. s), x_errno = (\<lambda>s. (0, []))\<rparr>" "''bill''" None None "[''1'', ''2'', ''3'']" "[]" "-1" "[''2'', ''1'']"]
  by (auto simp: WEXITSTATUS_def Let_def)

end
