(* ===== verification/MmsMobileSender.thy ===== *)
theory MmsMobileSender
  imports MmscPlugins SenderFacts
begin

text \<open>
  The sender of notifications and reports to handsets, \<open>mmsc/mmsmobilesender.c\<close>: one attempt at a message
  of the MM1 queue. A message for a handset is announced by a push that says from where to fetch it, and
  stays in the queue; a report is pushed itself. \<open>None\<close> stands for a panic and for the use of an envelope
  that has been freed.
\<close>

section \<open>Push\<close>

text \<open>What the sender is given: the outside, the queue module, the settings, and the \<open>VERSION\<close> and
  \<open>MBUNI_VERSION\<close> of the build.\<close>

record 's mobile =
  mb_env :: "'s env"
  mb_q :: "'s qfs"
  mb_settings :: MmscSettings
  mb_version :: octstr
  mb_mbuni_version :: octstr

text \<open>The state: the outside and the transaction counter of the pushes.\<close>

record 's mnode =
  mn_w :: 's
  mn_ct :: "8 word"

definition drop_first :: "MmsEnvelope \<Rightarrow> MmsEnvelope" where
  "drop_first e = (case e_to e of [] \<Rightarrow> e | x # xs \<Rightarrow> e\<lparr>e_to := x\<lparr>process := False\<rparr> # xs\<rparr>)"

definition is_multimedia :: "int \<Rightarrow> bool" where
  "is_multimedia mtype = (mtype = MMS_MSGTYPE_SEND_REQ \<or> mtype = MMS_MSGTYPE_RETRIEVE_CONF)"

text \<open>The envelope as it is in the queue afterwards, \<open>None\<close> when it has left it.\<close>

definition update_env :: "'s mobile \<Rightarrow> MmsEnvelope \<Rightarrow> bool \<Rightarrow> 's \<Rightarrow> MmsEnvelope option \<times> 's" where
  "update_env B e success w =
     (let (tnow, w1) = x_time (mb_env B) w;
          e1 = (if success \<and> \<not> is_multimedia (e_msgtype e) then drop_first e else e);
          e2 = e1\<lparr>e_lasttry := tnow, e_attempts := e_attempts e + 1,
                  e_sendt := tnow + s_send_back_off (mb_settings B) * (e_attempts e + 1)\<rparr>
      in case qfs_update (mb_q B) e2 w1 of (r, eo, w2) \<Rightarrow> (if r = 1 then None else eo, w2))"

definition free_if_left :: "'s mobile \<Rightarrow> MmsEnvelope option \<times> 's \<Rightarrow> MmsEnvelope option \<times> 's" where
  "free_if_left B p = (case p of (None, w) \<Rightarrow> (None, w) | (Some e, w) \<Rightarrow> (Some e, qfs_free_env (mb_q B) e w))"

definition push_header :: "8 word \<Rightarrow> octstr" where
  "push_header ct = [char_of (unat ct), CHR 0x06, char_of (3 :: nat), char_of (0xbe :: nat), char_of (0xaf :: nat), char_of (0x84 :: nat)]"

definition push_url :: "gwlib \<Rightarrow> octstr \<Rightarrow> octstr \<Rightarrow> octstr \<Rightarrow> octstr \<Rightarrow> octstr" where
  "push_url G sendsms_url pduhdr s to =
     sendsms_url @ ''&text='' @ gw_url_encode G pduhdr @ gw_url_encode G s @ ''&to='' @ gw_url_encode G to @
     ''&udh=%06%05%04%0B%84%23%F0''"

definition WAPPUSH_PORT :: int where "WAPPUSH_PORT = 2948"

definition notify_log :: "gwlib \<Rightarrow> 's mobile \<Rightarrow> octstr \<Rightarrow> MmsEnvelope \<Rightarrow> 's \<Rightarrow> 's" where
  "notify_log G B to e w =
     mms_log2 G (mb_env B) ''Notify'' (Some ''system'') (Some to) (-1) (e_msgId e) None None ''MM1'' None None w"

definition user_agent_headers :: "octstr \<Rightarrow> headers" where
  "user_agent_headers version = [(''Connection'', ''close''), (''User-Agent'', ''Mbuni/'' @ version)]"

text \<open>The envelope is freed at the end of each branch.\<close>

definition do_mm1_push ::
  "gwlib \<Rightarrow> 's mobile \<Rightarrow> octstr option \<Rightarrow> bool \<Rightarrow> MmsEnvelope \<Rightarrow> MmsMsg \<Rightarrow> 's mnode \<Rightarrow>
   (MmsEnvelope option \<times> 's mnode) option" where
  "do_mm1_push G B rcpt_to phone e msg st =
     (case rcpt_to of
        None \<Rightarrow> Some (Some e, st\<lparr>mn_w := qfs_free_env (mb_q B) e (mn_w st)\<rparr>)
      | Some to \<Rightarrow>
          let X = mb_env B; S = mb_settings B; ct = mn_ct st + 1; pduhdr = push_header ct in do {
            (s, _) \<leftarrow> mms_tobinary G msg;
            let (ok, w1) =
              (if phone
               then let ((status, _, _), w) = x_fetch X (push_url G (s_sendsms_url S) pduhdr s to)
                                                (user_agent_headers (mb_mbuni_version B)) None (mn_w st)
                    in (status \<ge> 0 \<and> http_status_class status = HTTP_SUCCESSFUL, w)
               else x_udp X to WAPPUSH_PORT (pduhdr @ s) (mn_w st));
            let w2 = (if ok then notify_log G B to e w1 else w1);
            let (eo, w3) = free_if_left B (update_env B e ok w2);
            Some (eo, st\<lparr>mn_w := w3, mn_ct := ct\<rparr>) })"

section \<open>One attempt\<close>

datatype push_target = To_phone octstr | To_ip octstr

definition push_target :: "gwlib \<Rightarrow> MmscSettings \<Rightarrow> octstr \<Rightarrow> push_target option" where
  "push_target G S to =
     (let j = gw_case_search G to ''/TYPE=PLMN'' 0; k = gw_case_search G to ''/TYPE=IPv'' 0 in
      if has_type j 10 to
      then map_option To_phone
             (mms_normalize_phonenum G (Some (octstr_copy to 0 (nat j))) (Some (s_unified_prefix S)) (s_strip_prefixes S))
      else if has_type k 10 to then Some (To_ip (octstr_copy to 0 (nat k)))
      else None)"

definition target_addr :: "push_target \<Rightarrow> octstr" where
  "target_addr t = (case t of To_phone p \<Rightarrow> p | To_ip i \<Rightarrow> i)"

definition is_phone :: "push_target \<Rightarrow> bool" where
  "is_phone t = (case t of To_phone p \<Rightarrow> True | To_ip i \<Rightarrow> False)"

text \<open>A text of the configuration used as a format with the sender as its only argument; other conversions
  read arguments that are not there.\<close>

fun format_from :: "string \<Rightarrow> octstr list \<Rightarrow> octstr option" where
  "format_from [] args = Some []"
| "format_from [c] args = (if c = CHR ''%'' then None else Some [c])"
| "format_from (c # d # s) args =
     (if c \<noteq> CHR ''%'' then map_option ((#) c) (format_from (d # s) args)
      else if d = CHR ''%'' then map_option ((#) d) (format_from s args)
      else if d = CHR ''S'' then (case args of [] \<Rightarrow> None | a # as \<Rightarrow> map_option ((@) a) (format_from s as))
      else None)"

text \<open>The result of \<open>sendNotify\<close>, the envelope that the queue holds then, and the state.\<close>

type_synonym 's notified = "(int \<times> MmsEnvelope option \<times> 's mnode) option"

text \<open>The end of an attempt at an envelope that is still held. After an update that leaves it in the queue it is
  freed, and the notice of a failed fetch then still reads its identifier.\<close>

definition notify_report ::
  "gwlib \<Rightarrow> 's mobile \<Rightarrow> MmsEnvelope \<Rightarrow> octstr \<Rightarrow> int \<Rightarrow> octstr \<Rightarrow> octstr option \<Rightarrow> 's \<Rightarrow> 's option" where
  "notify_report G B e to tnow err rtype w =
     (let S = mb_settings B;
          m = mms_deliveryreport G (e_msgId e) (Some to) (e_from e) tnow
                (case rtype of Some r \<Rightarrow> r | None \<Rightarrow> ''Indeterminate'')
      in map_option snd
           (qfs_add (mb_q B)
              (plain_args\<lparr>a_from := Some to, a_to := [e_from e], a_subject := Some err, a_viaproxy := e_fromproxy e,
                          a_senddate := tnow, a_expirydate := tnow + s_default_msgexpiry S,
                          a_mmscname := s_host_alias S\<rparr>)
              m (s_global_queuedir S) w))"

definition finish_notify ::
  "gwlib \<Rightarrow> 's mobile \<Rightarrow> MmsEnvelope \<Rightarrow> octstr \<Rightarrow> int \<Rightarrow> int \<Rightarrow> octstr option \<Rightarrow> octstr option \<Rightarrow> octstr option \<Rightarrow>
   's mnode \<Rightarrow> 's notified" where
  "finish_notify G B e to tnow res err rtype event st = do {
     w1 \<leftarrow> (case err of
              Some er \<Rightarrow> if res \<noteq> MMS_SEND_ERROR_TRANSIENT \<and> e_dlr e then notify_report G B e to tnow er rtype (mn_w st)
                         else Some (mn_w st)
            | None \<Rightarrow> Some (mn_w st));
     case qfs_update (mb_q B) (if res = MMS_SEND_ERROR_FATAL then drop_first e else e) w1 of
       (r, eo, w2) \<Rightarrow>
         (case (if r = 1 then None else eo) of
            None \<Rightarrow>
              (case event of
                 None \<Rightarrow> Some (1, None, st\<lparr>mn_w := w2\<rparr>)
               | Some ev \<Rightarrow>
                   map_option (\<lambda>w3. (1, None, st\<lparr>mn_w := w3\<rparr>))
                     (notify_prov_server G (mb_env B) (Some (show_octstr (s_prov_notify (mb_settings B)))) (Some to)
                        (Some ev) (Some (or_empty rtype)) None None None w2))
          | Some e2 \<Rightarrow>
              if event = None then Some (1, Some e2, st\<lparr>mn_w := qfs_free_env (mb_q B) e2 w2\<rparr>) else None) }"

text \<open>No try again before the message expires.\<close>

definition suspend :: "'s mobile \<Rightarrow> MmsEnvelope \<Rightarrow> 's mnode \<Rightarrow> 's notified" where
  "suspend B e st =
     (case qfs_update (mb_q B) (e\<lparr>e_sendt := e_expiryt e + 1\<rparr>) (mn_w st) of
        (r, eo, w1) \<Rightarrow>
          let (eo', w2) = free_if_left B (if r = 1 then None else eo, w1) in Some (1, eo', st\<lparr>mn_w := w2\<rparr>))"

text \<open>After these updates the code frees an envelope that is left, and uses it again.\<close>

definition update_then_use :: "'s mobile \<Rightarrow> MmsEnvelope \<Rightarrow> 's \<Rightarrow> 's mnode \<Rightarrow> 's notified" where
  "update_then_use B e w st =
     (case qfs_update (mb_q B) e w of (r, eo, w1) \<Rightarrow> if r = 1 then Some (1, None, st\<lparr>mn_w := w1\<rparr>) else None)"

definition not_provisioned :: "'s mobile \<Rightarrow> MmsEnvelope \<Rightarrow> int \<Rightarrow> 's \<Rightarrow> 's mnode \<Rightarrow> 's notified" where
  "not_provisioned B e tnow w st =
     update_then_use B
       (e\<lparr>e_lasttry := tnow, e_sendt := tnow + s_send_back_off (mb_settings B) * (1 + e_attempts e)\<rparr>) w st"

definition sms_instead :: "gwlib \<Rightarrow> 's mobile \<Rightarrow> MmsEnvelope \<Rightarrow> octstr \<Rightarrow> 's \<Rightarrow> 's mnode \<Rightarrow> 's notified" where
  "sms_instead G B e phonenum w st =
     (let S = mb_settings B in do {
        s \<leftarrow> format_from (show_octstr (s_mms_notify_txt S)) [show_octstr (e_from e)];
        let w1 = (if s_notify_unprovisioned S \<and> s \<noteq> []
                  then snd (x_fetch (mb_env B)
                         (s_sendsms_url S @ ''&text='' @ gw_url_encode G s @ ''&to='' @ gw_url_encode G phonenum)
                         (user_agent_headers (mb_version B)) None w)
                  else w);
        update_then_use B (drop_first e) w1 st })"

definition notification_of ::
  "gwlib \<Rightarrow> 's mobile \<Rightarrow> MmsEnvelope \<Rightarrow> octstr \<Rightarrow> int \<Rightarrow> 's \<Rightarrow> (MmsMsg \<times> 's) option" where
  "notification_of G B e to tnow w =
     (let S = mb_settings B;
          url = mms_makefetchurl G (e_xqfname e) (e_token e) MMS_LOC_MQUEUE (Some to) S;
          transid = fst (mms_maketransid 0 0 0 0 (Some (e_xqfname e)) (show_octstr (s_host_alias S)));
          (now, w1) = x_time (mb_env B) w
      in map_option (\<lambda>m. (m, w1))
           (mms_notification G now (e_from e) (e_subject e) (e_mclass e) (word_of_int (e_msize e)) url transid
              (if e_expiryt e \<noteq> 0 then e_expiryt e else tnow + s_default_msgexpiry S)
              (s_optimize_notification_size S)))"

definition push_to ::
  "gwlib \<Rightarrow> 's mobile \<Rightarrow> push_target \<Rightarrow> MmsEnvelope \<Rightarrow> MmsMsg \<Rightarrow> 's mnode \<Rightarrow> 's notified" where
  "push_to G B t e m st =
     map_option (\<lambda>(eo, st'). (1, eo, st')) (do_mm1_push G B (Some (target_addr t)) (is_phone t) e m st)"

text \<open>The status of the subscriber, whom a configured text may be sent instead.\<close>

definition ind_status :: "gwlib \<Rightarrow> 's mobile \<Rightarrow> push_target \<Rightarrow> 's \<Rightarrow> int \<times> 's" where
  "ind_status G B t w =
     (case t of
        To_ip i \<Rightarrow> (1, w)
      | To_phone p \<Rightarrow>
          let (x, w1) = mms_ind_send G (mb_env B) (s_prov_getstatus (mb_settings B)) p w
          in (if x < 0 \<and> s_notify_unprovisioned (mb_settings B) then 0 else x, w1))"

definition announce ::
  "gwlib \<Rightarrow> 's mobile \<Rightarrow> push_target \<Rightarrow> MmsEnvelope \<Rightarrow> octstr \<Rightarrow> int \<Rightarrow> 's mnode \<Rightarrow> 's notified" where
  "announce G B t e to tnow st =
     (let (ind, w1) = ind_status G B t (mn_w st) in
      if ind < 0 then not_provisioned B e tnow w1 st
      else if ind = 0 then sms_instead G B e (target_addr t) w1 st
      else do {
        (m, w2) \<leftarrow> notification_of G B e (if is_phone t then target_addr t else to) tnow w1;
        push_to G B t e m (st\<lparr>mn_w := w2\<rparr>) })"

definition sendNotify :: "gwlib \<Rightarrow> 's mobile \<Rightarrow> MmsEnvelope \<Rightarrow> 's mnode \<Rightarrow> 's notified" where
  "sendNotify G B e st0 =
     (let (tnow, w1) = x_time (mb_env B) (mn_w st0); st = st0\<lparr>mn_w := w1\<rparr>; S = mb_settings B in
      case e_to e of
        [] \<Rightarrow> Some (0, Some e, st)
      | xto # _ \<Rightarrow>
          let to = rcpt xto; mtype = e_msgtype e in
          if expired e tnow
          then finish_notify G B e to tnow MMS_SEND_ERROR_FATAL
                 (Some (''MM1 error: Message expired while sending to '' @ to @ ''!'')) (Some ''Expired'')
                 (Some ''failedfetch'') st
          else if e_attempts e \<ge> s_mm1_maxsendattempts S \<or> e_lastaccess e \<noteq> 0 then suspend B e st
          else
            case push_target G S to of
              None \<Rightarrow> finish_notify G B e to tnow MMS_SEND_ERROR_FATAL
                        (Some (''Unexpected recipient '' @ to @ '' in MT queue!'')) None None st
            | Some t \<Rightarrow>
                if is_multimedia mtype then announce G B t e to tnow st
                else if mtype = MMS_MSGTYPE_DELIVERY_IND \<or> mtype = MMS_MSGTYPE_READ_ORIG_IND
                then (case qfs_getdata (mb_q B) e (mn_w st) of
                        Some m \<Rightarrow> push_to G B t e m st
                      | None \<Rightarrow> finish_notify G B e to tnow MMS_SEND_OK None None None st)
                else finish_notify G B e to tnow MMS_SEND_ERROR_FATAL None None None st)"

section \<open>What becomes of a message\<close>

lemma drop_first_frame: "same_message e e' \<Longrightarrow> e_to e' = e_to e \<and> e_attempts e' = e_attempts e \<and> e_sendt e' = e_sendt e"
  by (auto simp: same_message_def)

lemma drop_first_to: "e_to (drop_first e) = (case e_to e of [] \<Rightarrow> [] | x # xs \<Rightarrow> x\<lparr>process := False\<rparr> # xs)"
  by (simp add: drop_first_def split: list.split)

lemma decide_case:
  assumes "e_to e = x # xs" and "x_time (mb_env B) (mn_w st) = (tnow, w1)" and "\<not> expired e tnow"
    and "e_attempts e < s_mm1_maxsendattempts (mb_settings B)" and "e_lastaccess e = 0"
    and "push_target G (mb_settings B) (rcpt x) = Some t" and "is_multimedia (e_msgtype e)"
  shows "sendNotify G B e st = announce G B t e (rcpt x) tnow (st\<lparr>mn_w := w1\<rparr>)"
  using assms by (simp add: sendNotify_def)

context queue_module
begin

lemma update_pending_cases:
  assumes "\<exists>t \<in> set (e_to e). process t"
  obtains r e' s' where "qfs_update Q e s = (r, Some e', s')" and "r \<noteq> 1" and "same_message e e'"
  using assms by (cases rule: update_cases [of e s]) auto

lemma update_env_keeps:
  assumes B: "mb_q B = Q" and p: "\<exists>t \<in> set (e_to e). process t" and m: "is_multimedia (e_msgtype e)"
  obtains e' w' where "update_env B e ok w = (Some e', w')" and "e_to e' = e_to e" and "e_attempts e' = e_attempts e + 1"
    and "e_sendt e' = fst (x_time (mb_env B) w) + s_send_back_off (mb_settings B) * (e_attempts e + 1)"
proof -
  obtain tnow w1 where time: "x_time (mb_env B) w = (tnow, w1)" by force
  let ?e = "e\<lparr>e_lasttry := tnow, e_attempts := e_attempts e + 1,
      e_sendt := tnow + s_send_back_off (mb_settings B) * (e_attempts e + 1)\<rparr>"
  have "\<exists>t \<in> set (e_to ?e). process t" using p by simp
  then obtain r e' s' where u: "qfs_update Q ?e w1 = (r, Some e', s')" "r \<noteq> 1" "same_message ?e e'"
    by (rule update_pending_cases)
  have "update_env B e ok w = (Some e', s')" using u(1,2) time m B by (simp add: update_env_def)
  then show thesis
    using drop_first_frame [OF u(3)] time by (intro that [of e' s']) simp_all
qed

lemma push_keeps:
  assumes B: "mb_q B = Q" and p: "\<exists>t \<in> set (e_to e). process t" and m: "is_multimedia (e_msgtype e)"
    and r: "push_to G B t e msg st = Some (r, eo, st')"
  shows "\<exists>e'. eo = Some e' \<and> e_to e' = e_to e \<and> e_attempts e' = e_attempts e + 1"
proof -
  obtain eo' st'' where d: "do_mm1_push G B (Some (target_addr t)) (is_phone t) e msg st = Some (eo', st'')" "eo = eo'"
    using r by (auto simp: push_to_def)
  from d(1) obtain ok w2 w3 where f: "free_if_left B (update_env B e ok w2) = (eo', w3)"
    by (auto simp: do_mm1_push_def Let_def split: option.splits bind_splits prod.splits)
  obtain e' w' where "update_env B e ok w2 = (Some e', w')" "e_to e' = e_to e" "e_attempts e' = e_attempts e + 1"
    by (rule update_env_keeps [OF B p m, of ok w2])
  with f d(2) show ?thesis by (auto simp: free_if_left_def)
qed

lemma suspend_keeps:
  assumes B: "mb_q B = Q" and p: "\<exists>t \<in> set (e_to e). process t"
  shows "\<exists>e' st'. suspend B e st = Some (1, Some e', st') \<and> e_to e' = e_to e \<and> e_sendt e' = e_expiryt e + 1"
proof -
  let ?e = "e\<lparr>e_sendt := e_expiryt e + 1\<rparr>"
  have "\<exists>t \<in> set (e_to ?e). process t" using p by simp
  then obtain r e' s' where u: "qfs_update Q ?e (mn_w st) = (r, Some e', s')" "r \<noteq> 1" "same_message ?e e'"
    by (rule update_pending_cases)
  then show ?thesis
    using drop_first_frame [OF u(3)] B by (auto simp: suspend_def free_if_left_def)
qed

lemma use_after_free:
  assumes "mb_q B = Q" and "\<exists>t \<in> set (e_to e). process t"
  shows "update_then_use B e w st = None"
proof -
  obtain r e' s' where "qfs_update Q e w = (r, Some e', s')" "r \<noteq> 1" by (rule update_pending_cases [OF assms(2)])
  with assms(1) show ?thesis by (simp add: update_then_use_def)
qed

text \<open>A message for a handset stays in the queue until the handset has fetched it, unless it cannot take it.\<close>

lemma announce_keeps:
  assumes B: "mb_q B = Q" and p: "\<exists>t \<in> set (e_to e). process t" and m: "is_multimedia (e_msgtype e)"
    and a: "announce G B t e to tnow st = Some (r, eo, st')" and ind: "fst (ind_status G B t (mn_w st)) \<noteq> 0"
  shows "\<exists>e'. eo = Some e' \<and> e_to e' = e_to e \<and> e_attempts e' = e_attempts e + 1"
proof -
  obtain i w1 where i: "ind_status G B t (mn_w st) = (i, w1)" by force
  have "not_provisioned B e tnow w1 st = None"
    unfolding not_provisioned_def by (rule use_after_free [OF B]) (use p in simp)
  with a i ind obtain msg w2 where "push_to G B t e msg (st\<lparr>mn_w := w2\<rparr>) = Some (r, eo, st')"
    by (auto simp: announce_def split: if_splits bind_splits)
  then show ?thesis by (rule push_keeps [OF B p m])
qed

lemma multimedia_stays:
  assumes B: "mb_q B = Q" and to: "e_to e = x # xs" "process x" and m: "is_multimedia (e_msgtype e)"
    and time: "x_time (mb_env B) (mn_w st) = (tnow, w1)" "\<not> expired e tnow"
    and t: "push_target G (mb_settings B) (rcpt x) = Some t" "fst (ind_status G B t w1) \<noteq> 0"
    and s: "sendNotify G B e st = Some (r, eo, st')"
  shows "\<exists>e'. eo = Some e' \<and> e_to e' = e_to e \<and>
    (e_attempts e < s_mm1_maxsendattempts (mb_settings B) \<and> e_lastaccess e = 0 \<and> e_attempts e' = e_attempts e + 1 \<or>
     e_sendt e' = e_expiryt e + 1)"
proof -
  have p: "\<exists>t \<in> set (e_to e). process t" using to by simp
  show ?thesis
  proof (cases "e_attempts e < s_mm1_maxsendattempts (mb_settings B) \<and> e_lastaccess e = 0")
    case True
    then have "announce G B t e (rcpt x) tnow (st\<lparr>mn_w := w1\<rparr>) = Some (r, eo, st')"
      using s decide_case [where G = G and B = B and st = st, OF to(1) time _ _ t(1) m] by simp
    from announce_keeps [OF B p m this] t(2) True show ?thesis by auto
  next
    case False
    then have "suspend B e (st\<lparr>mn_w := w1\<rparr>) = Some (r, eo, st')"
      using s to time by (auto simp: sendNotify_def Let_def)
    with suspend_keeps [OF B p, of "st\<lparr>mn_w := w1\<rparr>"] show ?thesis by auto
  qed
qed

lemma unprovisioned_crash:
  assumes B: "mb_q B = Q" and to: "e_to e = x # xs" "process x" and m: "is_multimedia (e_msgtype e)"
    and time: "x_time (mb_env B) (mn_w st) = (tnow, w1)" "\<not> expired e tnow"
    and "e_attempts e < s_mm1_maxsendattempts (mb_settings B)" "e_lastaccess e = 0"
    and t: "push_target G (mb_settings B) (rcpt x) = Some t" "fst (ind_status G B t w1) < 0"
  shows "sendNotify G B e st = None"
proof -
  obtain i w2 where i: "ind_status G B t w1 = (i, w2)" by force
  have "not_provisioned B e tnow w2 (st\<lparr>mn_w := w1\<rparr>) = None"
    unfolding not_provisioned_def by (rule use_after_free [OF B]) (use to in simp)
  with i t(2) show ?thesis
    using decide_case [where G = G and B = B and st = st, OF to(1) time assms(7,8) t(1) m] by (simp add: announce_def)
qed

text \<open>An envelope whose only recipient is given up.\<close>

lemma only_recipient_gone:
  assumes "mb_q B = Q" and "e_to e = [x]"
  obtains s' where "qfs_update Q (drop_first e) w = (1, None, s')"
  using assms by (cases rule: update_cases [of "drop_first e" w]) (auto simp: drop_first_to)

end

section \<open>Properties\<close>

lemma fetchurl_leads_back:
  assumes "gwlib_api G" and "CHR ''/'' \<notin> set qf" and "CHR ''@'' \<notin> set qf" and "s_detokenizer S = None"
  shows "mms_decodefetchurl G (mms_makefetchurl G qf (Some token) MMS_LOC_MQUEUE to S) = (qf, gw_url_encode G token, MMS_LOC_MQUEUE)"
proof -
  have loc: "show_int MMS_LOC_MQUEUE = show_nat 2" "int 2 = MMS_LOC_MQUEUE"
    by (simp_all add: show_int_def MMS_LOC_MQUEUE_def)
  obtain host where "mms_makefetchurl G qf (Some token) MMS_LOC_MQUEUE to S = ''http://'' @ host @
      ''/'' @ qf @ ''@'' @ show_int MMS_LOC_MQUEUE @ ''/'' @ gw_url_encode G token"
    using assms(4) unfolding mms_makefetchurl_def Let_def by fastforce
  then show ?thesis
    using decode_url [OF assms(1-3) gwlib_api.url_encode [OF assms(1)], of "''http://'' @ host" 2 token] loc by simp
qed

lemma header_value_skip: "ci n \<noteq> ci m \<Longrightarrow> header_value ((n, v) # hs) m = header_value hs m"
  by (simp add: header_value_def header_named_def)

lemma header_value_hit: "ci n = ci m \<Longrightarrow> header_value ((n, v) # hs) m = Some v"
  by (simp add: header_value_def header_named_def)

lemma notification_headers:
  assumes "gwlib_api G" and "mms_notification G now fr sub cls sz url tid ex opt = Some m"
  shows "mms_get_header_value G m ''X-Mms-Content-Location'' = Some url"
    and "mms_get_header_value G m ''X-Mms-Transaction-ID'' = Some tid"
proof -
  note case_simps = mms_get_header_value_def gwlib_api.header_value [OF assms(1)] header_value_skip header_value_hit ci_def
  show "mms_get_header_value G m ''X-Mms-Content-Location'' = Some url"
    using assms(2) by (cases fr; cases sub; cases opt)
      (auto simp: mms_notification_def case_simps split: option.splits)
  show "mms_get_header_value G m ''X-Mms-Transaction-ID'' = Some tid"
    using assms(2) by (auto simp: mms_notification_def case_simps split: option.splits)
qed




text \<open>An expired message for one handset leaves the queue, after the sender has been told when a report was asked
  for; the provisioning script is told of it without the message identifier.\<close>

lemma expired_leaves:
  assumes B: "mb_q B = file_qfs G fb" and to: "e_to e = [x]"
    and time: "x_time (mb_env B) (mn_w st) = (tnow, w1)" "expired e tnow"
    and rep: "if e_dlr e then notify_report G B e (rcpt x) tnow (''MM1 error: Message expired while sending to '' @ rcpt x @ ''!'')
                (Some ''Expired'') w1 = Some w2 else w2 = w1"
  shows "\<exists>w3 w4. qfs_update (mb_q B) (drop_first e) w2 = (1, None, w3) \<and>
    notify_prov_server G (mb_env B) (Some (show_octstr (s_prov_notify (mb_settings B)))) (Some (rcpt x)) (Some ''failedfetch'')
      (Some ''Expired'') None None None w3 = Some w4 \<and>
    sendNotify G B e st = Some (1, None, st\<lparr>mn_w := w4\<rparr>)"
proof -
  obtain w3 where u: "qfs_update (file_qfs G fb) (drop_first e) w2 = (1, None, w3)"
    by (rule file_module.only_recipient_gone [OF B to])
  have "notify_prov_server G (mb_env B) (Some (show_octstr (s_prov_notify (mb_settings B)))) (Some (rcpt x))
      (Some ''failedfetch'') (Some ''Expired'') None None None w3 \<noteq> None"
    by (simp add: notify_prov_server_def)
  then obtain w4 where p: "notify_prov_server G (mb_env B) (Some (show_octstr (s_prov_notify (mb_settings B)))) (Some (rcpt x))
      (Some ''failedfetch'') (Some ''Expired'') None None None w3 = Some w4"
    by blast
  have "sendNotify G B e st = Some (1, None, st\<lparr>mn_w := w4\<rparr>)"
    using u p time to rep B by (cases "e_dlr e") (simp_all add: sendNotify_def finish_notify_def or_empty_def send_codes)
  with u p B show ?thesis by (intro exI [of _ w3] exI [of _ w4]) simp
qed

text \<open>Instances: a handset whose status script answers \<open>status\<close>.\<close>

definition ex_mobile :: "int \<Rightarrow> (nat \<times> os) mobile" where
  "ex_mobile status = \<lparr>mb_env = ex_env\<lparr>x_system := (\<lambda>c s. (status, s))\<rparr>, mb_q = file_qfs gwlib_ref (\<lambda>b. None),
     mb_settings = ex_settings\<lparr>s_prov_getstatus := Some ''st'', s_host_alias := Some ''mmsc''\<rparr>, mb_version = ''1'', mb_mbuni_version = ''1''\<rparr>"

definition ex_mnode :: "(nat \<times> os) mnode" where
  "ex_mnode = \<lparr>mn_w = (0, ex_os 1000), mn_ct = 0\<rparr>"

definition ex_mm1 :: MmsEnvelope where
  "ex_mm1 = ex_envelope\<lparr>e_to := [\<lparr>rcpt = ''12/TYPE=PLMN'', process = True\<rparr>], e_msgtype := MMS_MSGTYPE_RETRIEVE_CONF,
     e_expiryt := 0, e_token := Some ''wx1'', e_xqfname := ''qf1''\<rparr>"

lemma ex_mobile_time: "x_time (mb_env (ex_mobile k)) (mn_w ex_mnode) = (0, mn_w ex_mnode)"
  by (simp add: ex_mobile_def ex_env_def ex_mnode_def ex_os_def)

lemma ex_mobile_target: "push_target gwlib_ref (mb_settings (ex_mobile k)) ''12/TYPE=PLMN'' = Some (To_phone ''12'')"
proof -
  have "push_target gwlib_ref ex_settings ''12/TYPE=PLMN'' = Some (To_phone ''12'')" by code_simp
  moreover have "push_target gwlib_ref (mb_settings (ex_mobile k)) a = push_target gwlib_ref ex_settings a" for a
    by (simp add: push_target_def ex_mobile_def Let_def)
  ultimately show ?thesis by simp
qed

lemma ex_mobile_status: "fst (ind_status gwlib_ref (ex_mobile k) (To_phone p) w) =
    (if k < 0 then 1 else let y = WEXITSTATUS k in if y \<noteq> 0 \<and> y \<noteq> 1 then -1 else y)"
  by (auto simp: ind_status_def mms_ind_send_def ex_mobile_def ex_settings_def Let_def)

lemma ex_mobile_simps: "mb_q (ex_mobile k) = file_qfs gwlib_ref (\<lambda>b. None)" "is_multimedia (e_msgtype ex_mm1)"
    "e_to ex_mm1 = [\<lparr>rcpt = ''12/TYPE=PLMN'', process = True\<rparr>]" "\<not> expired ex_mm1 0" "e_expiryt ex_mm1 = 0"
    "s_mm1_maxsendattempts (mb_settings (ex_mobile k)) = 2" "e_attempts ex_mm1 = 0" "e_lastaccess ex_mm1 = 0"
    "e_xqfname ex_mm1 = ''qf1''" "e_token ex_mm1 = Some ''wx1''" "s_detokenizer (mb_settings (ex_mobile k)) = None"
    "s_host_alias (mb_settings (ex_mobile k)) = Some ''mmsc''"
  by (simp_all add: ex_mobile_def is_multimedia_def expired_def ex_mm1_def ex_envelope_def blank_envelope_def ex_settings_def)

lemma ex_mm1_fields: "e_msize ex_mm1 = 0" "s_default_msgexpiry (mb_settings (ex_mobile k)) = 9"
  by (simp_all add: ex_mobile_def ex_mm1_def ex_envelope_def blank_envelope_def ex_settings_def)




end
