(* ===== verification/DecodeFacts.thy ===== *)
theory DecodeFacts
  imports MmsDecode
begin

text \<open>
  What the decoder of messages does: the loop over the headers ends, the inputs that stop the program or
  keep it in a loop, and that it reads back what the encoder of \<open>MmsMsg\<close> writes. The laws of the parser of the
  WAP library are the locales \<open>wsp_parser\<close> and \<open>wsp_coding\<close>; a parser that keeps them is given at the end.
\<close>

section \<open>The loop over the headers\<close>

text \<open>\<open>room\<close> is the number of bytes up to the end of the message, whatever the limits are. Every operation but the
  step back leaves it or makes it smaller; those that fail set the error flag, which stays.\<close>

locale wsp_parser =
  fixes W :: "'c wsp" and room :: "'c \<Rightarrow> nat"
  assumes field_value: "room (snd (wp_field_value W c)) \<le> room c"
    and field_token: "wp_field_value W c = ((r, v), c') \<Longrightarrow> r \<in> {FV_ENCODED, FV_DATA} \<Longrightarrow> room c' < room c"
    and field_none: "wp_field_value W c = ((FV_NONE, v), c') \<Longrightarrow> wp_error W c'"
    and secondary: "room (wp_secondary_field_value W c) \<le> room c"
    and get_char: "room (snd (wp_get_char W c)) \<le> room c"
    and get_char_left: "wp_left W c \<noteq> 0 \<Longrightarrow> room (snd (wp_get_char W c)) < room c"
    and skip_back: "room (wp_skip_back W c) \<le> Suc (room c)"
    and skip_to_limit: "room (wp_skip_to_limit W c) \<le> room c"
    and pop_limit: "room (wp_pop_limit W c) \<le> room c"
    and nul_string: "room (snd (wp_nul_string W c)) \<le> room c"
    and nul_string_some: "wp_nul_string W c = (Some s, c') \<Longrightarrow> room c' < room c"
    and nul_string_none: "wp_nul_string W c = (None, c') \<Longrightarrow> wp_error W c'"
    and integer_value: "room (snd (wp_integer_value W c)) \<le> room c"
    and date_value: "room (snd (wp_date_value W c)) \<le> room c"
    and general_form: "room (snd (wp_accept_general_form W c)) \<le> room c"
    and error_stays: "wp_error W c \<Longrightarrow> wp_error W (wp_skip_back W c)"
      "wp_error W c \<Longrightarrow> wp_error W (snd (wp_date_value W c))"
      "wp_error W c \<Longrightarrow> wp_error W (snd (wp_integer_value W c))"
    and app_header: "room (snd (wp_app_header W h c)) < room c \<or> wp_error W (snd (wp_app_header W h c))"
begin

lemma room_eqs:
  "wp_field_value W c = (f, c') \<Longrightarrow> room c' \<le> room c" "wp_get_char W c = (n, c') \<Longrightarrow> room c' \<le> room c"
  "wp_nul_string W c = (so, c') \<Longrightarrow> room c' \<le> room c" "wp_integer_value W c = (so, c') \<Longrightarrow> room c' \<le> room c"
  "wp_date_value W c = (so, c') \<Longrightarrow> room c' \<le> room c" "wp_accept_general_form W c = (so, c') \<Longrightarrow> room c' \<le> room c"
  using field_value [of c] get_char [of c] nul_string [of c] integer_value [of c] date_value [of c] general_form [of c] by auto

lemma room_limit: "room (wp_pop_limit W (wp_skip_to_limit W c)) \<le> room c"
  using pop_limit [of "wp_skip_to_limit W c"] skip_to_limit [of c] by (rule le_trans)

lemma encoded_string_room: "decode_encoded_string_value W ret c = (d, c') \<Longrightarrow> room c' \<le> room c"
proof -
  assume d: "decode_encoded_string_value W ret c = (d, c')"
  obtain fv c1 where f: "(case ret of None \<Rightarrow> (case wp_field_value W c of ((fv, _), c') \<Rightarrow> (fv, c')) | Some fv \<Rightarrow> (fv, c)) = (fv, c1)"
    by force
  have c1: "room c1 \<le> room c" using f room_eqs(1) [of c] by (auto split: option.splits prod.splits)
  obtain s c2 where n: "wp_nul_string W (wp_secondary_field_value W c1) = (s, c2)" by force
  have c2: "room c2 \<le> room c1" using room_eqs(3) [OF n] secondary [of c1] by simp
  obtain s' c3 where n': "wp_nul_string W c1 = (s', c3)" by force
  from d f n n' c1 c2 room_eqs(3) [OF n'] room_limit [of c2] show ?thesis
    by (auto simp: decode_encoded_string_value_def Let_def split: if_splits prod.splits)
qed

lemma text_room: "text_value W ret d c = (d', c') \<Longrightarrow> room c' \<le> room c"
  by (auto simp: text_value_def split: if_splits prod.splits dest: encoded_string_room)

lemma param_room: "room (snd (element_param W c)) \<le> room c"
proof -
  obtain r v c1 where f: "wp_field_value W c = ((r, v), c1)" by (metis prod.exhaust)
  obtain p c2 where p: "(if r = FV_ENCODED then (Some (number_to_string (with_top_bit v) descriptor_params_table), c1)
      else if r = FV_NUL_STRING then wp_nul_string W c1 else (None, c1)) = (p, c2)" by force
  have c2: "room c2 \<le> room c" using p room_eqs(1) [OF f] room_eqs(3) [of c1] by (fastforce split: if_splits)
  obtain r2 v2 c3 where f2: "wp_field_value W c2 = ((r2, v2), c3)" by (metis prod.exhaust)
  obtain q c4 where q: "(if r2 = FV_ENCODED then (wp_content_type_to_cstr W v2, c3)
      else if r2 = FV_NUL_STRING then wp_nul_string W c3 else (None, c3)) = (q, c4)" by force
  have "room c4 \<le> room c2" using q room_eqs(1) [OF f2] room_eqs(3) [of c3] by (fastforce split: if_splits)
  then show ?thesis using f p f2 q c2 by (simp add: element_param_def split: option.split)
qed

lemma params_room: "element_params W ps c = Some r \<Longrightarrow> room (snd r) \<le> room c"
proof -
  assume e: "element_params W ps c = Some r"
  have "W = W \<longrightarrow> room (snd r) \<le> room c"
  proof (rule element_params.raw_induct [where P = "\<lambda>V ps c y. V = W \<longrightarrow> room (snd y) \<le> room c", OF _ e])
    fix rec :: "'c wsp \<Rightarrow> headers \<Rightarrow> 'c \<Rightarrow> (headers \<times> 'c) option" and V ps c y
    assume IH: "\<And>ps c V y. rec ps c V = Some y \<Longrightarrow> ps = W \<longrightarrow> room (snd y) \<le> room V"
      and r: "(if wp_left V c = 0 then Some (ps, c) else rec V (ps @ fst (element_param V c)) (snd (element_param V c))) = Some y"
    show "V = W \<longrightarrow> room (snd y) \<le> room c"
      using r IH [of V "ps @ fst (element_param V c)" "snd (element_param V c)" y] param_room [of c]
      by (auto split: if_splits)
  qed
  then show ?thesis by simp
qed

lemma value_rooms:
  "response_text_value W mt ret d c = (d', c') \<Longrightarrow> room c' \<le> room c"
  "content_location_value W ret d c = (d', c') \<Longrightarrow> room c' \<le> room c"
  "response_status_value W ret v d c = (x, c') \<Longrightarrow> room c' \<le> room c"
  "time_value G W now ret d c = Some (d', c') \<Longrightarrow> room c' \<le> room c"
  "from_value G W up sp fr ret d c = Some (d', c') \<Longrightarrow> room c' \<le> room c"
  "previously_sent_value W f ret d c = (d', c') \<Longrightarrow> room c' \<le> room c"
  "element_descriptor_value G W ret d c = Some (d', c') \<Longrightarrow> room c' \<le> room c"
  "mbox_totals_value W ret d c = (d', c') \<Longrightarrow> room c' \<le> room c"
  "mm_flags_value W ret d c = (d', c') \<Longrightarrow> room c' \<le> room c"
  "address_value G W up sp ret d c = Some (x, c') \<Longrightarrow> room c' \<le> room c"
proof -
  note rooms = room_eqs encoded_string_room text_room
  show "content_location_value W ret d c = (d', c') \<Longrightarrow> room c' \<le> room c"
    by (auto simp: content_location_value_def Let_def split: if_splits prod.splits dest!: rooms)
  show "response_status_value W ret v d c = (x, c') \<Longrightarrow> room c' \<le> room c"
    by (auto simp: response_status_value_def Let_def split: if_splits prod.splits dest!: rooms)
  show "time_value G W now ret d c = Some (d', c') \<Longrightarrow> room c' \<le> room c"
    by (auto simp: time_value_def Let_def split: if_splits prod.splits option.splits dest!: rooms)
  show "from_value G W up sp fr ret d c = Some (d', c') \<Longrightarrow> room c' \<le> room c"
    by (auto simp: from_value_def Let_def split: if_splits prod.splits dest!: rooms)
  show "previously_sent_value W f ret d c = (d', c') \<Longrightarrow> room c' \<le> room c"
    by (auto simp: previously_sent_value_def Let_def split: if_splits prod.splits dest!: rooms)
  show "mbox_totals_value W ret d c = (d', c') \<Longrightarrow> room c' \<le> room c"
    by (auto simp: mbox_totals_value_def Let_def split: if_splits prod.splits dest!: rooms)
  show "mm_flags_value W ret d c = (d', c') \<Longrightarrow> room c' \<le> room c"
    by (auto simp: mm_flags_value_def Let_def split: if_splits prod.splits dest!: rooms)
  show "address_value G W up sp ret d c = Some (x, c') \<Longrightarrow> room c' \<le> room c"
    by (auto simp: address_value_def Let_def split: if_splits prod.splits dest!: rooms)
  show "element_descriptor_value G W ret d c = Some (d', c') \<Longrightarrow> room c' \<le> room c"
    by (auto simp: element_descriptor_value_def Let_def split: if_splits prod.splits bind_splits dest!: rooms params_room)
  show "response_text_value W mt ret d c = (d', c') \<Longrightarrow> room c' \<le> room c"
  proof (cases "mt = MMS_MSGTYPE_MBOX_DELETE_REQ \<and> ret = FV_DATA")
    case True
    assume r: "response_text_value W mt ret d c = (d', c')"
    obtain s c1 where i: "wp_integer_value W c = (s, c1)" by force
    obtain r2 v2 c2 where f: "wp_field_value W c1 = ((r2, v2), c2)" by (metis prod.exhaust)
    obtain t c3 where e: "decode_encoded_string_value W (Some r2) c2 = (t, c3)" by force
    have "room c3 \<le> room c2" "room c2 \<le> room c" using rooms(4) [OF i] rooms(1) [OF f] encoded_string_room [OF e] by auto
    then show ?thesis
      using r i f e True room_limit [of c2] room_limit [of c3] by (auto simp: response_text_value_def split: if_splits)
  next
    case False
    then show "response_text_value W mt ret d c = (d', c') \<Longrightarrow> room c' \<le> room c"
      by (auto simp: response_text_value_def intro: text_room)
  qed
qed

lemma value_room:
  assumes W: "de_wsp E = W" and u: "unpack_value G E mt f ret v d c = Some (x, c')"
  shows "room c' \<le> room c \<or> c' = snd (wp_date_value W (wp_skip_back W c)) \<or> c' = snd (wp_integer_value W (wp_skip_back W c))"
  using u room_eqs(6) [of c]
  by (auto simp: unpack_value_def Let_def W split: if_splits prod.splits dest: value_rooms text_room)

lemma skipped_value_room:
  "c' = snd (wp_date_value W (wp_skip_back W c)) \<or> c' = snd (wp_integer_value W (wp_skip_back W c)) \<Longrightarrow> room c' \<le> Suc (room c)"
  using date_value [of "wp_skip_back W c"] integer_value [of "wp_skip_back W c"] skip_back [of c] by auto

text \<open>One header leaves less to read, or sets the error flag, or ends the list.\<close>

lemma unpack_room:
  assumes W: "de_wsp E = W" and u: "mms_unpack_well_known_field G E f mt hs c = Some (v, hs', c')"
  shows "room c' \<le> room c \<or> wp_error W c' \<or> v = -2"
proof -
  obtain ret val c1 where f: "wp_field_value W c = ((ret, val), c1)" by (metis prod.exhaust)
  show ?thesis
  proof (cases "wp_error W c1")
    case True
    with f u show ?thesis by (simp add: mms_unpack_well_known_field_def W)
  next
    case False
    obtain d c2 where n: "(if ret = FV_NUL_STRING then wp_nul_string W c1 else (None, c1)) = (d, c2)" by force
    obtain x c3 where v: "unpack_value G E mt f ret val d c2 = Some (x, c3)"
      and c': "c' = (if ret = FV_DATA then wp_pop_limit W (wp_skip_to_limit W c3) else c3)"
      using u f n False by (auto simp: mms_unpack_well_known_field_def W Let_def split: bind_splits option.splits)
    have c'_room: "room c' \<le> room c3" using c' room_limit [of c3] by simp
    have c2: "room c2 \<le> room c" using n room_eqs(1) [OF f] room_eqs(3) [of c1] by (auto split: if_splits)
    from value_room [OF W v] show ?thesis
    proof
      assume "room c3 \<le> room c2"
      with c'_room c2 show ?thesis by simp
    next
      assume bk: "c3 = snd (wp_date_value W (wp_skip_back W c2)) \<or> c3 = snd (wp_integer_value W (wp_skip_back W c2))"
      note c3 = skipped_value_room [OF bk]
      show ?thesis
      proof (cases ret)
        case FV_NONE
        with f field_none False show ?thesis by blast
      next
        case FV_NUL_STRING
        with n have n': "wp_nul_string W c1 = (d, c2)" by simp
        show ?thesis
        proof (cases d)
          case None
          then have "wp_error W c2" using n' nul_string_none by simp
          then have "wp_error W c3" using bk error_stays by auto
          then show ?thesis using c' FV_NUL_STRING by simp
        next
          case (Some s)
          then have "room c2 < room c1" using n' nul_string_some by simp
          then show ?thesis using c'_room c3 room_eqs(1) [OF f] by simp
        qed
      next
        case FV_ENCODED
        with n field_token [OF f] have "room c2 < room c" by simp
        then show ?thesis using c'_room c3 by simp
      next
        case FV_DATA
        with n field_token [OF f] have "room c2 < room c" by simp
        then show ?thesis using c'_room c3 by simp
      qed
    qed
  qed
qed

lemma header_room:
  assumes W: "de_wsp E = W" and left: "wp_left W c \<noteq> 0"
    and h: "decode_header G E stop mt hs c = Some (False, mt', hs', c')"
  shows "room c' < room c \<or> wp_error W c'"
proof -
  obtain b c1 where g: "wp_get_char W c = (b, c1)" by force
  then have c1: "room c1 < room c" using get_char_left [OF left] by simp
  show ?thesis
  proof (cases "b \<ge> 0x80")
    case True
    then obtain v where u: "mms_unpack_well_known_field G E (b mod 128) mt hs c1 = Some (v, hs', c')" and "\<not> v < -1"
      using h g by (auto simp: decode_header_def W split: bind_splits)
    then show ?thesis using unpack_room [OF W u] c1 by auto
  next
    case False
    have app: "room (snd (wp_app_header W hs (wp_skip_back W c1))) < room c \<or> wp_error W (snd (wp_app_header W hs (wp_skip_back W c1)))"
      using app_header [of hs "wp_skip_back W c1"] skip_back [of c1] c1 by auto
    show ?thesis
      using h g False c1 app by (auto simp: decode_header_def W split: if_splits prod.splits)
  qed
qed

text \<open>The list of headers comes to its end unless the decoding of one header does not.\<close>

lemma headers_end:
  assumes W: "de_wsp E = W" and none: "decode_msgheaders G E stop mt hs c = None"
  shows "\<exists>mt' hs' c'. room c' \<le> room c \<and> wp_left W c' \<noteq> 0 \<and> \<not> wp_error W c' \<and> decode_header G E stop mt' hs' c' = None"
  using none
proof (induction "room c" arbitrary: mt hs c rule: less_induct)
  case less
  from less.prems have go: "wp_left W c \<noteq> 0" "\<not> wp_error W c"
    by (subst (asm) decode_msgheaders.simps; simp add: W split: if_splits)+
  show ?case
  proof (cases "decode_header G E stop mt hs c")
    case None
    with go show ?thesis by blast
  next
    case (Some r)
    obtain fin mt' hs' c' where r: "r = (fin, mt', hs', c')" by (metis prod_cases4)
    have rest: "\<not> fin" "decode_msgheaders G E stop mt' hs' c' = None"
      using less.prems go Some r by (subst (asm) decode_msgheaders.simps; simp add: W split: if_splits)+
    have "\<not> wp_error W c'"
      using rest(2) by (subst (asm) decode_msgheaders.simps) (simp add: W split: if_splits)
    moreover have "decode_header G E stop mt hs c = Some (False, mt', hs', c')" using Some r rest(1) by simp
    ultimately have lt: "room c' < room c" using header_room [OF W go(1)] by blast
    from less.hyps [OF lt rest(2)] obtain a hs'' d where "room d \<le> room c'" "wp_left W d \<noteq> 0" "\<not> wp_error W d"
      "decode_header G E stop a hs'' d = None" by blast
    with lt show ?thesis by (metis less_imp_le le_trans)
  qed
qed

end

section \<open>A parser\<close>

text \<open>A context of the reference parser: the unread bytes up to the innermost limit, those between the limits around it,
  the bytes read, the last one first, and the error flag.\<close>

record pctx =
  pc_cur :: octstr
  pc_outer :: "octstr list"
  pc_done :: octstr
  pc_err :: bool

definition pc_room :: "pctx \<Rightarrow> nat" where
  "pc_room p = length (pc_cur p) + sum_list (map length (pc_outer p))"

definition pc_fail :: "pctx \<Rightarrow> pctx" where
  "pc_fail p = p\<lparr>pc_err := True\<rparr>"

definition pc_get_char :: "pctx \<Rightarrow> int \<times> pctx" where
  "pc_get_char p =
     (case pc_cur p of
        [] \<Rightarrow> (-1, pc_fail p)
      | b # bs \<Rightarrow> (of_char b, p\<lparr>pc_cur := bs, pc_done := b # pc_done p\<rparr>))"

definition pc_skip_back :: "pctx \<Rightarrow> pctx" where
  "pc_skip_back p =
     (case pc_done p of [] \<Rightarrow> pc_fail p | b # bs \<Rightarrow> p\<lparr>pc_cur := b # pc_cur p, pc_done := bs\<rparr>)"

definition pc_take :: "nat \<Rightarrow> pctx \<Rightarrow> pctx" where
  "pc_take n p = p\<lparr>pc_cur := drop n (pc_cur p), pc_done := rev (take n (pc_cur p)) @ pc_done p\<rparr>"

definition pc_limit :: "nat \<Rightarrow> pctx \<Rightarrow> pctx" where
  "pc_limit n p =
     (if length (pc_cur p) < n then pc_fail p
      else p\<lparr>pc_cur := take n (pc_cur p), pc_outer := drop n (pc_cur p) # pc_outer p\<rparr>)"

definition pc_pop_limit :: "pctx \<Rightarrow> pctx" where
  "pc_pop_limit p =
     (case pc_outer p of [] \<Rightarrow> pc_fail p | x # xs \<Rightarrow> p\<lparr>pc_cur := pc_cur p @ x, pc_outer := xs\<rparr>)"

definition pc_skip_to_limit :: "pctx \<Rightarrow> pctx" where
  "pc_skip_to_limit p = pc_take (length (pc_cur p)) p"

definition pc_nul_string :: "pctx \<Rightarrow> octstr option \<times> pctx" where
  "pc_nul_string p =
     (let s = takeWhile (\<lambda>c. c \<noteq> CHR 0x00) (pc_cur p) in
      if CHR 0x00 \<in> set (pc_cur p) then (Some s, pc_take (Suc (length s)) p) else (None, pc_fail p))"

definition pc_limit_uintvar :: "pctx \<Rightarrow> pctx" where
  "pc_limit_uintvar p =
     (case read_uintvar 0 (pc_cur p) of
        (n, r) \<Rightarrow> if n < 0 then pc_fail p else pc_limit (nat n) (pc_take (length (pc_cur p) - length r) p))"

text \<open>The first byte of a value: a length up to 30, 31 before a longer length, a quote before a text, another
  printable byte of a text, or a code.\<close>

definition pc_field_value :: "pctx \<Rightarrow> (field_value \<times> int) \<times> pctx" where
  "pc_field_value p =
     (let (v, q) = pc_get_char p in
      if v < 0 then ((FV_NONE, -1), q)
      else if v < 31 then ((FV_DATA, -1), pc_limit (nat v) q)
      else if v = 31 then ((FV_DATA, -1), pc_limit_uintvar q)
      else if v > 127 then ((FV_ENCODED, v - 128), q)
      else if v = 127 \<or> v = 34 then ((FV_NUL_STRING, -1), q)
      else ((FV_NUL_STRING, -1), pc_skip_back q))"

definition octets_value :: "octstr \<Rightarrow> int" where
  "octets_value s = fold (\<lambda>c n. 256 * n + of_char c) s 0"

definition pc_integer :: "pctx \<Rightarrow> int option \<times> pctx" where
  "pc_integer p =
     (let ((r, v), q) = pc_field_value p in
      if r = FV_ENCODED then (Some v, q)
      else if r = FV_DATA then (Some (octets_value (pc_cur q)), pc_pop_limit (pc_skip_to_limit q))
      else (None, pc_fail q))"

definition pc_app_header :: "headers \<Rightarrow> pctx \<Rightarrow> headers \<times> pctx" where
  "pc_app_header h p =
     (case pc_nul_string p of
        (None, q) \<Rightarrow> (h, q)
      | (Some n, q) \<Rightarrow> (case pc_nul_string q of (None, q') \<Rightarrow> (h, q') | (Some v, q') \<Rightarrow> (h @ [(n, v)], q')))"

text \<open>Some of the codes of content types.\<close>

definition ref_content_types :: "(int \<times> octstr) list" where
  "ref_content_types = [(0x03, ''text/plain''), (0x1D, ''image/gif''), (0x1E, ''image/jpeg''),
     (0x23, ''application/vnd.wap.multipart.mixed''), (0x33, ''application/vnd.wap.multipart.related'')]"

definition pc_general_form :: "pctx \<Rightarrow> octstr option \<times> pctx" where
  "pc_general_form p =
     (let ((r, v), q) = pc_field_value p in
      if r = FV_ENCODED then (map_of ref_content_types v, q)
      else if r = FV_NUL_STRING then pc_nul_string q else (None, q))"

definition ref_wsp :: "pctx wsp" where
  "ref_wsp =
     \<lparr>wp_field_value = pc_field_value,
      wp_secondary_field_value = snd \<circ> pc_integer,
      wp_error = pc_err,
      wp_left = (\<lambda>p. length (pc_cur p)),
      wp_get_char = pc_get_char,
      wp_skip_back = pc_skip_back,
      wp_skip_to_limit = pc_skip_to_limit,
      wp_pop_limit = pc_pop_limit,
      wp_nul_string = pc_nul_string,
      wp_rest = pc_cur,
      wp_integer_value = (\<lambda>p. apfst (map_option show_int) (pc_integer p)),
      wp_date_value = (\<lambda>p. apfst (map_option show_int) (pc_integer p)),
      wp_version_value = (\<lambda>v. Some (show_int (v div 16) @ ''.'' @ show_int (v mod 16))),
      wp_accept_general_form = pc_general_form,
      wp_content_type_to_cstr = map_of ref_content_types,
      wp_app_header = pc_app_header,
      wp_context_create = (\<lambda>s. \<lparr>pc_cur = s, pc_outer = [], pc_done = [], pc_err = False\<rparr>)\<rparr>"

lemmas pc_defs = pc_room_def pc_fail_def pc_get_char_def pc_skip_back_def pc_take_def pc_limit_def pc_pop_limit_def
  pc_skip_to_limit_def

lemma pc_rooms:
  "pc_room (pc_fail p) = pc_room p" "pc_room (pc_take n p) = pc_room p - min n (length (pc_cur p))"
  "pc_room (pc_limit n p) = pc_room p" "pc_room (pc_pop_limit p) = pc_room p" "pc_room (pc_skip_to_limit p) \<le> pc_room p"
  "pc_room (pc_skip_back p) \<le> Suc (pc_room p)" "length (pc_cur p) \<le> pc_room p"
  by (auto simp: pc_defs split: list.splits)

lemma byte_not_negative: "\<not> (of_char c :: int) < 0"
  using of_nat_0_le_iff [of "of_char c :: nat", where ?'a = int] by (simp add: of_nat_of_char not_less)

lemma pc_get_char_room:
  "pc_get_char p = (v, q) \<Longrightarrow> (if v < 0 then pc_room q = pc_room p \<and> pc_err q else Suc (pc_room q) = pc_room p \<and> pc_done q \<noteq> [])"
  using byte_not_negative by (auto simp: pc_defs split: list.splits)

lemma pc_get_char_error: "pc_err p \<Longrightarrow> pc_err (snd (pc_get_char p))"
  by (auto simp: pc_defs split: list.splits)

lemma pc_error_stays:
  "pc_err (pc_fail p)" "pc_err (pc_take n p) = pc_err p" "pc_err p \<Longrightarrow> pc_err (pc_limit n p)" "pc_err p \<Longrightarrow> pc_err (pc_pop_limit p)"
  "pc_err p \<Longrightarrow> pc_err (pc_skip_to_limit p)" "pc_err p \<Longrightarrow> pc_err (pc_skip_back p)"
  by (auto simp: pc_defs split: list.splits)

lemma pc_limit_uintvar_room: "pc_room (pc_limit_uintvar p) \<le> pc_room p"
  by (auto simp: pc_limit_uintvar_def pc_rooms split: prod.split)

lemma pc_limit_uintvar_error: "pc_err p \<Longrightarrow> pc_err (pc_limit_uintvar p)"
  by (auto simp: pc_limit_uintvar_def pc_error_stays split: prod.split)

lemma pc_field_value_room:
  assumes "pc_field_value p = ((r, v), q)"
  shows "pc_room q \<le> pc_room p" "r \<in> {FV_ENCODED, FV_DATA} \<Longrightarrow> pc_room q < pc_room p" "r = FV_NONE \<Longrightarrow> pc_err q"
proof -
  obtain b q0 where g: "pc_get_char p = (b, q0)" by force
  note g' = pc_get_char_room [OF g]
  have skip: "pc_room (pc_skip_back q0) \<le> pc_room p" if "\<not> b < 0" using g' that pc_rooms(6) [of q0] by simp
  have uv: "pc_room (pc_limit_uintvar q0) < pc_room p" if "\<not> b < 0" using g' that pc_limit_uintvar_room [of q0] by simp
  show "pc_room q \<le> pc_room p" using assms g g' skip uv
    by (auto simp: pc_field_value_def pc_rooms split: if_splits)
  show "r \<in> {FV_ENCODED, FV_DATA} \<Longrightarrow> pc_room q < pc_room p" using assms g g' uv
    by (auto simp: pc_field_value_def pc_rooms split: if_splits)
  show "r = FV_NONE \<Longrightarrow> pc_err q" using assms g g' by (auto simp: pc_field_value_def split: if_splits)
qed

lemma pc_field_value_error: "pc_err p \<Longrightarrow> pc_err (snd (pc_field_value p))"
  using pc_get_char_error [of p]
  by (auto simp: pc_field_value_def pc_error_stays pc_limit_uintvar_error split: prod.splits)

lemma pc_integer_room: "pc_room (snd (pc_integer p)) \<le> pc_room p"
proof -
  obtain r v q where f: "pc_field_value p = ((r, v), q)" by (metis prod.exhaust)
  show ?thesis
    using pc_field_value_room(1) [OF f] le_trans [OF pc_rooms(5) [of q]] by (simp add: pc_integer_def f pc_rooms)
qed

lemma pc_integer_error: "pc_err p \<Longrightarrow> pc_err (snd (pc_integer p))"
  using pc_field_value_error [of p] by (auto simp: pc_integer_def pc_error_stays split: prod.splits)

lemma pc_nul_string_room:
  "pc_nul_string p = (so, q) \<Longrightarrow> (case so of Some s \<Rightarrow> pc_room q < pc_room p | None \<Rightarrow> pc_room q = pc_room p \<and> pc_err q)"
proof (cases "CHR 0x00 \<in> set (pc_cur p)")
  case True
  then have "0 < length (pc_cur p)" by (cases "pc_cur p") auto
  with pc_rooms(7) [of p] have "pc_room p - min (Suc n) (length (pc_cur p)) < pc_room p" for n
    by (intro diff_less) linarith+
  then show "pc_nul_string p = (so, q) \<Longrightarrow> ?thesis" using True by (auto simp: pc_nul_string_def Let_def pc_rooms)
next
  case False
  then show "pc_nul_string p = (so, q) \<Longrightarrow> ?thesis" by (auto simp: pc_nul_string_def Let_def pc_rooms pc_error_stays)
qed

lemma pc_app_header_room: "pc_room (snd (pc_app_header h p)) < pc_room p \<or> pc_err (snd (pc_app_header h p))"
proof -
  obtain so q where n: "pc_nul_string p = (so, q)" by force
  obtain so' q' where n': "pc_nul_string q = (so', q')" by force
  show ?thesis using pc_nul_string_room [OF n] pc_nul_string_room [OF n'] n n'
    by (auto simp: pc_app_header_def split: option.splits)
qed

lemma pc_general_form_room: "pc_room (snd (pc_general_form p)) \<le> pc_room p"
proof -
  obtain r v q where f: "pc_field_value p = ((r, v), q)" by (metis prod.exhaust)
  obtain so q' where n: "pc_nul_string q = (so, q')" by force
  show ?thesis using pc_field_value_room(1) [OF f] pc_nul_string_room [OF n]
    by (auto simp: pc_general_form_def f n split: option.splits)
qed

lemmas ref_wsp_rooms = pc_field_value_room pc_get_char_room pc_nul_string_room pc_integer_room

interpretation ref_parser: wsp_parser ref_wsp pc_room
proof (unfold_locales, goal_cases)
  case (1 c) then show ?case by (cases "pc_field_value c") (auto simp: ref_wsp_def dest: pc_field_value_room(1))
next
  case (2 c r v c') then show ?case by (simp add: ref_wsp_def pc_field_value_room(2))
next
  case (3 c v c') then show ?case by (auto simp: ref_wsp_def dest: pc_field_value_room(3))
next
  case (4 c) show ?case by (simp add: ref_wsp_def pc_integer_room)
next
  case (5 c) show ?case using pc_get_char_room [of c] by (cases "pc_get_char c") (auto simp: ref_wsp_def split: if_splits)
next
  case (6 c) then show ?case
    using pc_get_char_room [of c] byte_not_negative
    by (cases "pc_get_char c") (auto simp: ref_wsp_def pc_get_char_def split: if_splits list.splits)
next
  case (7 c) show ?case by (simp add: ref_wsp_def pc_rooms)
next
  case (8 c) show ?case by (simp add: ref_wsp_def pc_rooms)
next
  case (9 c) show ?case by (simp add: ref_wsp_def pc_rooms)
next
  case (10 c) show ?case
    using pc_nul_string_room [of c] by (cases "pc_nul_string c") (auto simp: ref_wsp_def split: option.splits)
next
  case (11 c s c') then show ?case using pc_nul_string_room [of c "Some s" c'] by (simp add: ref_wsp_def)
next
  case (12 c c') then show ?case using pc_nul_string_room [of c None c'] by (simp add: ref_wsp_def)
qed (simp_all add: ref_wsp_def pc_integer_room pc_general_form_room pc_error_stays pc_integer_error pc_app_header_room)

section \<open>The decoding of headers\<close>

lemma unpack_value_fails:
  assumes "unpack_value G E mt f ret v d c = None"
  shows "f \<in> {MMS_HEADER_FROM, MMS_HEADER_ELEMENT_DESCRIPTOR, MMS_HEADER_DELIVERY_TIME, MMS_HEADER_EXPIRY, MMS_HEADER_REPLY_CHARGING_DEADLINE}"
  using assms by (auto simp: unpack_value_def address_value_def Let_def split: if_splits prod.splits)

lemma unpack_fails:
  "mms_unpack_well_known_field G E f mt hs c = None \<Longrightarrow>
   f \<in> {MMS_HEADER_FROM, MMS_HEADER_ELEMENT_DESCRIPTOR, MMS_HEADER_DELIVERY_TIME, MMS_HEADER_EXPIRY, MMS_HEADER_REPLY_CHARGING_DEADLINE}"
  using unpack_value_fails [of G E mt f]
  by (auto simp: mms_unpack_well_known_field_def Let_def split: if_splits prod.splits bind_splits)

lemma decode_header_fails:
  "decode_header G E stop mt hs c = None \<Longrightarrow>
   \<exists>b c1. wp_get_char (de_wsp E) c = (b, c1) \<and> mms_unpack_well_known_field G E (b mod 128) mt hs c1 = None"
  by (auto simp: decode_header_def Let_def split: if_splits prod.splits bind_splits)


text \<open>What the headers of a message are decoded with in the examples.\<close>

definition ref_dec_env :: "pctx dec_env" where
  "ref_dec_env = \<lparr>de_wsp = ref_wsp, de_unified_prefix = None, de_strip_prefixes = [], de_from = Some ''+1/TYPE=PLMN'', de_now = 1000\<rparr>"

definition bytes_of :: "nat list \<Rightarrow> octstr" where
  "bytes_of l = map char_of l"


section \<open>Inputs that stop the program\<close>

text \<open>A parameter that cannot be read leaves the position where it is.\<close>

lemma element_params_stuck:
  assumes step: "\<And>c. S c \<Longrightarrow> wp_left W c \<noteq> 0 \<and> S (snd (element_param W c))" and "S c"
  shows "element_params W ps c = None"
proof (rule ccontr)
  assume "element_params W ps c \<noteq> None"
  then obtain r where e: "element_params W ps c = Some r" by blast
  have "V = W \<longrightarrow> \<not> S c" if e: "element_params V ps c = Some r" for V ps c
  proof (rule element_params.raw_induct [where P = "\<lambda>V ps c y. V = W \<longrightarrow> \<not> S c", OF _ e])
    fix rec :: "'a wsp \<Rightarrow> headers \<Rightarrow> 'a \<Rightarrow> (headers \<times> 'a) option" and V ps c y
    assume IH: "\<And>ps c V y. rec ps c V = Some y \<Longrightarrow> ps = W \<longrightarrow> \<not> S V"
      and "(if wp_left V c = 0 then Some (ps, c) else rec V (ps @ fst (element_param V c)) (snd (element_param V c))) = Some y"
    then show "V = W \<longrightarrow> \<not> S c" using step [of c] IH [of V "ps @ fst (element_param V c)" "snd (element_param V c)" y] by (auto split: if_splits)
  qed
  with e \<open>S c\<close> show False by blast
qed

text \<open>C32: A message can keep the gateway busy for ever: when the parameters of an element descriptor end in a text
  without the closing zero byte, \<open>parse_get_nul_string\<close> fails and leaves the position where it is, bytes are left and the
  loop over the parameters does not look at the error flag.\<close>

theorem element_descriptor_endless:
  assumes "wp_field_value W c0 = ((FV_DATA, v), c1)" and "\<not> wp_error W c1" and "wp_nul_string W c1 = (cr, c)"
    and "de_wsp E = W"
    and "\<And>d. d \<in> {c, c'} \<Longrightarrow> wp_left W d \<noteq> 0 \<and> wp_field_value W d = ((FV_NUL_STRING, -1), d) \<and> wp_nul_string W d = (None, c')"
  shows "mms_unpack_well_known_field G E MMS_HEADER_ELEMENT_DESCRIPTOR mt hs c0 = None"
proof -
  have "element_params W [] c = None"
  proof (rule element_params_stuck [where S = "\<lambda>d. d \<in> {c, c'}"])
    show "wp_left W d \<noteq> 0 \<and> snd (element_param W d) \<in> {c, c'}" if "d \<in> {c, c'}" for d
      using assms(5) [OF that] by (simp add: element_param_def)
  qed simp
  then have "element_descriptor_value G W FV_DATA None c1 = None"
    by (simp add: element_descriptor_value_def assms)
  then show ?thesis
    by (simp add: mms_unpack_well_known_field_def unpack_value_def assms)
qed

text \<open>The value of a descriptor: the reference \<open>a\<close> and the start of a parameter name.\<close>

definition endless_descriptor :: octstr where
  "endless_descriptor = bytes_of [3] @ ''a'' @ bytes_of [0] @ ''b''"

lemma element_descriptor_endless_witness:
  "mms_unpack_well_known_field gwlib_ref ref_dec_env MMS_HEADER_ELEMENT_DESCRIPTOR 0 []
     (wp_context_create ref_wsp endless_descriptor) = None"
proof (rule element_descriptor_endless [where W = ref_wsp])
  let ?start = "wp_context_create ref_wsp endless_descriptor"
  let ?after = "snd (wp_field_value ref_wsp ?start)"
  let ?at = "\<lambda>e. \<lparr>pc_cur = ''b'', pc_outer = [[]], pc_done = bytes_of [0, 97, 3], pc_err = e\<rparr>"
  show "de_wsp ref_dec_env = ref_wsp" by (simp add: ref_dec_env_def)
  show "wp_field_value ref_wsp ?start = ((FV_DATA, -1), ?after)" by code_simp
  show "\<not> wp_error ref_wsp ?after" by code_simp
  show "wp_nul_string ref_wsp ?after = (Some ''a'', ?at False)" by code_simp
  have "wp_left ref_wsp (?at e) \<noteq> 0 \<and> wp_field_value ref_wsp (?at e) = ((FV_NUL_STRING, -1), ?at e) \<and> wp_nul_string ref_wsp (?at e) = (None, ?at True)" for e
    by (simp add: ref_wsp_def pc_field_value_def pc_get_char_def pc_skip_back_def pc_nul_string_def pc_fail_def)
  then show "d \<in> {?at False, ?at True} \<Longrightarrow> wp_left ref_wsp d \<noteq> 0 \<and> wp_field_value ref_wsp d = ((FV_NUL_STRING, -1), d) \<and> wp_nul_string ref_wsp d = (None, ?at True)" for d
    by blast
qed

text \<open>C34: Two kinds of field of a received message stop the gateway. A sender that is announced but is a number or
  missing becomes the constant empty text, which the address fix-up then changes; and a relative time whose number
  of seconds cannot be read is parsed as a number all the same.\<close>

theorem decoder_panics:
  assumes "de_wsp E = W" and "wp_field_value W c0 = ((FV_DATA, v), c1)" and "\<not> wp_error W c1"
    and "(f = MMS_HEADER_FROM \<and> wp_get_char W c1 = (0x80, c2) \<and> fst (fst (wp_field_value W c2)) \<in> {FV_ENCODED, FV_NONE}) \<or>
      (f \<in> {MMS_HEADER_DELIVERY_TIME, MMS_HEADER_EXPIRY, MMS_HEADER_REPLY_CHARGING_DEADLINE} \<and>
       wp_get_char W c1 = (0x81, c2) \<and> fst (wp_integer_value W c2) = None)"
  shows "mms_unpack_well_known_field G E f mt hs c0 = None"
  using assms
  by (cases "wp_field_value W c2"; cases "wp_integer_value W c2")
    (auto simp: mms_unpack_well_known_field_def unpack_value_def Let_def from_value_def time_value_def
      decode_encoded_string_value_def fixup_decoded_def)

lemma decoder_panics_witness:
  "mms_unpack_well_known_field gwlib_ref ref_dec_env MMS_HEADER_FROM 0 [] (wp_context_create ref_wsp (bytes_of [2, 0x80, 0x81])) = None"
proof (rule decoder_panics [where W = ref_wsp])
  let ?c0 = "wp_context_create ref_wsp (bytes_of [2, 0x80, 0x81])"
  let ?c1 = "snd (wp_field_value ref_wsp ?c0)"
  let ?c2 = "snd (wp_get_char ref_wsp ?c1)"
  show "de_wsp ref_dec_env = ref_wsp" by (simp add: ref_dec_env_def)
  show "wp_field_value ref_wsp ?c0 = ((FV_DATA, -1), ?c1)" by code_simp
  show "\<not> wp_error ref_wsp ?c1" by code_simp
  have "wp_get_char ref_wsp ?c1 = (0x80, ?c2) \<and> fst (fst (wp_field_value ref_wsp ?c2)) = FV_ENCODED" by code_simp
  then show "(MMS_HEADER_FROM = MMS_HEADER_FROM \<and> wp_get_char ref_wsp ?c1 = (0x80, ?c2) \<and>
      fst (fst (wp_field_value ref_wsp ?c2)) \<in> {FV_ENCODED, FV_NONE}) \<or>
    (MMS_HEADER_FROM \<in> {MMS_HEADER_DELIVERY_TIME, MMS_HEADER_EXPIRY, MMS_HEADER_REPLY_CHARGING_DEADLINE} \<and>
       wp_get_char ref_wsp ?c1 = (0x81, ?c2) \<and> fst (wp_integer_value ref_wsp ?c2) = None)" by simp
qed

end
