(* ===== verification/MsgRoundtrip.thy ===== *)
theory MsgRoundtrip
  imports DecodeFacts
begin

text \<open>
  The decoder of \<open>MmsDecode\<close> reads what the encoder of \<open>MmsMsg\<close> writes. The locale \<open>wsp_coding\<close> states how the
  parser of the WAP library reads the values that its packing functions write; \<open>wire_header\<close> says which headers
  are carried unchanged, and \<open>wire_order\<close> in which order and under which names they arrive.
\<close>

section \<open>Parser and packer\<close>

text \<open>Texts that are written as they are: not empty, without a zero byte, and the first byte is printable and not a
  quote.\<close>

definition plain_text :: "octstr \<Rightarrow> bool" where
  "plain_text t \<longleftrightarrow> t \<noteq> [] \<and> CHR 0x00 \<notin> set t \<and> (of_char (hd t) :: int) \<in> {32 .. 126} - {34}"

text \<open>\<open>at_pos c (s # u)\<close>: \<open>s\<close> is left up to the innermost limit, then the texts of \<open>u\<close> between the limits around
  it, and no error has occurred. \<open>numbers\<close>, \<open>dates\<close>, \<open>types\<close> and \<open>versions\<close> are the texts that the library
  packs into a value and unpacks unchanged.\<close>

locale wsp_coding = gwlib_api G for G :: gwlib +
  fixes W :: "'c wsp" and at_pos :: "'c \<Rightarrow> octstr list \<Rightarrow> bool"
    and numbers dates types versions :: "octstr set"
  assumes create: "at_pos (wp_context_create W s) [s]"
    and left: "at_pos c (s # u) \<Longrightarrow> wp_left W c = length s"
    and no_error: "at_pos c l \<Longrightarrow> \<not> wp_error W c"
    and rest: "at_pos c (s # u) \<Longrightarrow> wp_rest W c = s"
    and get_char: "at_pos c ((b # s) # u) \<Longrightarrow> \<exists>c'. wp_get_char W c = (of_char b, c') \<and> at_pos c' (s # u)"
    and limit: "at_pos c (x # s # u) \<Longrightarrow> at_pos (wp_pop_limit W (wp_skip_to_limit W c)) (s # u)"
    and short: "k < 128 \<Longrightarrow> at_pos c ((gw_pack_short_integer G k @ s) # u) \<Longrightarrow>
      \<exists>c'. wp_field_value W c = ((FV_ENCODED, int k), c') \<and> at_pos c' (s # u)"
    and pack_value: "at_pos c ((gw_pack_value G x @ s) # u) \<Longrightarrow>
      \<exists>v c'. wp_field_value W c = ((FV_DATA, v), c') \<and> -1 \<le> v \<and> at_pos c' (x # s # u)"
    and plain: "plain_text t \<Longrightarrow> at_pos c ((gw_pack_text G t @ s) # u) \<Longrightarrow>
      \<exists>v c1 c'. wp_field_value W c = ((FV_NUL_STRING, v), c1) \<and> -1 \<le> v \<and> \<not> wp_error W c1 \<and>
        wp_nul_string W c1 = (Some t, c') \<and> at_pos c' (s # u)"
    and number: "t \<in> numbers \<Longrightarrow> at_pos c ((gw_pack_integer_string G t @ s) # u) \<Longrightarrow>
      \<exists>r v c1 c'. wp_field_value W c = ((r, v), c1) \<and> r \<in> {FV_ENCODED, FV_DATA} \<and> -1 \<le> v \<and> \<not> wp_error W c1 \<and>
        wp_integer_value W (wp_skip_back W c1) = (Some t, c') \<and>
        at_pos (if r = FV_DATA then wp_pop_limit W (wp_skip_to_limit W c') else c') (s # u)"
    and date: "t \<in> dates \<Longrightarrow> at_pos c ((gw_pack_date G t @ s) # u) \<Longrightarrow>
      \<exists>r v c1 c'. wp_field_value W c = ((r, v), c1) \<and> r \<in> {FV_ENCODED, FV_DATA} \<and> -1 \<le> v \<and> \<not> wp_error W c1 \<and>
        wp_date_value W (wp_skip_back W c1) = (Some t, c') \<and>
        at_pos (if r = FV_DATA then wp_pop_limit W (wp_skip_to_limit W c') else c') (s # u)"
    and date_value: "t \<in> dates \<Longrightarrow> at_pos c (gw_pack_date G t # u) \<Longrightarrow> \<exists>c'. wp_date_value W c = (Some t, c') \<and> at_pos c' ([] # u)"
    and version: "t \<in> versions \<Longrightarrow> at_pos c ((gw_pack_version_value G (Some t) @ s) # u) \<Longrightarrow>
      \<exists>v c'. wp_field_value W c = ((FV_ENCODED, v), c') \<and> -1 \<le> v \<and> wp_version_value W v = Some t \<and> at_pos c' (s # u)"
    and content_type: "t \<in> types \<Longrightarrow> at_pos c ((gw_pack_content_type G t @ s) # u) \<Longrightarrow>
      \<exists>r v c1. wp_field_value W c = ((r, v), c1) \<and> -1 \<le> v \<and> \<not> wp_error W c1 \<and>
        (if r = FV_ENCODED then wp_content_type_to_cstr W v = Some t \<and> at_pos c1 (s # u)
         else if r = FV_DATA
         then \<exists>c'. wp_accept_general_form W c1 = (Some t, c') \<and> at_pos (wp_pop_limit W (wp_skip_to_limit W c')) (s # u)
         else r = FV_NUL_STRING \<and> (\<exists>c'. wp_nul_string W c1 = (Some t, c') \<and> at_pos c' (s # u)))"
    and app_header_nonempty: "gw_pack_application_header G n v \<noteq> []"
    and app_header: "plain_text n \<Longrightarrow> plain_text v \<Longrightarrow> at_pos c ((gw_pack_application_header G n v @ s) # u) \<Longrightarrow>
      \<exists>c1 c'. wp_get_char W c = (of_char (hd n), c1) \<and> wp_app_header W h (wp_skip_back W c1) = (h @ [(n, v)], c') \<and> at_pos c' (s # u)"

section \<open>Which headers are carried\<close>

text \<open>The values that a field carries unchanged.\<close>

definition wire_value :: "gwlib \<Rightarrow> octstr option \<Rightarrow> octstr list \<Rightarrow> octstr set \<Rightarrow> octstr set \<Rightarrow> int \<Rightarrow> octstr \<Rightarrow> bool" where
  "wire_value G up sp numbers dates f v \<longleftrightarrow>
     (let fixed = (mms_fixup_address G (Some v) up sp True = Some v) in
      if f \<in> fst ` set enum_fields then \<exists>t k. (f, t) \<in> set enum_fields \<and> number_to_cstr k t = Some v
      else if f \<in> {MMS_HEADER_SUBJECT, MMS_HEADER_MESSAGE_ID, MMS_HEADER_REPLY_CHARGING_ID, MMS_HEADER_RETRIEVE_TEXT,
                   MMS_HEADER_STORE_STATUS_TEXT} then plain_text v
      else if f \<in> {MMS_HEADER_RESPONSE_TEXT, MMS_HEADER_CONTENT_LOCATION} then plain_text v \<and> \<not> starts_with_digit v
      else if f \<in> {MMS_HEADER_TO, MMS_HEADER_CC, MMS_HEADER_BCC} then plain_text v \<and> fixed
      else if f = MMS_HEADER_FROM then plain_text v \<and> fixed \<and> v \<noteq> ''#insert''
      else if f \<in> {MMS_HEADER_MESSAGE_SIZE, MMS_HEADER_REPLY_CHARGING_SIZE, MMS_HEADER_START, MMS_HEADER_LIMIT,
                   MMS_HEADER_MESSAGE_COUNT} then v \<in> numbers
      else if f = MMS_HEADER_DATE then v \<in> dates
      else if f \<in> {MMS_HEADER_DELIVERY_TIME, MMS_HEADER_EXPIRY, MMS_HEADER_REPLY_CHARGING_DEADLINE}
      then v \<in> dates \<and> \<not> gw_isnum G v
      else if f = MMS_HEADER_MESSAGE_CLASS then \<exists>k. number_to_cstr k message_class_table = Some v
      else False)"

definition wire_header ::
  "gwlib \<Rightarrow> octstr option \<Rightarrow> octstr list \<Rightarrow> octstr set \<Rightarrow> octstr set \<Rightarrow> octstr \<times> octstr \<Rightarrow> bool" where
  "wire_header G up sp numbers dates h \<longleftrightarrow>
     (if mms_string_to_header G (fst h) < 0 then plain_text (fst h) \<and> plain_text (snd h)
      else mms_header_to_cstr (mms_string_to_header G (fst h)) = Some (fst h) \<and>
           wire_value G up sp numbers dates (mms_string_to_header G (fst h)) (snd h))"

text \<open>The four headers with a place of their own.\<close>

abbreviation (input) placed :: "int set" where
  "placed \<equiv> {MMS_HEADER_MMS_VERSION, MMS_HEADER_MESSAGE_TYPE, MMS_HEADER_TRANSACTION_ID, MMS_HEADER_CONTENT_TYPE}"

text \<open>The entries of the tables are carried by the low seven bits of their numbers.\<close>

definition table_rows :: "table \<Rightarrow> (int \<times> octstr) list" where
  "table_rows t = map (\<lambda>i. (table_code t i, tstrings t ! i)) [0 ..< tsize t]"

lemma coded_rows:
  "list_all (\<lambda>(f, t). f = MMS_HEADER_RESPONSE_STATUS \<or> list_all (\<lambda>(k, v). coded_value f (k mod 128) = Some v) (table_rows t)) enum_fields"
  "list_all (\<lambda>(k, v). mms_response_status_to_cstr (with_top_bit (k mod 128)) = Some v) (table_rows response_status_table)"
  "list_all (\<lambda>(k, v). mms_message_class_to_cstr (k mod 128) = Some v) (table_rows message_class_table)"
  by code_simp+

lemma row_of:
  assumes "string_table t" and "number_to_cstr k t = Some v"
  shows "(k, v) \<in> set (table_rows t)"
  using string_table.number_to_cstr_Some [OF assms] by (auto simp: table_rows_def)

lemma enum_tables: "(f, t) \<in> set enum_fields \<Longrightarrow> string_table t"
  unfolding enum_fields_def
  by (auto intro: header_tab.string_table_axioms reports_tab.string_table_axioms message_type_tab.string_table_axioms
      response_status_tab.string_table_axioms retrieve_status_tab.string_table_axioms priority_tab.string_table_axioms
      read_status_tab.string_table_axioms visibility_tab.string_table_axioms reply_charging_tab.string_table_axioms
      status_tab.string_table_axioms mm_state_tab.string_table_axioms store_status_tab.string_table_axioms)

lemma enum_packed:
  assumes G: "gwlib_api G" and ft: "(f, t) \<in> set enum_fields" and k: "number_to_cstr k t = Some v"
  shows "mms_pack_well_known_field G f v = Some (gw_pack_short_integer G (nat (k mod 128)))"
proof -
  have plain: "t = response_status_table \<Longrightarrow> \<not> starts_with_digit v"
    using response_status_plain k by simp
  have "string_to_number G v t = k"
    by (rule string_table.number_string_number [OF enum_tables [OF ft] G k])
  moreover have "mms_pack_well_known_field G f v = Some (pack_short_integer G (string_to_number G v t))"
    using ft plain unfolding enum_fields_def
    by (simp, elim disjE conjE; simp add: mms_pack_well_known_field_def accessor_defs pack_response_status_def)
  ultimately show ?thesis by (simp add: pack_short_integer_def)
qed

lemma enum_unpacked:
  assumes ft: "(f, t) \<in> set enum_fields" and k: "number_to_cstr k t = Some v"
  shows "unpack_value G E mt f FV_ENCODED (k mod 128) None c = Some ((None, Some v), c)"
proof (cases "f = MMS_HEADER_RESPONSE_STATUS")
  case True
  then have "t = response_status_table" using ft by (auto simp: enum_fields_def)
  then have "(k, v) \<in> set (table_rows response_status_table)" using row_of [OF enum_tables [OF ft] k] by simp
  then have "mms_response_status_to_cstr (with_top_bit (k mod 128)) = Some v" using coded_rows(2) by (auto simp: list_all_iff)
  then show ?thesis by (simp add: True unpack_value_def response_status_value_def)
next
  case False
  then have "coded_value f (k mod 128) = Some v"
    using coded_rows(1) ft row_of [OF enum_tables [OF ft] k] by (fastforce simp: list_all_iff)
  then show ?thesis using ft False unfolding enum_fields_def by (simp, elim disjE conjE; simp add: unpack_value_def)
qed

section \<open>One field\<close>

context wsp_coding
begin

lemma unpacked_text:
  assumes E: "de_wsp E = W" and n: "mms_header_to_cstr f = Some n" and v: "plain_text v"
    and pos: "at_pos c ((gw_pack_text G v @ s) # u)"
    and val: "\<And>w d. unpack_value G E mt f FV_NUL_STRING w (Some v) d = Some ((Some v, None), d)"
  shows "\<exists>w c'. mms_unpack_well_known_field G E f mt hs c = Some (w, hs @ [(n, v)], c') \<and> -1 \<le> w \<and> at_pos c' (s # u)"
proof -
  from plain [OF v pos] obtain w c1 c' where "wp_field_value W c = ((FV_NUL_STRING, w), c1)" "-1 \<le> w" "\<not> wp_error W c1"
      "wp_nul_string W c1 = (Some v, c')" "at_pos c' (s # u)" by blast
  then show ?thesis by (simp add: mms_unpack_well_known_field_def E n val returned_value_def)
qed

lemma unpacked_code:
  assumes E: "de_wsp E = W" and n: "mms_header_to_cstr f = Some n"
    and pos: "at_pos c ((gw_pack_short_integer G (nat (k mod 128)) @ s) # u)"
    and val: "\<And>d. unpack_value G E mt f FV_ENCODED (k mod 128) None d = Some ((None, Some v), d)"
  shows "\<exists>w c'. mms_unpack_well_known_field G E f mt hs c = Some (w, hs @ [(n, v)], c') \<and> -1 \<le> w \<and> at_pos c' (s # u)"
proof -
  have "nat (k mod 128) < 128" by (simp add: nat_less_iff)
  from short [OF this pos] obtain c' where c': "wp_field_value W c = ((FV_ENCODED, k mod 128), c')" "at_pos c' (s # u)" by auto
  have "-1 \<le> k mod 128" by (rule order_trans [of _ 0]) simp_all
  with c' no_error [OF c'(2)] show ?thesis
    by (simp add: mms_unpack_well_known_field_def E n val returned_value_def)
qed

lemma unpacked_number:
  assumes E: "de_wsp E = W" and n: "mms_header_to_cstr f = Some n"
    and r: "r \<in> {FV_ENCODED, FV_DATA}" and c1: "wp_field_value W c = ((r, w), c1)" "-1 \<le> w" "\<not> wp_error W c1"
    and pos: "at_pos (if r = FV_DATA then wp_pop_limit W (wp_skip_to_limit W c2) else c2) (s # u)"
    and val: "unpack_value G E mt f r w None c1 = Some ((Some v, None), c2)" and f: "f \<noteq> MMS_HEADER_RESPONSE_TEXT"
  shows "\<exists>w c'. mms_unpack_well_known_field G E f mt hs c = Some (w, hs @ [(n, v)], c') \<and> -1 \<le> w \<and> at_pos c' (s # u)"
  using assms by (auto simp: mms_unpack_well_known_field_def returned_value_def)

lemma tagged_value:
  assumes "at_pos c ((gw_pack_value G (CHR 0x80 # x) @ s) # u)"
  shows "\<exists>w c1 c2. wp_field_value W c = ((FV_DATA, w), c1) \<and> -1 \<le> w \<and> \<not> wp_error W c1 \<and>
    wp_get_char W c1 = (0x80, c2) \<and> at_pos c2 (x # s # u)"
proof -
  from pack_value [OF assms] obtain w c1 where c1: "wp_field_value W c = ((FV_DATA, w), c1)" "-1 \<le> w" "at_pos c1 ((CHR 0x80 # x) # s # u)"
    by blast
  from get_char [OF c1(3)] obtain c2 where "wp_get_char W c1 = (of_char CHR 0x80, c2)" "at_pos c2 (x # s # u)" by blast
  then show ?thesis using c1 no_error [OF c1(3)] by auto
qed

lemma from_name: "mms_header_to_cstr MMS_HEADER_FROM = Some ''From''"
  by code_simp

lemma unpacked_from:
  assumes E: "de_wsp E = W" "mms_fixup_address G (Some v) (de_unified_prefix E) (de_strip_prefixes E) True = Some v"
    and v: "plain_text v" and pos: "at_pos c ((gw_pack_value G (CHR 0x80 # gw_pack_text G v) @ s) # u)"
  shows "\<exists>w c'. mms_unpack_well_known_field G E MMS_HEADER_FROM mt hs c = Some (w, hs @ [(''From'', v)], c') \<and> -1 \<le> w \<and> at_pos c' (s # u)"
proof -
  from tagged_value [OF pos] obtain w c1 c2 where c1: "wp_field_value W c = ((FV_DATA, w), c1)" "-1 \<le> w" "\<not> wp_error W c1"
    and c2: "wp_get_char W c1 = (0x80, c2)" "at_pos c2 (gw_pack_text G v # s # u)" by blast
  from plain [OF v, of c2 "[]" "s # u"] c2(2) obtain w' c3 c4 where "wp_field_value W c2 = ((FV_NUL_STRING, w'), c3)"
    "wp_nul_string W c3 = (Some v, c4)" and c4: "at_pos c4 ([] # s # u)" by auto
  then have "from_value G W (de_unified_prefix E) (de_strip_prefixes E) (de_from E) FV_DATA None c1 = Some (Some v, c4)"
    using c2(1) E(2) by (simp add: from_value_def decode_encoded_string_value_def fixup_decoded_def new_string_def)
  moreover note from_name
  ultimately show ?thesis
    using c1 limit [OF c4] by (simp add: mms_unpack_well_known_field_def unpack_value_def E(1) returned_value_def)
qed

lemma unpacked_time:
  assumes E: "de_wsp E = W" and n: "mms_header_to_cstr f = Some n" and v: "v \<in> dates"
    and f: "f \<in> {MMS_HEADER_DELIVERY_TIME, MMS_HEADER_EXPIRY, MMS_HEADER_REPLY_CHARGING_DEADLINE}"
    and pos: "at_pos c ((gw_pack_value G (CHR 0x80 # gw_pack_date G v) @ s) # u)"
  shows "\<exists>w c'. mms_unpack_well_known_field G E f mt hs c = Some (w, hs @ [(n, v)], c') \<and> -1 \<le> w \<and> at_pos c' (s # u)"
proof -
  from tagged_value [OF pos] obtain w c1 c2 where c1: "wp_field_value W c = ((FV_DATA, w), c1)" "-1 \<le> w" "\<not> wp_error W c1"
    and c2: "wp_get_char W c1 = (0x80, c2)" "at_pos c2 (gw_pack_date G v # s # u)" by blast
  from date_value [OF v c2(2)] obtain c3 where c3: "wp_date_value W c2 = (Some v, c3)" "at_pos c3 ([] # s # u)" by blast
  then have "time_value G W now FV_DATA None c1 = Some (Some v, c3)" for now
    using c2(1) by (simp add: time_value_def)
  then show ?thesis
    using c1 limit [OF c3(2)] f n
    by (auto simp: mms_unpack_well_known_field_def unpack_value_def E returned_value_def)
qed

text \<open>Every value that a field carries is read back.\<close>

lemma field_roundtrip:
  assumes E: "de_wsp E = W" and n: "mms_header_to_cstr f = Some n"
    and v: "wire_value G (de_unified_prefix E) (de_strip_prefixes E) numbers dates f v"
    and p: "mms_pack_well_known_field G f v = Some p" and pos: "at_pos c ((p @ s) # u)"
  shows "\<exists>w c'. mms_unpack_well_known_field G E f mt hs c = Some (w, hs @ [(n, v)], c') \<and> -1 \<le> w \<and> at_pos c' (s # u)"
proof -
  note packed = pos [folded p]
  have byte: "[char_of (128 :: nat)] = [CHR 0x80]" by (simp add: header_bytes)
  consider (enum) "f \<in> fst ` set enum_fields"
    | (texts) "f \<notin> fst ` set enum_fields" "f \<in> {MMS_HEADER_SUBJECT, MMS_HEADER_MESSAGE_ID, MMS_HEADER_REPLY_CHARGING_ID, MMS_HEADER_RETRIEVE_TEXT,
        MMS_HEADER_STORE_STATUS_TEXT, MMS_HEADER_RESPONSE_TEXT, MMS_HEADER_CONTENT_LOCATION, MMS_HEADER_TO, MMS_HEADER_CC, MMS_HEADER_BCC}"
    | (sender) "f \<notin> fst ` set enum_fields" "f = MMS_HEADER_FROM"
    | (numbers) "f \<notin> fst ` set enum_fields" "f \<in> {MMS_HEADER_MESSAGE_SIZE, MMS_HEADER_REPLY_CHARGING_SIZE, MMS_HEADER_START, MMS_HEADER_LIMIT,
        MMS_HEADER_MESSAGE_COUNT}"
    | (day) "f \<notin> fst ` set enum_fields" "f = MMS_HEADER_DATE"
    | (times) "f \<notin> fst ` set enum_fields" "f \<in> {MMS_HEADER_DELIVERY_TIME, MMS_HEADER_EXPIRY, MMS_HEADER_REPLY_CHARGING_DEADLINE}"
    | (cls) "f \<notin> fst ` set enum_fields" "f = MMS_HEADER_MESSAGE_CLASS"
    using v unfolding wire_value_def Let_def by (smt (verit) insert_iff empty_iff)
  then show ?thesis
  proof cases
    case enum
    then obtain t k where ft: "(f, t) \<in> set enum_fields" "number_to_cstr k t = Some v" using v by (auto simp: wire_value_def Let_def)
    with p enum_packed [OF gwlib_api_axioms ft] pos have "at_pos c ((gw_pack_short_integer G (nat (k mod 128)) @ s) # u)" by simp
    then show ?thesis by (rule unpacked_code [OF E n]) (rule enum_unpacked [OF ft])
  next
    case texts
    have v': "plain_text v" "f \<in> {MMS_HEADER_RESPONSE_TEXT, MMS_HEADER_CONTENT_LOCATION} \<Longrightarrow> \<not> starts_with_digit v"
      "f \<in> {MMS_HEADER_TO, MMS_HEADER_CC, MMS_HEADER_BCC} \<Longrightarrow> mms_fixup_address G (Some v) (de_unified_prefix E) (de_strip_prefixes E) True = Some v"
      using v texts by (auto simp: wire_value_def Let_def split: if_splits)
    have "p = gw_pack_text G v"
      using p texts(2) v'(2) by (auto simp: mms_pack_well_known_field_def pack_counted_text_def)
    with pos have "at_pos c ((gw_pack_text G v @ s) # u)" by simp
    then show ?thesis
    proof (rule unpacked_text [OF E n v'(1)])
      show "unpack_value G E mt f FV_NUL_STRING w (Some v) d = Some ((Some v, None), d)" for w d
        using texts(2) v'(3)
        by (auto simp: unpack_value_def address_value_def text_value_def response_text_value_def content_location_value_def coded_value_def)
    qed
  next
    case sender
    have v': "plain_text v" "v \<noteq> ''#insert''"
      "mms_fixup_address G (Some v) (de_unified_prefix E) (de_strip_prefixes E) True = Some v"
      using v sender by (auto simp: wire_value_def Let_def split: if_splits)
    have "p = gw_pack_value G (CHR 0x80 # gw_pack_text G v)"
      using p v'(2) by (auto simp: sender(2) mms_pack_well_known_field_def pack_from_def compare byte)
    with pos have "at_pos c ((gw_pack_value G (CHR 0x80 # gw_pack_text G v) @ s) # u)" by simp
    moreover have "n = ''From''" using n sender(2) from_name by simp
    ultimately show ?thesis using unpacked_from [OF E v'(3,1)] sender(2) by simp
  next
    case numbers
    then have v': "v \<in> numbers" using v by (auto simp: wire_value_def Let_def split: if_splits)
    have "p = gw_pack_integer_string G v" using p numbers(2) by (auto simp: mms_pack_well_known_field_def)
    with pos number [OF v'] obtain r w c1 c2 where c1: "wp_field_value W c = ((r, w), c1)" "-1 \<le> w" "\<not> wp_error W c1"
      and r: "r \<in> {FV_ENCODED, FV_DATA}" and c2: "wp_integer_value W (wp_skip_back W c1) = (Some v, c2)"
        "at_pos (if r = FV_DATA then wp_pop_limit W (wp_skip_to_limit W c2) else c2) (s # u)" by metis
    show ?thesis
      by (rule unpacked_number [OF E n r c1 c2(2)]) (use numbers(2) c2(1) E in \<open>auto simp: unpack_value_def\<close>)
  next
    case day
    then have v': "v \<in> dates" using v by (auto simp: wire_value_def Let_def split: if_splits)
    have "p = gw_pack_date G v" using p day(2) by (auto simp: mms_pack_well_known_field_def)
    with pos date [OF v'] obtain r w c1 c2 where c1: "wp_field_value W c = ((r, w), c1)" "-1 \<le> w" "\<not> wp_error W c1"
      and r: "r \<in> {FV_ENCODED, FV_DATA}" and c2: "wp_date_value W (wp_skip_back W c1) = (Some v, c2)"
        "at_pos (if r = FV_DATA then wp_pop_limit W (wp_skip_to_limit W c2) else c2) (s # u)" by metis
    show ?thesis
      by (rule unpacked_number [OF E n r c1 c2(2)]) (use day(2) c2(1) E in \<open>auto simp: unpack_value_def\<close>)
  next
    case times
    then have v': "v \<in> dates" "\<not> gw_isnum G v" using v by (auto simp: wire_value_def Let_def split: if_splits)
    have "p = gw_pack_value G (CHR 0x80 # gw_pack_date G v)"
      using p times(2) v'(2) by (auto simp: mms_pack_well_known_field_def pack_time_value_def byte)
    with pos show ?thesis using unpacked_time [OF E n v'(1) times(2)] by simp
  next
    case cls
    then obtain k where k: "number_to_cstr k message_class_table = Some v" using v by (auto simp: wire_value_def Let_def split: if_splits)
    have row: "(k, v) \<in> set (table_rows message_class_table)" by (rule row_of [OF message_class_tab.string_table_axioms k])
    have "mms_string_to_message_class G v = k" using message_class_tab.number_string_number [OF gwlib_api_axioms k] by (simp add: accessor_defs)
    moreover have "0 \<le> k" using message_class_tab.number_to_cstr_Some [OF k] message_class_tab.code_nonneg by auto
    ultimately have "p = gw_pack_short_integer G (nat (k mod 128))"
      using p by (simp add: cls(2) mms_pack_well_known_field_def pack_short_integer_def)
    with pos have "at_pos c ((gw_pack_short_integer G (nat (k mod 128)) @ s) # u)" by simp
    then show ?thesis
    proof (rule unpacked_code [OF E n])
      show "unpack_value G E mt f FV_ENCODED (k mod 128) None d = Some ((None, Some v), d)" for d
        using row coded_rows(3) by (auto simp: cls(2) unpack_value_def list_all_iff)
    qed
  qed
qed

section \<open>The list of headers\<close>

lemma header_step:
  assumes E: "de_wsp E = W" and f: "0 \<le> f" "f < 128" and pos: "at_pos c ((pack_short_integer G f @ p @ s) # u)"
    and field: "\<And>c1. at_pos c1 ((p @ s) # u) \<Longrightarrow>
      \<exists>w c'. mms_unpack_well_known_field G E f mt hs c1 = Some (w, hs', c') \<and> -1 \<le> w \<and> at_pos c' (s # u)"
  shows "\<exists>mt' c'. at_pos c' (s # u) \<and> decode_msgheaders G E True mt hs c =
    (if f = MMS_HEADER_CONTENT_TYPE then Some (hs', c') else decode_msgheaders G E True mt' hs' c')"
proof -
  have byte: "(of_char (char_of (128 + nat (f mod 128)) :: char) :: int) = 128 + f"
  proof -
    have nat: "(of_char (char_of (128 + nat (f mod 128)) :: char) :: nat) = 128 + nat f" using f by simp
    have "(of_char (char_of (128 + nat (f mod 128)) :: char) :: int) = int (of_char (char_of (128 + nat (f mod 128)) :: char))" by (simp only: of_nat_of_char)
    also have "\<dots> = 128 + f" unfolding nat using f by simp
    finally show ?thesis .
  qed
  have pos': "at_pos c ((char_of (128 + nat (f mod 128)) # p @ s) # u)"
    using pos by (simp add: pack_short [OF gwlib_api_axioms])
  from get_char [OF pos'] obtain c1 where c1: "wp_get_char W c = (128 + f, c1)" "at_pos c1 ((p @ s) # u)" by (auto simp: byte)
  from field [OF c1(2)] obtain w c' where w: "mms_unpack_well_known_field G E f mt hs c1 = Some (w, hs', c')" "-1 \<le> w" "at_pos c' (s # u)"
    by blast
  have "(128 + f) mod 128 = f" using f by simp
  then have "decode_header G E True mt hs c =
      Some (f = MMS_HEADER_CONTENT_TYPE, if f = MMS_HEADER_MESSAGE_TYPE then w else mt, hs', c')"
    using c1(1) w f by (simp add: decode_header_def E)
  moreover have "wp_left (de_wsp E) c \<noteq> 0" "\<not> wp_error (de_wsp E) c" using left [OF pos'] no_error [OF pos'] E by simp_all
  ultimately have "decode_msgheaders G E True mt hs c =
      (if f = MMS_HEADER_CONTENT_TYPE then Some (hs', c')
       else decode_msgheaders G E True (if f = MMS_HEADER_MESSAGE_TYPE then w else mt) hs' c')"
    by (subst decode_msgheaders.simps) simp
  with w(3) show ?thesis by blast
qed

lemma header_number: "0 \<le> mms_string_to_header G n \<Longrightarrow> mms_string_to_header G n < 128"
proof -
  assume "0 \<le> mms_string_to_header G n"
  then have "string_to_number G n header_table \<noteq> -1" by (simp add: accessor_defs)
  from header_tab.string_to_number_known [OF gwlib_api_axioms this]
  obtain i where "i < tsize header_table" "mms_string_to_header G n = table_code header_table i" by (auto simp: accessor_defs)
  moreover have "tsize header_table = 52" "tlinear header_table" by code_simp+
  ultimately show ?thesis by (simp add: table_code_def)
qed

lemma app_header_step:
  assumes E: "de_wsp E = W" and h: "plain_text n" "plain_text v"
    and pos: "at_pos c ((gw_pack_application_header G n v @ s) # u)"
  shows "\<exists>c'. at_pos c' (s # u) \<and> decode_msgheaders G E True mt hs c = decode_msgheaders G E True mt (hs @ [(n, v)]) c'"
proof -
  from app_header [OF h pos, of hs] obtain c1 c' where c1: "wp_get_char W c = (of_char (hd n), c1)"
    "wp_app_header W hs (wp_skip_back W c1) = (hs @ [(n, v)], c')" "at_pos c' (s # u)" by blast
  have b: "(of_char (hd n) :: int) \<in> {32 .. 126}" using h(1) by (simp add: plain_text_def)
  have "decode_header G E True mt hs c = Some (False, mt, hs @ [(n, v)], c')"
    using c1 b by (simp add: decode_header_def E)
  moreover have "wp_left (de_wsp E) c \<noteq> 0" using left [OF pos] E app_header_nonempty by simp
  moreover have "\<not> wp_error (de_wsp E) c" using no_error [OF pos] E by simp
  ultimately show ?thesis using c1(3) by (subst decode_msgheaders.simps) auto
qed

lemma headers_roundtrip:
  assumes E: "de_wsp E = W"
    and "\<forall>h \<in> set l. mms_string_to_header G (fst h) \<in> placed \<or> wire_header G (de_unified_prefix E) (de_strip_prefixes E) numbers dates h"
    and "encode_each G l = Some e" and "at_pos c ((e @ s) # u)"
  shows "\<exists>mt' c'. at_pos c' (s # u) \<and> decode_msgheaders G E True mt hs c =
    decode_msgheaders G E True mt' (hs @ filter (\<lambda>h. mms_string_to_header G (fst h) \<notin> placed) l) c'"
  using assms(2-)
proof (induction l arbitrary: e c mt hs)
  case Nil
  then show ?case by auto
next
  case (Cons h l)
  obtain n v where h: "h = (n, v)" by (cases h)
  obtain a b where ab: "encode_header G h = Some a" "encode_each G l = Some b" "e = a @ b"
    using Cons.prems(2) by (auto split: option.splits)
  show ?case
  proof (cases "mms_string_to_header G n \<in> placed")
    case True
    then have "a = []" using ab(1) h by (simp add: encode_header_def Let_def)
    moreover have "filter (\<lambda>h. mms_string_to_header G (fst h) \<notin> placed) (h # l) = filter (\<lambda>h. mms_string_to_header G (fst h) \<notin> placed) l"
      using True h by auto
    ultimately show ?thesis using Cons.IH [OF _ ab(2), of c mt hs] Cons.prems(1,3) ab(3) by auto
  next
    case False
    then have wire: "wire_header G (de_unified_prefix E) (de_strip_prefixes E) numbers dates (n, v)" using Cons.prems(1) h by simp
    have "\<exists>mt' c'. at_pos c' ((b @ s) # u) \<and> decode_msgheaders G E True mt hs c = decode_msgheaders G E True mt' (hs @ [h]) c'"
    proof (cases "mms_string_to_header G n < 0")
      case True
      then have "a = gw_pack_application_header G n v" using ab(1) False h by (simp add: encode_header_def Let_def)
      then show ?thesis
        using app_header_step [OF E, of n v c "b @ s" u mt hs] wire True Cons.prems(3) ab(3) h by (auto simp: wire_header_def)
    next
      case known: False
      let ?f = "mms_string_to_header G n"
      from known wire have n: "mms_header_to_cstr ?f = Some n"
        and v: "wire_value G (de_unified_prefix E) (de_strip_prefixes E) numbers dates ?f v" by (simp_all add: wire_header_def)
      obtain p where p: "mms_pack_well_known_field G ?f v = Some p" "a = pack_short_integer G ?f @ p"
        using ab(1) False known h by (auto simp: encode_header_def Let_def)
      have f: "0 \<le> ?f" "?f < 128" using known header_number by auto
      have "at_pos c ((pack_short_integer G ?f @ p @ b @ s) # u)" using Cons.prems(3) ab(3) p(2) by simp
      from header_step [OF E f this field_roundtrip [OF E n v p(1)]] show ?thesis using False h by auto
    qed
    then obtain mt' c' where c': "at_pos c' ((b @ s) # u)" "decode_msgheaders G E True mt hs c = decode_msgheaders G E True mt' (hs @ [h]) c'"
      by blast
    from Cons.IH [OF _ ab(2) c'(1), of mt' "hs @ [h]"] Cons.prems(1) show ?thesis using c'(2) False h by auto
  qed
qed

section \<open>The message\<close>

lemma text_field_step:
  assumes E: "de_wsp E = W" and t: "plain_text t" and pos: "at_pos c ((pack_short_integer G MMS_HEADER_TRANSACTION_ID @ gw_pack_text G t @ s) # u)"
  shows "\<exists>mt' c'. at_pos c' (s # u) \<and> decode_msgheaders G E True mt hs c = decode_msgheaders G E True mt' (hs @ [(''X-Mms-Transaction-Id'', t)]) c'"
proof -
  have name: "mms_header_to_cstr MMS_HEADER_TRANSACTION_ID = Some ''X-Mms-Transaction-Id''" by code_simp
  have "unpack_value G E mt MMS_HEADER_TRANSACTION_ID FV_NUL_STRING w (Some t) d = Some ((Some t, None), d)" for w d
    by (simp add: unpack_value_def coded_value_def)
  note field = unpacked_text [OF E name t _ this]
  show ?thesis using header_step [OF E _ _ pos field] by auto
qed

lemma version_step:
  assumes E: "de_wsp E = W" and v: "v \<in> versions" and pos: "at_pos c ((pack_short_integer G MMS_HEADER_MMS_VERSION @ gw_pack_version_value G (Some v) @ s) # u)"
  shows "\<exists>mt' c'. at_pos c' (s # u) \<and> decode_msgheaders G E True mt hs c = decode_msgheaders G E True mt' (hs @ [(''X-Mms-MMS-Version'', v)]) c'"
proof -
  have name: "mms_header_to_cstr MMS_HEADER_MMS_VERSION = Some ''X-Mms-MMS-Version''" by code_simp
  have "\<exists>w c'. mms_unpack_well_known_field G E MMS_HEADER_MMS_VERSION mt hs c1 = Some (w, hs @ [(''X-Mms-MMS-Version'', v)], c') \<and> -1 \<le> w \<and> at_pos c' (s # u)"
    if "at_pos c1 ((gw_pack_version_value G (Some v) @ s) # u)" for c1
    using version [OF v that] no_error name
    by (auto simp: mms_unpack_well_known_field_def E unpack_value_def returned_value_def)
  from header_step [OF E _ _ pos this] show ?thesis by auto
qed

lemma content_type_step:
  assumes E: "de_wsp E = W" and t: "t \<in> types" and pos: "at_pos c ((pack_short_integer G MMS_HEADER_CONTENT_TYPE @ gw_pack_content_type G t @ s) # u)"
  shows "\<exists>c'. at_pos c' (s # u) \<and> decode_msgheaders G E True mt hs c = Some (hs @ [(''Content-Type'', t)], c')"
proof -
  have name: "mms_header_to_cstr MMS_HEADER_CONTENT_TYPE = Some ''Content-Type''" by code_simp
  have "\<exists>w c'. mms_unpack_well_known_field G E MMS_HEADER_CONTENT_TYPE mt hs c1 = Some (w, hs @ [(''Content-Type'', t)], c') \<and> -1 \<le> w \<and> at_pos c' (s # u)"
    if "at_pos c1 ((gw_pack_content_type G t @ s) # u)" for c1
    using content_type [OF t that] name
    by (auto simp: mms_unpack_well_known_field_def E unpack_value_def returned_value_def split: if_splits)
  from header_step [OF E _ _ pos this] show ?thesis by auto
qed

end

text \<open>The order in which the headers arrive, the four with a place of their own under their usual names.\<close>

definition named_header :: "gwlib \<Rightarrow> headers \<Rightarrow> octstr \<Rightarrow> headers" where
  "named_header G hs n = (case gw_header_value G hs n of Some v \<Rightarrow> [(n, v)] | None \<Rightarrow> [])"

definition wire_order :: "gwlib \<Rightarrow> headers \<Rightarrow> headers" where
  "wire_order G hs =
     named_header G hs ''X-Mms-Message-Type'' @ named_header G hs ''X-Mms-Transaction-Id'' @ named_header G hs ''X-Mms-MMS-Version'' @
     filter (\<lambda>h. mms_string_to_header G (fst h) \<notin> placed) hs @ named_header G hs ''Content-Type''"

text \<open>The headers of a message that arrives unchanged.\<close>

definition wire_headers ::
  "gwlib \<Rightarrow> octstr option \<Rightarrow> octstr list \<Rightarrow> octstr set \<Rightarrow> octstr set \<Rightarrow> octstr set \<Rightarrow> octstr set \<Rightarrow> headers \<Rightarrow> bool" where
  "wire_headers G up sp numbers dates types versions hs \<longleftrightarrow>
     strip_boundary_element G hs None = hs \<and>
     (\<exists>k t. gw_header_value G hs ''X-Mms-Message-Type'' = Some t \<and> number_to_cstr k message_type_table = Some t) \<and>
     pred_option plain_text (gw_header_value G hs ''X-Mms-Transaction-Id'') \<and>
     (\<exists>v \<in> versions. gw_header_value G hs ''X-Mms-MMS-Version'' = Some v) \<and>
     pred_option (\<lambda>t. t \<in> types) (gw_header_value G hs ''Content-Type'') \<and>
     (\<forall>h \<in> set hs. mms_string_to_header G (fst h) \<in> placed \<or> wire_header G up sp numbers dates h)"

context wsp_coding
begin

lemma type_step:
  assumes E: "de_wsp E = W" and t: "number_to_cstr k message_type_table = Some t"
    and pos: "at_pos c ((pack_short_integer G MMS_HEADER_MESSAGE_TYPE @ pack_short_integer G (mms_string_to_message_type G t) @ s) # u)"
  shows "\<exists>mt' c'. at_pos c' (s # u) \<and> decode_msgheaders G E True mt hs c = decode_msgheaders G E True mt' (hs @ [(''X-Mms-Message-Type'', t)]) c'"
proof -
  have name: "mms_header_to_cstr MMS_HEADER_MESSAGE_TYPE = Some ''X-Mms-Message-Type''" by code_simp
  have "(MMS_HEADER_MESSAGE_TYPE, message_type_table) \<in> set enum_fields" by (simp add: enum_fields_def)
  then have ty: "wire_value G (de_unified_prefix E) (de_strip_prefixes E) numbers dates MMS_HEADER_MESSAGE_TYPE t"
    using t by (force simp: wire_value_def Let_def)
  have packed: "mms_pack_well_known_field G MMS_HEADER_MESSAGE_TYPE t = Some (pack_short_integer G (mms_string_to_message_type G t))"
    by (simp add: mms_pack_well_known_field_def)
  from header_step [OF E _ _ pos field_roundtrip [OF E name ty packed]] show ?thesis by auto
qed

lemma transid_step:
  assumes E: "de_wsp E = W" and x: "pred_option plain_text x"
    and pos: "at_pos c (((case x of Some t \<Rightarrow> pack_short_integer G MMS_HEADER_TRANSACTION_ID @ gw_pack_text G t | None \<Rightarrow> []) @ s) # u)"
  shows "\<exists>mt' c'. at_pos c' (s # u) \<and> decode_msgheaders G E True mt hs c =
    decode_msgheaders G E True mt' (hs @ (case x of Some t \<Rightarrow> [(''X-Mms-Transaction-Id'', t)] | None \<Rightarrow> [])) c'"
  using text_field_step [OF E, of _ c s u mt hs] x pos by (cases x) auto

lemma last_step:
  assumes E: "de_wsp E = W" and x: "pred_option (\<lambda>t. t \<in> types) x" "x = None \<Longrightarrow> s = []"
    and pos: "at_pos c (((case x of Some t \<Rightarrow> pack_short_integer G MMS_HEADER_CONTENT_TYPE @ gw_pack_content_type G t | None \<Rightarrow> []) @ s) # u)"
  shows "\<exists>c'. at_pos c' (s # u) \<and> decode_msgheaders G E True mt hs c =
    Some (hs @ (case x of Some t \<Rightarrow> [(''Content-Type'', t)] | None \<Rightarrow> []), c')"
proof (cases x)
  case None
  then have "wp_left W c = 0" using left [OF pos] x(2) by simp
  then show ?thesis using None pos by (subst decode_msgheaders.simps) (simp add: E)
qed (use content_type_step [OF E, of _ c s u mt hs] x pos in auto)

lemma msgheaders_roundtrip:
  assumes E: "de_wsp E = W"
    and wire: "wire_headers G (de_unified_prefix E) (de_strip_prefixes E) numbers dates types versions hs"
    and enc: "encode_msgheaders G hs = Some (e, hs')" and body: "gw_header_value G hs ''Content-Type'' = None \<Longrightarrow> body = []"
  shows "\<exists>c'. decode_msgheaders G E True 0 [] (wp_context_create W (e @ body)) = Some (wire_order G hs, c') \<and> wp_rest W c' = body"
proof -
  from wire obtain k t v where t: "gw_header_value G hs ''X-Mms-Message-Type'' = Some t" "number_to_cstr k message_type_table = Some t"
    and v: "v \<in> versions" "gw_header_value G hs ''X-Mms-MMS-Version'' = Some v"
    and strip: "strip_boundary_element G hs None = hs"
    and tid: "pred_option plain_text (gw_header_value G hs ''X-Mms-Transaction-Id'')"
    and ct: "pred_option (\<lambda>t. t \<in> types) (gw_header_value G hs ''Content-Type'')"
    and all: "\<forall>h \<in> set hs. mms_string_to_header G (fst h) \<in> placed \<or> wire_header G (de_unified_prefix E) (de_strip_prefixes E) numbers dates h"
    by (auto simp: wire_headers_def)
  define tids where "tids = (case gw_header_value G hs ''X-Mms-Transaction-Id'' of
      Some x \<Rightarrow> pack_short_integer G MMS_HEADER_TRANSACTION_ID @ gw_pack_text G x | None \<Rightarrow> [])"
  define cts where "cts = (case gw_header_value G hs ''Content-Type'' of
      Some x \<Rightarrow> pack_short_integer G MMS_HEADER_CONTENT_TYPE @ gw_pack_content_type G x | None \<Rightarrow> [])"
  obtain es where es: "encode_each G hs = Some es"
    and e: "e = pack_short_integer G MMS_HEADER_MESSAGE_TYPE @ pack_short_integer G (mms_string_to_message_type G t) @ tids @
      pack_short_integer G MMS_HEADER_MMS_VERSION @ gw_pack_version_value G (Some v) @ es @ cts"
    using enc t(1) v(2) by (auto simp: encode_msgheaders_def Let_def strip tids_def cts_def split: option.splits)
  let ?dec = "decode_msgheaders G E True"
  let ?h1 = "[(''X-Mms-Message-Type'', t)]" and ?h2 = "named_header G hs ''X-Mms-Transaction-Id''"
  let ?h3 = "[(''X-Mms-MMS-Version'', v)]" and ?h4 = "filter (\<lambda>h. mms_string_to_header G (fst h) \<notin> placed) hs"
  have "at_pos (wp_context_create W (e @ body)) ((pack_short_integer G MMS_HEADER_MESSAGE_TYPE @ pack_short_integer G (mms_string_to_message_type G t) @
      tids @ pack_short_integer G MMS_HEADER_MMS_VERSION @ gw_pack_version_value G (Some v) @ es @ cts @ body) # [])"
    using create [of "e @ body"] e by simp
  from type_step [OF E t(2) this, of 0 "[]"] obtain m1 c1
    where c1: "?dec 0 [] (wp_context_create W (e @ body)) = ?dec m1 ?h1 c1"
      "at_pos c1 ((tids @ pack_short_integer G MMS_HEADER_MMS_VERSION @ gw_pack_version_value G (Some v) @ es @ cts @ body) # [])" by auto
  from transid_step [OF E tid c1(2) [unfolded tids_def], of m1 ?h1] obtain m2 c2 where c2: "?dec m1 ?h1 c1 = ?dec m2 (?h1 @ ?h2) c2"
      "at_pos c2 ((pack_short_integer G MMS_HEADER_MMS_VERSION @ gw_pack_version_value G (Some v) @ es @ cts @ body) # [])"
    by (auto simp: named_header_def)
  from version_step [OF E v(1) c2(2), of m2 "?h1 @ ?h2"] obtain m3 c3 where c3: "?dec m2 (?h1 @ ?h2) c2 = ?dec m3 (?h1 @ ?h2 @ ?h3) c3"
      "at_pos c3 ((es @ cts @ body) # [])" by auto
  from headers_roundtrip [OF E all es c3(2), of m3 "?h1 @ ?h2 @ ?h3"] obtain m4 c4
    where c4: "?dec m3 (?h1 @ ?h2 @ ?h3) c3 = ?dec m4 (?h1 @ ?h2 @ ?h3 @ ?h4) c4" "at_pos c4 ((cts @ body) # [])" by auto
  from last_step [OF E ct body c4(2) [unfolded cts_def], of m4 "?h1 @ ?h2 @ ?h3 @ ?h4"] obtain c5
    where c5: "?dec m4 (?h1 @ ?h2 @ ?h3 @ ?h4) c4 = Some (?h1 @ ?h2 @ ?h3 @ ?h4 @ named_header G hs ''Content-Type'', c5)" "at_pos c5 (body # [])"
    by (auto simp: named_header_def)
  have "?dec 0 [] (wp_context_create W (e @ body)) = Some (wire_order G hs, c5)"
    unfolding c1(1) c2(1) c3(1) c4(1) c5(1) using t(1) v(2) by (simp add: wire_order_def named_header_def)
  then show ?thesis using rest [OF c5(2)] by blast
qed

end

lemma header_value_append:
  assumes "gwlib_api G"
  shows "gw_header_value G (a @ b) n = (case gw_header_value G a n of Some v \<Rightarrow> Some v | None \<Rightarrow> gw_header_value G b n)"
  unfolding gwlib_api.header_value [OF assms] by (induction a) (auto simp: header_value_def)

lemma named_header_value:
  assumes G: "gwlib_api G"
  shows "gw_header_value G (named_header G hs n') n = (if ci n = ci n' then gw_header_value G hs n' else None)"
  by (auto simp: named_header_def gwlib_api.header_value [OF G] header_value_def header_named_def split: option.split)

lemma placed_name:
  assumes G: "gwlib_api G" and "ci n = ci ''Content-Type''"
  shows "mms_string_to_header G n = MMS_HEADER_CONTENT_TYPE"
proof -
  have "4 < tsize header_table" "tstrings header_table ! 4 = ''Content-Type''" "table_code header_table 4 = 4" by code_simp+
  then show ?thesis using header_tab.string_to_number_code [OF G, of 4 n] assms(2) by (simp add: accessor_defs)
qed

lemma wire_order_content_type:
  assumes G: "gwlib_api G"
  shows "gw_header_value G (wire_order G hs) ''Content-Type'' = gw_header_value G hs ''Content-Type''"
proof -
  have "gw_header_value G (filter (\<lambda>h. mms_string_to_header G (fst h) \<notin> placed) hs) ''Content-Type'' = None"
    using placed_name [OF G] by (auto simp: gwlib_api.header_value [OF G] header_value_def header_named_def find_None_iff)
  moreover have "ci ''Content-Type'' \<noteq> ci ''X-Mms-Message-Type''" "ci ''Content-Type'' \<noteq> ci ''X-Mms-Transaction-Id''"
    "ci ''Content-Type'' \<noteq> ci ''X-Mms-MMS-Version''" by code_simp+
  ultimately show ?thesis
    by (simp add: wire_order_def header_value_append [OF G] named_header_value [OF G])
qed


section \<open>The reference parser and packer\<close>

text \<open>The bytes of a number, the most significant first.\<close>

fun octets_of :: "nat \<Rightarrow> octstr" where
  "octets_of n = (if n = 0 then [] else octets_of (n div 256) @ [char_of (n mod 256)])"

declare octets_of.simps [simp del]

lemma byte_value: "(of_char (char_of n :: char) :: int) = int (n mod 256)"
proof -
  have "(of_char (char_of n :: char) :: int) = int (of_char (char_of n :: char))" by (simp only: of_nat_of_char)
  then show ?thesis by simp
qed

lemma octets_value_of: "octets_value (octets_of n) = int n"
proof (induction n rule: octets_of.induct)
  case (1 n)
  show ?case
  proof (cases "n = 0")
    case True
    then show ?thesis by (simp add: octets_of.simps octets_value_def)
  next
    case False
    have "octets_value (octets_of n) = octets_value (octets_of (n div 256) @ [char_of (n mod 256)])"
      using False by (subst octets_of.simps) simp
    also have "\<dots> = 256 * octets_value (octets_of (n div 256)) + int (n mod 256)"
      by (simp add: octets_value_def byte_value del: of_nat_mod)
    also have "\<dots> = int (256 * (n div 256) + n mod 256)"
      using 1 False by (simp only: of_nat_add of_nat_mult of_nat_numeral simp_thms)
    finally show ?thesis by (simp only: mult_div_mod_eq)
  qed
qed

definition ref_pack_value :: "octstr \<Rightarrow> octstr" where
  "ref_pack_value s = (if length s < 31 then [char_of (length s)] else CHR 0x1F # uintvar (length s)) @ s"

definition ref_pack_number :: "octstr \<Rightarrow> octstr" where
  "ref_pack_number s = (let x = octets_of (read_nat 0 s) in char_of (length x) # x)"

definition ref_pack_version :: "octstr option \<Rightarrow> octstr" where
  "ref_pack_version v = [char_of (if v = Some ''1.1'' then 0x91 else if v = Some ''1.2'' then 0x92 else 0x90 :: nat)]"

definition ref_pack_content_type :: "octstr \<Rightarrow> octstr" where
  "ref_pack_content_type t =
     (case List.find (\<lambda>(k, v). v = t) ref_content_types of Some (k, _) \<Rightarrow> [char_of (128 + nat k)] | None \<Rightarrow> t @ [CHR 0x00])"

definition coding_ref :: gwlib where
  "coding_ref = gwlib_ref\<lparr>gw_pack_value := ref_pack_value, gw_pack_integer_string := ref_pack_number, gw_pack_date := ref_pack_number,
     gw_pack_version_value := ref_pack_version, gw_pack_content_type := ref_pack_content_type\<rparr>"

definition ref_numbers :: "octstr set" where
  "ref_numbers = {show_nat n | n. length (octets_of n) \<le> 30}"

definition ref_types :: "octstr set" where
  "ref_types = snd ` set ref_content_types \<union> {t. plain_text t}"

definition ref_versions :: "octstr set" where
  "ref_versions = {''1.0'', ''1.1'', ''1.2''}"

definition pc_at :: "pctx \<Rightarrow> octstr list \<Rightarrow> bool" where
  "pc_at p l \<longleftrightarrow> pc_cur p # pc_outer p = l \<and> \<not> pc_err p"

lemma coding_ref_api: "gwlib_api coding_ref"
  using ref.case_compare ref.compare ref.search ref.case_search ref.strip_blanks ref.get_lines ref.split ref.header_value
    ref.header_remove_all ref.header_find_all ref.header_combine ref.quoted_string_len ref.get_uintvar ref.uintvar_nonempty
    ref.pack_short_integer ref.base64 ref.url_encode ref.parse_long
  by unfold_locales (simp_all add: coding_ref_def)

lemma pc_at_get_char: "pc_at c ((b # s) # u) \<Longrightarrow> \<exists>c'. pc_get_char c = (of_char b, c') \<and> pc_at c' (s # u) \<and> pc_skip_back c' = c \<and> pc_done c' = b # pc_done c"
  by (auto simp: pc_at_def pc_get_char_def pc_skip_back_def)

lemma pc_at_limit: "pc_at c ((x @ s) # u) \<Longrightarrow> pc_at (pc_limit (length x) c) (x # s # u)"
  by (auto simp: pc_at_def pc_limit_def)

lemma pc_at_end: "pc_at c (x # s # u) \<Longrightarrow> pc_at (pc_pop_limit (pc_skip_to_limit c)) (s # u)"
  by (auto simp: pc_at_def pc_pop_limit_def pc_skip_to_limit_def pc_take_def)

lemma takeWhile_nul: "CHR 0x00 \<notin> set t \<Longrightarrow> takeWhile (\<lambda>c. c \<noteq> CHR 0x00) (t @ CHR 0x00 # s) = t"
  by (induction t) auto

lemma pc_at_nul_string: "CHR 0x00 \<notin> set t \<Longrightarrow> pc_at c ((t @ CHR 0x00 # s) # u) \<Longrightarrow> \<exists>c'. pc_nul_string c = (Some t, c') \<and> pc_at c' (s # u)"
  by (auto simp: pc_at_def pc_nul_string_def pc_take_def takeWhile_nul Let_def)

lemma pc_at_code:
  assumes "k < 128" and "pc_at c ((char_of (128 + k) # s) # u)"
  shows "\<exists>c'. pc_field_value c = ((FV_ENCODED, int k), c') \<and> pc_at c' (s # u)"
proof -
  have "(of_char (char_of (128 + k) :: char) :: int) = 128 + int k" using assms(1) by (simp add: byte_value)
  with pc_at_get_char [OF assms(2)] show ?thesis by (auto simp: pc_field_value_def)
qed

lemma pc_at_text:
  assumes t: "plain_text t" and pos: "pc_at c ((t @ CHR 0x00 # s) # u)"
  shows "\<exists>c'. pc_field_value c = ((FV_NUL_STRING, -1), c) \<and> pc_nul_string c = (Some t, c') \<and> pc_at c' (s # u)"
proof -
  obtain b r where b: "t = b # r" using t by (cases t) (auto simp: plain_text_def)
  then have r: "(of_char b :: int) \<in> {32 .. 126} - {34}" "CHR 0x00 \<notin> set t" using t by (auto simp: plain_text_def)
  from pos b obtain c1 where "pc_get_char c = (of_char b, c1)" "pc_skip_back c1 = c" using pc_at_get_char [of c b] by auto
  then have "pc_field_value c = ((FV_NUL_STRING, -1), c)" using r(1) by (auto simp: pc_field_value_def)
  with pc_at_nul_string [OF r(2) pos] show ?thesis by blast
qed

lemma pc_at_short_value:
  assumes "length x < 31" and pos: "pc_at c ((char_of (length x) # x @ s) # u)"
  shows "\<exists>c'. pc_field_value c = ((FV_DATA, -1), c') \<and> pc_at c' (x # s # u) \<and>
    pc_at (pc_skip_back c') ((char_of (length x) # x) # s # u)"
proof -
  have "(of_char (char_of (length x) :: char) :: int) = int (length x)" using assms(1) by (simp add: byte_value)
  with pc_at_get_char [OF pos] obtain c1 where c1: "pc_get_char c = (int (length x), c1)" "pc_at c1 ((x @ s) # u)"
    and "pc_done c1 = char_of (length x) # pc_done c" by auto
  then have "pc_at (pc_skip_back (pc_limit (length x) c1)) ((char_of (length x) # x) # s # u)"
    using c1(2) by (auto simp: pc_skip_back_def pc_limit_def pc_at_def split: list.splits)
  with c1(1) pc_at_limit [OF c1(2)] assms(1) show ?thesis by (auto simp: pc_field_value_def)
qed

lemma pc_at_value:
  assumes pos: "pc_at c ((ref_pack_value x @ s) # u)"
  shows "\<exists>c'. pc_field_value c = ((FV_DATA, -1), c') \<and> pc_at c' (x # s # u)"
proof (cases "length x < 31")
  case True
  then show ?thesis using pc_at_short_value [OF True, of c s u] pos by (auto simp: ref_pack_value_def)
next
  case False
  then have "pc_at c ((CHR 0x1F # uintvar (length x) @ x @ s) # u)" using pos by (simp add: ref_pack_value_def)
  from pc_at_get_char [OF this] obtain c1 where c1: "pc_get_char c = (31, c1)" "pc_at c1 ((uintvar (length x) @ x @ s) # u)" by auto
  let ?c2 = "pc_take (length (uintvar (length x))) c1"
  have "pc_at ?c2 ((x @ s) # u)" using c1(2) by (auto simp: pc_at_def pc_take_def)
  from pc_at_limit [OF this] have "pc_at (pc_limit_uintvar c1) (x # s # u)"
    using c1(2) by (auto simp: pc_limit_uintvar_def pc_at_def read_uintvar)
  then show ?thesis using c1(1) by (auto simp: pc_field_value_def)
qed

lemma pc_at_integer:
  assumes "length (octets_of n) \<le> 30" and pos: "pc_at c ((ref_pack_number (show_nat n) @ s) # u)"
  shows "\<exists>c'. pc_integer c = (Some (int n), c') \<and> pc_at c' (s # u)"
proof -
  have "pc_at c ((char_of (length (octets_of n)) # octets_of n @ s) # u)"
    using pos by (simp add: ref_pack_number_def read_nat_show_nat Let_def)
  from pc_at_short_value [OF _ this] assms(1) obtain c1 where c1: "pc_field_value c = ((FV_DATA, -1), c1)" "pc_at c1 (octets_of n # s # u)"
    by auto
  then have "octets_value (pc_cur c1) = int n" by (simp add: pc_at_def octets_value_of)
  with c1 pc_at_end [OF c1(2)] show ?thesis by (simp add: pc_integer_def)
qed

lemma pc_at_number:
  assumes "t \<in> ref_numbers" and pos: "pc_at c ((ref_pack_number t @ s) # u)"
  shows "\<exists>v c1 c'. pc_field_value c = ((FV_DATA, -1), c1) \<and> \<not> pc_err c1 \<and>
    apfst (map_option show_int) (pc_integer (pc_skip_back c1)) = (Some t, c') \<and> pc_at (pc_pop_limit (pc_skip_to_limit c')) (s # u)"
proof -
  obtain n where n: "t = show_nat n" "length (octets_of n) \<le> 30" using assms(1) by (auto simp: ref_numbers_def)
  have "pc_at c ((char_of (length (octets_of n)) # octets_of n @ s) # u)"
    using pos by (simp add: ref_pack_number_def n(1) read_nat_show_nat Let_def)
  from pc_at_short_value [OF _ this] n(2) obtain c1 where c1: "pc_field_value c = ((FV_DATA, -1), c1)" "pc_at c1 (octets_of n # s # u)"
    "pc_at (pc_skip_back c1) ((ref_pack_number t @ []) # s # u)"
    by (auto simp: ref_pack_number_def n(1) read_nat_show_nat Let_def)
  from pc_at_integer [OF n(2), of "pc_skip_back c1" "[]" "s # u"] c1(3) n(1) obtain c2
    where "pc_integer (pc_skip_back c1) = (Some (int n), c2)" "pc_at c2 ([] # s # u)" by auto
  with c1 pc_at_end show ?thesis by (auto simp: n(1) pc_at_def show_int_def)
qed

lemma pc_at_content_type:
  assumes "t \<in> ref_types" and pos: "pc_at c ((ref_pack_content_type t @ s) # u)"
  shows "\<exists>r v c1. pc_field_value c = ((r, v), c1) \<and> -1 \<le> v \<and> \<not> pc_err c1 \<and>
    (if r = FV_ENCODED then map_of ref_content_types v = Some t \<and> pc_at c1 (s # u)
     else r = FV_NUL_STRING \<and> (\<exists>c'. pc_nul_string c1 = (Some t, c') \<and> pc_at c' (s # u)))"
proof (cases "List.find (\<lambda>(k, v). v = t) ref_content_types")
  case None
  then have "t \<notin> snd ` set ref_content_types" by (auto simp: find_None_iff)
  then have t: "plain_text t" using assms(1) by (auto simp: ref_types_def)
  with pc_at_text [OF t, of c s u] pos None show ?thesis by (auto simp: ref_pack_content_type_def pc_at_def)
next
  case (Some kv)
  then obtain k where k: "kv = (k, t)" "(k, t) \<in> set ref_content_types" by (auto simp: find_Some_iff) (metis case_prodE nth_mem)
  then have k': "0 \<le> k" "k < 128" "map_of ref_content_types k = Some t" by (auto simp: ref_content_types_def)
  have "pc_at c ((char_of (128 + nat k) # s) # u)" using pos Some k(1) by (simp add: ref_pack_content_type_def)
  moreover have "nat k < 128" using k'(1,2) by simp
  ultimately obtain c1 where "pc_field_value c = ((FV_ENCODED, k), c1)" "pc_at c1 (s # u)"
    using pc_at_code [of "nat k" c s u] k'(1) by auto
  moreover have "-1 \<le> k" using k'(1) by simp
  ultimately show ?thesis using k'(3) by (intro exI [of _ FV_ENCODED] exI [of _ k] exI [of _ c1]) (simp add: pc_at_def)
qed

lemma pc_at_version:
  assumes "t \<in> ref_versions" and pos: "pc_at c ((ref_pack_version (Some t) @ s) # u)"
  shows "\<exists>v c'. pc_field_value c = ((FV_ENCODED, v), c') \<and> -1 \<le> v \<and>
    Some (show_int (v div 16) @ ''.'' @ show_int (v mod 16)) = Some t \<and> pc_at c' (s # u)"
proof -
  obtain k where k: "ref_pack_version (Some t) = [char_of (128 + k)]" "k < 128"
    "show_int (int k div 16) @ ''.'' @ show_int (int k mod 16) = t"
  proof -
    have "show_int (16 div 16) @ ''.'' @ show_int (16 mod 16) = ''1.0''" "show_int (17 div 16) @ ''.'' @ show_int (17 mod 16) = ''1.1''"
      "show_int (18 div 16) @ ''.'' @ show_int (18 mod 16) = ''1.2''" by code_simp+
    then show ?thesis using that [of 16] that [of 17] that [of 18] assms(1) by (auto simp: ref_versions_def ref_pack_version_def)
  qed
  then have "pc_at c ((char_of (128 + k) # s) # u)" using pos by simp
  from pc_at_code [OF k(2) this] k(3) show ?thesis by (intro exI [of _ "int k"]) auto
qed

lemma pc_at_app_header:
  assumes n: "plain_text n" "plain_text v" and pos: "pc_at c ((n @ CHR 0x00 # v @ CHR 0x00 # s) # u)"
  shows "\<exists>c1 c'. pc_get_char c = (of_char (hd n), c1) \<and> pc_app_header h (pc_skip_back c1) = (h @ [(n, v)], c') \<and> pc_at c' (s # u)"
proof -
  obtain b r where b: "n = b # r" using n by (cases n) (auto simp: plain_text_def)
  from pos b obtain c1 where c1: "pc_get_char c = (of_char b, c1)" "pc_skip_back c1 = c" using pc_at_get_char [of c b] by auto
  have nul: "CHR 0x00 \<notin> set n" "CHR 0x00 \<notin> set v" using n by (auto simp: plain_text_def)
  from pc_at_nul_string [OF nul(1) pos] obtain c2 where c2: "pc_nul_string c = (Some n, c2)" "pc_at c2 ((v @ CHR 0x00 # s) # u)" by blast
  from pc_at_nul_string [OF nul(2) c2(2)] c1 c2(1) b show ?thesis by (auto simp: pc_app_header_def)
qed

lemmas coding_ref_simps = ref_wsp_def coding_ref_def gwlib_ref_def

interpretation ref_coding: wsp_coding coding_ref ref_wsp pc_at ref_numbers ref_numbers ref_types ref_versions
proof (intro wsp_coding.intro coding_ref_api, unfold_locales, goal_cases)
  case (5 c b s u)
  then show ?case using pc_at_get_char by (fastforce simp: ref_wsp_def)
next
  case (6 c x s u)
  then show ?case using pc_at_end by (simp add: ref_wsp_def)
next
  case (7 k c s u)
  then show ?case using pc_at_code [of k c s u] by (simp add: coding_ref_simps)
next
  case (8 c x s u)
  then show ?case using pc_at_value [of c x s u] by (auto simp: coding_ref_simps)
next
  case (9 t c s u)
  then show ?case using pc_at_text [of t c s u] by (auto simp: coding_ref_simps pc_at_def)
next
  case (10 t c s u)
  then show ?case using pc_at_number [of t c s u] by (fastforce simp: coding_ref_simps)
next
  case (11 t c s u)
  then show ?case using pc_at_number [of t c s u] by (fastforce simp: coding_ref_simps)
next
  case (12 t c u)
  then obtain n where "t = show_nat n" "length (octets_of n) \<le> 30" by (auto simp: ref_numbers_def)
  then show ?case using 12 pc_at_integer [of n c "[]" u] by (auto simp: coding_ref_simps show_int_def)
next
  case (13 t c s u)
  then show ?case using pc_at_version [of t c s u] by (auto simp: coding_ref_simps)
next
  case (14 t c s u)
  then have "pc_at c ((ref_pack_content_type t @ s) # u)" by (simp add: coding_ref_def)
  from pc_at_content_type [OF 14(1) this] obtain r v c1 where "pc_field_value c = ((r, v), c1)" "-1 \<le> v" "\<not> pc_err c1"
    "if r = FV_ENCODED then map_of ref_content_types v = Some t \<and> pc_at c1 (s # u)
     else r = FV_NUL_STRING \<and> (\<exists>c'. pc_nul_string c1 = (Some t, c') \<and> pc_at c' (s # u))" by blast
  then show ?case by (intro exI [of _ r] exI [of _ v] exI [of _ c1]) (auto simp: ref_wsp_def split: if_splits)
next
  case (16 n v c s u h)
  then show ?case using pc_at_app_header [of n v c s u h] by (simp add: coding_ref_simps)
qed (auto simp: coding_ref_simps pc_at_def)

text \<open>A message with a recipient, a subject and a text.\<close>

definition wire_example :: MmsMsg where
  "wire_example = \<lparr>m_message_type = 0, m_msgId = None,
     m_headers = [(''X-Mms-Message-Type'', ''m-send-req''), (''X-Mms-Transaction-Id'', ''t7''), (''X-Mms-MMS-Version'', ''1.0''),
       (''To'', ''+1/TYPE=PLMN''), (''Subject'', ''hi''), (''Content-Type'', ''text/plain'')],
     m_enc = None, m_ismultipart = False, m_body = Body_s ''x''\<rparr>"

lemma coding_code: "number_to_cstr n header_table = Some s \<Longrightarrow> mms_string_to_header coding_ref s = n"
  using header_tab.number_string_number [OF coding_ref_api] by (simp add: accessor_defs)

lemma coding_codes:
  "mms_string_to_header coding_ref ''X-Mms-Message-Type'' = MMS_HEADER_MESSAGE_TYPE"
  "mms_string_to_header coding_ref ''X-Mms-Transaction-Id'' = MMS_HEADER_TRANSACTION_ID"
  "mms_string_to_header coding_ref ''X-Mms-MMS-Version'' = MMS_HEADER_MMS_VERSION"
  "mms_string_to_header coding_ref ''To'' = MMS_HEADER_TO"
  "mms_string_to_header coding_ref ''Subject'' = MMS_HEADER_SUBJECT"
  "mms_string_to_header coding_ref ''Content-Type'' = MMS_HEADER_CONTENT_TYPE"
  by (rule coding_code, code_simp)+

lemmas coding_header_simps = gwlib_api.gwlib_simps [OF coding_ref_api] header_value_def header_named_def ci_def

lemma wire_example_strip: "strip_boundary_element coding_ref (m_headers wire_example) None = m_headers wire_example"
proof -
  have "split_header_value coding_ref ''text/plain'' = (''text/plain'', [])" by (rule split_header_value_plain) simp_all
  moreover have "get_value_parameters coding_ref [] = []"
    using get_make_value_parameters [OF coding_ref_api, of "[]" "[]"] by simp
  ultimately show ?thesis
    by (simp add: strip_boundary_element_def get_content_type_def coding_header_simps header_remove_all_def
        drm_content_type_def sub_pos_def wire_example_def)
qed

lemma wire_example_values:
  "gw_header_value coding_ref (m_headers wire_example) ''X-Mms-Message-Type'' = Some ''m-send-req''"
  "gw_header_value coding_ref (m_headers wire_example) ''X-Mms-Transaction-Id'' = Some ''t7''"
  "gw_header_value coding_ref (m_headers wire_example) ''X-Mms-MMS-Version'' = Some ''1.0''"
  "gw_header_value coding_ref (m_headers wire_example) ''Content-Type'' = Some ''text/plain''"
  by (simp_all add: wire_example_def coding_header_simps)

lemma wire_example_headers:
  "wire_headers coding_ref None [] ref_numbers ref_numbers ref_types ref_versions (m_headers wire_example)"
proof -
  have ty: "number_to_cstr 0 message_type_table = Some ''m-send-req''" by code_simp
  have names: "mms_header_to_cstr MMS_HEADER_TO = Some ''To''" "mms_header_to_cstr MMS_HEADER_SUBJECT = Some ''Subject''" by code_simp+
  have vals: "plain_text ''t7''" "plain_text ''+1/TYPE=PLMN''" "plain_text ''hi''" by code_simp+
  have "mms_fixup_address coding_ref (Some ''+1/TYPE=PLMN'') None [] True = Some ''+1/TYPE=PLMN''" by code_simp
  then have "wire_value coding_ref None [] ref_numbers ref_numbers MMS_HEADER_TO ''+1/TYPE=PLMN''"
    "wire_value coding_ref None [] ref_numbers ref_numbers MMS_HEADER_SUBJECT ''hi''"
    using vals by (simp_all add: wire_value_def enum_fields_def)
  then have all: "\<forall>h \<in> set (m_headers wire_example). mms_string_to_header coding_ref (fst h) \<in> placed \<or>
      wire_header coding_ref None [] ref_numbers ref_numbers h"
    using names by (simp add: wire_example_def wire_header_def coding_codes)
  have "''text/plain'' \<in> ref_types" "''1.0'' \<in> ref_versions" by (simp_all add: ref_types_def ref_content_types_def ref_versions_def)
  with ty vals(1) all show ?thesis unfolding wire_headers_def wire_example_strip wire_example_values by auto
qed


end
