(* ===== verification/MmsProxy.thy ===== *)
theory MmsProxy
  imports MmsMobileSender MmsMmbox MmsDecode
begin

text \<open>
  The HTTP interface to handsets (MM1), \<open>mmsc/mmsproxy.c\<close>: who the sender of a request is, the fetching of
  messages, and the handlers of the messages that a handset sends: submission, forwarding, answers to
  notifications, read reports, and the mailbox. A handler runs in a thread of its own on the shared state, which it
  gets and returns here; it gives the HTTP reply. \<open>None\<close> stands for a panic, the use of a freed envelope and a wait for ever.
\<close>

section \<open>What the handlers use\<close>

text \<open>The operations of the mailboxes on a state.\<close>

record 's mbox =
  mx_add :: "string \<Rightarrow> string \<Rightarrow> MmsMsg \<Rightarrow> octstr list \<Rightarrow> octstr option \<Rightarrow> 's \<Rightarrow> (octstr option \<times> MmsMsg \<times> 's) option"
  mx_get :: "string \<Rightarrow> string \<Rightarrow> octstr \<Rightarrow> 's \<Rightarrow> ((MmsMsg option \<times> nat option) \<times> 's) option"
  mx_mod :: "string \<Rightarrow> string \<Rightarrow> octstr \<Rightarrow> octstr option \<Rightarrow> octstr list \<Rightarrow> 's \<Rightarrow> (int \<times> 's) option"
  mx_del :: "string \<Rightarrow> string \<Rightarrow> octstr \<Rightarrow> 's \<Rightarrow> (int \<times> 's) option"
  mx_search :: "string \<Rightarrow> string \<Rightarrow> octstr list option \<Rightarrow> octstr list option \<Rightarrow> int \<Rightarrow> int \<Rightarrow> octstr list option \<Rightarrow> 's \<Rightarrow>
    (octstr list option \<times> 's) option"
  mx_count :: "string \<Rightarrow> string \<Rightarrow> 's \<Rightarrow> ((nat \<times> int) option \<times> 's) option"

text \<open>The mailboxes of \<open>MmsMmbox\<close>, on the state of the file queue.\<close>

definition file_mbox :: "gwlib \<Rightarrow> (octstr \<Rightarrow> MmsMsg option) \<Rightarrow> (nat \<times> os) mbox" where
  "file_mbox G frombinary = \<lparr>
     mx_add = (\<lambda>root user m flags state (ect, os).
       map_option (\<lambda>(r, m', ect', os'). (r, m', (ect', os'))) (mms_mmbox_addmsg G root user m flags state ect os)),
     mx_get = (\<lambda>root user ref (ect, os). map_option (\<lambda>(r, os'). (r, (ect, os'))) (mms_mmbox_get frombinary root user ref os)),
     mx_mod = (\<lambda>root user ref state flags (ect, os).
       map_option (\<lambda>(r, os'). (r, (ect, os'))) (mms_mmbox_modmsg G frombinary root user ref state flags os)),
     mx_del = (\<lambda>root user ref (ect, os). map_option (\<lambda>(r, os'). (r, (ect, os'))) (mms_mmbox_delmsg G root user ref os)),
     mx_search = (\<lambda>root user states flags start limit refs (ect, os).
       map_option (\<lambda>(r, os'). (r, (ect, os'))) (mms_mmbox_search G root user states flags start limit refs os)),
     mx_count = (\<lambda>root user (ect, os). map_option (\<lambda>(r, os'). (r, (ect, os'))) (mms_mmbox_count root user os))\<rparr>"

text \<open>Besides the outside, the queue, the mailboxes, the decoder and the settings: the reading of an envelope with its lock,
  the MM5 plug-in, the user agent profiles (\<open>mms_uaprof.c\<close>) with the adaptation of a message to one, the content type
  in a list of headers, the access check of \<open>gwlib\<close>, what \<open>octstr_str_compare\<close> makes of a null pointer (\<open>None\<close> when it
  panics), what a message is after \<open>mms_queue_add\<close>, which gives it an identifier, and the value of a variable that was
  not set.\<close>

record ('s, 'c, 'p) proxy =
  px_env :: "'s env"
  px_q :: "'s qfs"
  px_open :: "octstr \<Rightarrow> string \<Rightarrow> 's \<Rightarrow> (MmsEnvelope option \<times> 's) option"
  px_mbox :: "'s mbox"
  px_dec :: "'c dec_env"
  px_settings :: MmscSettings
  px_mm5 :: "(octstr option \<Rightarrow> octstr option \<Rightarrow> octstr option \<Rightarrow> 's \<Rightarrow> 's option) option"
  px_get_profile :: "octstr \<Rightarrow> 's \<Rightarrow> 'p option \<times> 's"
  px_make_profile :: "headers \<Rightarrow> 'p option"
  px_maxmsgsize :: "'p \<Rightarrow> int"
  px_transform :: "'p option \<Rightarrow> MmsMsg \<Rightarrow> 's \<Rightarrow> (int \<times> MmsMsg option) \<times> 's"
  px_content_type :: "headers \<Rightarrow> octstr option"
  px_allowed_ip :: "octstr \<Rightarrow> octstr \<Rightarrow> octstr \<Rightarrow> bool"
  px_null_compare :: "int option"
  px_added :: "envelope_args \<Rightarrow> MmsMsg \<Rightarrow> string \<Rightarrow> 's \<Rightarrow> MmsMsg"
  px_unset :: int

definition MAX_MESSAGE_SIZE :: int where "MAX_MESSAGE_SIZE = 100 * 1024"
definition USER_MMBOX_MSG_QUOTA :: int where "USER_MMBOX_MSG_QUOTA = 200000"
definition USER_MMBOX_DATA_QUOTA :: int where "USER_MMBOX_DATA_QUOTA = 2000000"

record MmsHTTPClientInfo =
  hi_ua :: "octstr option"
  hi_ip :: octstr
  hi_headers :: headers
  hi_url :: octstr
  hi_body :: "octstr option"
  hi_profile_url :: "octstr option"
  hi_base_client_addr :: "octstr option"
  hi_client_addr :: "octstr option"

text \<open>Status, headers and body of an HTTP reply.\<close>

type_synonym reply = "int \<times> headers \<times> octstr"

section \<open>Requests\<close>

definition profile_url :: "gwlib \<Rightarrow> headers \<Rightarrow> octstr option" where
  "profile_url G hdrs =
     (case (case gw_header_value G hdrs ''X-Wap-Profile'' of Some s \<Rightarrow> Some s | None \<Rightarrow> gw_header_value G hdrs ''Profile'') of
        None \<Rightarrow> None
      | Some s \<Rightarrow>
          Some (gw_strip_blanks G
            (if octstr_get_char s 0 = Some CHR 0x22 then takeWhile (\<lambda>c. c \<noteq> CHR 0x22) (octstr_delete s 0 1) else s)))"

text \<open>The address of the sender without and with its type.\<close>

definition client_addrs :: "gwlib \<Rightarrow> MmscSettings \<Rightarrow> octstr \<Rightarrow> octstr \<Rightarrow> headers \<Rightarrow> octstr option \<times> octstr option" where
  "client_addrs G S url ip hdrs =
     (case mms_find_sender_msisdn G url (Some ip) hdrs (s_wap_gw_msisdn_header S) (s_wap_gw_ip_header S) (s_detokenizer S) of
        None \<Rightarrow>
          if s_allow_ip_type S
          then let (a, ipv6) = mms_find_sender_ip G hdrs (s_wap_gw_ip_header S) ip
               in (Some a, Some (a @ ''/TYPE=IPv'' @ (if ipv6 then ''6'' else ''4'')))
          else (None, None)
      | Some a \<Rightarrow>
          if octstr_search_char a CHR ''.'' 0 \<ge> 0 \<or> octstr_search_char a CHR '':'' 0 \<ge> 0
          then (Some a, Some (if gw_case_search G a ''TYPE='' 0 < 0
                              then a @ ''/TYPE=IPv'' @ (if octstr_search_char a CHR '':'' 0 \<ge> 0 then ''6'' else ''4'') else a))
          else let b = mms_fixup_address G (Some a) (Some (s_unified_prefix S)) (s_strip_prefixes S) False
               in (b, Some (show_octstr b @ ''/TYPE=PLMN'')))"

definition client_info :: "gwlib \<Rightarrow> MmscSettings \<Rightarrow> octstr \<Rightarrow> octstr \<Rightarrow> headers \<Rightarrow> octstr option \<Rightarrow> MmsHTTPClientInfo" where
  "client_info G S ip url hdrs body =
     \<lparr>hi_ua = gw_header_value G hdrs ''User-Agent'', hi_ip = ip, hi_headers = hdrs, hi_url = url, hi_body = body,
      hi_profile_url = profile_url G hdrs, hi_base_client_addr = fst (client_addrs G S url ip hdrs),
      hi_client_addr = snd (client_addrs G S url ip hdrs)\<rparr>"

definition mm5_update :: "('s, 'c, 'p) proxy \<Rightarrow> MmsHTTPClientInfo \<Rightarrow> 's \<Rightarrow> 's option" where
  "mm5_update P h w =
     (case px_mm5 P of
        None \<Rightarrow> Some w
      | Some f \<Rightarrow> f (Some (show_octstr (hi_base_client_addr h))) (hi_profile_url h) (hi_ua h) w)"

definition no_cache :: headers where
  "no_cache = [(''Pragma'', ''no-cache''), (''Cache-Control'', ''no-cache'')]"

definition mms_reply :: "octstr \<Rightarrow> reply" where
  "mms_reply s = (200, no_cache @ [(''Content-Type'', ''application/vnd.wap.mms-message'')], s)"

definition text_reply :: "int \<Rightarrow> octstr \<Rightarrow> reply" where
  "text_reply status s = (status, no_cache @ [(''Content-Type'', ''text/plain'')], s)"

definition inform_server ::
  "gwlib \<Rightarrow> ('s, 'c, 'p) proxy \<Rightarrow> MmsHTTPClientInfo \<Rightarrow> octstr \<Rightarrow> octstr \<Rightarrow> octstr option \<Rightarrow> 's \<Rightarrow> 's option" where
  "inform_server G P h event arg msgid w =
     notify_prov_server G (px_env P) (Some (show_octstr (s_prov_notify (px_settings P))))
       (Some (case hi_base_client_addr h of Some a \<Rightarrow> a | None \<Rightarrow> ''unknown'')) (Some event) (Some arg) msgid (hi_ua h) (hi_profile_url h) w"

text \<open>What is noted of the handset with a report or message.\<close>

definition handset_headers :: "MmsHTTPClientInfo \<Rightarrow> int \<Rightarrow> headers" where
  "handset_headers h tnow =
     (case hi_ua h of Some u \<Rightarrow> [(''X-Mbuni-User-Agent'', u)] | None \<Rightarrow> []) @
     (case hi_profile_url h of Some u \<Rightarrow> [(''X-Mbuni-Profile-Url'', u)] | None \<Rightarrow> []) @ [(''X-Mbuni-Timestamp'', show_int tnow)]"

text \<open>A delivery report for the sender of a message, queued.\<close>

definition queue_delivery_report ::
  "gwlib \<Rightarrow> ('s, 'c, 'p) proxy \<Rightarrow> MmsHTTPClientInfo \<Rightarrow> MmsMsg \<Rightarrow> octstr option \<Rightarrow> headers \<Rightarrow> 's \<Rightarrow> 's option" where
  "queue_delivery_report G P h report to qh w =
     (let S = px_settings P; (t, w1) = x_time (px_env P) w
      in map_option snd (qfs_add (px_q P)
           (plain_args\<lparr>a_from := Some (case hi_client_addr h of Some a \<Rightarrow> a | None \<Rightarrow> s_system_user S), a_to := [to],
                       a_expirydate := t + s_default_msgexpiry S, a_hdrs := qh, a_src_interface := ''MM1'',
                       a_mmscname := s_host_alias S\<rparr>)
           report (s_global_queuedir S) w1))"

definition report_for ::
  "gwlib \<Rightarrow> ('s, 'c, 'p) proxy \<Rightarrow> MmsHTTPClientInfo \<Rightarrow> MmsEnvelope \<Rightarrow> octstr \<Rightarrow> int \<Rightarrow> MmsMsg" where
  "report_for G P h e status tnow =
     mms_deliveryreport G (e_msgId e) (Some (case hi_client_addr h of Some a \<Rightarrow> a | None \<Rightarrow> s_system_user (px_settings P)))
       (e_from e) tnow status"

section \<open>Fetching a message\<close>

text \<open>The envelope when the message is in the queue, the message if it was found, and the version for the answer.\<close>

definition find_message ::
  "('s, 'c, 'p) proxy \<Rightarrow> MmsHTTPClientInfo \<Rightarrow> octstr \<Rightarrow> int \<Rightarrow> 's \<Rightarrow> ((MmsEnvelope option \<times> MmsMsg option \<times> nat option) \<times> 's) option" where
  "find_message P h qf loc w =
     (let S = px_settings P in
      if loc = MMS_LOC_MQUEUE
      then map_option (\<lambda>(eo, w1). ((eo, case eo of Some e \<Rightarrow> qfs_getdata (px_q P) e w1 | None \<Rightarrow> None, None), w1))
             (px_open P qf (s_mm1_queuedir S) w)
      else map_option (\<lambda>((m, size), w1). ((None, m, size), w1))
             (mx_get (px_mbox P) (s_mmbox_rootdir S) (show_octstr (hi_client_addr h)) qf w))"

definition retrieve_error ::
  "gwlib \<Rightarrow> ('s, 'c, 'p) proxy \<Rightarrow> octstr option \<Rightarrow> octstr \<Rightarrow> octstr \<Rightarrow> 's \<Rightarrow> (octstr \<times> 's) option" where
  "retrieve_error G P transid err txt w =
     (let (t, w1) = x_time (px_env P) w
      in map_option (\<lambda>(s, _). (s, w1))
           (mms_tobinary G (mms_retrieveconf G t None transid err (Some txt) (Some (s_system_user (px_settings P))) MS_1_1)))"

definition fetch_log ::
  "gwlib \<Rightarrow> ('s, 'c, 'p) proxy \<Rightarrow> MmsHTTPClientInfo \<Rightarrow> octstr \<Rightarrow> MmsEnvelope option \<Rightarrow> octstr \<Rightarrow> int \<Rightarrow> 's \<Rightarrow> 's" where
  "fetch_log G P h what e qf loc w =
     mms_log2 G (px_env P) what (case e of Some e \<Rightarrow> e_from e | None \<Rightarrow> None) (hi_client_addr h)
       (case e of Some e \<Rightarrow> e_msize e | None \<Rightarrow> 0) (case e of Some e \<Rightarrow> e_msgId e | None \<Rightarrow> None) None None ''MM1''
       (hi_ua h) (if loc = MMS_LOC_MMBOX then Some qf else None) w"

definition free_env :: "('s, 'c, 'p) proxy \<Rightarrow> MmsEnvelope option \<Rightarrow> 's \<Rightarrow> 's" where
  "free_env P eo w = (case eo of Some e \<Rightarrow> qfs_free_env (px_q P) e w | None \<Rightarrow> w)"

text \<open>The end of a fetch that failed: the answer, the event for the provisioning server if any.\<close>

definition fetch_failed ::
  "gwlib \<Rightarrow> ('s, 'c, 'p) proxy \<Rightarrow> MmsHTTPClientInfo \<Rightarrow> MmsEnvelope option \<Rightarrow> octstr \<Rightarrow> int \<Rightarrow> octstr \<Rightarrow> octstr option \<Rightarrow> 's \<Rightarrow>
   (reply \<times> 's) option" where
  "fetch_failed G P h e qf loc s arg w =
     map_option (\<lambda>w1. (mms_reply s, free_env P e w1))
       (case arg of
          None \<Rightarrow> Some (fetch_log G P h ''Failed Fetch'' e qf loc w)
        | Some a \<Rightarrow> inform_server G P h ''fetchfailed'' a (case e of Some e \<Rightarrow> e_msgId e | None \<Rightarrow> None)
                      (fetch_log G P h ''Failed Fetch'' e qf loc w))"

text \<open>The message for this handset, or the answer that there is none and the event.\<close>

definition adapt_message ::
  "gwlib \<Rightarrow> ('s, 'c, 'p) proxy \<Rightarrow> MmsHTTPClientInfo \<Rightarrow> 'p option \<Rightarrow> MmsEnvelope option \<Rightarrow> octstr \<Rightarrow> MmsMsg \<Rightarrow> 's \<Rightarrow>
   ((octstr \<times> octstr option + MmsMsg) \<times> 's) option" where
  "adapt_message G P h prof e transid m w =
     (if \<not> s_content_adaptation (px_settings P) then Some (Inr m, w)
      else
        let ((x, out), w1) = px_transform P prof m w in
        if x = -1
        then map_option (\<lambda>(s, w2). (Inl (s, None), w2))
               (retrieve_error G P (Some transid) ''Error-transient-failure'' ''Mobile MMS Settings not found'' w1)
        else if x = 0
        then (case out of
                Some m' \<Rightarrow> Some (Inr m', w1)
              | None \<Rightarrow> do {
                  txt \<leftarrow> format_from (s_mms_toolarge (px_settings P))
                           [show_octstr (case e of Some e \<Rightarrow> e_from e | None \<Rightarrow> hi_client_addr h)];
                  (s, w2) \<leftarrow> retrieve_error G P (Some transid) ''Ok'' txt w1;
                  Some (Inl (s, Some ''message-too-large-for-device''), w2) })
        else Some (Inr m, w1))"

text \<open>The envelope is kept for a week after the message expires and asks for no notification any more.\<close>

definition mark_fetched :: "('s, 'c, 'p) proxy \<Rightarrow> MmsEnvelope \<Rightarrow> 's \<Rightarrow> (MmsEnvelope \<times> 's) option" where
  "mark_fetched P e w =
     (let (t, w1) = x_time (px_env P) w in
      case qfs_update (px_q P) (e\<lparr>e_lastaccess := t, e_sendt := e_expiryt e + 3600 * 24 * 7\<rparr>) w1 of
        (r, eo, w2) \<Rightarrow> if r = 1 then None else map_option (\<lambda>e'. (e', w2)) eo)"

definition report_fetched ::
  "gwlib \<Rightarrow> ('s, 'c, 'p) proxy \<Rightarrow> MmsHTTPClientInfo \<Rightarrow> MmsEnvelope option \<Rightarrow> octstr option \<Rightarrow> 's \<Rightarrow> 's option" where
  "report_fetched G P h eo dlr_flag w =
     (case eo of
        Some e \<Rightarrow>
          if s_dlr_on_fetch (px_settings P) \<and> (case dlr_flag of Some d \<Rightarrow> gw_case_compare G d ''Yes'' = 0 | None \<Rightarrow> False)
          then let (t1, w1) = x_time (px_env P) w; (t2, w2) = x_time (px_env P) w1
               in queue_delivery_report G P h (report_for G P h e ''Retrieved'' t1) (e_from e) (handset_headers h t2) w2
          else Some w
      | None \<Rightarrow> Some w)"

text \<open>\<open>e\<close> is the envelope when the message is in the queue.\<close>

definition deliver_fetched ::
  "gwlib \<Rightarrow> ('s, 'c, 'p) proxy \<Rightarrow> MmsHTTPClientInfo \<Rightarrow> MmsEnvelope option \<Rightarrow> octstr \<Rightarrow> int \<Rightarrow> octstr \<Rightarrow> octstr option \<Rightarrow> MmsMsg \<Rightarrow> 's \<Rightarrow>
   (reply \<times> 's) option" where
  "deliver_fetched G P h eo qf loc transid dlr_flag m w = do {
     (s, _) \<leftarrow> mms_tobinary G (mms_retrieveconf G 0 (Some m) (Some transid) ''Error-permanent-message-not-found'' None
                 (case eo of Some e \<Rightarrow> e_from e | None \<Rightarrow> hi_client_addr h) (if loc = MMS_LOC_MQUEUE then MS_1_1 else MS_1_2));
     w1 \<leftarrow> report_fetched G P h eo dlr_flag w;
     (eo', w2) \<leftarrow> (case eo of None \<Rightarrow> Some (None, w1) | Some e \<Rightarrow> map_option (\<lambda>(e', w'). (Some e', w')) (mark_fetched P e w1));
     w3 \<leftarrow> inform_server G P h ''fetched'' [] (case eo' of Some e \<Rightarrow> e_msgId e | None \<Rightarrow> None)
             (fetch_log G P h ''Fetched'' eo' qf loc w2);
     Some (mms_reply s, free_env P eo' w3) }"

definition fetchmms_proxy :: "gwlib \<Rightarrow> ('s, 'c, 'p) proxy \<Rightarrow> MmsHTTPClientInfo \<Rightarrow> 's \<Rightarrow> (reply \<times> 's) option" where
  "fetchmms_proxy G P h w0 =
     (let (qf, token, loc) = mms_decodefetchurl G (hi_url h) in do {
        w1 \<leftarrow> mm5_update P h w0;
        let (found, w2) = (case hi_profile_url h of Some u \<Rightarrow> px_get_profile P u w1 | None \<Rightarrow> (None, w1));
        let prof = (case found of Some p \<Rightarrow> Some p | None \<Rightarrow> px_make_profile P (hi_headers h));
        ((eo, mo, _), w3) \<leftarrow> find_message P h qf loc w2;
        case mo of
          None \<Rightarrow> do {
            (s, w4) \<leftarrow> retrieve_error G P None ''Error-permanent-message-not-found'' ''Message not found'' w3;
            fetch_failed G P h eo qf loc s (Some ''messagenotfound'') w4 }
        | Some m \<Rightarrow>
            let transid = fst (mms_maketransid 0 0 0 0 (Some qf) (show_octstr (s_host_alias (px_settings P)))) in do {
              (r, w4) \<leftarrow> adapt_message G P h prof eo transid m w3;
              case r of
                Inl (s, arg) \<Rightarrow> fetch_failed G P h eo qf loc s arg w4
              | Inr m' \<Rightarrow>
                  deliver_fetched G P h eo qf loc transid (mms_get_header_value G m ''X-Mms-Delivery-Report'') m' w4 } })"

section \<open>Submission\<close>

definition yes_value :: "gwlib \<Rightarrow> octstr option \<Rightarrow> bool" where
  "yes_value G v = (case v of Some x \<Rightarrow> gw_case_compare G x ''Yes'' = 0 | None \<Rightarrow> False)"

definition msg_enc :: "('s, 'c, 'p) proxy \<Rightarrow> MmsMsg \<Rightarrow> int" where
  "msg_enc P m = (case m_enc m of Some e \<Rightarrow> e | None \<Rightarrow> px_unset P)"

definition env_of_headers :: "gwlib \<Rightarrow> ('s, 'c, 'p) proxy \<Rightarrow> int \<Rightarrow> headers \<Rightarrow> envdata" where
  "env_of_headers G P tnow mh =
     mms_collect_envdata_from_msgheaders G tnow mh [] (s_default_msgexpiry (px_settings P)) (s_max_msgexpiry (px_settings P)) None []"

text \<open>The arguments of \<open>mms_queue_add\<close> that all messages of handsets share.\<close>

definition mm1_args :: "('s, 'c, 'p) proxy \<Rightarrow> octstr \<Rightarrow> octstr option list \<Rightarrow> headers \<Rightarrow> envelope_args" where
  "mm1_args P sender to qh =
     plain_args\<lparr>a_from := Some sender, a_to := to, a_hdrs := qh, a_src_interface := ''MM1'', a_mmscname := s_host_alias (px_settings P)\<rparr>"

definition submission_args :: "('s, 'c, 'p) proxy \<Rightarrow> octstr \<Rightarrow> envdata \<Rightarrow> bool \<Rightarrow> headers \<Rightarrow> envelope_args" where
  "submission_args P sender d dlr qh =
     (mm1_args P sender (ed_to d) qh)\<lparr>a_subject := ed_subject d, a_senddate := ed_delivery d, a_expirydate := ed_expiry d, a_dlr := dlr\<rparr>"

definition msgid_of :: "('s, 'c, 'p) proxy \<Rightarrow> octstr \<Rightarrow> octstr" where
  "msgid_of P qf = fst (mms_make_msgid 0 0 0 0 (Some qf) (s_host_alias (px_settings P)))"

text \<open>A message put into the mailbox of the sender: the status, the place and the reference for the answer.\<close>

type_synonym stored = "octstr option \<times> octstr option \<times> octstr option"

definition store_result :: "gwlib \<Rightarrow> ('s, 'c, 'p) proxy \<Rightarrow> octstr \<Rightarrow> octstr option \<Rightarrow> stored" where
  "store_result G P user r =
     (case r of
        Some sdf \<Rightarrow> (Some ''Success'', Some (mms_makefetchurl G sdf None MMS_LOC_MMBOX (Some user) (px_settings P)), Some sdf)
      | None \<Rightarrow> (Some ''Error-permanent-failure'', None, None))"

definition store_message ::
  "gwlib \<Rightarrow> ('s, 'c, 'p) proxy \<Rightarrow> octstr \<Rightarrow> MmsMsg \<Rightarrow> octstr list \<Rightarrow> octstr \<Rightarrow> 's \<Rightarrow> (stored \<times> MmsMsg \<times> 's) option" where
  "store_message G P user m flags state w =
     map_option (\<lambda>(r, m', w'). (store_result G P user r, m', w'))
       (mx_add (px_mbox P) (s_mmbox_rootdir (px_settings P)) user m flags (Some state) w)"

definition modify_stored ::
  "gwlib \<Rightarrow> ('s, 'c, 'p) proxy \<Rightarrow> octstr \<Rightarrow> octstr \<Rightarrow> octstr option \<Rightarrow> octstr list \<Rightarrow> 's \<Rightarrow> (stored \<times> 's) option" where
  "modify_stored G P user qf state flags w =
     map_option (\<lambda>(r, w'). (if r = 0 then (fst (store_result G P user (Some qf)), fst (snd (store_result G P user (Some qf))), None)
                            else store_result G P user None, w'))
       (mx_mod (px_mbox P) (s_mmbox_rootdir (px_settings P)) user qf state flags w)"

definition with_stored :: "gwlib \<Rightarrow> stored \<Rightarrow> MmsMsg \<Rightarrow> MmsMsg" where
  "with_stored G st m =
     (let m1 = (case fst st of Some s \<Rightarrow> mms_replace_header_value G m ''X-Mms-Store-Status'' s | None \<Rightarrow> m)
      in case fst (snd st) of Some l \<Rightarrow> mms_replace_header_value G m1 ''X-Mms-Content-Location'' l | None \<Rightarrow> m1)"

text \<open>The answer to a submission or forwarding, with the entry of the access log when the message was queued.\<close>

definition queue_answer ::
  "gwlib \<Rightarrow> ('s, 'c, 'p) proxy \<Rightarrow> MmsHTTPClientInfo \<Rightarrow> octstr \<Rightarrow> bool \<Rightarrow> octstr \<Rightarrow> int \<Rightarrow> octstr option list \<Rightarrow> int \<Rightarrow>
   stored \<Rightarrow> octstr option \<Rightarrow> 's \<Rightarrow> MmsMsg \<times> 's" where
  "queue_answer G P h what isforward transid menc to msize st qf w =
     (case qf of
        None \<Rightarrow> (with_stored G st (mms_sendconf ''Error-transient-failure'' (Some ''None'') transid isforward menc), w)
      | Some q \<Rightarrow>
          (with_stored G st (mms_sendconf ''Ok'' (Some (msgid_of P q)) transid isforward menc),
           mms_log G (px_env P) what (hi_client_addr h) (map show_octstr to) msize (Some (msgid_of P q)) None None ''MM1''
             (hi_ua h) (snd (snd st)) w))"

text \<open>\<open>m\<close> is the message that was sent to us, \<open>msize\<close> the size of the request, and \<open>qh\<close> the headers for the queue.\<close>

definition handle_send_req ::
  "gwlib \<Rightarrow> ('s, 'c, 'p) proxy \<Rightarrow> MmsHTTPClientInfo \<Rightarrow> MmsMsg \<Rightarrow> int \<Rightarrow> headers \<Rightarrow> 's \<Rightarrow> (MmsMsg \<times> 's) option" where
  "handle_send_req G P h m msize qh w =
     (let menc = msg_enc P m; mh = m_headers m; (tnow, w1) = x_time (px_env P) w; d = env_of_headers G P tnow mh;
          transid = show_octstr (ed_transid d) in
      case hi_client_addr h of
        None \<Rightarrow> Some (mms_sendconf ''Error-sending-address-unresolved'' (Some ''None'') transid False menc, w1)
      | Some sender \<Rightarrow>
          let m1 = mms_remove_headers G m ''X-Mms-Store'' in do {
            (st, m2, w2) \<leftarrow>
              (if menc \<ge> MS_1_2 \<and> yes_value G (mms_get_header_value G m ''X-Mms-Store'')
               then store_message G P sender m1 [] ''Sent'' w1 else Some ((None, None, None), m1, w1));
            let m3 = fold (\<lambda>n x. mms_remove_headers G x n)
              [''Bcc'', ''X-Mms-Delivery-Time'', ''X-Mms-Expiry'', ''X-Mms-Sender-Visibility'', ''X-Mms-MM-Flags'', ''X-Mms-MM-State''] m2;
            (qf, w3) \<leftarrow> qfs_add (px_q P)
              (submission_args P sender d (yes_value G (gw_header_value G mh ''X-Mms-Delivery-Report'')) qh)
              m3 (s_global_queuedir (px_settings P)) w2;
            Some (queue_answer G P h ''Received'' False transid menc (ed_to d) msize st qf w3) })"

section \<open>Forwarding\<close>

text \<open>An update of an envelope that frees it; the queue module frees it itself when no recipient is left.\<close>

definition close_env :: "('s, 'c, 'p) proxy \<Rightarrow> MmsEnvelope \<Rightarrow> 's \<Rightarrow> 's option" where
  "close_env P e w =
     (case qfs_update (px_q P) e w of
        (r, eo, w1) \<Rightarrow> if r = 1 then Some w1 else map_option (\<lambda>e'. qfs_free_env (px_q P) e' w1) eo)"

definition touch_env :: "('s, 'c, 'p) proxy \<Rightarrow> MmsEnvelope option \<Rightarrow> 's \<Rightarrow> 's option" where
  "touch_env P eo w =
     (case eo of
        None \<Rightarrow> Some w
      | Some e \<Rightarrow> let (t, w1) = x_time (px_env P) w in close_env P (e\<lparr>e_lastaccess := t\<rparr>) w1)"

definition leading_count :: "octstr \<Rightarrow> int \<Rightarrow> int" where
  "leading_count s n = (case scan_int s of Some (k, _) \<Rightarrow> k | None \<Rightarrow> n)"

definition set_or_remove :: "gwlib \<Rightarrow> octstr \<Rightarrow> octstr option \<Rightarrow> MmsMsg \<Rightarrow> MmsMsg" where
  "set_or_remove G name v m =
     (case v of Some x \<Rightarrow> mms_replace_header_value G (mms_remove_headers G m name) name x | None \<Rightarrow> mms_remove_headers G m name)"

text \<open>The message as it is forwarded: the counts of the previous senders start at the largest count that is noted.\<close>

definition forwarded_msg :: "gwlib \<Rightarrow> octstr \<Rightarrow> octstr option \<Rightarrow> octstr option \<Rightarrow> MmsMsg \<Rightarrow> MmsMsg" where
  "forwarded_msg G sender read_report delivery_report m =
     (let m1 = set_or_remove G ''X-Mms-Delivery-Report'' delivery_report
                 (set_or_remove G ''X-Mms-Read-Report'' read_report (mms_replace_header_value G m ''From'' sender));
          n1 = (case mms_get_header_value G m1 ''X-Mms-Previously-Sent-By'' of Some s \<Rightarrow> leading_count s 0 | None \<Rightarrow> 0);
          m2 = mms_replace_header_value G m1 ''X-Mms-Previously-Sent-By''
                 (show_int (n1 + 1) @ show_octstr (mms_get_header_value G m ''From''));
          n2 = (case mms_get_header_value G m2 ''X-Mms-Previously-Sent-Date'' of Some s \<Rightarrow> leading_count s n1 | None \<Rightarrow> n1)
      in case mms_get_header_value G m ''Date'' of
           Some d \<Rightarrow> mms_replace_header_value G m2 ''X-Mms-Previously-Sent-Date'' (show_int (n2 + 1) @ d)
         | None \<Rightarrow> m2)"

text \<open>The delivery report for the sender of the message that is forwarded. The test of the header lacks a comparison
  with 0.\<close>

definition forward_report ::
  "gwlib \<Rightarrow> ('s, 'c, 'p) proxy \<Rightarrow> MmsHTTPClientInfo \<Rightarrow> MmsMsg \<Rightarrow> octstr option \<Rightarrow> MmsEnvelope option \<Rightarrow> 's \<Rightarrow> 's option" where
  "forward_report G P h orig allow_report eo w =
     (if (allow_report = None \<or> yes_value G allow_report) \<and>
         (case mms_get_header_value G orig ''X-Mms-Delivery-Report'' of
            Some v \<Rightarrow> gw_case_compare G v ''Yes'' \<noteq> 0 | None \<Rightarrow> False)
      then
        let S = px_settings P; sender = (case hi_client_addr h of Some a \<Rightarrow> a | None \<Rightarrow> s_system_user S);
            (t1, w1) = x_time (px_env P) w; (t2, w2) = x_time (px_env P) w1
        in map_option snd (qfs_add (px_q P)
             ((mm1_args P sender [mms_get_header_value G orig ''From''] [])\<lparr>a_expirydate := t2 + s_default_msgexpiry S\<rparr>)
             (mms_deliveryreport G (mms_get_header_value G orig ''Message-ID'') (Some sender)
                (case eo of Some e \<Rightarrow> e_from e | None \<Rightarrow> None) t1 ''Forwarded'')
             (s_global_queuedir S) w2)
      else Some w)"

text \<open>The forwarding of a message that was found. The size in the log is set only for one of the mailbox.\<close>

definition forward_found ::
  "gwlib \<Rightarrow> ('s, 'c, 'p) proxy \<Rightarrow> MmsHTTPClientInfo \<Rightarrow> octstr \<Rightarrow> MmsMsg \<Rightarrow> envdata \<Rightarrow> headers \<Rightarrow> octstr \<Rightarrow> int \<Rightarrow>
   MmsEnvelope option \<Rightarrow> MmsMsg \<Rightarrow> nat option \<Rightarrow> 's \<Rightarrow> (MmsMsg \<times> 's) option" where
  "forward_found G P h sender m d qh qf loc eo orig sz w =
     (let mh = m_headers m; menc = msg_enc P m; transid = show_octstr (ed_transid d);
          dr = gw_header_value G mh ''X-Mms-Delivery-Report'';
          fwd = forwarded_msg G sender (gw_header_value G mh ''X-Mms-Read-Report'') dr orig;
          state = (case mms_get_header_value G m ''X-Mms-MM-State'' of Some s \<Rightarrow> s | None \<Rightarrow> ''Forwarded'');
          flags = mms_get_header_values G m ''X-Mms-MM-Flags'';
          args = submission_args P sender d (yes_value G dr) qh; dir = s_global_queuedir (px_settings P) in do {
        (qf2, w1) \<leftarrow> qfs_add (px_q P) args fwd dir w;
        (st, w2) \<leftarrow>
          (if menc \<ge> MS_1_2 \<and> yes_value G (mms_get_header_value G m ''X-Mms-Store'')
           then if loc \<noteq> MMS_LOC_MMBOX then map_option (\<lambda>(st, _, w'). (st, w')) (store_message G P sender (px_added P args fwd dir w) flags state w1)
                else modify_stored G P sender qf (Some state) flags w1
           else Some ((None, None, None), w1));
        let (r, w3) = queue_answer G P h ''Forwarded'' True transid menc (ed_to d)
                        (case sz of Some n \<Rightarrow> int n | None \<Rightarrow> px_unset P) st qf2 w2;
        w4 \<leftarrow> forward_report G P h orig (gw_header_value G mh ''X-Mms-Report-Allowed'') eo w3;
        Some (r, w4) })"

definition handle_forward_req ::
  "gwlib \<Rightarrow> ('s, 'c, 'p) proxy \<Rightarrow> MmsHTTPClientInfo \<Rightarrow> MmsMsg \<Rightarrow> headers \<Rightarrow> 's \<Rightarrow> (MmsMsg \<times> 's) option" where
  "handle_forward_req G P h m qh w =
     (let menc = msg_enc P m; mh = m_headers m; (tnow, w1) = x_time (px_env P) w; d = env_of_headers G P tnow mh;
          err = (\<lambda>s. mms_sendconf s (Some ''None'') (show_octstr (ed_transid d)) True menc) in
      case (hi_client_addr h, gw_header_value G mh ''X-Mms-Content-Location'') of
        (None, _) \<Rightarrow> Some (err ''Error-sending-address-unresolved'', w1)
      | (_, None) \<Rightarrow> Some (err ''Error-permanent-message-not-found'', w1)
      | (Some sender, Some url) \<Rightarrow>
          let (qf, token, loc) = mms_decodefetchurl G url in do {
            ((eo, mo, sz), w2) \<leftarrow> find_message P h qf loc w1;
            (r, w3) \<leftarrow> (case mo of
               None \<Rightarrow> Some (err ''Error-permanent-message-not-found'', w2)
             | Some orig \<Rightarrow> forward_found G P h sender m d qh qf loc eo orig sz w2);
            w4 \<leftarrow> touch_env P eo w3;
            Some (r, w4) })"

section \<open>Answers to notifications and read reports\<close>

definition says_retrieved :: "gwlib \<Rightarrow> ('s, 'c, 'p) proxy \<Rightarrow> octstr option \<Rightarrow> bool option" where
  "says_retrieved G P status =
     (case status of Some s \<Rightarrow> Some (gw_compare G s ''Retrieved'' = 0) | None \<Rightarrow> map_option (\<lambda>c. c = 0) (px_null_compare P))"

text \<open>The envelope after the answer: a message that was retrieved is done for its first recipient.\<close>

definition settle_answer ::
  "gwlib \<Rightarrow> ('s, 'c, 'p) proxy \<Rightarrow> MmsHTTPClientInfo \<Rightarrow> octstr option \<Rightarrow> octstr option \<Rightarrow> headers \<Rightarrow> MmsEnvelope \<Rightarrow> 's \<Rightarrow>
   (MmsEnvelope \<times> 's) option" where
  "settle_answer G P h status allow_report qh e w = do {
     retrieved \<leftarrow> says_retrieved G P status;
     let (e1, w1) = (if retrieved then (drop_first e, w)
                     else let (t, w') = x_time (px_env P) w in (e\<lparr>e_lastaccess := t\<rparr>, w'));
     if (allow_report = None \<or> yes_value G allow_report) \<and> e_dlr e1
     then let (t, w2) = x_time (px_env P) w1
          in map_option (\<lambda>w3. (e1, w3))
               (queue_delivery_report G P h (report_for G P h e1 (show_octstr status) t) (e_from e1) qh w2)
     else Some (e1, w1) }"

definition handle_notifyresp ::
  "gwlib \<Rightarrow> ('s, 'c, 'p) proxy \<Rightarrow> MmsHTTPClientInfo \<Rightarrow> int \<Rightarrow> MmsMsg \<Rightarrow> int \<Rightarrow> headers \<Rightarrow> 's \<Rightarrow> 's option" where
  "handle_notifyresp G P h mtype m msize qh w =
     (let transid = mms_get_header_value G m ''X-Mms-Transaction-ID'';
          status = (if mtype = MMS_MSGTYPE_NOTIFYRESP then mms_get_header_value G m ''X-Mms-Status'' else Some ''Retrieved'') in do {
        (eo, w1) \<leftarrow> px_open P (show_octstr (mms_getqf_fromtransid transid)) (s_mm1_queuedir (px_settings P)) w;
        (eo1, w2) \<leftarrow> (case eo of
           None \<Rightarrow> Some (None, w1)
         | Some e \<Rightarrow> map_option (\<lambda>(e', w'). (Some e', w'))
             (settle_answer G P h status (mms_get_header_value G m ''X-Mms-Report-Allowed'') qh e w1));
        let w3 = mms_log2 G (px_env P) ''NotifyResp'' (hi_client_addr h) None msize transid status None ''MM1'' (hi_ua h) None w2;
        case eo1 of None \<Rightarrow> Some w3 | Some e \<Rightarrow> close_env P e w3 })"

definition handle_read_rec ::
  "gwlib \<Rightarrow> ('s, 'c, 'p) proxy \<Rightarrow> MmsHTTPClientInfo \<Rightarrow> MmsMsg \<Rightarrow> int \<Rightarrow> headers \<Rightarrow> 's \<Rightarrow> 's option" where
  "handle_read_rec G P h m msize qh w =
     (let S = px_settings P; sender = (case hi_client_addr h of Some a \<Rightarrow> a | None \<Rightarrow> ''anon@anon'');
          (t, w1) = x_time (px_env P) w; (r, m') = mms_convert_readrec2readorig G t m in
      if r < 0 then Some w1
      else
        let (t1, w2) = x_time (px_env P) w1; (t2, w3) = x_time (px_env P) w2 in
        map_option (\<lambda>(q, w4). mms_log G (px_env P) ''ReadReport'' (hi_client_addr h) [] msize None None None ''MM1'' (hi_ua h) None w4)
          (qfs_add (px_q P)
             ((mm1_args P sender (ed_to (env_of_headers G P t (m_headers m))) qh)
                \<lparr>a_senddate := t1, a_expirydate := t2 + s_default_msgexpiry S\<rparr>)
             m' (s_global_queuedir S) w3))"

section \<open>The mailbox\<close>

text \<open>The answer to a store or upload; \<open>dflt\<close> is the reference in the log when no new message was stored.\<close>

definition store_answer ::
  "gwlib \<Rightarrow> ('s, 'c, 'p) proxy \<Rightarrow> MmsHTTPClientInfo \<Rightarrow> bool \<Rightarrow> octstr option \<Rightarrow> int \<Rightarrow> stored \<Rightarrow> octstr option \<Rightarrow> 's \<Rightarrow> MmsMsg \<times> 's" where
  "store_answer G P h isupload transid msize st dflt w =
     (case fst (snd st) of
        Some loc \<Rightarrow>
          (mms_storeconf ''Success'' (show_octstr transid) (Some loc) isupload,
           mms_log G (px_env P) ''Stored'' (hi_client_addr h) [] msize transid None None ''MM1'' (hi_ua h)
             (case snd (snd st) of Some sdf \<Rightarrow> Some sdf | None \<Rightarrow> dflt) w)
      | None \<Rightarrow> (mms_storeconf ''Error-transient-failure'' (show_octstr transid) None isupload, w))"

text \<open>A request without a location has a null pointer decoded as a URL.\<close>

definition handle_mbox_store ::
  "gwlib \<Rightarrow> ('s, 'c, 'p) proxy \<Rightarrow> MmsHTTPClientInfo \<Rightarrow> MmsMsg \<Rightarrow> int \<Rightarrow> 's \<Rightarrow> (MmsMsg \<times> 's) option" where
  "handle_mbox_store G P h m msize w =
     (let S = px_settings P; state = mms_get_header_value G m ''X-Mms-MM-State''; flags = mms_get_header_values G m ''X-Mms-MM-Flags'';
          transid = gw_header_value G (m_headers m) ''X-Mms-Transaction-ID'' in
      case hi_client_addr h of
        None \<Rightarrow> Some (mms_storeconf ''Error-service-denied'' (show_octstr transid) None False, w)
      | Some user \<Rightarrow> do {
          url \<leftarrow> gw_header_value G (m_headers m) ''X-Mms-Content-Location'';
          let (qf, token, loc) = mms_decodefetchurl G url;
          if loc = MMS_LOC_MQUEUE
          then do {
            (eo, w1) \<leftarrow> px_open P qf (s_mm1_queuedir S) w;
            (r, w2) \<leftarrow> (case (case eo of Some e \<Rightarrow> qfs_getdata (px_q P) e w1 | None \<Rightarrow> None) of
               None \<Rightarrow> Some (mms_storeconf ''Error-permanent-message-not-found'' (show_octstr transid) None False, w1)
             | Some ms \<Rightarrow>
                 map_option (\<lambda>(st, _, w'). store_answer G P h False transid msize st (Some qf) w')
                   (store_message G P user ms flags (case state of Some s \<Rightarrow> s | None \<Rightarrow> ''New'') w1));
            w3 \<leftarrow> touch_env P eo w2;
            Some (r, w3) }
          else map_option (\<lambda>(st, w'). store_answer G P h False transid msize st (Some qf) w')
                 (modify_stored G P user qf state flags w) })"

text \<open>The message in the body of an upload: \<open>Some None\<close> when there is none. Parts that are taken for a text stop
  the program.\<close>

definition uploaded_message :: "gwlib \<Rightarrow> ('s, 'c, 'p) proxy \<Rightarrow> MmsMsg \<Rightarrow> 's \<Rightarrow> (MmsMsg option \<times> 's) option" where
  "uploaded_message G P m w =
     (if (case px_content_type P (m_headers m) of
            Some c \<Rightarrow> gw_case_compare G c ''application/vnd.wap.mms-message'' \<noteq> 0 | None \<Rightarrow> True)
      then Some (None, w)
      else
        case m_body m of
          Body_null \<Rightarrow> Some (None, w)
        | Body_l l \<Rightarrow> None
        | Body_s s \<Rightarrow>
            let (t, w1) = x_time (px_env P) w
            in map_option (\<lambda>mo. (mo, w1))
                 (mms_frombinary_ex G
                    ((px_dec P)\<lparr>de_unified_prefix := None, de_strip_prefixes := [], de_from := Some ''anon@anon'', de_now := t\<rparr>) s))"

definition handle_mbox_upload ::
  "gwlib \<Rightarrow> ('s, 'c, 'p) proxy \<Rightarrow> MmsHTTPClientInfo \<Rightarrow> MmsMsg \<Rightarrow> int \<Rightarrow> 's \<Rightarrow> (MmsMsg \<times> 's) option" where
  "handle_mbox_upload G P h m msize w =
     (let transid = gw_header_value G (m_headers m) ''X-Mms-Transaction-ID'' in
      case hi_client_addr h of
        None \<Rightarrow> Some (mms_storeconf ''Error-service-denied'' (show_octstr transid) None True, w)
      | Some user \<Rightarrow> do {
          (mo, w1) \<leftarrow> uploaded_message G P m w;
          case mo of
            None \<Rightarrow> Some (mms_storeconf ''Error-permanent-message-format-corrupt'' (show_octstr transid) None True, w1)
          | Some ms \<Rightarrow>
              map_option (\<lambda>(st, _, w'). store_answer G P h True transid msize st None w')
                (store_message G P user ms [] ''Draft'' w1) })"

text \<open>The response of the \<open>i\<close>-th location of a delete request.\<close>

definition delete_one ::
  "gwlib \<Rightarrow> ('s, 'c, 'p) proxy \<Rightarrow> octstr \<Rightarrow> nat \<Rightarrow> octstr \<Rightarrow> 's \<Rightarrow> (octstr \<times> 's) option" where
  "delete_one G P user i url w =
     (let (qf, token, loc) = mms_decodefetchurl G url;
          nf = show_nat i @ ''Error-permanent-message-not-found''; good = show_nat i @ ''Ok'' in
      if loc = MMS_LOC_MQUEUE
      then do {
        (eo, w1) \<leftarrow> px_open P qf (s_mm1_queuedir (px_settings P)) w;
        case eo of
          None \<Rightarrow> Some (nf, w1)
        | Some e \<Rightarrow> map_option (\<lambda>w2. (good, w2)) (close_env P (e\<lparr>e_to := map (\<lambda>t. t\<lparr>process := False\<rparr>) (e_to e)\<rparr>) w1) }
      else if loc = MMS_LOC_MMBOX
      then map_option (\<lambda>(r, w1). (if r = 0 then good else nf, w1))
             (mx_del (px_mbox P) (s_mmbox_rootdir (px_settings P)) user qf w)
      else Some (nf, w))"

fun delete_each ::
  "gwlib \<Rightarrow> ('s, 'c, 'p) proxy \<Rightarrow> octstr \<Rightarrow> nat \<Rightarrow> octstr list \<Rightarrow> 's \<Rightarrow> ((octstr list \<times> octstr list) \<times> 's) option" where
  "delete_each G P user i [] w = Some (([], []), w)"
| "delete_each G P user i (url # urls) w = do {
     (rs, w1) \<leftarrow> delete_one G P user i url w;
     ((cls, rss), w2) \<leftarrow> delete_each G P user (i + 1) urls w1;
     Some (((show_nat i @ url) # cls, rs # rss), w2) }"

definition handle_mbox_delete ::
  "gwlib \<Rightarrow> ('s, 'c, 'p) proxy \<Rightarrow> MmsHTTPClientInfo \<Rightarrow> MmsMsg \<Rightarrow> 's \<Rightarrow> (MmsMsg \<times> 's) option" where
  "handle_mbox_delete G P h m w =
     (let r = mms_deleteconf (show_octstr (mms_get_header_value G m ''X-Mms-Transaction-ID'')) in
      case hi_client_addr h of
        None \<Rightarrow> Some (mms_replace_header_value G r ''X-Mms-Response-Status'' ''0Error-permanent-sending-address-unresolved'', w)
      | Some user \<Rightarrow>
          map_option (\<lambda>((cls, rss), w').
              (mms_replace_header_values G (mms_replace_header_values G r ''X-Mms-Content-Location'' cls) ''X-Mms-Response-Status'' rss, w'))
            (delete_each G P user 0 (mms_get_header_values G m ''X-Mms-Content-Location'') w))"

section \<open>Views of a mailbox\<close>

definition count_param :: "gwlib \<Rightarrow> ('s, 'c, 'p) proxy \<Rightarrow> MmsMsg \<Rightarrow> octstr \<Rightarrow> int \<Rightarrow> int" where
  "count_param G P m name dflt =
     (case mms_get_header_value G m name of Some x \<Rightarrow> leading_count x (px_unset P) | None \<Rightarrow> dflt)"

definition show_int32 :: "int \<Rightarrow> string" where
  "show_int32 n = show_int (sint (word_of_int n :: 32 word))"

text \<open>The totals and quotas that are asked for.\<close>

definition totals_headers ::
  "gwlib \<Rightarrow> ('s, 'c, 'p) proxy \<Rightarrow> octstr \<Rightarrow> MmsMsg \<Rightarrow> 's \<Rightarrow> (headers \<times> 's) option" where
  "totals_headers G P user m w =
     (let quotas = (if yes_value G (mms_get_header_value G m ''X-Mms-Quotas'')
                    then [(''X-Mms-Mbox-Quotas'', show_int USER_MMBOX_DATA_QUOTA @ '' bytes'')] else []) in
      if yes_value G (mms_get_header_value G m ''X-Mms-Totals'')
      then map_option (\<lambda>(r, w1).
             let (msgs, bytes) = (case r of Some (n, b) \<Rightarrow> (int n, b) | None \<Rightarrow> (0, 0))
             in ([(''X-Mms-Mbox-Totals'', show_int32 bytes @ '' bytes''), (''X-Mms-Mbox-Totals'', show_int32 msgs @ '' msgs'')] @ quotas, w1))
             (mx_count (px_mbox P) (s_mmbox_rootdir (px_settings P)) user w)
      else Some (quotas, w))"

text \<open>The references of the messages that are looked for with their locations. The lists of states, flags and
  locations exist, and are empty when the request has none.\<close>

definition view_search ::
  "gwlib \<Rightarrow> ('s, 'c, 'p) proxy \<Rightarrow> octstr \<Rightarrow> MmsMsg \<Rightarrow> int \<Rightarrow> int \<Rightarrow> 's \<Rightarrow> ((octstr \<times> octstr) list option \<times> 's) option" where
  "view_search G P user m start limit w =
     map_option (\<lambda>(r, w'). (map_option (map (\<lambda>sdf. (sdf, mms_makefetchurl G sdf None MMS_LOC_MMBOX (Some user) (px_settings P)))) r, w'))
       (mx_search (px_mbox P) (s_mmbox_rootdir (px_settings P)) user
          (Some (mms_get_header_values G m ''X-Mms-MM-State'')) (Some (mms_get_header_values G m ''X-Mms-MM-Flags'')) start limit
          (Some (map (\<lambda>u. fst (mms_decodefetchurl G u)) (mms_get_header_values G m ''X-Mms-Content-Location''))) w)"

definition stored_message ::
  "('s, 'c, 'p) proxy \<Rightarrow> octstr \<Rightarrow> octstr \<Rightarrow> 's \<Rightarrow> ((MmsMsg \<times> nat) option \<times> 's) option" where
  "stored_message P user ref w =
     map_option (\<lambda>((mo, n), w'). (map_option (\<lambda>m. (m, case n of Some k \<Rightarrow> k | None \<Rightarrow> nat (px_unset P))) mo, w'))
       (mx_get (px_mbox P) (s_mmbox_rootdir (px_settings P)) user ref w)"

definition handle_mbox_view ::
  "gwlib \<Rightarrow> ('s, 'c, 'p) proxy \<Rightarrow> MmsHTTPClientInfo \<Rightarrow> MmsMsg \<Rightarrow> 's \<Rightarrow> (MmsMsg \<times> 's) option" where
  "handle_mbox_view G P h m w =
     (let answer = (\<lambda>refs err size other w'.
            mms_viewconf G (show_octstr (mms_get_header_value G m ''X-Mms-Transaction-ID'')) refs (Some err)
              (mms_get_header_values G m ''X-Mms-Attributes'') (stored_message P (show_octstr (hi_client_addr h))) size other w') in
      case hi_client_addr h of
        None \<Rightarrow> answer None ''Error-permanent-sending-address-unresolved'' MAX_MESSAGE_SIZE [] w
      | Some user \<Rightarrow> do {
          (other, w1) \<leftarrow> totals_headers G P user m w;
          let (prof, w2) = (case hi_profile_url h of Some u \<Rightarrow> px_get_profile P u w1 | None \<Rightarrow> (None, w1));
          case prof of
            None \<Rightarrow> answer None ''Error-transient-network-problem'' MAX_MESSAGE_SIZE other w2
          | Some p \<Rightarrow> do {
              (refs, w3) \<leftarrow> view_search G P user m (count_param G P m ''X-Mms-Start'' 0)
                              (count_param G P m ''X-Mms-Limit'' USER_MMBOX_MSG_QUOTA) w2;
              answer refs ''Ok'' (px_maxmsgsize P p) other w3 } })"

section \<open>Requests of handsets\<close>

definition unexpected_type :: "int \<Rightarrow> octstr" where
  "unexpected_type mtype =
     ''Unexpected MMS message type '' @ show_octstr (mms_message_type_to_cstr mtype) @ '' ['' @ show_int mtype @ '']''"

text \<open>The reply to a message and the event for the provisioning server.\<close>

definition mms_answer ::
  "gwlib \<Rightarrow> octstr \<Rightarrow> (MmsMsg \<times> 's) option \<Rightarrow> ((reply \<times> octstr option) \<times> 's) option" where
  "mms_answer G event r = do { (m, w) \<leftarrow> r; (s, _) \<leftarrow> mms_tobinary G m; Some ((mms_reply s, Some event), w) }"

definition received_answer :: "'s option \<Rightarrow> ((reply \<times> octstr option) \<times> 's) option" where
  "received_answer r = map_option (\<lambda>w. ((text_reply 200 ''Received'', Some ''fetched''), w)) r"

definition handle_message ::
  "gwlib \<Rightarrow> ('s, 'c, 'p) proxy \<Rightarrow> MmsHTTPClientInfo \<Rightarrow> MmsMsg \<Rightarrow> int \<Rightarrow> headers \<Rightarrow> 's \<Rightarrow> ((reply \<times> octstr option) \<times> 's) option" where
  "handle_message G P h m msize qh w =
     (let mtype = m_message_type m in
      if mtype = MMS_MSGTYPE_SEND_REQ then mms_answer G ''sent'' (handle_send_req G P h m msize qh w)
      else if mtype = MMS_MSGTYPE_FORWARD_REQ then mms_answer G ''fetched'' (handle_forward_req G P h m qh w)
      else if mtype = MMS_MSGTYPE_NOTIFYRESP \<or> mtype = MMS_MSGTYPE_ACKNOWLEDGE_IND
      then received_answer (handle_notifyresp G P h mtype m msize qh w)
      else if mtype = MMS_MSGTYPE_READ_REC_IND then received_answer (handle_read_rec G P h m msize qh w)
      else if mtype = MMS_MSGTYPE_MBOX_STORE_REQ then mms_answer G ''stored'' (handle_mbox_store G P h m msize w)
      else if mtype = MMS_MSGTYPE_MBOX_UPLOAD_REQ then mms_answer G ''uploaded'' (handle_mbox_upload G P h m msize w)
      else if mtype = MMS_MSGTYPE_MBOX_DELETE_REQ then mms_answer G ''deleted'' (handle_mbox_delete G P h m w)
      else if mtype = MMS_MSGTYPE_MBOX_VIEW_REQ then mms_answer G ''deleted'' (handle_mbox_view G P h m w)
      else Some ((text_reply 403 (unexpected_type mtype), None), w))"

text \<open>The message of a request; its sender is the handset.\<close>

definition decode_request ::
  "gwlib \<Rightarrow> ('s, 'c, 'p) proxy \<Rightarrow> MmsHTTPClientInfo \<Rightarrow> octstr \<Rightarrow> 's \<Rightarrow> (MmsMsg option \<times> 's) option" where
  "decode_request G P h body w =
     (let (t, w1) = x_time (px_env P) w in
      map_option (\<lambda>mo. (mo, w1))
        (mms_frombinary_ex G
           ((px_dec P)\<lparr>de_unified_prefix := Some (s_unified_prefix (px_settings P)), de_strip_prefixes := s_strip_prefixes (px_settings P),
                       de_from := Some (case hi_client_addr h of Some a \<Rightarrow> a | None \<Rightarrow> ''anon@anon''), de_now := t\<rparr>) body))"

definition sendmms_proxy :: "gwlib \<Rightarrow> ('s, 'c, 'p) proxy \<Rightarrow> MmsHTTPClientInfo \<Rightarrow> 's \<Rightarrow> (reply \<times> 's) option" where
  "sendmms_proxy G P h w0 = do {
     w1 \<leftarrow> mm5_update P h w0;
     case hi_body h of
       None \<Rightarrow>
         Some ((400, no_cache @ [(''Content-Type'', ''text/plain''), (''Content-Type'', ''application/vnd.wap.mms-message'')],
                ''Unexpected MMS message[0: '' @ show_octstr (mms_message_type_to_cstr 0) @ ''], no body?''), w1)
     | Some body \<Rightarrow> do {
         (mo, w2) \<leftarrow> decode_request G P h body w1;
         case mo of
           None \<Rightarrow> Some (text_reply 400 ''Malformed MMS message'', w2)
         | Some m \<Rightarrow>
             let (t, w3) = x_time (px_env P) w2 in do {
               ((r, event), w4) \<leftarrow> handle_message G P h m (int (length body)) (handset_headers h t) w3;
               case event of
                 None \<Rightarrow> Some (r, w4)
               | Some ev \<Rightarrow> map_option (\<lambda>w5. (r, w5)) (inform_server G P h ev [] None w4) } } }"

text \<open>A request at the port for handsets: one from an address that is not allowed is closed without a reply.\<close>

definition mm1_request ::
  "gwlib \<Rightarrow> ('s, 'c, 'p) proxy \<Rightarrow> octstr \<Rightarrow> octstr \<Rightarrow> headers \<Rightarrow> octstr option \<Rightarrow> 's \<Rightarrow> (reply option \<times> 's) option" where
  "mm1_request G P ip url hdrs body w =
     (let S = px_settings P; h = client_info G S ip url hdrs body in
      if \<not> px_allowed_ip P (s_allow_ip S) (s_deny_ip S) ip then Some (None, w)
      else map_option (\<lambda>(r, w'). (Some r, w'))
             (if body = None \<or> body = Some [] then fetchmms_proxy G P h w else sendmms_proxy G P h w))"

end
