(* ===== verification/ProxyFacts.thy ===== *)
theory ProxyFacts
  imports MmsProxy MboxFacts DecodeFacts
begin

text \<open>
  What handsets can do through the proxy of \<open>MmsProxy\<close>: how messages are fetched and settled, how submissions are
  answered, what a request to delete or view does, and what is refused to a handset whose address is not known.
\<close>

section \<open>Fetching\<close>

lemmas request_defs = find_message_def inform_server_def fetch_log_def free_env_def mm5_update_def handset_headers_def
  queue_delivery_report_def report_for_def

lemma url_fields:
  "hi_ua (h\<lparr>hi_url := u\<rparr>) = hi_ua h" "hi_profile_url (h\<lparr>hi_url := u\<rparr>) = hi_profile_url h"
  "hi_client_addr (h\<lparr>hi_url := u\<rparr>) = hi_client_addr h" "hi_base_client_addr (h\<lparr>hi_url := u\<rparr>) = hi_base_client_addr h"
  "hi_headers (h\<lparr>hi_url := u\<rparr>) = hi_headers h" "hi_url (h\<lparr>hi_url := u\<rparr>) = u"
  by simp_all

lemma url_not_used:
  "fetch_failed G P (h\<lparr>hi_url := u\<rparr>) = fetch_failed G P h" "adapt_message G P (h\<lparr>hi_url := u\<rparr>) = adapt_message G P h"
  "deliver_fetched G P (h\<lparr>hi_url := u\<rparr>) = deliver_fetched G P h"
  by (intro ext; unfold fetch_failed_def adapt_message_def deliver_fetched_def report_fetched_def request_defs url_fields; (rule refl)?)+

text \<open>What a handset gets, and what happens to the message, does not depend on the token that ends the URL:
  whoever knows the name in the queue can fetch the message.\<close>

theorem fetch_ignores_token:
  assumes "mms_decodefetchurl G u = (qf, token, loc)" and "mms_decodefetchurl G u' = (qf, token', loc)"
  shows "fetchmms_proxy G P (h\<lparr>hi_url := u\<rparr>) w = fetchmms_proxy G P (h\<lparr>hi_url := u'\<rparr>) w"
  unfolding fetchmms_proxy_def find_message_def mm5_update_def url_not_used url_fields using assms by simp

context queue_module
begin

lemma mark_fetched_pending:
  assumes P: "px_q P = Q" and p: "\<exists>t \<in> set (e_to e). process t" and x: "0 < e_expiryt e"
  shows "\<exists>e' w'. mark_fetched P e w = Some (e', w') \<and> e_to e' = e_to e \<and> e_expiryt e' = e_expiryt e \<and>
    e_sendt e' = e_expiryt e + 604800 \<and> e_dlr e' = e_dlr e \<and> e_from e' = e_from e"
proof -
  obtain t w1 where time: "x_time (px_env P) w = (t, w1)" by force
  let ?e = "e\<lparr>e_lastaccess := t, e_sendt := e_expiryt e + 3600 * 24 * 7\<rparr>"
  have "\<exists>t \<in> set (e_to ?e). process t" using p by simp
  then obtain r e' s' where "qfs_update Q ?e w1 = (r, Some e', s')" "r \<noteq> 1" "same_message ?e e'"
    by (rule update_pending_cases)
  with time P x show ?thesis by (auto simp: mark_fetched_def same_message_def)
qed

lemma close_settled:
  assumes "px_q P = Q" and "\<forall>t \<in> set (e_to e). \<not> process t"
  obtains w' where "qfs_update Q e w = (1, None, w')" and "close_env P e w = Some w'"
  using assms update_settled [of e w] by (auto simp: close_env_def)

lemma close_pending:
  assumes "px_q P = Q" and "\<exists>t \<in> set (e_to e). process t"
  obtains r e' w1 where "qfs_update Q e w = (r, Some e', w1)" and "same_message e e'"
    and "close_env P e w = Some (qfs_free_env Q e' w1)"
proof -
  obtain r e' s' where "qfs_update Q e w = (r, Some e', s')" "r \<noteq> 1" "same_message e e'"
    by (rule update_pending_cases [OF assms(2)])
  with assms(1) that show thesis by (auto simp: close_env_def)
qed

end

section \<open>Deleting\<close>

text \<open>Any handset can take a message of the queue away from its recipients: a request to delete a URL of the
  queue is carried out whoever sends it. All recipients are settled and the message leaves the queue.\<close>

theorem delete_by_anyone:
  assumes "px_q P = file_qfs G' fb" and "mms_decodefetchurl G url = (qf, token, MMS_LOC_MQUEUE)"
    and "px_open P qf (s_mm1_queuedir (px_settings P)) w = Some (Some e, w1)"
  shows "\<exists>w2. delete_one G P user i url w = Some (show_nat i @ ''Ok'', w2) \<and>
    qfs_update (px_q P) (e\<lparr>e_to := map (\<lambda>t. t\<lparr>process := False\<rparr>) (e_to e)\<rparr>) w1 = (1, None, w2)"
proof -
  let ?e = "e\<lparr>e_to := map (\<lambda>t. t\<lparr>process := False\<rparr>) (e_to e)\<rparr>"
  have "\<forall>t \<in> set (e_to ?e). \<not> process t" by auto
  then obtain w2 where "qfs_update (file_qfs G' fb) ?e w1 = (1, None, w2)" "close_env P ?e w1 = Some w2"
    by (rule file_module.close_settled [OF assms(1)])
  then show ?thesis
    using assms by (simp add: delete_one_def Let_def)
qed

section \<open>Views\<close>

lemma search_spec_no_filter: "search_spec G (Some []) (Some []) (Some []) start limit l = []"
  by (simp add: search_spec_def entry_matches_def string_in_list_def make_mm_flags_def)

text \<open>C36: A view of the mailbox for which no state, flag and location is named finds no message, whatever the
  mailbox holds: the search takes the empty lists for filters.\<close>

theorem view_finds_nothing:
  assumes G: "gwlib_api G" and P: "px_mbox P = file_mbox G fb"
    and m: "\<forall>n \<in> {''X-Mms-MM-State'', ''X-Mms-MM-Flags'', ''X-Mms-Content-Location''}. mms_get_header_value G m n = None"
    and mb: "mailbox_ok (s_mmbox_rootdir (px_settings P)) user mb os"
  shows "\<exists>os'. view_search G P user m start limit (ect, os) = Some (Some [], (ect, os')) \<and>
    mailbox_ok (s_mmbox_rootdir (px_settings P)) user mb os'"
proof -
  have none: "mms_get_header_values G m n = []" if "mms_get_header_value G m n = None" for n
    using that by (auto simp: mms_get_header_values_def mms_get_header_value_def gwlib_api.gwlib_simps [OF G]
        header_value_def find_None_iff filter_empty_conv)
  from search_ok [OF G mb, of "Some []" "Some []" start limit "Some []"] obtain os' where
    "mms_mmbox_search G (s_mmbox_rootdir (px_settings P)) user (Some []) (Some []) start limit (Some []) os = Some (Some [], os')"
    and "mailbox_ok (s_mmbox_rootdir (px_settings P)) user mb os'"
    unfolding search_spec_no_filter by blast
  then show ?thesis
    using m none by (simp add: view_search_def P file_mbox_def)
qed

section \<open>Handsets that are not known\<close>

text \<open>C29: A handset whose address is not known can neither send nor forward, nor store, delete or see messages of a
  mailbox: each of these requests is answered with an error and changes nothing, but that the clock is read.\<close>

theorem unidentified_refused:
  assumes "hi_client_addr h = None"
  shows "(\<exists>r. handle_send_req G P h m msize qh w = Some (r, snd (x_time (px_env P) w)) \<and>
      (''X-Mms-Response-Status'', ''Error-sending-address-unresolved'') \<in> set (m_headers r)) \<and>
    (\<exists>r. handle_forward_req G P h m qh w = Some (r, snd (x_time (px_env P) w)) \<and>
      (''X-Mms-Response-Status'', ''Error-sending-address-unresolved'') \<in> set (m_headers r)) \<and>
    (\<exists>r. handle_mbox_store G P h m msize w = Some (r, w) \<and> (''X-Mms-Store-Status'', ''Error-service-denied'') \<in> set (m_headers r)) \<and>
    (\<exists>r. handle_mbox_upload G P h m msize w = Some (r, w) \<and> (''X-Mms-Store-Status'', ''Error-service-denied'') \<in> set (m_headers r)) \<and>
    (\<exists>r. handle_mbox_delete G P h m w = Some (r, w) \<and>
      (''X-Mms-Response-Status'', ''0Error-permanent-sending-address-unresolved'') \<in> set (m_headers r)) \<and>
    (\<exists>r. handle_mbox_view G P h m w = Some (r, w) \<and>
      (''X-Mms-Response-Status'', ''Error-permanent-sending-address-unresolved'') \<in> set (m_headers r))"
  by (intro conjI) (use assms in \<open>auto simp: handle_send_req_def handle_forward_req_def handle_mbox_store_def
      handle_mbox_upload_def handle_mbox_delete_def handle_mbox_view_def mms_viewconf_def mms_sendconf_def mms_storeconf_def
      mms_replace_header_value_def Let_def ci_def split: prod.splits\<close>)

section \<open>Answers to notifications\<close>

lemma drop_first_fields:
  "e_dlr (drop_first e) = e_dlr e" "e_from (drop_first e) = e_from e" "e_msgId (drop_first e) = e_msgId e"
  by (simp_all add: drop_first_def split: list.split)

lemma settle_answer_cases:
  assumes "settle_answer G P h (Some s) allow qh e w = Some (e1, w3)"
  obtains w2 where "if (allow = None \<or> yes_value G allow) \<and> e_dlr e
        then \<exists>t. queue_delivery_report G P h (report_for G P h e s t) (e_from e) qh w2 = Some w3 else w3 = w2"
    and "if gw_compare G s ''Retrieved'' = 0 then e1 = drop_first e else \<exists>t. e1 = e\<lparr>e_lastaccess := t\<rparr>"
proof -
  define p where "p = (if gw_compare G s ''Retrieved'' = 0 then (drop_first e, w)
    else let (t, w') = x_time (px_env P) w in (e\<lparr>e_lastaccess := t\<rparr>, w'))"
  obtain e2 w1 where p: "p = (e2, w1)" by force
  have e2: "if gw_compare G s ''Retrieved'' = 0 then e2 = drop_first e else \<exists>t. e2 = e\<lparr>e_lastaccess := t\<rparr>"
    using p unfolding p_def by (auto split: if_splits prod.splits)
  have "settle_answer G P h (Some s) allow qh e w =
      (if (allow = None \<or> yes_value G allow) \<and> e_dlr e2
       then let (t, w2) = x_time (px_env P) w1 in map_option (\<lambda>w3. (e2, w3))
         (queue_delivery_report G P h (report_for G P h e2 s t) (e_from e2) qh w2)
       else Some (e2, w1))"
    using p [unfolded p_def] by (simp add: settle_answer_def says_retrieved_def show_octstr_def)
  with assms have r: "(if (allow = None \<or> yes_value G allow) \<and> e_dlr e2
       then let (t, w2) = x_time (px_env P) w1 in map_option (\<lambda>w3. (e2, w3))
         (queue_delivery_report G P h (report_for G P h e2 s t) (e_from e2) qh w2)
       else Some (e2, w1)) = Some (e1, w3)" by simp
  then have e1: "e1 = e2" by (auto split: if_splits prod.splits)
  note r = r [folded e1] and e1 = e2 [folded e1]
  have f: "e_dlr e1 = e_dlr e" "e_from e1 = e_from e" "report_for G P h e1 s t = report_for G P h e s t" for t
    using e1 by (auto simp: report_for_def drop_first_fields split: if_splits)
  show thesis
    by (rule that [OF _ e1, of "if (allow = None \<or> yes_value G allow) \<and> e_dlr e then snd (x_time (px_env P) w1) else w1"])
      (use r f in \<open>auto split: if_splits prod.splits\<close>)
qed

text \<open>C22: The answer of a handset to a notification, with the transaction identifier of the message: the sender gets a
  delivery report when he asked for one and the handset allows it. A message that was retrieved leaves the queue; with any
  other status it stays with its recipient, but is noted as touched.\<close>

theorem answer_settles:
  assumes Q: "px_q P = file_qfs G' fb" and x: "e_to e = [x]" "process x"
    and e: "px_open P (show_octstr (mms_getqf_fromtransid (mms_get_header_value G m ''X-Mms-Transaction-ID'')))
      (s_mm1_queuedir (px_settings P)) w = Some (Some e, w1)"
    and s: "(if mtype = MMS_MSGTYPE_NOTIFYRESP then mms_get_header_value G m ''X-Mms-Status'' else Some ''Retrieved'') = Some s"
    and r: "handle_notifyresp G P h mtype m msize qh w = Some w'"
  shows "\<exists>w2 w3 w4.
    (let allow = mms_get_header_value G m ''X-Mms-Report-Allowed'' in
     if (allow = None \<or> yes_value G allow) \<and> e_dlr e
     then \<exists>t. queue_delivery_report G P h (report_for G P h e s t) (e_from e) qh w2 = Some w3 else w3 = w2) \<and>
    w4 = mms_log2 G (px_env P) ''NotifyResp'' (hi_client_addr h) None msize (mms_get_header_value G m ''X-Mms-Transaction-ID'')
           (Some s) None ''MM1'' (hi_ua h) None w3 \<and>
    (if gw_compare G s ''Retrieved'' = 0 then qfs_update (px_q P) (drop_first e) w4 = (1, None, w')
     else \<exists>t n e' w5. qfs_update (px_q P) (e\<lparr>e_lastaccess := t\<rparr>) w4 = (n, Some e', w5) \<and> e_to e' = e_to e \<and>
       w' = qfs_free_env (px_q P) e' w5)"
proof -
  let ?allow = "mms_get_header_value G m ''X-Mms-Report-Allowed''"
    and ?log = "mms_log2 G (px_env P) ''NotifyResp'' (hi_client_addr h) None msize (mms_get_header_value G m ''X-Mms-Transaction-ID'')
           (Some s) None ''MM1'' (hi_ua h) None"
  obtain e1 w3 where st: "settle_answer G P h (Some s) ?allow qh e w1 = Some (e1, w3)" and c: "close_env P e1 (?log w3) = Some w'"
    using r e s by (auto simp: handle_notifyresp_def Let_def split: bind_splits)
  obtain w2 where rep: "if (?allow = None \<or> yes_value G ?allow) \<and> e_dlr e
        then \<exists>t. queue_delivery_report G P h (report_for G P h e s t) (e_from e) qh w2 = Some w3 else w3 = w2"
    and e1: "if gw_compare G s ''Retrieved'' = 0 then e1 = drop_first e else \<exists>t. e1 = e\<lparr>e_lastaccess := t\<rparr>"
    by (rule settle_answer_cases [OF st])
  have "if gw_compare G s ''Retrieved'' = 0 then qfs_update (px_q P) (drop_first e) (?log w3) = (1, None, w')
     else \<exists>t n e' w5. qfs_update (px_q P) (e\<lparr>e_lastaccess := t\<rparr>) (?log w3) = (n, Some e', w5) \<and> e_to e' = e_to e \<and>
       w' = qfs_free_env (px_q P) e' w5"
  proof (cases "gw_compare G s ''Retrieved'' = 0")
    case True
    then have "\<forall>t \<in> set (e_to e1). \<not> process t" using e1 x by (simp add: drop_first_to)
    then obtain w2 where "qfs_update (file_qfs G' fb) e1 (?log w3) = (1, None, w2)" "close_env P e1 (?log w3) = Some w2"
      by (rule file_module.close_settled [OF Q])
    with c e1 True Q show ?thesis by simp
  next
    case False
    then obtain t where t: "e1 = e\<lparr>e_lastaccess := t\<rparr>" using e1 by auto
    then have "\<exists>t \<in> set (e_to e1). process t" using x by simp
    then obtain n e' w5 where "qfs_update (file_qfs G' fb) e1 (?log w3) = (n, Some e', w5)" "same_message e1 e'"
        "close_env P e1 (?log w3) = Some (qfs_free_env (file_qfs G' fb) e' w5)"
      by (rule file_module.close_pending [OF Q])
    moreover from this(2) t have "e_to e' = e_to e" by (auto simp: same_message_def)
    ultimately have "qfs_update (px_q P) (e\<lparr>e_lastaccess := t\<rparr>) (?log w3) = (n, Some e', w5) \<and> e_to e' = e_to e \<and>
       w' = qfs_free_env (px_q P) e' w5" using c t Q by simp
    then show ?thesis unfolding if_not_P [OF False] by blast
  qed
  with rep show ?thesis unfolding Let_def by blast
qed


section \<open>Submissions\<close>

definition submission_hidden :: "octstr list" where
  "submission_hidden = [''Bcc'', ''X-Mms-Delivery-Time'', ''X-Mms-Expiry'', ''X-Mms-Sender-Visibility'', ''X-Mms-MM-Flags'', ''X-Mms-MM-State'']"

lemma header_value_replaced:
  assumes G: "gwlib_api G"
  shows "mms_get_header_value G (mms_replace_header_value G m n v) n' =
    (if ci n' = ci n then Some v else mms_get_header_value G m n')"
proof (cases "ci n' = ci n")
  case True
  have "header_named n' = header_named n" using True by (simp add: fun_eq_iff header_named_def)
  then show ?thesis
    using gwlib_api.header_value_append_new [OF G gwlib_api.header_value_after_remove [OF G] refl, of "m_headers m" n v]
    by (simp add: True mms_get_header_value_def mms_replace_header_value_def gwlib_api.header_value [OF G] header_value_def)
next
  case False
  then show ?thesis
    using gwlib_api.header_value_remove_other [OF G False] gwlib_api.header_value_append_other [OF G False]
    by (simp add: mms_get_header_value_def mms_replace_header_value_def)
qed

lemma find_filter_other: "ci n' \<noteq> ci n \<Longrightarrow>
    List.find (header_named n') (filter (\<lambda>h. ci (fst h) \<noteq> ci n) hs) = List.find (header_named n') hs"
  by (induction hs) (auto simp: header_named_def)

lemma header_value_removed:
  assumes G: "gwlib_api G"
  shows "mms_get_header_value G (mms_remove_headers G m n) n' = (if ci n' = ci n then None else mms_get_header_value G m n')"
  by (auto simp: mms_get_header_value_def mms_remove_headers_def gwlib_api.gwlib_simps [OF G] header_value_def header_remove_all_def
      header_named_def find_filter_other find_None_iff)

lemma headers_removed:
  assumes G: "gwlib_api G" and "n \<in> set ns"
  shows "mms_get_header_value G (fold (\<lambda>n x. mms_remove_headers G x n) ns m) n = None"
  using assms(2) by (induction ns rule: rev_induct) (auto simp: header_value_removed [OF G])

lemma with_stored_value:
  assumes G: "gwlib_api G" and "ci n \<noteq> ci ''X-Mms-Store-Status''" and "ci n \<noteq> ci ''X-Mms-Content-Location''"
  shows "mms_get_header_value G (with_stored G st m) n = mms_get_header_value G m n"
  using assms(2,3) by (auto simp: with_stored_def header_value_replaced [OF G] Let_def split: option.split)

lemma sendconf_values:
  assumes G: "gwlib_api G"
  shows "mms_get_header_value G (mms_sendconf err (Some i) transid fw menc) ''X-Mms-Transaction-ID'' = Some transid"
    and "mms_get_header_value G (mms_sendconf err (Some i) transid fw menc) ''X-Mms-Response-Status'' = Some err"
    and "mms_get_header_value G (mms_sendconf err (Some i) transid fw menc) ''Message-ID'' = Some i"
  by (simp_all add: mms_get_header_value_def mms_sendconf_def gwlib_api.gwlib_simps [OF G] header_value_def header_named_def ci_def)

lemma bind_answer:
  "Option.bind A (\<lambda>(st, m, w). Option.bind (F m w) (\<lambda>(q, w'). Some (H st q w'))) = Some R \<Longrightarrow>
    \<exists>st m w q w'. F m w = Some (q, w') \<and> R = H st q w'"
  by (clarsimp simp: bind_eq_Some_conv) blast

text \<open>C21: Every submission of a known handset is put into the queue for its own sender, with all recipients, without the
  headers that are not for them and to expire within the configured time; the answer has the transaction identifier of the
  request, and it is \<open>Ok\<close> exactly when the queue took the message, whose queue name the message identifier then leads
  back to.\<close>

theorem submission_answered:
  assumes G: "gwlib_api G" and c: "hi_client_addr h = Some sender"
    and host: "s_host_alias (px_settings P) = Some host"
    and s: "handle_send_req G P h m msize qh w = Some (r, w')"
  shows "\<exists>d a m' w1 qf w2. d = env_of_headers G P (fst (x_time (px_env P) w)) (m_headers m) \<and>
    qfs_add (px_q P) a m' (s_global_queuedir (px_settings P)) w1 = Some (qf, w2) \<and>
    a_from a = Some sender \<and> a_to a = ed_to d \<and> a_hdrs a = qh \<and>
    (0 < s_max_msgexpiry (px_settings P) \<longrightarrow>
       a_expirydate a \<le> fst (x_time (px_env P) w) + s_max_msgexpiry (px_settings P)) \<and>
    (\<forall>n \<in> set submission_hidden. mms_get_header_value G m' n = None) \<and>
    mms_get_header_value G r ''X-Mms-Transaction-ID'' = Some (show_octstr (mms_get_header_value G m ''X-Mms-Transaction-ID'')) \<and>
    (case qf of
       None \<Rightarrow> mms_get_header_value G r ''X-Mms-Response-Status'' = Some ''Error-transient-failure''
     | Some q \<Rightarrow> mms_get_header_value G r ''X-Mms-Response-Status'' = Some ''Ok'' \<and>
         (q \<noteq> [] \<and> CHR ''@'' \<notin> set q \<longrightarrow> mms_getqf_from_msgid (mms_get_header_value G r ''Message-ID'') = Some q))"
proof -
  obtain tnow w1 where time: "x_time (px_env P) w = (tnow, w1)" by force
  let ?d = "env_of_headers G P tnow (m_headers m)" and ?tid = "show_octstr (mms_get_header_value G m ''X-Mms-Transaction-ID'')"
    and ?dlr = "yes_value G (gw_header_value G (m_headers m) ''X-Mms-Delivery-Report'')"
  have tid: "show_octstr (ed_transid ?d) = ?tid"
    by (simp add: env_of_headers_def mms_collect_envdata_from_msgheaders_def mms_get_header_value_def Let_def)
  have exp: "0 < s_max_msgexpiry (px_settings P) \<longrightarrow> ed_expiry ?d \<le> tnow + s_max_msgexpiry (px_settings P)"
    by (simp add: env_of_headers_def mms_collect_envdata_from_msgheaders_def Let_def)
  obtain st m2 w2 qf w3 where
    q: "qfs_add (px_q P) (submission_args P sender ?d ?dlr qh) (fold (\<lambda>n x. mms_remove_headers G x n) submission_hidden m2)
          (s_global_queuedir (px_settings P)) w2 = Some (qf, w3)"
    and r: "(r, w') = queue_answer G P h ''Received'' False ?tid (msg_enc P m) (ed_to ?d) msize st qf w3"
    using bind_answer [OF s [unfolded handle_send_req_def time Let_def prod.case c option.case tid submission_hidden_def [symmetric]]]
    by blast
  have msgid: "mms_getqf_from_msgid (Some (msgid_of P q)) = Some q" if "q \<noteq> []" "CHR ''@'' \<notin> set q" for q
    using getqf_before_at [OF that(2,1), of host] host by (simp add: msgid_of_def mms_make_msgid_def)
  note val = with_stored_value [OF G] sendconf_values [OF G] ci_def
  have "mms_get_header_value G r ''X-Mms-Transaction-ID'' = Some ?tid \<and>
    (case qf of
       None \<Rightarrow> mms_get_header_value G r ''X-Mms-Response-Status'' = Some ''Error-transient-failure''
     | Some q \<Rightarrow> mms_get_header_value G r ''X-Mms-Response-Status'' = Some ''Ok'' \<and>
         (q \<noteq> [] \<and> CHR ''@'' \<notin> set q \<longrightarrow> mms_getqf_from_msgid (mms_get_header_value G r ''Message-ID'') = Some q))"
    using r msgid by (auto simp: queue_answer_def val split: option.splits)
  then show ?thesis
    using q exp headers_removed [OF G] time
    by (intro exI [of _ ?d] exI [of _ "submission_args P sender ?d ?dlr qh"]
        exI [of _ "fold (\<lambda>n x. mms_remove_headers G x n) submission_hidden m2"] exI [of _ w2] exI [of _ qf] exI [of _ w3])
      (simp add: submission_args_def mm1_args_def)
qed

section \<open>Answers to deletions\<close>

lemma delete_one_answer:
  "delete_one G P user i url w = Some (s, w') \<Longrightarrow> s \<in> {show_nat i @ ''Ok'', show_nat i @ ''Error-permanent-message-not-found''}"
  by (auto simp: delete_one_def Let_def split: prod.splits if_splits bind_splits option.splits)

lemma delete_each_answers:
  "delete_each G P user i urls w = Some ((cls, rss), w') \<Longrightarrow>
    cls = map (\<lambda>j. show_nat (i + j) @ urls ! j) [0..<length urls] \<and> length rss = length urls \<and>
    (\<forall>j < length urls. rss ! j \<in> {show_nat (i + j) @ ''Ok'', show_nat (i + j) @ ''Error-permanent-message-not-found''})"
proof (induction urls arbitrary: i w cls rss)
  case (Cons url urls)
  then obtain s w1 cls' rss' where one: "delete_one G P user i url w = Some (s, w1)"
    and rest: "delete_each G P user (i + 1) urls w1 = Some ((cls', rss'), w')"
    and r: "cls = (show_nat i @ url) # cls'" "rss = s # rss'"
    by (auto split: bind_splits)
  have "cls = map (\<lambda>j. show_nat (i + j) @ (url # urls) ! j) [0..<length (url # urls)]"
    using Cons.IH [OF rest] r(1) by (simp add: map_upt_Suc del: upt_Suc)
  moreover have "\<forall>j < length (url # urls). rss ! j \<in>
      {show_nat (i + j) @ ''Ok'', show_nat (i + j) @ ''Error-permanent-message-not-found''}"
    using Cons.IH [OF rest] delete_one_answer [OF one] r(2) by (auto simp: nth_Cons split: nat.split)
  ultimately show ?case using Cons.IH [OF rest] r(2) by simp
qed simp

lemma header_values_replaced:
  assumes G: "gwlib_api G"
  shows "mms_get_header_values G (mms_replace_header_values G m n vs) n' =
    (if ci n' = ci n then vs else mms_get_header_values G m n')"
proof -
  have "filter (\<lambda>x. ci (fst x) \<noteq> ci n \<and> ci (fst x) = ci n') hs = filter (header_named n') hs" if "ci n' \<noteq> ci n" for hs :: headers
    using that by (intro filter_cong) (auto simp: header_named_def)
  then show ?thesis
    by (auto simp: mms_get_header_values_def mms_replace_header_values_def gwlib_api.gwlib_simps [OF G] header_remove_all_def
        header_named_def comp_def)
qed

text \<open>C30: A request to delete is answered for each of its locations, in their order and with their number: the answer
  repeats the location, and says for it that it was deleted or not found.\<close>

theorem delete_answers:
  assumes G: "gwlib_api G" and c: "hi_client_addr h = Some user" and r: "handle_mbox_delete G P h m w = Some (r, w')"
    and urls: "urls = mms_get_header_values G m ''X-Mms-Content-Location''"
  shows "mms_get_header_values G r ''X-Mms-Content-Location'' = map (\<lambda>i. show_nat i @ urls ! i) [0..<length urls] \<and>
    length (mms_get_header_values G r ''X-Mms-Response-Status'') = length urls \<and>
    (\<forall>i < length urls. mms_get_header_values G r ''X-Mms-Response-Status'' ! i \<in>
      {show_nat i @ ''Ok'', show_nat i @ ''Error-permanent-message-not-found''})"
proof -
  obtain cls rss b where d: "delete_each G P user 0 urls w = Some ((cls, rss), w')"
    and r: "r = mms_replace_header_values G (mms_replace_header_values G b ''X-Mms-Content-Location'' cls) ''X-Mms-Response-Status'' rss"
    using r c urls by (auto simp: handle_mbox_delete_def Let_def)
  have "mms_get_header_values G r ''X-Mms-Content-Location'' = cls" "mms_get_header_values G r ''X-Mms-Response-Status'' = rss"
    by (simp_all add: r header_values_replaced [OF G] ci_def)
  then show ?thesis using delete_each_answers [OF d] by simp
qed

section \<open>Forwarding\<close>

text \<open>Forwarding a message reports to its sender exactly when he did not ask for it: a message that asks for
  delivery reports gets none, and one that says it wants none is reported as forwarded.\<close>

theorem forward_report_inverted:
  assumes G: "gwlib_api G" and v: "mms_get_header_value G orig ''X-Mms-Delivery-Report'' = Some v"
    and r: "forward_report G P h orig None eo w = Some w'"
  shows "if ci v = ci ''Yes'' then w' = w
    else \<exists>a m q w1. qfs_add (px_q P) a m (s_global_queuedir (px_settings P)) w1 = Some (q, w') \<and>
      a_to a = [mms_get_header_value G orig ''From''] \<and> (''X-Mms-Status'', ''Forwarded'') \<in> set (m_headers m)"
  using r v by (fastforce simp: forward_report_def gwlib_api.case_compare [OF G] mms_deliveryreport_def mm1_args_def plain_args_def
      Let_def split: if_splits prod.splits)

section \<open>Instances\<close>

text \<open>A proxy whose queue holds the envelope \<open>eo\<close>, if any, and takes every message as \<open>qf2\<close>.\<close>

definition ex_proxy :: "MmsEnvelope option \<Rightarrow> (nat \<times> os, pctx, unit) proxy" where
  "ex_proxy eo = \<lparr>px_env = ex_env, px_q = file_qfs gwlib_ref (\<lambda>b. None), px_open = (\<lambda>q d s. Some (eo, s)),
     px_mbox = file_mbox gwlib_ref (\<lambda>b. None), px_dec = ref_dec_env,
     px_settings = ex_settings\<lparr>s_host_alias := Some ''mmsc'', s_mmbox_rootdir := ''m''\<rparr>, px_mm5 = None,
     px_get_profile = (\<lambda>u s. (None, s)), px_make_profile = (\<lambda>h. None), px_maxmsgsize = (\<lambda>p. 0),
     px_transform = (\<lambda>p m s. ((1, None), s)), px_content_type = (\<lambda>h. None), px_allowed_ip = (\<lambda>a d i. True),
     px_null_compare = None, px_added = (\<lambda>a m d s. m), px_unset = 0\<rparr>"

definition ex_taking :: "(nat \<times> os, pctx, unit) proxy" where
  "ex_taking = (ex_proxy None)\<lparr>px_q := (file_qfs gwlib_ref (\<lambda>b. None))\<lparr>qfs_add := (\<lambda>a m d s. Some (Some ''qf2'', s))\<rparr>\<rparr>"

definition ex_client :: MmsHTTPClientInfo where
  "ex_client = \<lparr>hi_ua = None, hi_ip = ''1.1.1.1'', hi_headers = [], hi_url = [], hi_body = None, hi_profile_url = None,
     hi_base_client_addr = Some ''u'', hi_client_addr = Some ''u''\<rparr>"

definition ex_request :: "int \<Rightarrow> headers \<Rightarrow> MmsMsg" where
  "ex_request mtype hs =
     \<lparr>m_message_type = mtype, m_msgId = None, m_headers = hs, m_enc = Some 0, m_ismultipart = False, m_body = Body_null\<rparr>"

lemma ex_urls: "mms_decodefetchurl gwlib_ref ''/qf1@2/x'' = (''qf1'', ''x'', MMS_LOC_MQUEUE)"
    "mms_decodefetchurl gwlib_ref ''/qf1@2/y'' = (''qf1'', ''y'', MMS_LOC_MQUEUE)"
  by code_simp+

lemma ex_zero: "show_nat 0 = ''0''"
  by code_simp

lemmas ex_headers = mms_get_header_value_def mms_get_header_values_def ex_request_def gwlib_api.gwlib_simps [OF gwlib_ref_api]
  header_value_def header_named_def ci_def

theorem fetch_ignores_token_witness:
  "fetchmms_proxy gwlib_ref (ex_proxy None) (ex_client\<lparr>hi_url := ''/qf1@2/x''\<rparr>) (0, ex_mbox) =
   fetchmms_proxy gwlib_ref (ex_proxy None) (ex_client\<lparr>hi_url := ''/qf1@2/y''\<rparr>) (0, ex_mbox)"
  by (rule fetch_ignores_token [OF ex_urls])

theorem delete_by_anyone_witness:
  "\<exists>w. delete_one gwlib_ref (ex_proxy (Some ex_mm1)) ''stranger'' 0 ''/qf1@2/x'' (mn_w ex_mnode) = Some (''0Ok'', w)"
  using delete_by_anyone [OF _ ex_urls(1), of "ex_proxy (Some ex_mm1)" gwlib_ref "\<lambda>b. None" "mn_w ex_mnode" ex_mm1 "mn_w ex_mnode"
      "''stranger''" 0] by (auto simp: ex_proxy_def ex_zero)

theorem view_finds_nothing_witness:
  "\<exists>os. view_search gwlib_ref (ex_proxy None) ''u'' (ex_request MMS_MSGTYPE_MBOX_VIEW_REQ []) 0 5 (0, ex_mbox) = Some (Some [], (0, os))"
  using view_finds_nothing [OF gwlib_ref_api, of "ex_proxy None" "\<lambda>b. None" "ex_request MMS_MSGTYPE_MBOX_VIEW_REQ []" "''u''"
      "[(ex_entry, ''b'')]" ex_mbox 0 5 0] ex_mbox_ok
  by (auto simp: ex_headers ex_proxy_def)

theorem unidentified_refused_witness:
  "\<exists>r. handle_mbox_delete gwlib_ref (ex_proxy (Some ex_mm1)) (ex_client\<lparr>hi_client_addr := None\<rparr>) (ex_request MMS_MSGTYPE_MBOX_DELETE_REQ [])
     (mn_w ex_mnode) = Some (r, mn_w ex_mnode)"
  using unidentified_refused [of "ex_client\<lparr>hi_client_addr := None\<rparr>" gwlib_ref "ex_proxy (Some ex_mm1)"
      "ex_request MMS_MSGTYPE_MBOX_DELETE_REQ []" 0 "[]" "mn_w ex_mnode"] by auto

theorem answer_settles_witness:
  "\<exists>w w'. handle_notifyresp gwlib_ref (ex_proxy (Some ex_mm1)) ex_client MMS_MSGTYPE_ACKNOWLEDGE_IND
      (ex_request MMS_MSGTYPE_ACKNOWLEDGE_IND []) 0 [] (mn_w ex_mnode) = Some w' \<and>
    qfs_update (px_q (ex_proxy (Some ex_mm1))) (drop_first ex_mm1) w = (1, None, w')"
proof -
  let ?P = "ex_proxy (Some ex_mm1)" and ?m = "ex_request MMS_MSGTYPE_ACKNOWLEDGE_IND []"
  have q: "px_q ?P = file_qfs gwlib_ref (\<lambda>b. None)" "\<And>q d s. px_open ?P q d s = Some (Some ex_mm1, s)" by (simp_all add: ex_proxy_def)
  have settled: "\<forall>t \<in> set (e_to (drop_first ex_mm1)). \<not> process t" by (simp add: drop_first_to ex_mobile_simps)
  have dlr: "\<not> e_dlr ex_mm1" by (simp add: ex_mm1_def ex_envelope_def blank_envelope_def)
  have none: "mms_get_header_value gwlib_ref ?m n = None" for n by (simp add: ex_headers)
  have st: "settle_answer gwlib_ref ?P ex_client (Some ''Retrieved'') None [] ex_mm1 w = Some (drop_first ex_mm1, w)" for w
    by (simp add: settle_answer_def says_retrieved_def drop_first_fields dlr gwlib_api.compare [OF gwlib_ref_api])
  let ?w = "mms_log2 gwlib_ref (px_env ?P) ''NotifyResp'' (hi_client_addr ex_client) None 0 None (Some ''Retrieved'') None ''MM1''
    (hi_ua ex_client) None (mn_w ex_mnode)"
  obtain w' where "close_env ?P (drop_first ex_mm1) ?w = Some w'" by (rule file_module.close_settled [OF q(1) settled])
  then have h: "handle_notifyresp gwlib_ref ?P ex_client MMS_MSGTYPE_ACKNOWLEDGE_IND ?m 0 [] (mn_w ex_mnode) = Some w'"
    by (simp add: handle_notifyresp_def none q st)
  show ?thesis
    using answer_settles [OF q(1) ex_mobile_simps(3) _ q(2) _ h, of "''Retrieved''"] h
    by (simp add: gwlib_api.compare [OF gwlib_ref_api] del: split_paired_Ex) blast
qed


theorem submission_answered_witness:
  "\<exists>r w. handle_send_req gwlib_ref ex_taking ex_client (ex_request MMS_MSGTYPE_SEND_REQ [(''To'', ''+1'')]) 0 [] (mn_w ex_mnode) = Some (r, w) \<and>
    mms_get_header_value gwlib_ref r ''X-Mms-Transaction-ID'' = Some ''(null)''"
proof -
  let ?m = "ex_request MMS_MSGTYPE_SEND_REQ [(''To'', ''+1'')]"
  have "handle_send_req gwlib_ref ex_taking ex_client ?m 0 [] (mn_w ex_mnode) \<noteq> None"
    by (simp add: handle_send_req_def ex_taking_def ex_client_def msg_enc_def ex_request_def Let_def del: not_None_eq split: prod.split)
  then obtain r w where h: "handle_send_req gwlib_ref ex_taking ex_client ?m 0 [] (mn_w ex_mnode) = Some (r, w)" by auto
  have "s_host_alias (px_settings ex_taking) = Some ''mmsc''" "hi_client_addr ex_client = Some ''u''"
      "mms_get_header_value gwlib_ref ?m ''X-Mms-Transaction-ID'' = None"
    by (simp_all add: ex_taking_def ex_proxy_def ex_client_def ex_headers)
  with submission_answered [OF gwlib_ref_api _ _ h] h show ?thesis by (auto simp: show_octstr_def)
qed

theorem delete_answers_witness:
  "\<exists>r w. handle_mbox_delete gwlib_ref (ex_proxy None) ex_client
      (ex_request MMS_MSGTYPE_MBOX_DELETE_REQ [(''X-Mms-Content-Location'', ''/qf1@2/x'')]) (mn_w ex_mnode) = Some (r, w) \<and>
    mms_get_header_values gwlib_ref r ''X-Mms-Content-Location'' = [''0/qf1@2/x'']"
proof -
  let ?m = "ex_request MMS_MSGTYPE_MBOX_DELETE_REQ [(''X-Mms-Content-Location'', ''/qf1@2/x'')]"
  have u: "mms_get_header_values gwlib_ref ?m ''X-Mms-Content-Location'' = [''/qf1@2/x'']" by (simp add: ex_headers)
  have c: "hi_client_addr ex_client = Some ''u''" by (simp add: ex_client_def)
  have "handle_mbox_delete gwlib_ref (ex_proxy None) ex_client ?m (mn_w ex_mnode) \<noteq> None"
    by (simp add: handle_mbox_delete_def c u delete_one_def ex_urls ex_proxy_def Let_def)
  then obtain r w where h: "handle_mbox_delete gwlib_ref (ex_proxy None) ex_client ?m (mn_w ex_mnode) = Some (r, w)" by auto
  from delete_answers [OF gwlib_ref_api c h u [symmetric]] h show ?thesis by (simp add: ex_zero)
qed

theorem forward_report_inverted_witness:
  "\<exists>a m q w. qfs_add (px_q ex_taking) a m (s_global_queuedir (px_settings ex_taking)) w = Some (q, mn_w ex_mnode) \<and> a_to a = [None]"
proof -
  let ?m = "ex_request MMS_MSGTYPE_RETRIEVE_CONF [(''X-Mms-Delivery-Report'', ''No'')]"
  have v: "mms_get_header_value gwlib_ref ?m ''X-Mms-Delivery-Report'' = Some ''No''" "mms_get_header_value gwlib_ref ?m ''From'' = None"
    by (simp_all add: ex_headers)
  have "forward_report gwlib_ref ex_taking ex_client ?m None None (mn_w ex_mnode) = Some (mn_w ex_mnode)"
    by (simp add: forward_report_def v gwlib_api.case_compare [OF gwlib_ref_api] ci_def ex_taking_def ex_proxy_def ex_env_def Let_def)
  from forward_report_inverted [OF gwlib_ref_api v(1) this] v(2) show ?thesis
    by (simp add: ci_def) blast
qed

end
