(* ===== verification/MmsMm7proxy.thy ===== *)
theory MmsMm7proxy
  imports MmsProxy MmsMm7soap
begin

text \<open>
  The HTTP interface to value added service providers (MM7), \<open>mmsc/mmsproxy.c\<close>: who the VASP of a request is, its
  throttling, and the handlers of SOAP and EAIF requests. The state is the outside and the registry of VASPs, whose
  statistics the handlers count; a handler has the address of a VASP. \<open>None\<close> stands for a panic and for the use of a
  VASP that has been freed.
\<close>

section \<open>Authentication\<close>

text \<open>User and password, \<open>Some None\<close> when the request has none of the basic kind. Without a colon the name is cut at
  position -1, which is before its first byte.\<close>

definition basic_credentials :: "gwlib \<Rightarrow> headers \<Rightarrow> (octstr \<times> octstr) option option" where
  "basic_credentials G hdrs =
     (case gw_header_value G hdrs ''Authorization'' of
        None \<Rightarrow> Some None
      | Some v \<Rightarrow>
          if gw_search G v ''Basic '' 0 \<noteq> 0 then Some None
          else
            let p = gw_base64_decode G (octstr_copy v 6 (length v)); i = octstr_search_char p CHR '':'' 0 in
            if i \<ge> 0 then Some (Some (octstr_delete p (nat i) (length p), octstr_copy p (nat i + 1) (length p)))
            else if p = [] then Some (Some ([], []))
            else None)"

definition find_mm7sender :: "gwlib \<Rightarrow> headers \<Rightarrow> vasp_registry \<Rightarrow> nat option option" where
  "find_mm7sender G hdrs reg =
     map_option (\<lambda>c. case c of
         None \<Rightarrow> None
       | Some (u, p) \<Rightarrow> vasp_with (\<lambda>v. gw_compare G (vasp_username v) u = 0 \<and> gw_compare G (vasp_password v) p = 0) reg)
       (basic_credentials G hdrs)"

section \<open>SOAP requests\<close>

text \<open>The sender of a message that names none: the first short code.\<close>

definition default_sender :: "MmsVasp \<Rightarrow> octstr option" where
  "default_sender v = (case short_codes v of c # _ \<Rightarrow> Some (show_int32 c @ ''/TYPE=PLMN'') | [] \<Rightarrow> None)"

text \<open>What an operation leaves: the status, the identifier for the answer, and an envelope that is still to be freed.\<close>

type_synonym 's soap_done = "((int \<times> octstr option \<times> MmsEnvelope option) \<times> 's) option"

definition time_unless :: "('s, 'c, 'p) proxy \<Rightarrow> int \<Rightarrow> int \<Rightarrow> 's \<Rightarrow> int \<times> 's" where
  "time_unless P t later w = (if t < 0 then let (tnow, w1) = x_time (px_env P) w in (tnow + later, w1) else (t, w))"

definition mm7_args :: "('s, 'c, 'p) proxy \<Rightarrow> octstr option \<Rightarrow> octstr option list \<Rightarrow> octstr option \<Rightarrow> int \<Rightarrow> int \<Rightarrow> bool \<Rightarrow> envelope_args" where
  "mm7_args P sender to subject delivery expiry dlr =
     plain_args\<lparr>a_from := sender, a_to := to, a_subject := subject, a_senddate := delivery, a_expirydate := expiry, a_dlr := dlr,
                a_src_interface := ''MM7'', a_mmscname := s_host_alias (px_settings P)\<rparr>"

definition mm7_log ::
  "gwlib \<Rightarrow> ('s, 'c, 'p) proxy \<Rightarrow> MmsHTTPClientInfo \<Rightarrow> MmsVasp \<Rightarrow> octstr \<Rightarrow> octstr option \<Rightarrow> octstr list \<Rightarrow> int \<Rightarrow> octstr option \<Rightarrow>
   's \<Rightarrow> 's" where
  "mm7_log G P h v what sender to msize msgid w =
     mms_log G (px_env P) what sender to msize msgid (Some (vasp_id v)) None ''MM7'' (hi_ua h) None w"

text \<open>The answer has an identifier even when the queue has not taken the message: it is made of a null pointer then.\<close>

definition handle_submit ::
  "gwlib \<Rightarrow> ('s, 'c, 'p) proxy \<Rightarrow> soap_lib \<Rightarrow> MmsVasp \<Rightarrow> MmsHTTPClientInfo \<Rightarrow> octstr \<Rightarrow> MSoapMsg_t \<Rightarrow> 's \<Rightarrow> 's soap_done" where
  "handle_submit G P L v h dflt m w =
     (let S = px_settings P; e = mm7_get_envelope G m; sender = (case mv_sender e of Some f \<Rightarrow> f | None \<Rightarrow> dflt);
          (tnow, w1) = x_time (px_env P) w in do {
        mo \<leftarrow> mm7_soap_to_mmsmsg G L tnow m (Some sender);
        case mo of
          None \<Rightarrow> Some ((4004, None, None), w1)
        | Some msg \<Rightarrow>
            let (deliver, w2) = time_unless P (mv_delivery e) 0 w1;
                (expiry, w3) = time_unless P (mv_expiry e) (s_default_msgexpiry S) w2 in do {
              (qf, w4) \<leftarrow> qfs_add (px_q P)
                ((mm7_args P (Some sender) (map Some (mv_to e)) (mv_subject e) deliver expiry
                    (yes_value G (mms_get_header_value G msg ''X-Mms-Delivery-Report'')))
                 \<lparr>a_vaspid := Some (vasp_id v), a_vasid := mv_vasid e\<rparr>)
                (mms_remove_headers G msg ''Message-ID'') (s_global_queuedir S) w3;
              let msgid = msgid_of P (show_octstr qf);
              Some ((1000, Some msgid, None), mm7_log G P h v ''Received'' (Some sender) (mv_to e) (-1) (Some msgid) w4) } })"

text \<open>The message of the queue that a request names, and whether it is one of this VASP.\<close>

definition find_own ::
  "gwlib \<Rightarrow> ('s, 'c, 'p) proxy \<Rightarrow> MmsVasp \<Rightarrow> MSoapMsg_t \<Rightarrow> 's \<Rightarrow> ((int \<times> MmsEnvelope option) \<times> 's) option" where
  "find_own G P v m w =
     (case mms_getqf_from_msgid (mm7_soap_header_value G m ''MessageID'') of
        None \<Rightarrow> Some ((2005, None), w)
      | Some qf \<Rightarrow>
          map_option (\<lambda>(eo, w1). ((case eo of
                None \<Rightarrow> 2005
              | Some e \<Rightarrow> if (case e_vaspid e of Some i \<Rightarrow> gw_compare G i (vasp_id v) = 0 | None \<Rightarrow> False) then 1000 else 2001, eo), w1))
            (px_open P qf (s_global_queuedir (px_settings P)) w))"

text \<open>The headers of the old message are read before it is known that there is one.\<close>

definition replace_message ::
  "gwlib \<Rightarrow> ('s, 'c, 'p) proxy \<Rightarrow> soap_lib \<Rightarrow> octstr \<Rightarrow> MSoapMsg_t \<Rightarrow> MmsEnvelope \<Rightarrow> 's \<Rightarrow> (int \<times> 's) option" where
  "replace_message G P L dflt m e w =
     (let (tnow, w1) = x_time (px_env P) w in do {
        mo \<leftarrow> mm7_soap_to_mmsmsg G L tnow m (Some dflt);
        old \<leftarrow> qfs_getdata (px_q P) e w;
        (status, w2) \<leftarrow> (case mo of
            None \<Rightarrow> Some (1000, w1)
          | Some new \<Rightarrow>
              map_option (\<lambda>(r, w'). (if r < 0 then 3000 else 1000, w'))
                (qfs_replacedata (px_q P) e (mms_add_missing_headers G new (m_headers old)) w1));
        w3 \<leftarrow> close_env P (case mm7_soap_header_value G m ''EarliestDeliveryTime'' of
                              Some s \<Rightarrow> e\<lparr>e_sendt := gw_date_parse_http G s\<rparr> | None \<Rightarrow> e) w2;
        Some (status, w3) })"

definition handle_replace ::
  "gwlib \<Rightarrow> ('s, 'c, 'p) proxy \<Rightarrow> soap_lib \<Rightarrow> MmsVasp \<Rightarrow> MmsHTTPClientInfo \<Rightarrow> octstr \<Rightarrow> MSoapMsg_t \<Rightarrow> 's \<Rightarrow> 's soap_done" where
  "handle_replace G P L v h dflt m w = do {
     ((found, eo), w1) \<leftarrow> find_own G P v m w;
     case eo of
       Some e \<Rightarrow>
         if found = 1000
         then map_option (\<lambda>(status, w2). ((status, None, None),
                mm7_log G P h v ''Replace'' (Some dflt) [] (-1) (mm7_soap_header_value G m ''MessageID'') w2))
              (replace_message G P L dflt m e w1)
         else Some ((found, None, Some e), w1)
     | None \<Rightarrow> Some ((found, None, None), w1) }"

definition handle_cancel ::
  "gwlib \<Rightarrow> ('s, 'c, 'p) proxy \<Rightarrow> MmsVasp \<Rightarrow> MmsHTTPClientInfo \<Rightarrow> octstr \<Rightarrow> MSoapMsg_t \<Rightarrow> 's \<Rightarrow> 's soap_done" where
  "handle_cancel G P v h dflt m w = do {
     ((found, eo), w1) \<leftarrow> find_own G P v m w;
     Some (case eo of
       Some e \<Rightarrow>
         if found = 1000
         then let (_, _, w2) = qfs_update (px_q P) (e\<lparr>e_to := map (\<lambda>t. t\<lparr>process := False\<rparr>) (e_to e)\<rparr>) w1
              in ((found, None, None), mm7_log G P h v ''Cancel'' (Some dflt) [] (-1) (mm7_soap_header_value G m ''MessageID'') w2)
         else ((found, None, Some e), w1)
     | None \<Rightarrow> ((found, None, None), w1)) }"

definition soap_operation ::
  "gwlib \<Rightarrow> ('s, 'c, 'p) proxy \<Rightarrow> soap_lib \<Rightarrow> MmsVasp \<Rightarrow> MmsHTTPClientInfo \<Rightarrow> octstr \<Rightarrow> MSoapMsg_t \<Rightarrow> 's \<Rightarrow> 's soap_done" where
  "soap_operation G P L v h dflt m w =
     (let mtype = mm7_msgtype G m in
      if mtype = MM7_TAG_SubmitReq then handle_submit G P L v h dflt m w
      else if mtype = MM7_TAG_ReplaceReq then handle_replace G P L v h dflt m w
      else if mtype = MM7_TAG_CancelReq then handle_cancel G P v h dflt m w
      else Some ((MM7_SOAP_UNSUPPORTED_OPERATION, None, None), w))"

text \<open>The statistics of a VASP: a request that was understood, and one that failed.\<close>

definition count_request :: "int \<Rightarrow> nat \<Rightarrow> MmsVasp \<Rightarrow> vasp_registry \<Rightarrow> vasp_registry" where
  "count_request tnow a v reg = reg\<lparr>vasp_mem := (vasp_mem reg)(a \<mapsto> v\<lparr>mo_pdus := mo_pdus v + 1, last_pdu := tnow\<rparr>)\<rparr>"

definition count_failure :: "bool \<Rightarrow> nat \<Rightarrow> MmsVasp \<Rightarrow> vasp_registry \<Rightarrow> vasp_registry" where
  "count_failure failed a v reg =
     (if failed then reg\<lparr>vasp_mem := (vasp_mem reg)(a \<mapsto> v\<lparr>mo_errors := mo_errors v + 1\<rparr>)\<rparr> else reg)"

definition mm7soap_dispatch ::
  "gwlib \<Rightarrow> ('s, 'c, 'p) proxy \<Rightarrow> soap_lib \<Rightarrow> nat \<Rightarrow> MmsHTTPClientInfo \<Rightarrow> 's \<times> vasp_registry \<Rightarrow>
   (reply \<times> 's \<times> vasp_registry) option" where
  "mm7soap_dispatch G P L a h st =
     (let (w, reg) = st; (t, w1) = x_time (px_env P) w;
          req = Option.bind (hi_body h) (mm7_parse_soap G L t (hi_headers h)) in do {
        ((status, msgid, eo), w2, reg1) \<leftarrow> (case req of
            None \<Rightarrow> Some ((MM7_SOAP_FORMAT_CORRUPT, None, None), w1, reg)
          | Some m \<Rightarrow> do {
              v \<leftarrow> vasp_mem reg a;
              dflt \<leftarrow> default_sender v;
              let (tnow, w') = x_time (px_env P) w1;
              (r, w'') \<leftarrow> soap_operation G P L v h dflt m w';
              Some (r, w'', count_request tnow a v reg) });
        mresp \<leftarrow> mm7_make_resp G req status msgid False;
        v \<leftarrow> vasp_mem reg1 a;
        ((rh, body), w3) \<leftarrow> soap_to_http G (px_env P) L mresp (vasp_ver v) w2;
        Some ((200, rh, body), free_env P eo w3, count_failure (\<not> MM7_SOAP_STATUS_OK status) a v reg1) })"

section \<open>EAIF requests\<close>

text \<open>The message of a request, whose sender may be named by a header.\<close>

definition eaif_message ::
  "gwlib \<Rightarrow> ('s, 'c, 'p) proxy \<Rightarrow> octstr option \<Rightarrow> octstr option \<Rightarrow> 's \<Rightarrow> (MmsMsg option \<times> 's) option" where
  "eaif_message G P hfrom body w =
     (case body of
        None \<Rightarrow> Some (None, w)
      | Some b \<Rightarrow>
          let (t, w1) = x_time (px_env P) w
          in map_option (\<lambda>mo. (mo, w1))
               (mms_frombinary_ex G
                  ((px_dec P)\<lparr>de_unified_prefix := None, de_strip_prefixes := [],
                              de_from := Some (case hfrom of Some f \<Rightarrow> f | None \<Rightarrow> ''anon@anon''), de_now := t\<rparr>) b))"

text \<open>The recipients are those of the headers of the request when it has any.\<close>

definition eaif_recipients :: "gwlib \<Rightarrow> headers \<Rightarrow> octstr option list \<Rightarrow> octstr option list" where
  "eaif_recipients G hdrs to =
     (let hto = gw_header_find_all G hdrs ''X-NOKIA-MMSC-To'' in
      if hto \<noteq> [] then map Some (concat (map (\<lambda>h. gw_split_value G (snd h)) hto)) else to)"

definition eaif_submit ::
  "gwlib \<Rightarrow> ('s, 'c, 'p) proxy \<Rightarrow> MmsVasp \<Rightarrow> MmsHTTPClientInfo \<Rightarrow> octstr option \<Rightarrow> MmsMsg \<Rightarrow> 's \<Rightarrow>
   ((int \<times> octstr option) \<times> 's) option" where
  "eaif_submit G P v h hfrom m0 w =
     (let S = px_settings P; m = mms_remove_headers G m0 ''Message-ID''; mh = m_headers m;
          (tnow, w1) = x_time (px_env P) w; d = env_of_headers G P tnow mh; to = eaif_recipients G (hi_headers h) (ed_to d);
          (deliver, w2) = time_unless P (ed_delivery d) 0 w1;
          (expiry, w3) = time_unless P (ed_expiry d) (s_default_msgexpiry S) w2;
          sender = (case hfrom of Some f \<Rightarrow> Some f | None \<Rightarrow> gw_header_value G mh ''From'');
          m' = fold (\<lambda>n x. mms_remove_headers G x n)
                 [''Bcc'', ''X-Mms-Delivery-Time'', ''X-Mms-Expiry'', ''X-Mms-Sender-Visibility''] m in do {
        (qf, w4) \<leftarrow> qfs_add (px_q P)
          (mm7_args P sender to (ed_subject d) deliver expiry (yes_value G (gw_header_value G mh ''X-Mms-Delivery-Report'')))
          m' (s_global_queuedir S) w3;
        Some (case qf of
            Some q \<Rightarrow>
              ((204, Some (msgid_of P q)),
               mm7_log G P h v ''Received'' sender (map show_octstr to) (case hi_body h of Some b \<Rightarrow> int (length b) | None \<Rightarrow> 0)
                 (Some (msgid_of P q)) w4)
          | None \<Rightarrow> ((500, None), w4)) })"

definition mm7eaif_dispatch ::
  "gwlib \<Rightarrow> ('s, 'c, 'p) proxy \<Rightarrow> nat \<Rightarrow> MmsHTTPClientInfo \<Rightarrow> 's \<times> vasp_registry \<Rightarrow> (reply \<times> 's \<times> vasp_registry) option" where
  "mm7eaif_dispatch G P a h st =
     (let (w, reg) = st; hfrom = gw_header_value G (hi_headers h) ''X-NOKIA-MMSC-From'' in do {
        (mo, w1) \<leftarrow> eaif_message G P hfrom (hi_body h) w;
        v \<leftarrow> vasp_mem reg a;
        ((status, msgid), w2, reg1) \<leftarrow> (case mo of
            None \<Rightarrow> Some ((400, None), w1, reg)
          | Some m \<Rightarrow>
              let (tnow, w') = x_time (px_env P) w1
              in map_option (\<lambda>(r, w''). (r, w'', count_request tnow a v reg)) (eaif_submit G P v h hfrom m w'));
        v1 \<leftarrow> vasp_mem reg1 a;
        let rh = (if mo = None then [(''Content-Type'', ''text/plain'')] else []) @
          [(''X-NOKIA-MMSC-Version'', show_int (ver_major (vasp_ver v1)) @ ''.'' @ show_int (ver_minor1 (vasp_ver v1)))] @
          (case msgid of Some i \<Rightarrow> [(''X-NOKIA-MMSC-Message-Id'', i)] | None \<Rightarrow> []);
        Some ((status, rh, []), w2, count_failure (http_status_class status \<noteq> HTTP_SUCCESSFUL) a v1 reg1) })"

section \<open>Requests of VASPs\<close>

text \<open>The mean rate since the start is above the limit, which is in thousandths of a request per second.\<close>

definition throttled :: "MmsVasp \<Rightarrow> int \<Rightarrow> bool" where
  "throttled v tnow =
     (0 < throughput v \<and> 0 < tnow - start_time v \<and> throughput v * (tnow - start_time v) < 1000 * mo_pdus v)"

text \<open>A request at the port for VASPs.\<close>

definition mm7_request ::
  "gwlib \<Rightarrow> ('s, 'c, 'p) proxy \<Rightarrow> soap_lib \<Rightarrow> octstr \<Rightarrow> octstr \<Rightarrow> headers \<Rightarrow> octstr option \<Rightarrow> 's \<times> vasp_registry \<Rightarrow>
   (reply option \<times> 's \<times> vasp_registry) option" where
  "mm7_request G P L ip url hdrs body st =
     (let S = px_settings P; (w, reg) = st;
          h = \<lparr>hi_ua = gw_header_value G hdrs ''User-Agent'', hi_ip = ip, hi_headers = hdrs, hi_url = url, hi_body = body,
               hi_profile_url = None, hi_base_client_addr = None, hi_client_addr = None\<rparr> in
      if \<not> px_allowed_ip P (s_allow_ip S) (s_deny_ip S) ip then Some (None, st)
      else do {
        found \<leftarrow> find_mm7sender G hdrs reg;
        case found of
          None \<Rightarrow> Some (Some (401, [(''WWW-Authenticate'', ''Basic realm='' @ [CHR 0x22] @ ''Mbuni'' @ [CHR 0x22])], []), st)
        | Some a \<Rightarrow> do {
            v \<leftarrow> vasp_mem reg a;
            let (t, w1) = (if 0 < throughput v then x_time (px_env P) w else (0, w));
            if throttled v t then Some (Some (409, [], ''Throttling limit exceeded. Try again later''), (w1, reg))
            else map_option (\<lambda>(r, st'). (Some r, st'))
                   (if vasp_kind v = SOAP_VASP then mm7soap_dispatch G P L a h (w1, reg) else mm7eaif_dispatch G P a h (w1, reg)) } })"

end
