(* ===== verification/Mm7Facts.thy ===== *)
theory Mm7Facts
  imports MmsSender
begin

text \<open>
  What \<open>MmsMm7soap\<close> keeps of a message: which headers a document can carry, the envelope of a request, that every
  request can be written, the answers, and that text is put into a document as it is.
\<close>

section \<open>Tags\<close>

lemma mm7tag_ref: "gwlib_api G \<Longrightarrow> mms_string_to_mm7tag G s = mms_string_to_mm7tag gwlib_ref s"
  by (simp add: accessor_defs string_to_number_def gwlib_api.case_compare gwlib_ref_api)

definition mm7_names :: "octstr list" where
  "mm7_names = map ci (tstrings mm7tag_table)"

lemma mm7tag_known: "gwlib_api G \<Longrightarrow> 0 \<le> mms_string_to_mm7tag G s \<longleftrightarrow> ci s \<in> set mm7_names"
proof -
  assume G: "gwlib_api G"
  have t: "tlinear mm7tag_table" "tsize mm7tag_table = length (tstrings mm7tag_table)"
    by (simp_all add: mm7tag_table_def construct_linear_table_def)
  have "(\<forall>i < length (tstrings mm7tag_table). ci s \<noteq> ci (tstrings mm7tag_table ! i)) \<longleftrightarrow> ci s \<notin> set mm7_names"
    unfolding mm7_names_def set_map in_set_conv_nth [of _ "tstrings mm7tag_table"] image_iff by (metis nth_mem in_set_conv_nth)
  then show ?thesis
    using t by (auto simp: accessor_defs string_to_number_def gwlib_api.case_compare [OF G] find_upt_None dest: find_upt_Some split: option.split)
qed

lemma mm7_own_names: "ci ''MessageType'' \<in> set mm7_names" "ci ''allowAdaptations'' \<in> set mm7_names"
    "ci ''replyChargingSize'' \<in> set mm7_names" "ci ''replyDeadline'' \<in> set mm7_names"
  by (simp_all add: mm7_names_def mm7tag_table_def construct_linear_table_def ci_def)

lemma mm7_missing_names: "ci ''ReadReply'' \<notin> set mm7_names" "ci ''From'' \<notin> set mm7_names"
  by (simp_all add: mm7_names_def mm7tag_table_def construct_linear_table_def ci_def)

lemma mm7_cstr_names: "mms_mm7tag_to_cstr k = Some n \<Longrightarrow> ci n \<in> set mm7_names"
proof -
  assume k: "mms_mm7tag_to_cstr k = Some n"
  have t: "tlinear mm7tag_table" "tsize mm7tag_table = length (tstrings mm7tag_table)"
    by (simp_all add: mm7tag_table_def construct_linear_table_def)
  with k have "n \<in> set (tstrings mm7tag_table)"
    by (auto simp: accessor_defs number_to_cstr_def split: if_splits intro!: nth_mem)
  then show ?thesis by (simp add: mm7_names_def)
qed

text \<open>All but the last names are found under their own number.\<close>

lemma mm7_distinct: "distinct (take 58 mm7_names)"
  unfolding mm7_names_def by code_simp

lemma mm7tag_number:
  assumes G: "gwlib_api G" and k: "mms_mm7tag_to_cstr k = Some n" "0 \<le> k" "k < 58"
  shows "mms_string_to_mm7tag G n = k"
proof -
  let ?T = "tstrings mm7tag_table"
  have t: "tlinear mm7tag_table" "tsize mm7tag_table = length ?T" "length ?T = 60"
    by (simp_all add: mm7tag_table_def construct_linear_table_def)
  obtain i where i: "k = int i" "i < 58" using k(2,3) by (metis int_nat_eq nat_less_iff of_nat_numeral)
  have n: "n = ?T ! i" using k(1) i t by (auto simp: accessor_defs number_to_cstr_def split: if_splits)
  have "ci n \<noteq> ci (?T ! j)" if "j < i" for j
  proof -
    have "take 58 mm7_names ! j \<noteq> take 58 mm7_names ! i"
      using that i(2) t(3) by (subst nth_eq_iff_index_eq [OF mm7_distinct]) (auto simp: mm7_names_def)
    then show ?thesis using that i(2) t(3) by (auto simp: mm7_names_def n)
  qed
  then have "List.find (\<lambda>j. gw_case_compare G n (?T ! j) = 0) [0..<tsize mm7tag_table] = Some i"
    using i(2) t unfolding find_Some_iff by (intro exI [of _ i]) (simp add: gwlib_api.case_compare [OF G] n)
  then show ?thesis using t(1) i(1) by (simp add: accessor_defs string_to_number_def)
qed

section \<open>What a document can carry\<close>

definition known_headers :: "headers \<Rightarrow> bool" where
  "known_headers hs = (\<forall>h \<in> set hs. ci (fst h) \<in> set mm7_names)"

lemma node_header_names:
  assumes "node_header G L tnow tag name props kids sig = (hname, value, extra, sig')"
  shows "known_headers extra" and "hname = Some n \<Longrightarrow> ci n \<in> set mm7_names \<or> n = name"
  using assms mm7_own_names mm7_cstr_names
  by (auto simp: node_header_def Let_def known_headers_def opt_header_def split: if_splits option.splits)

lemma parse_header_known:
  assumes "gwlib_api G" and "known_headers hs" and "parse_header G L tnow name props kids hs sig = (hs', sig')"
  shows "known_headers hs'"
  using assms(2,3) node_header_names mm7tag_known [OF assms(1)]
  by (fastforce simp: parse_header_def Let_def known_headers_def split: prod.splits option.splits if_splits)

lemma parse_headers_known:
  "gwlib_api G \<Longrightarrow> known_headers hs \<Longrightarrow> known_headers (parse_headers G L tnow nodes hs sig)"
  by (induction G L tnow nodes hs sig rule: parse_headers.induct) (auto dest: parse_header_known split: prod.splits)

lemma known_headers_value:
  "gwlib_api G \<Longrightarrow> known_headers hs \<Longrightarrow> ci n \<notin> set mm7_names \<Longrightarrow> gw_header_value G hs n = None"
  by (auto simp: gwlib_api.header_value header_value_def header_named_def known_headers_def find_None_iff)

text \<open>C23: Whatever document is read, the envelope has only headers that the tag table knows. The table has neither
  \<open>ReadReply\<close> nor \<open>From\<close>, so the wish for a read report never arrives, and no read report of another MMSC or VASP is
  ever understood, not even one that this program has written.\<close>

theorem soap_headers_known:
  assumes G: "gwlib_api G" and m: "mm7_parse_soap G L tnow headers body = Some m"
  shows "(\<forall>h \<in> set (envelope m). 0 \<le> mms_string_to_mm7tag G (fst h)) \<and>
    mm7_soap_header_value G m ''ReadReply'' = None \<and>
    (mm7_msgtype G m = MM7_TAG_ReadReplyReq \<longrightarrow> mm7_soap_to_mmsmsg G L tnow m sender = Some None)"
proof -
  have k: "known_headers (envelope m)"
    using m by (auto simp: mm7_parse_soap_def Let_def known_headers_def [of "[]"] split: bind_splits intro!: parse_headers_known [OF G])
  have none: "gw_header_value G (envelope m) ''ReadReply'' = None" "gw_header_value G (envelope m) ''From'' = None"
    using known_headers_value [OF G k] mm7_missing_names by simp_all
  moreover have "mm7_soap_to_mmsmsg G L tnow m sender = Some None" if "mm7_msgtype G m = MM7_TAG_ReadReplyReq"
    using that none by (simp add: mm7_soap_to_mmsmsg_def report_to_mmsmsg_def Let_def split: option.split)
  ultimately show ?thesis
    using k mm7tag_known [OF G] by (simp add: known_headers_def mm7_soap_header_value_def)
qed

section \<open>Requests\<close>

lemma find_all_append: "gwlib_api G \<Longrightarrow> gw_header_find_all G (a @ b) n = gw_header_find_all G a n @ gw_header_find_all G b n"
  by (simp add: gwlib_api.header_find_all)

lemma find_all_opt: "gwlib_api G \<Longrightarrow> gw_header_find_all G (opt_header m v) n = (if ci m = ci n then opt_header m v else [])"
  by (simp add: gwlib_api.header_find_all opt_header_def header_named_def split: option.split)

lemma find_all_each: "gwlib_api G \<Longrightarrow> gw_header_find_all G (map (\<lambda>t. (m, f t)) ts) n = (if ci m = ci n then map (\<lambda>t. (m, f t)) ts else [])"
  by (simp add: gwlib_api.header_find_all header_named_def comp_def)

lemma header_value_find_all: "gwlib_api G \<Longrightarrow> gw_header_value G hs n = (case gw_header_find_all G hs n of [] \<Rightarrow> None | h # _ \<Rightarrow> Some (snd h))"
  by (induction hs) (auto simp: gwlib_api.header_value gwlib_api.header_find_all header_value_def)

lemma unmarked_plus: "unmarked (''+ '' @ t) = Some t"
  by (simp add: unmarked_def octstr_get_char_def)

lemma request_type:
  assumes "mm7_mmsmsg_to_soap G msg a = Some (Some m)" and "m_message_type msg = MMS_MSGTYPE_SEND_REQ" and "sa_clientside a"
  shows "\<exists>c. m = \<lparr>envelope = [(''MessageType'', ''SubmitReq''), (''TransactionID'', case sa_transid a of Some i \<Rightarrow> i | None \<Rightarrow> ''0000'')] @
      request_envelope G msg a, soap_msg = Some c\<rparr>"
proof -
  have "mms_mm7tag_to_cstr MM7_TAG_SubmitReq = Some ''SubmitReq''" by code_simp
  with assms show ?thesis by (auto simp: mm7_mmsmsg_to_soap_def mm7_soap_create_def Let_def)
qed

text \<open>C16: A message that a client submits is read back with its type, its sender, all its recipients in their order, its
  subject, the identifier of the service, and the time at which it expires.\<close>

theorem mm7_envelope_roundtrip:
  assumes G: "gwlib_api G" and m: "mm7_mmsmsg_to_soap G msg a = Some (Some m)"
    and t: "m_message_type msg = MMS_MSGTYPE_SEND_REQ" and c: "sa_clientside a"
  shows "mm7_msgtype G m = MM7_TAG_SubmitReq \<and>
    mm7_soap_header_value G m ''TransactionID'' = Some (case sa_transid a of Some i \<Rightarrow> i | None \<Rightarrow> ''0000'') \<and>
    mv_sender (mm7_get_envelope G m) = sa_from a \<and> mv_to (mm7_get_envelope G m) = sa_to a \<and>
    mv_subject (mm7_get_envelope G m) = mms_get_header_value G msg ''Subject'' \<and>
    mv_vasid (mm7_get_envelope G m) = sa_vasid a \<and>
    mv_expiry (mm7_get_envelope G m) =
      (case mms_get_header_value G msg ''X-Mms-Expiry'' of Some s \<Rightarrow> gw_date_parse_http G s | None \<Rightarrow> -1)"
proof -
  obtain b where b: "m = \<lparr>envelope = opt_header ''MessageType'' (Some ''SubmitReq'') @
      opt_header ''TransactionID'' (Some (case sa_transid a of Some i \<Rightarrow> i | None \<Rightarrow> ''0000'')) @ request_envelope G msg a, soap_msg = Some b\<rparr>"
    using request_type [OF m t c] by (auto simp: opt_header_def)
  note env = request_envelope_def c if_True find_all_append [OF G] find_all_opt [OF G] find_all_each [OF G]
  have ty: "mms_string_to_mm7tag G ''SubmitReq'' = MM7_TAG_SubmitReq" unfolding mm7tag_ref [OF G] by code_simp
  have opt: "(case opt_header n v of [] \<Rightarrow> None | h # _ \<Rightarrow> Some (snd h)) = v" for n v
    by (simp add: opt_header_def split: option.split)
  have v: "gw_header_value G (envelope m) ''MessageType'' = Some ''SubmitReq''"
    "gw_header_value G (envelope m) ''TransactionID'' = Some (case sa_transid a of Some i \<Rightarrow> i | None \<Rightarrow> ''0000'')"
    "gw_header_value G (envelope m) ''SenderAddress'' = map_option (\<lambda>f. ''+ '' @ f) (sa_from a)"
    "gw_header_value G (envelope m) ''Sender'' = None"
    "gw_header_value G (envelope m) ''Subject'' = mms_get_header_value G msg ''Subject''"
    "gw_header_value G (envelope m) ''VASID'' = sa_vasid a"
    "gw_header_value G (envelope m) ''ExpiryDate'' = mms_get_header_value G msg ''X-Mms-Expiry''"
    unfolding b by (simp_all add: header_value_find_all [OF G] env ci_def opt Let_def)
  have rc: "get_rcptvalues G (envelope m) ''To'' = sa_to a" "get_rcptvalues G (envelope m) ''Cc'' = []" "get_rcptvalues G (envelope m) ''Bcc'' = []"
    unfolding b by (simp_all add: get_rcptvalues_def env ci_def Let_def unmarked_plus [simplified] map_filter_def comp_def)
  show ?thesis
    using ty v rc by (simp add: mm7_msgtype_def mm7_soap_header_value_def mm7_get_envelope_def Let_def unmarked_plus [simplified]
        split: option.split)
qed


section \<open>Writing\<close>

text \<open>The addresses of an envelope are marked as such to send to.\<close>

definition address_names :: "octstr list" where
  "address_names = map ci [''To'', ''Cc'', ''Bcc'', ''Sender'', ''SenderAddress'']"

definition addresses_marked :: "headers \<Rightarrow> bool" where
  "addresses_marked hs = (\<forall>(n, v) \<in> set hs. ci n \<in> set address_names \<longrightarrow> (\<exists>t. v = ''+ '' @ t))"

lemma sub_pos_match: "0 \<le> sub_pos s p k \<Longrightarrow> take (length p) (drop (nat (sub_pos s p k)) s) = p"
proof (cases "List.find (\<lambda>i. take (length p) (drop i s) = p) [k ..< Suc (length s) - length p]")
  case (Some i)
  have "take (length p) (drop i s) = p" using Some unfolding find_Some_iff by auto
  then show ?thesis by (simp add: sub_pos_def Some)
qed (simp add: sub_pos_def)

lemma address_written:
  assumes G: "gwlib_api G"
  shows "append_address G (''+ '' @ t) pre b \<noteq> None"
proof -
  define j where "j = gw_case_search G (''+ '' @ t) ''/TYPE=PLMN'' 0"
  have "j < 0 \<or> 2 \<le> j"
  proof (rule ccontr)
    assume "\<not> (j < 0 \<or> 2 \<le> j)"
    then have j: "0 \<le> j" "nat j = 0 \<or> nat j = 1" by auto
    from sub_pos_match [of "ci (''+ '' @ t)" "ci ''/TYPE=PLMN''" 0] j(1)
    have "take (length (ci ''/TYPE=PLMN'')) (drop (nat j) (ci (''+ '' @ t))) = ci ''/TYPE=PLMN''"
      unfolding j_def gwlib_api.case_search [OF G] by blast
    with j(2) show False by (auto simp: ci_def)
  qed
  then show ?thesis unfolding append_address_def Let_def j_def [symmetric] by auto
qed

lemma marked_append: "addresses_marked (a @ b) \<longleftrightarrow> addresses_marked a \<and> addresses_marked b"
  by (auto simp: addresses_marked_def)

lemma marked_opt: "addresses_marked (opt_header n v) \<longleftrightarrow> (ci n \<in> set address_names \<longrightarrow> (\<forall>x. v = Some x \<longrightarrow> (\<exists>t. x = ''+ '' @ t)))"
  by (auto simp: addresses_marked_def opt_header_def split: option.split)

lemma marked_cons:
  "addresses_marked ((n, v) # hs) \<longleftrightarrow> (ci n \<in> set address_names \<longrightarrow> (\<exists>t. v = ''+ '' @ t)) \<and> addresses_marked hs"
  by (auto simp: addresses_marked_def)

lemma find_all_subset: "gwlib_api G \<Longrightarrow> h \<in> set (gw_header_find_all G hs n) \<Longrightarrow> h \<in> set hs \<and> ci (fst h) = ci n"
  by (auto simp: gwlib_api.header_find_all header_named_def)

lemma value_in:
  assumes G: "gwlib_api G" and v: "gw_header_value G hs n = Some v"
  shows "\<exists>k. (k, v) \<in> set hs \<and> ci k = ci n"
proof -
  obtain h where h: "List.find (header_named n) hs = Some h" "v = snd h"
    using v by (auto simp: gwlib_api.header_value [OF G] header_value_def)
  then have "h \<in> set hs" "header_named n h" unfolding find_Some_iff by auto
  with h(2) show ?thesis by (cases h) (auto simp: header_named_def)
qed

lemma rcpts_written:
  "gwlib_api G \<Longrightarrow> \<forall>(h, v) \<in> set l. \<exists>t. v = ''+ '' @ t \<Longrightarrow> rcpt_items G pre x l \<noteq> None"
proof (induction l arbitrary: x)
  case (Cons hv l)
  obtain h v where hv: "hv = (h, v)" by force
  obtain t where v: "v = ''+ '' @ t" using Cons.prems(2) hv by auto
  obtain s where "append_address G v pre True = Some s" using address_written [OF Cons.prems(1), of t pre True] unfolding v by blast
  moreover obtain r where "rcpt_items G pre (if gw_compare G h x \<noteq> 0 then h else x) l = Some r"
    using Cons.IH [OF Cons.prems(1)] Cons.prems(2) by (metis (no_types, lifting) list.set_intros(2) not_None_eq)
  ultimately show ?case by (simp add: hv)
qed simp

lemma sender_tag: "gwlib_api G \<Longrightarrow> mms_string_to_mm7tag G h = MM7_TAG_Sender \<Longrightarrow> ci h = ci ''Sender''"
proof -
  assume G: "gwlib_api G" and s: "mms_string_to_mm7tag G h = MM7_TAG_Sender"
  have t: "tlinear mm7tag_table" "tsize mm7tag_table = length (tstrings mm7tag_table)" "tstrings mm7tag_table ! 32 = ''Sender''"
    by (simp_all add: mm7tag_table_def construct_linear_table_def)
  from s t(1) obtain i where "List.find (\<lambda>i. gw_case_compare G h (tstrings mm7tag_table ! i) = 0) [0..<tsize mm7tag_table] = Some i" "i = 32"
    by (auto simp: accessor_defs string_to_number_def split: option.splits)
  then show "ci h = ci ''Sender''"
    using t(3) by (auto simp: find_Some_iff gwlib_api.case_compare [OF G] dest: find_upt_Some)
qed

lemma headers_written:
  assumes G: "gwlib_api G" and "addresses_marked hs"
  shows "soap_headers G L tnow ver hdrs hs \<noteq> None"
  using assms(2)
proof (induction hs)
  case (Cons hv hs)
  obtain h v where hv: "hv = (h, v)" by force
  have "soap_header G L tnow ver hdrs (h, v) \<noteq> None"
  proof (cases "mms_string_to_mm7tag G h = MM7_TAG_Sender")
    case True
    then have "ci h \<in> set address_names" using sender_tag [OF G] by (simp add: address_names_def)
    then obtain t where "v = ''+ '' @ t" using Cons.prems by (auto simp: addresses_marked_def hv)
    then have "append_address G v pre b \<noteq> None" for pre b using address_written [OF G] by simp
    then show ?thesis using True by (auto simp: soap_header_def skipped_tags_def Let_def)
  next
    case False
    then show ?thesis by (simp add: soap_header_def Let_def split: option.split)
  qed
  with Cons show ?case by (auto simp: hv addresses_marked_def)
qed simp

lemma document_written:
  assumes G: "gwlib_api G" and m: "addresses_marked hs" and t: "gw_header_value G hs ''MessageType'' \<noteq> None"
  shows "headers_to_soapxml G L tnow hs ver \<noteq> None"
proof -
  have addr: "append_address G v pre b \<noteq> None" if "gw_header_value G hs n = Some v" "ci n \<in> set address_names" for n v pre b
    using value_in [OF G that(1)] that(2) m address_written [OF G] by (fastforce simp: addresses_marked_def)
  have rc: "output_rcpt G n hs pre \<noteq> None" if "ci n \<in> set address_names" for n pre
    unfolding output_rcpt_def using find_all_subset [OF G, of _ hs n] m that
    by (intro rcpts_written [OF G]) (fastforce simp: addresses_marked_def)
  have names: "ci ''To'' \<in> set address_names" "ci ''Cc'' \<in> set address_names" "ci ''Bcc'' \<in> set address_names"
      "ci ''SenderAddress'' \<in> set address_names"
    by (simp_all add: address_names_def)
  obtain i where i: "sender_identification G ver hs = Some i"
    using addr [OF _ names(4)] by (cases "sender_identification G ver hs")
      (simp_all add: sender_identification_def Let_def bind_eq_None_conv del: not_None_eq split: option.splits if_splits)
  obtain mt where mt: "gw_header_value G hs ''MessageType'' = Some mt" using t by auto
  have "soap_recipients G ver (mms_string_to_mm7tag G mt) hs \<noteq> None"
    using rc [OF names(1)] rc [OF names(2)] rc [OF names(3)] addr [OF _ names(1)]
    by (simp add: soap_recipients_def Let_def bind_eq_None_conv del: not_None_eq split: option.split)
  then obtain r where r: "soap_recipients G ver (mms_string_to_mm7tag G mt) hs = Some r" by auto
  obtain s where s: "soap_headers G L tnow ver hs hs = Some s" using headers_written [OF G m, of L tnow ver hs] by auto
  show ?thesis by (simp add: headers_to_soapxml_def Let_def mt i r s)
qed

lemma request_marked:
  assumes "mm7_mmsmsg_to_soap G msg a = Some (Some m)"
  shows "addresses_marked (envelope m)" and "\<exists>ty rest. envelope m = (''MessageType'', ty) # rest"
proof -
  have each: "addresses_marked (map (\<lambda>t. (''To'', ''+ '' @ t)) ts)" for ts by (auto simp: addresses_marked_def)
  have opts: "addresses_marked (opt_header n v)" if "ci n \<notin> set address_names" for n v using that by (simp add: marked_opt)
  have addr: "addresses_marked (opt_header n (map_option (\<lambda>f. ''+ '' @ f) v))" for n v by (auto simp: marked_opt)
  note names = address_names_def ci_def
  have "addresses_marked (request_envelope G msg a)"
    by (cases "sa_clientside a") (simp_all add: request_envelope_def Let_def marked_append each [simplified] addr [simplified] opts names addresses_marked_def [of "[]"])
  moreover have "addresses_marked (report_envelope G msg a b)" for b
    by (cases b) (simp_all add: report_envelope_def Let_def marked_append addr [simplified] opts names addresses_marked_def [of "[]"] marked_cons
        split: list.split)
  moreover have "addresses_marked (envelope c) \<and> (\<exists>ty rest. envelope c = (''MessageType'', ty) # rest)" if "mm7_soap_create k i = Some c" for k i c
    using that by (auto simp: mm7_soap_create_def addresses_marked_def names)
  ultimately show "addresses_marked (envelope m)" "\<exists>ty rest. envelope m = (''MessageType'', ty) # rest"
    using assms by (fastforce simp: mm7_mmsmsg_to_soap_def Let_def marked_append split: if_splits)+
qed

lemma request_http:
  assumes G: "gwlib_api G" and m: "addresses_marked (envelope m)" and ty: "envelope m = (''MessageType'', ty) # rest"
  shows "mm7_soapmsg_to_httpmsg G L tnow r r' m ver \<noteq> None"
proof -
  have plain: "headers_to_soapxml G L tnow (envelope m) ver \<noteq> None"
    using document_written [OF G m] ty by (simp add: gwlib_api.header_value [OF G] header_value_def header_named_def)
  have "headers_to_soapxml G L tnow (gw_header_remove_all G (envelope m) ''Content'' @ [(''Content'', c)]) ver \<noteq> None" for c
  proof (rule document_written [OF G])
    show "addresses_marked (gw_header_remove_all G (envelope m) ''Content'' @ [(''Content'', c)])"
      using m by (auto simp: addresses_marked_def gwlib_api.header_remove_all [OF G] header_remove_all_def address_names_def ci_def)
  qed (simp add: ty gwlib_api.header_remove_all [OF G] header_remove_all_def gwlib_api.header_value [OF G] header_value_def
      header_named_def ci_def)
  with plain show ?thesis by (simp add: mm7_soapmsg_to_httpmsg_def Let_def bind_eq_None_conv del: not_None_eq split: option.split)
qed

lemma bind_holds: "x \<noteq> None \<Longrightarrow> (\<And>y. x = Some y \<Longrightarrow> P (f y)) \<Longrightarrow> P (Option.bind x f)"
  by (cases x) auto

text \<open>C27: Sending a message to a VASP over SOAP always comes to an end with a status, whatever the message, its
  addresses and the answer of the VASP: the request is always one that can be written as a document.\<close>

theorem soap_send_returns:
  fixes X :: "'s env"
  assumes G: "gwlib_api G"
  shows "\<exists>ret err conn w'. mm7soap_send G X L host vasp sender to msgid qh m w = Some (ret, err, conn, w') \<and>
    ret \<in> {MMS_SEND_OK, MMS_SEND_ERROR_TRANSIENT, MMS_SEND_ERROR_FATAL} \<and> (ret = MMS_SEND_OK \<longleftrightarrow> err = None)"
proof -
  have named: "mms_mm7tag_to_cstr k \<noteq> None" if "k \<in> {MM7_TAG_DeliverReq, MM7_TAG_ReadReplyReq, MM7_TAG_DeliveryReportReq, MM7_TAG_SubmitReq}" for k
    using that by (auto simp: accessor_defs number_to_cstr_def mm7tag_table_def construct_linear_table_def)
  have made: "mm7_mmsmsg_to_soap G m a \<noteq> None" for a
    using named by (simp add: mm7_mmsmsg_to_soap_def mm7_soap_create_def Let_def del: not_None_eq)
  have http: "soap_to_http G X L q ver w \<noteq> None" if q: "mm7_mmsmsg_to_soap G m a = Some (Some q)" for a q ver w
  proof -
    obtain ty rest where "envelope q = (''MessageType'', ty) # rest" using request_marked(2) [OF q] by blast
    then have "mm7_soapmsg_to_httpmsg G L t r r' q ver \<noteq> None" for t r r' by (rule request_http [OF G request_marked(1) [OF q]])
    then show ?thesis unfolding soap_to_http_def Let_def case_prod_unfold by (simp del: not_None_eq)
  qed
  define sent where "sent = (\<lambda>r. \<exists>ret err conn w'. r = Some (ret :: int, err :: octstr option, conn :: bool, w' :: 's) \<and>
    ret \<in> {MMS_SEND_OK, MMS_SEND_ERROR_TRANSIENT, MMS_SEND_ERROR_FATAL} \<and> (ret = MMS_SEND_OK \<longleftrightarrow> err = None))"
  have fin: "sent (Some (MMS_SEND_OK, None, conn, w'))" "sent (Some (MMS_SEND_ERROR_TRANSIENT, Some e, conn, w'))"
      "sent (Some (MMS_SEND_ERROR_FATAL, Some e, conn, w'))" for conn w' e
    by (simp_all add: sent_def send_codes)
  have "sent (mm7soap_send G X L host vasp sender to msgid qh m w)"
    unfolding mm7soap_send_def Let_def
  proof (rule bind_holds [where P = sent, OF made], goal_cases)
    case (1 req)
    show ?case
    proof (cases req)
      case None
      then show ?thesis by (simp add: fin)
    next
      case (Some q)
      show ?thesis unfolding Some option.case
        by (rule bind_holds [where P = sent, OF http [OF 1 [unfolded Some]]]) (simp add: fin split: prod.split option.split)
    qed
  qed
  then show ?thesis unfolding sent_def .
qed

section \<open>Answers\<close>

text \<open>C28: An answer has the identifier of the transaction and the status. To a request that is understood it is of the
  type that belongs to the request, with the identifier of the message only after a submission; with an error status it
  is an error response with a fault.\<close>

theorem soap_answer_matches:
  assumes G: "gwlib_api G" and r: "mm7_make_resp G req status msgid client = Some r"
  shows "mm7_soap_header_value G r ''StatusCode'' = Some (show_int status) \<and>
    mm7_soap_header_value G r ''TransactionID'' =
      Some (case Option.bind req (\<lambda>m. mm7_soap_header_value G m ''TransactionID'') of Some i \<Rightarrow> i | None \<Rightarrow> ''0000'') \<and>
    (if MM7_SOAP_STATUS_OK status
     then \<forall>m. req = Some m \<and> mm7_msgtype G m \<in> {MM7_TAG_SubmitReq, MM7_TAG_ReplaceReq, MM7_TAG_CancelReq} \<longrightarrow>
       mm7_msgtype G r = mm7_msgtype G m + 1 \<and> mm7_soap_header_value G r ''Fault'' = None \<and>
       mm7_soap_header_value G r ''MessageID'' = (if mm7_msgtype G m = MM7_TAG_SubmitReq then msgid else None)
     else mm7_msgtype G r = (if client then MM7_TAG_VASPErrorRsp else MM7_TAG_RSErrorRsp) \<and>
       mm7_soap_header_value G r ''Fault'' \<noteq> None)"
proof -
  define mtype where "mtype = (case req of Some m \<Rightarrow> mm7_msgtype G m | None \<Rightarrow> -1)"
  define code where "code = (if \<not> MM7_SOAP_STATUS_OK status \<or> mtype < 0
    then if client then MM7_TAG_VASPErrorRsp else MM7_TAG_RSErrorRsp else mtype + 1)"
  obtain name where name: "mms_mm7tag_to_cstr code = Some name"
    and r: "envelope r = [(''MessageType'', name), (''TransactionID'',
        case Option.bind req (\<lambda>m. gw_header_value G (envelope m) ''TransactionID'') of Some i \<Rightarrow> i | None \<Rightarrow> ''0000''),
        (''Status'', []), (''StatusCode'', show_int status),
        (''StatusText'', case mms_soap_status_to_cstr status of Some s \<Rightarrow> s | None \<Rightarrow> ''Error'')] @
      (if mtype = MM7_TAG_SubmitReq then opt_header ''MessageID'' msgid else []) @
      (if MM7_SOAP_STATUS_OK status then []
       else [(''Fault'', []), (''faultcode'', ''SOAP-ENV:Server''), (''faultstring'', ''Server error'')])"
    using r unfolding mm7_make_resp_def Let_def mtype_def [symmetric] code_def [symmetric]
    by (auto simp: mm7_soap_create_def)
  have tag: "mms_string_to_mm7tag G n = k" if "mms_mm7tag_to_cstr k = Some n" "0 \<le> k" "k < 58" for k n
    using mm7tag_number [OF G that] .
  have ty: "mm7_msgtype G r = mms_string_to_mm7tag G name"
    by (simp add: mm7_msgtype_def r gwlib_api.header_value [OF G] header_value_def header_named_def)
  have v: "mm7_soap_header_value G r n = header_value (envelope r) n" for n
    by (simp add: mm7_soap_header_value_def gwlib_api.header_value [OF G])
  note find = v r header_value_def header_named_def ci_def
  have "mm7_soap_header_value G r ''StatusCode'' = Some (show_int status) \<and> mm7_soap_header_value G r ''TransactionID'' =
      Some (case Option.bind req (\<lambda>m. mm7_soap_header_value G m ''TransactionID'') of Some i \<Rightarrow> i | None \<Rightarrow> ''0000'')"
    unfolding v unfolding mm7_soap_header_value_def by (simp add: find)
  moreover have "mm7_msgtype G r = mm7_msgtype G m + 1 \<and> mm7_soap_header_value G r ''Fault'' = None \<and>
       mm7_soap_header_value G r ''MessageID'' = (if mm7_msgtype G m = MM7_TAG_SubmitReq then msgid else None)"
    if m: "req = Some m" "mm7_msgtype G m \<in> {MM7_TAG_SubmitReq, MM7_TAG_ReplaceReq, MM7_TAG_CancelReq}" and ok: "MM7_SOAP_STATUS_OK status" for m
  proof -
    have mt: "mtype = mm7_msgtype G m" by (simp add: mtype_def m(1))
    have "code = mm7_msgtype G m + 1" using m(2) ok by (auto simp: code_def mt)
    then have "mm7_msgtype G r = mm7_msgtype G m + 1" using tag [OF name] m(2) ty by fastforce
    then show ?thesis using ok by (auto simp: find mt opt_header_def split: option.split)
  qed
  moreover have "mm7_msgtype G r = (if client then MM7_TAG_VASPErrorRsp else MM7_TAG_RSErrorRsp) \<and> mm7_soap_header_value G r ''Fault'' \<noteq> None"
    if bad: "\<not> MM7_SOAP_STATUS_OK status"
  proof -
    have "code = (if client then MM7_TAG_VASPErrorRsp else MM7_TAG_RSErrorRsp)" using bad by (simp add: code_def)
    then have "mm7_msgtype G r = (if client then MM7_TAG_VASPErrorRsp else MM7_TAG_RSErrorRsp)"
      using tag [OF name] ty by (cases client) simp_all
    then show ?thesis using bad by (auto simp: find opt_header_def split: option.split)
  qed
  ultimately show ?thesis by presburger
qed

section \<open>Text in documents\<close>

lemma headers_append:
  "soap_headers G L tnow ver hdrs (a @ b) =
    Option.bind (soap_headers G L tnow ver hdrs a) (\<lambda>x. map_option (\<lambda>y. x @ y) (soap_headers G L tnow ver hdrs b))"
proof (induction a)
  case Nil
  show ?case by (cases "soap_headers G L tnow ver hdrs b") auto
next
  case (Cons h a)
  then show ?case
    by (cases "soap_header G L tnow ver hdrs h"; cases "soap_headers G L tnow ver hdrs a"; cases "soap_headers G L tnow ver hdrs b") auto
qed

lemma soap_headers_cong:
  assumes "\<And>n. ci n \<noteq> ci ''Subject'' \<Longrightarrow> ci n \<noteq> ci ''Priority'' \<Longrightarrow> gw_header_value G h1 n = gw_header_value G h2 n"
  shows "soap_headers G L tnow ver h1 hs = soap_headers G L tnow ver h2 hs"
proof (induction hs)
  case (Cons hv hs)
  have e: "gw_header_value G h1 ''allowAdaptations'' = gw_header_value G h2 ''allowAdaptations''"
    "gw_header_value G h1 ''replyChargingSize'' = gw_header_value G h2 ''replyChargingSize''"
    "gw_header_value G h1 ''replyDeadline'' = gw_header_value G h2 ''replyDeadline''"
    "gw_header_value G h1 ''StatusCode'' = gw_header_value G h2 ''StatusCode''"
    "gw_header_value G h1 ''StatusText'' = gw_header_value G h2 ''StatusText''"
    "gw_header_value G h1 ''Details'' = gw_header_value G h2 ''Details''"
    by (rule assms; simp add: ci_def)+
  have "soap_header G L tnow ver h1 hv = soap_header G L tnow ver h2 hv"
    unfolding soap_header_def Let_def e ..
  with Cons show ?case by simp
qed simp

text \<open>C37: Text is put into a document as it is: a subject that holds markup makes the document of another message, which
  has a priority that the sender of the subject has chosen.\<close>

theorem soap_text_not_escaped:
  assumes G: "gwlib_api G" and pre: "pre = soap_prefix ver"
    and s: "s = a @ ''</'' @ pre @ ''Subject>'' @ [CHR 0x0A] @ ''<'' @ pre @ ''Priority>'' @ p @ ''</'' @ pre @ ''Priority>'' @
      [CHR 0x0A] @ ''<'' @ pre @ ''Subject>'' @ b"
  shows "headers_to_soapxml G L tnow (xs @ [(''Subject'', s)] @ ys) ver =
    headers_to_soapxml G L tnow (xs @ [(''Subject'', a), (''Priority'', p), (''Subject'', b)] @ ys) ver"
proof -
  let ?h1 = "xs @ [(''Subject'', s)] @ ys" and ?h2 = "xs @ [(''Subject'', a), (''Priority'', p), (''Subject'', b)] @ ys"
  have all: "gw_header_find_all G ?h1 n = gw_header_find_all G ?h2 n" if "ci n \<noteq> ci ''Subject''" "ci n \<noteq> ci ''Priority''" for n
    using that by (auto simp: gwlib_api.header_find_all [OF G] header_named_def)
  have v: "gw_header_value G ?h1 n = gw_header_value G ?h2 n" if "ci n \<noteq> ci ''Subject''" "ci n \<noteq> ci ''Priority''" for n
    unfolding header_value_find_all [OF G] all [OF that] ..
  have tags: "mms_string_to_mm7tag G ''Subject'' = 40" "mms_string_to_mm7tag G ''Priority'' = 21" unfolding mm7tag_ref [OF G] by code_simp+
  have plain: "soap_header G L tnow ver h (''Subject'', t) = Some (tagged pre ''Subject'' t)"
      "soap_header G L tnow ver h (''Priority'', t) = Some (tagged pre ''Priority'' t)" for h t
    by (simp_all add: soap_header_def tags skipped_tags_def pre)
  have "soap_headers G L tnow ver h ?h1 = soap_headers G L tnow ver h ?h2" for h
    unfolding headers_append by (simp add: plain) (simp add: tagged_def s)
  moreover have "soap_headers G L tnow ver ?h1 hs = soap_headers G L tnow ver ?h2 hs" for hs by (rule soap_headers_cong) (rule v)
  ultimately have rest: "soap_headers G L tnow ver ?h1 ?h1 = soap_headers G L tnow ver ?h2 ?h2" by metis
  have e: "gw_header_value G ?h1 ''Fault'' = gw_header_value G ?h2 ''Fault''"
    "gw_header_value G ?h1 ''faultcode'' = gw_header_value G ?h2 ''faultcode''"
    "gw_header_value G ?h1 ''faultstring'' = gw_header_value G ?h2 ''faultstring''"
    "gw_header_value G ?h1 ''MessageType'' = gw_header_value G ?h2 ''MessageType''"
    "gw_header_value G ?h1 ''TransactionID'' = gw_header_value G ?h2 ''TransactionID''"
    "gw_header_value G ?h1 ''MM7Version'' = gw_header_value G ?h2 ''MM7Version''"
    "gw_header_value G ?h1 ''VASPID'' = gw_header_value G ?h2 ''VASPID''"
    "gw_header_value G ?h1 ''VASID'' = gw_header_value G ?h2 ''VASID''"
    "gw_header_value G ?h1 ''SenderAddress'' = gw_header_value G ?h2 ''SenderAddress''"
    "gw_header_value G ?h1 ''To'' = gw_header_value G ?h2 ''To''"
    by (rule v; simp add: ci_def)+
  have e': "gw_header_find_all G ?h1 ''To'' = gw_header_find_all G ?h2 ''To''"
    "gw_header_find_all G ?h1 ''Cc'' = gw_header_find_all G ?h2 ''Cc''"
    "gw_header_find_all G ?h1 ''Bcc'' = gw_header_find_all G ?h2 ''Bcc''"
    by (rule all; simp add: ci_def)+
  show ?thesis
    unfolding headers_to_soapxml_def sender_identification_def soap_recipients_def soap_fault_def output_rcpt_def Let_def rest e e' ..
qed

section \<open>Instances\<close>

definition ex_soap :: "xml list \<Rightarrow> soap_lib" where
  "ex_soap doc = \<lparr>so_xml = (\<lambda>s. Some doc), so_start = (\<lambda>m. None), so_body = (\<lambda>m. Some []), so_print = (\<lambda>m. (mime_headers m, [])),
     so_parse_iso = (\<lambda>s. None), so_show_iso = show_int, so_gmt = (\<lambda>s. s)\<rparr>"

definition ex_still :: "unit env" where
  "ex_still = \<lparr>x_time = (\<lambda>s. (0, s)), x_random = (\<lambda>s. (0, s)), x_popen = (\<lambda>c b s. (Exited 0, s)), x_popen_read = (\<lambda>c s. (None, s)),
     x_system = (\<lambda>c s. (0, s)), x_fetch = (\<lambda>u h b s. ((200, [], []), s)), x_udp = (\<lambda>a p b s. (True, s)), x_log = (\<lambda>l s. s),
     x_errno = (\<lambda>s. (0, []))\<rparr>"

definition ex_version :: MM7Version_t where
  "ex_version = \<lparr>ver_major = 5, ver_minor1 = 3, ver_minor2 = 0, use_mm7_namespace = False, ver_xmlns = []\<rparr>"

definition ex_soap_vasp :: MmsVasp where
  "ex_soap_vasp = \<lparr>vasp_id = ''v'', short_codes = [100], vasp_kind = SOAP_VASP, vasp_username = ''u'', vasp_password = ''p'',
     vasp_url = ''http://v/'', send_uaprof = UAProf_None, vasp_ver = ex_version, throughput = 0, delete_after = 0, mo_pdus = 0, mt_pdus = 0,
     mo_errors = 0, mt_errors = 0, start_time = 0, last_pdu = 0\<rparr>"

definition ex_send :: MmsMsg where
  "ex_send = \<lparr>m_message_type = MMS_MSGTYPE_SEND_REQ, m_msgId = None, m_headers = [(''Subject'', ''hi'')], m_enc = Some 0,
     m_ismultipart = False, m_body = Body_s ''x''\<rparr>"

definition ex_soap_args :: soap_args where
  "ex_soap_args = \<lparr>sa_from = Some ''+2/TYPE=PLMN'', sa_to = [''+1/TYPE=PLMN'', ''a@b''], sa_transid = Some ''t1'', sa_srvcode = None,
     sa_linkedid = None, sa_clientside = True, sa_vaspid = Some ''v'', sa_vasid = Some ''s'', sa_uaprof = None, sa_uaprof_tstamp = 0,
     sa_hdrs = []\<rparr>"

definition ex_submit :: MSoapMsg_t where
  "ex_submit = \<lparr>envelope = [(''MessageType'', ''SubmitReq''), (''TransactionID'', ''t1'')], soap_msg = None\<rparr>"

lemma ex_submit_type: "mm7_msgtype gwlib_ref ex_submit = MM7_TAG_SubmitReq"
proof -
  have "mms_mm7tag_to_cstr MM7_TAG_SubmitReq = Some ''SubmitReq''" by code_simp
  from mm7tag_number [OF gwlib_ref_api this] show ?thesis
    by (simp add: mm7_msgtype_def ex_submit_def gwlib_api.header_value [OF gwlib_ref_api] header_value_def header_named_def)
qed

theorem soap_headers_known_witness:
  "\<exists>m. mm7_parse_soap gwlib_ref (ex_soap [Element ''SubmitReq'' [] [Element ''ReadReply'' [] [Text ''true'']]]) 0 [] [] = Some m \<and>
    mm7_soap_header_value gwlib_ref m ''ReadReply'' = None"
proof -
  obtain m where "mm7_parse_soap gwlib_ref (ex_soap [Element ''SubmitReq'' [] [Element ''ReadReply'' [] [Text ''true'']]]) 0 [] [] = Some m"
    by (simp add: mm7_parse_soap_def ex_soap_def Let_def)
  with soap_headers_known [OF gwlib_ref_api this] show ?thesis by blast
qed

theorem mm7_envelope_roundtrip_witness:
  "\<exists>m. mm7_mmsmsg_to_soap gwlib_ref ex_send ex_soap_args = Some (Some m) \<and>
    mv_to (mm7_get_envelope gwlib_ref m) = [''+1/TYPE=PLMN'', ''a@b'']"
proof -
  have "mms_mm7tag_to_cstr MM7_TAG_SubmitReq = Some ''SubmitReq''" by code_simp
  then obtain m where "mm7_mmsmsg_to_soap gwlib_ref ex_send ex_soap_args = Some (Some m)"
    by (simp add: mm7_mmsmsg_to_soap_def mm7_soap_create_def ex_send_def ex_soap_args_def)
  with mm7_envelope_roundtrip [OF gwlib_ref_api this] show ?thesis by (simp add: ex_send_def ex_soap_args_def)
qed

theorem soap_send_returns_witness:
  "\<exists>ret err conn. mm7soap_send gwlib_ref ex_still (ex_soap []) None ex_soap_vasp None ''+1/TYPE=PLMN'' None [] ex_send () =
    Some (ret, err, conn, ())"
  using soap_send_returns [OF gwlib_ref_api, of ex_still "ex_soap []" None ex_soap_vasp None "''+1/TYPE=PLMN''" None "[]" ex_send "()"]
  by auto

theorem soap_answer_matches_witness:
  "\<exists>r. mm7_make_resp gwlib_ref (Some ex_submit) 1000 (Some ''m1'') False = Some r \<and>
    mm7_msgtype gwlib_ref r = MM7_TAG_SubmitRsp \<and> mm7_soap_header_value gwlib_ref r ''MessageID'' = Some ''m1''"
proof -
  have "mms_mm7tag_to_cstr MM7_TAG_SubmitRsp = Some ''SubmitRsp''" by code_simp
  then obtain r where r: "mm7_make_resp gwlib_ref (Some ex_submit) 1000 (Some ''m1'') False = Some r"
    by (simp add: mm7_make_resp_def mm7_soap_create_def ex_submit_type MM7_SOAP_STATUS_OK_def)
  have "MM7_SOAP_STATUS_OK 1000" by (simp add: MM7_SOAP_STATUS_OK_def)
  with soap_answer_matches [OF gwlib_ref_api r] r ex_submit_type show ?thesis by simp
qed

theorem soap_text_not_escaped_witness:
  "headers_to_soapxml gwlib_ref (ex_soap []) 0 [(''MessageType'', ''SubmitReq''),
      (''Subject'', ''a</Subject>'' @ [CHR 0x0A] @ ''<Priority>High</Priority>'' @ [CHR 0x0A] @ ''<Subject>b'')] ex_version =
   headers_to_soapxml gwlib_ref (ex_soap []) 0 [(''MessageType'', ''SubmitReq''), (''Subject'', ''a''), (''Priority'', ''High''), (''Subject'', ''b'')]
     ex_version"
  using soap_text_not_escaped [OF gwlib_ref_api refl refl, of "ex_soap []" 0 "[(''MessageType'', ''SubmitReq'')]" "''a''" ex_version "''High''" "''b''" "[]"]
  by (simp add: soap_prefix_def ex_version_def)

end
