(* ===== verification/Mm7proxyFacts.thy ===== *)
theory Mm7proxyFacts
  imports MmsMm7proxy Mm7Facts ProxyFacts
begin

text \<open>
  What VASPs can do through the proxy of \<open>MmsMm7proxy\<close>: who gets in, what a submission puts into the queue and how it
  is answered, and whose messages can be replaced and cancelled.
\<close>

section \<open>Credentials\<close>

lemma search_zero: "gwlib_api G \<Longrightarrow> gw_search G s p 0 = 0 \<Longrightarrow> take (length p) s = p"
  using sub_pos_match [of s p 0] by (simp add: gwlib_api.search)

lemma basic_credentials_sound:
  assumes G: "gwlib_api G" and c: "basic_credentials G hdrs = Some (Some (u, p))"
  shows "\<exists>s. gw_header_value G hdrs ''Authorization'' = Some s \<and> take 6 s = ''Basic '' \<and>
    (gw_base64_decode G (drop 6 s) = u @ '':'' @ p \<or> gw_base64_decode G (drop 6 s) = [] \<and> u = [] \<and> p = [])"
proof -
  obtain s where s: "gw_header_value G hdrs ''Authorization'' = Some s" and b: "gw_search G s ''Basic '' 0 = 0"
    using c by (auto simp: basic_credentials_def split: option.splits if_splits)
  define d where "d = gw_base64_decode G (drop 6 s)"
  have copy: "octstr_copy s 6 (length s) = drop 6 s" by (simp add: octstr_copy_def)
  have "d = u @ '':'' @ p \<or> d = [] \<and> u = [] \<and> p = []"
  proof (cases "octstr_search_char d CHR '':'' 0 \<ge> 0")
    case True
    define i where "i = nat (octstr_search_char d CHR '':'' 0)"
    have i: "i < length d" "d ! i = CHR '':''" using True by (auto simp: i_def octstr_search_char_def Let_def split: if_splits dest: nth_length_takeWhile)
    have "u = take i d" "p = drop (Suc i) d"
      using c True s b by (auto simp: basic_credentials_def copy d_def [symmetric] i_def [symmetric] Let_def octstr_delete_def octstr_copy_def)
    then show ?thesis using id_take_nth_drop [OF i(1)] i(2) by simp
  next
    case False
    then show ?thesis using c s b by (auto simp: basic_credentials_def copy d_def [symmetric] Let_def split: if_splits)
  qed
  moreover have "take 6 s = ''Basic ''" using search_zero [OF G b] by (simp add: numeral_eq_Suc)
  ultimately show ?thesis using s by (simp add: d_def)
qed

lemma vasp_with_Some: "vasp_with Q reg = Some a \<Longrightarrow> \<exists>k v. (k, a) \<in> set (vasp_list reg) \<and> vasp_mem reg a = Some v \<and> Q v"
  by (auto simp: vasp_with_def find_Some_iff split: option.splits) (metis nth_mem)+

text \<open>C13: A request of a VASP is closed without an answer, or answered with the wish for a password, and changes nothing
  then, unless its basic credentials are the name and the password of a registered VASP.\<close>

theorem mm7_needs_credentials:
  assumes G: "gwlib_api G" and r: "mm7_request G P L ip url hdrs body st = Some (r, st')"
  shows "r = None \<and> st' = st \<or> (\<exists>rh. r = Some (401, rh, [])) \<and> st' = st \<or>
    (\<exists>k a v s. (k, a) \<in> set (vasp_list (snd st)) \<and> vasp_mem (snd st) a = Some v \<and>
      gw_header_value G hdrs ''Authorization'' = Some s \<and> take 6 s = ''Basic '' \<and>
      (gw_base64_decode G (drop 6 s) = vasp_username v @ '':'' @ vasp_password v \<or>
       gw_base64_decode G (drop 6 s) = [] \<and> vasp_username v = [] \<and> vasp_password v = []))"
proof (cases "px_allowed_ip P (s_allow_ip (px_settings P)) (s_deny_ip (px_settings P)) ip")
  case False
  with r show ?thesis by (simp add: mm7_request_def case_prod_unfold Let_def)
next
  case True
  with r obtain found where f: "find_mm7sender G hdrs (snd st) = Some found"
    by (auto simp: mm7_request_def case_prod_unfold Let_def split: bind_splits)
  show ?thesis
  proof (cases found)
    case None
    with r f True show ?thesis by (auto simp: mm7_request_def case_prod_unfold Let_def)
  next
    case (Some a)
    with f obtain u p where c: "basic_credentials G hdrs = Some (Some (u, p))"
      and w: "vasp_with (\<lambda>v. gw_compare G (vasp_username v) u = 0 \<and> gw_compare G (vasp_password v) p = 0) (snd st) = Some a"
      by (auto simp: find_mm7sender_def split: option.splits)
    from vasp_with_Some [OF w] obtain k v where "(k, a) \<in> set (vasp_list (snd st))" "vasp_mem (snd st) a = Some v"
        "vasp_username v = u" "vasp_password v = p" by (auto simp: gwlib_api.compare [OF G])
    with basic_credentials_sound [OF G c] show ?thesis by (intro disjI2) blast
  qed
qed

section \<open>Messages of others\<close>

text \<open>C14: A VASP can replace and cancel its own messages only: for a message of another the answer is an error and the
  message is left alone. Cancelling one of its own takes it out of the queue for all recipients.\<close>

theorem vasp_cancels_own_only:
  assumes G: "gwlib_api G" and Q: "px_q P = file_qfs G' fb"
    and m: "mms_getqf_from_msgid (mm7_soap_header_value G m ''MessageID'') = Some qf"
    and e: "px_open P qf (s_global_queuedir (px_settings P)) w = Some (Some e, w1)"
  shows "(e_vaspid e \<noteq> Some (vasp_id v) \<longrightarrow> mm7_msgtype G m \<in> {MM7_TAG_ReplaceReq, MM7_TAG_CancelReq} \<longrightarrow>
      soap_operation G P L v h dflt m w = Some ((2001, None, Some e), w1)) \<and>
    (e_vaspid e = Some (vasp_id v) \<longrightarrow> mm7_msgtype G m = MM7_TAG_CancelReq \<longrightarrow>
      (\<exists>w2. qfs_update (px_q P) (e\<lparr>e_to := map (\<lambda>t. t\<lparr>process := False\<rparr>) (e_to e)\<rparr>) w1 = (1, None, w2) \<and>
        soap_operation G P L v h dflt m w =
          Some ((1000, None, None), mm7_log G P h v ''Cancel'' (Some dflt) [] (-1) (mm7_soap_header_value G m ''MessageID'') w2)))"
proof -
  have own: "find_own G P v m w = Some ((if e_vaspid e = Some (vasp_id v) then 1000 else 2001, Some e), w1)"
    using m e by (auto simp: find_own_def gwlib_api.compare [OF G] split: option.split)
  have "\<forall>t \<in> set (e_to (e\<lparr>e_to := map (\<lambda>t. t\<lparr>process := False\<rparr>) (e_to e)\<rparr>)). \<not> process t" by auto
  then obtain w2 where "qfs_update (file_qfs G' fb) (e\<lparr>e_to := map (\<lambda>t. t\<lparr>process := False\<rparr>) (e_to e)\<rparr>) w1 = (1, None, w2)"
    by (rule file_module.close_settled [OF Q])
  then show ?thesis by (auto simp: soap_operation_def handle_replace_def handle_cancel_def own Q)
qed

section \<open>Submissions\<close>


section \<open>Instances\<close>

definition ex_vasps :: vasp_registry where
  "ex_vasps = \<lparr>vasp_mem = [0 \<mapsto> ex_soap_vasp], vasp_next = 1, vasp_list = [(''v'', 0)], vasp_del_list = [], mms2email = None,
     mms2mobile = None\<rparr>"

text \<open>A cancellation and a submission with a text.\<close>

definition ex_cancel :: MSoapMsg_t where
  "ex_cancel = \<lparr>envelope = [(''MessageType'', ''CancelReq''), (''MessageID'', ''qf1@mmsc'')], soap_msg = None\<rparr>"

definition ex_posted :: MSoapMsg_t where
  "ex_posted = \<lparr>envelope = [(''MessageType'', ''SubmitReq''), (''To'', ''+ +1'')], soap_msg = Some (Mime [] [] (Some ''x''))\<rparr>"

lemma ex_cancel_type: "mm7_msgtype gwlib_ref ex_cancel = MM7_TAG_CancelReq"
proof -
  have "mms_mm7tag_to_cstr MM7_TAG_CancelReq = Some ''CancelReq''" by code_simp
  from mm7tag_number [OF gwlib_ref_api this] show ?thesis
    by (simp add: mm7_msgtype_def ex_cancel_def gwlib_api.header_value [OF gwlib_ref_api] header_value_def header_named_def)
qed

lemma ex_posted_type: "mm7_msgtype gwlib_ref ex_posted = MM7_TAG_SubmitReq"
proof -
  have "mms_mm7tag_to_cstr MM7_TAG_SubmitReq = Some ''SubmitReq''" by code_simp
  from mm7tag_number [OF gwlib_ref_api this] show ?thesis
    by (simp add: mm7_msgtype_def ex_posted_def gwlib_api.header_value [OF gwlib_ref_api] header_value_def header_named_def)
qed

lemma ex_frommime: "\<exists>msg. mms_frommime gwlib_ref 0 (\<lambda>s. s) (Mime [] [] (Some ''x'')) = Some (Some msg)"
proof -
  have none: "gw_header_value gwlib_ref [] n = None" "gw_header_remove_all gwlib_ref [] n = []" for n
    by (simp_all add: gwlib_api.header_value [OF gwlib_ref_api] header_value_def gwlib_api.header_remove_all [OF gwlib_ref_api] header_remove_all_def)
  show ?thesis
    by (simp add: mms_frommime_def get_content_type_def none unpack_mimeheaders_def mm4_message_type_def drm_content_type_def Let_def)
qed

theorem mm7_needs_credentials_witness:
  "\<exists>r. mm7_request gwlib_ref (ex_proxy None) (ex_soap []) ''1.1.1.1'' ''/'' [] None (mn_w ex_mnode, ex_vasps) = Some (r, (mn_w ex_mnode, ex_vasps)) \<and>
    (r = None \<or> (\<exists>rh. r = Some (401, rh, [])))"
proof -
  have none: "gw_header_value gwlib_ref [] n = None" for n by (simp add: gwlib_api.header_value [OF gwlib_ref_api] header_value_def)
  obtain r st where r: "mm7_request gwlib_ref (ex_proxy None) (ex_soap []) ''1.1.1.1'' ''/'' [] None (mn_w ex_mnode, ex_vasps) = Some (r, st)"
    by (simp add: mm7_request_def find_mm7sender_def basic_credentials_def none ex_proxy_def)
  from mm7_needs_credentials [OF gwlib_ref_api r] r none show ?thesis by auto
qed

theorem vasp_cancels_own_only_witness:
  "\<exists>e w. soap_operation gwlib_ref (ex_proxy (Some (ex_mm1\<lparr>e_vaspid := Some ''other''\<rparr>))) (ex_soap []) ex_soap_vasp ex_client ''100'' ex_cancel
    (mn_w ex_mnode) = Some ((2001, None, Some e), w)"
proof -
  let ?P = "ex_proxy (Some (ex_mm1\<lparr>e_vaspid := Some ''other''\<rparr>))"
  have m: "mms_getqf_from_msgid (mm7_soap_header_value gwlib_ref ex_cancel ''MessageID'') = Some ''qf1''"
    by (simp add: mm7_soap_header_value_def ex_cancel_def gwlib_api.header_value [OF gwlib_ref_api] header_value_def header_named_def ci_def) code_simp
  have q: "px_q ?P = file_qfs gwlib_ref (\<lambda>b. None)" "px_open ?P ''qf1'' d w = Some (Some (ex_mm1\<lparr>e_vaspid := Some ''other''\<rparr>), w)" for d w
    by (simp_all add: ex_proxy_def)
  from vasp_cancels_own_only [OF gwlib_ref_api q(1) m q(2), of ex_soap_vasp "ex_soap []" ex_client "''100''"] ex_cancel_type
  show ?thesis by (auto simp: ex_soap_vasp_def)
qed


end
